(* ===== verification/Go_Strings.thy ===== *)
theory Go_Strings
  imports Complex_Main "HOL-Library.Sublist"
begin

text \<open>
  The part of Go's \<open>strings\<close>, \<open>strconv\<close> and \<open>encoding/hex\<close> packages that the program uses,
  and the collections of simplification rules the other theories share.

  A Go string is a sequence of bytes; here it is a \<open>string\<close>, a list of \<open>char\<close>, each \<open>char\<close>
  one byte.  White space is the set of \<open>unicode.IsSpace\<close>, given by the UTF-8 encodings of its
  runes: the first byte of each is an ASCII byte or a lead byte, neither of which occurs inside
  the encoding of another rune, so matching the encodings at the ends of a byte sequence (or at
  any position, for \<open>Fields\<close>) finds exactly the white space runes that Go's decoder finds.
\<close>

named_theorems status_simps
  \<open>the status constants of a job and their distinctness\<close>
named_theorems frame_simps
  \<open>what an operation leaves unchanged\<close>
named_theorems handler_defs
  \<open>the definitions of the HTTP handlers\<close>


section \<open>White space\<close>

definition unicode_spaces :: "string list" where
  "unicode_spaces =
     [[CHR 0x20], [CHR 0x09], [CHR 0x0A], [CHR 0x0B], [CHR 0x0C], [CHR 0x0D],
      [CHR 0xC2, CHR 0x85], [CHR 0xC2, CHR 0xA0], [CHR 0xE1, CHR 0x9A, CHR 0x80],
      [CHR 0xE2, CHR 0x80, CHR 0x80], [CHR 0xE2, CHR 0x80, CHR 0x81],
      [CHR 0xE2, CHR 0x80, CHR 0x82], [CHR 0xE2, CHR 0x80, CHR 0x83],
      [CHR 0xE2, CHR 0x80, CHR 0x84], [CHR 0xE2, CHR 0x80, CHR 0x85],
      [CHR 0xE2, CHR 0x80, CHR 0x86], [CHR 0xE2, CHR 0x80, CHR 0x87],
      [CHR 0xE2, CHR 0x80, CHR 0x88], [CHR 0xE2, CHR 0x80, CHR 0x89],
      [CHR 0xE2, CHR 0x80, CHR 0x8A], [CHR 0xE2, CHR 0x80, CHR 0xA8],
      [CHR 0xE2, CHR 0x80, CHR 0xA9], [CHR 0xE2, CHR 0x80, CHR 0xAF],
      [CHR 0xE2, CHR 0x81, CHR 0x9F], [CHR 0xE3, CHR 0x80, CHR 0x80]]"

definition seq_at :: "string list \<Rightarrow> string \<Rightarrow> string option" where
  "seq_at ps s = find (\<lambda>p. p \<noteq> [] \<and> prefix p s) ps"

lemma seq_at_SomeD: "seq_at ps s = Some p \<Longrightarrow> p \<noteq> [] \<and> prefix p s"
  by (auto simp: seq_at_def find_Some_iff)

lemma seq_at_shorter: "seq_at ps s = Some p \<Longrightarrow> length (drop (length p) s) < length s"
  by (cases s) (auto dest: seq_at_SomeD)

lemma seq_at_None: "seq_at ps s = None \<longleftrightarrow> (\<forall>p\<in>set ps. p \<noteq> [] \<longrightarrow> \<not> prefix p s)"
  by (auto simp: seq_at_def find_None_iff)

function strip_seqs :: "string list \<Rightarrow> string \<Rightarrow> string" where
  "strip_seqs ps s =
     (case seq_at ps s of None \<Rightarrow> s | Some p \<Rightarrow> strip_seqs ps (drop (length p) s))"
  by pat_completeness auto
termination
  by (relation "measure (\<lambda>(ps, s). length s)") (auto dest: seq_at_shorter)

declare strip_seqs.simps [simp del]

lemma strip_seqs_stop: "seq_at ps s = None \<Longrightarrow> strip_seqs ps s = s"
  by (simp add: strip_seqs.simps)

lemma seq_at_strip_seqs: "seq_at ps (strip_seqs ps s) = None"
proof (induction ps s rule: strip_seqs.induct)
  case (1 ps s)
  then show ?case by (cases "seq_at ps s") (simp_all add: strip_seqs.simps [of ps s])
qed

lemma suffix_strip_seqs: "suffix (strip_seqs ps s) s"
proof (induction ps s rule: strip_seqs.induct)
  case (1 ps s)
  show ?case
  proof (cases "seq_at ps s")
    case None
    then show ?thesis by (simp add: strip_seqs.simps)
  next
    case (Some p)
    with 1 have "suffix (strip_seqs ps (drop (length p) s)) (drop (length p) s)" by blast
    then have "suffix (strip_seqs ps (drop (length p) s)) s"
      by (rule suffix_order.trans) (rule suffix_drop)
    with Some show ?thesis by (simp add: strip_seqs.simps [of ps s])
  qed
qed

lemma seq_at_prefix_None: "prefix t s \<Longrightarrow> seq_at ps s = None \<Longrightarrow> seq_at ps t = None"
  unfolding seq_at_None by (blast intro: prefix_order.trans)

definition trim_left_space :: "string \<Rightarrow> string" where
  "trim_left_space s = strip_seqs unicode_spaces s"

definition trim_right_space :: "string \<Rightarrow> string" where
  "trim_right_space s = rev (strip_seqs (map rev unicode_spaces) (rev s))"

text \<open>\<open>strings.TrimSpace\<close>.\<close>

definition TrimSpace :: "string \<Rightarrow> string" where
  "TrimSpace s = trim_right_space (trim_left_space s)"

lemma prefix_trim_right: "prefix (trim_right_space s) s"
  using suffix_strip_seqs [of "map rev unicode_spaces" "rev s"]
  by (simp add: trim_right_space_def suffix_to_prefix)

lemma trim_right_idem: "trim_right_space (trim_right_space s) = trim_right_space s"
  by (simp add: trim_right_space_def strip_seqs_stop seq_at_strip_seqs)

lemma trim_left_stop: "seq_at unicode_spaces s = None \<Longrightarrow> trim_left_space s = s"
  by (simp add: trim_left_space_def strip_seqs_stop)

lemma TrimSpace_idem [simp]: "TrimSpace (TrimSpace s) = TrimSpace s"
proof -
  have "seq_at unicode_spaces (trim_left_space s) = None"
    by (simp add: trim_left_space_def seq_at_strip_seqs)
  then have "seq_at unicode_spaces (TrimSpace s) = None"
    unfolding TrimSpace_def by (rule seq_at_prefix_None [OF prefix_trim_right])
  then show ?thesis
    by (simp add: TrimSpace_def trim_left_stop trim_right_idem)
qed

lemma TrimSpace_empty [simp]: "TrimSpace '''' = ''''"
  by (simp add: TrimSpace_def trim_left_space_def trim_right_space_def strip_seqs_stop seq_at_None)

lemma TrimSpace_length: "length (TrimSpace s) \<le> length s"
proof -
  have "length (TrimSpace s) \<le> length (trim_left_space s)"
    unfolding TrimSpace_def by (rule prefix_length_le [OF prefix_trim_right])
  also have "\<dots> \<le> length s"
    unfolding trim_left_space_def by (rule suffix_length_le [OF suffix_strip_seqs])
  finally show ?thesis .
qed

text \<open>The evaluation rules for concrete strings.\<close>

lemmas trim_eval = TrimSpace_def trim_left_space_def trim_right_space_def strip_seqs.simps
  seq_at_def unicode_spaces_def

text \<open>\<open>strings.Fields\<close>: the maximal runs without white space.\<close>

function fields_from :: "string \<Rightarrow> string \<Rightarrow> string list" where
  "fields_from cur s =
     (case s of
        [] \<Rightarrow> (if cur = [] then [] else [rev cur])
      | c # cs \<Rightarrow>
          (case seq_at unicode_spaces s of
             Some p \<Rightarrow> (if cur = [] then [] else [rev cur]) @ fields_from [] (drop (length p) s)
           | None \<Rightarrow> fields_from (c # cur) cs))"
  by pat_completeness auto
termination
  by (relation "measure (\<lambda>(cur, s). length s)") (auto dest: seq_at_shorter)

declare fields_from.simps [simp del]

definition Fields :: "string \<Rightarrow> string list" where
  "Fields s = fields_from [] s"


section \<open>Prefixes, splitting, case\<close>

text \<open>
  \<open>strings.HasPrefix\<close> and \<open>HasSuffix\<close> are \<open>prefix\<close> and \<open>suffix\<close> of the library.
\<close>

definition TrimPrefix :: "string \<Rightarrow> string \<Rightarrow> string" where
  "TrimPrefix s p = (if prefix p s then drop (length p) s else s)"

definition TrimSuffix :: "string \<Rightarrow> string \<Rightarrow> string" where
  "TrimSuffix s p = (if suffix p s then take (length s - length p) s else s)"

text \<open>\<open>strings.Trim\<close> and \<open>TrimRight\<close> with a cut set of one ASCII character.\<close>

definition TrimRightChar :: "char \<Rightarrow> string \<Rightarrow> string" where
  "TrimRightChar c s = rev (dropWhile (\<lambda>x. x = c) (rev s))"

definition TrimChar :: "char \<Rightarrow> string \<Rightarrow> string" where
  "TrimChar c s = TrimRightChar c (dropWhile (\<lambda>x. x = c) s)"

text \<open>\<open>strings.Split\<close> with a separator of one character: never the empty list.\<close>

fun SplitChar :: "char \<Rightarrow> string \<Rightarrow> string list" where
  "SplitChar c [] = [[]]"
| "SplitChar c (x # xs) =
     (if x = c then [] # SplitChar c xs
      else (case SplitChar c xs of [] \<Rightarrow> [[x]] | w # ws \<Rightarrow> (x # w) # ws))"

text \<open>\<open>strings.SplitN\<close> with a separator of one character and a limit of two.\<close>

definition SplitN2 :: "char \<Rightarrow> string \<Rightarrow> string list" where
  "SplitN2 c s =
     (if c \<in> set s then [takeWhile (\<lambda>x. x \<noteq> c) s, tl (dropWhile (\<lambda>x. x \<noteq> c) s)] else [s])"

text \<open>\<open>strings.Index\<close> of one character.\<close>

fun IndexChar :: "char \<Rightarrow> string \<Rightarrow> nat option" where
  "IndexChar c [] = None"
| "IndexChar c (x # xs) = (if x = c then Some 0 else map_option Suc (IndexChar c xs))"

lemma SplitChar_nonempty [simp]: "SplitChar c s \<noteq> []"
  by (induction s) (auto split: list.splits)

lemma SplitChar_no_sep: "c \<notin> set s \<Longrightarrow> SplitChar c s = [s]"
  by (induction s) auto

lemma SplitChar_append_sep:
  "c \<notin> set w \<Longrightarrow> SplitChar c (w @ c # s) = w # SplitChar c s"
  by (induction w) auto

lemma SplitChar_parts: "w \<in> set (SplitChar c s) \<Longrightarrow> c \<notin> set w"
  by (induction s arbitrary: w) (auto split: list.splits if_splits)

text \<open>The inverse of splitting, \<open>strings.Join\<close>.\<close>

fun Join :: "string list \<Rightarrow> string \<Rightarrow> string" where
  "Join [] sep = []"
| "Join [w] sep = w"
| "Join (w # ws) sep = w @ sep @ Join ws sep"

lemma Join_SplitChar: "Join (SplitChar c s) [c] = s"
proof (induction s)
  case Nil
  then show ?case by simp
next
  case (Cons x xs)
  obtain w ws where ws: "SplitChar c xs = w # ws"
    using SplitChar_nonempty [of c xs] by (cases "SplitChar c xs") auto
  with Cons show ?case by (cases ws) auto
qed

lemma SplitChar_Join:
  "ws \<noteq> [] \<Longrightarrow> (\<And>w. w \<in> set ws \<Longrightarrow> c \<notin> set w) \<Longrightarrow> SplitChar c (Join ws [c]) = ws"
proof (induction ws)
  case (Cons w ws)
  then show ?case
    by (cases ws) (auto simp: SplitChar_no_sep SplitChar_append_sep)
qed simp

text \<open>
  \<open>strings.ToLower\<close>, as far as the program compares its result with ASCII text: the runes whose
  lower case is an ASCII letter are A to Z, U+0130 (to i) and U+212A, the Kelvin sign (to k);
  every other non-ASCII rune stays non-ASCII and is left as it is.
\<close>

definition lower_ascii :: "char \<Rightarrow> char" where
  "lower_ascii c = (let n = of_char c :: nat in if 65 \<le> n \<and> n \<le> 90 then char_of (n + 32) else c)"

function ToLower :: "string \<Rightarrow> string" where
  "ToLower s =
     (if prefix [CHR 0xC4, CHR 0xB0] s then CHR ''i'' # ToLower (drop 2 s)
      else if prefix [CHR 0xE2, CHR 0x84, CHR 0xAA] s then CHR ''k'' # ToLower (drop 3 s)
      else (case s of [] \<Rightarrow> [] | c # cs \<Rightarrow> lower_ascii c # ToLower cs))"
  by pat_completeness auto
termination
  by (relation "measure length") (auto simp: prefix_def)

declare ToLower.simps [simp del]

text \<open>
  \<open>strings.EqualFold\<close> against a pattern of ASCII letters other than k and s (whose fold classes
  hold a non-ASCII rune): case-insensitive equality of bytes.
\<close>

definition EqualFoldAscii :: "string \<Rightarrow> string \<Rightarrow> bool" where
  "EqualFoldAscii s t = (map lower_ascii s = map lower_ascii t)"


text \<open>
  \<open>strings.EqualFold\<close> against any ASCII pattern: the runes that fold to ASCII letters, beside the
  letters, are U+017F (to s) and U+212A (to k).
\<close>

function fold_text :: "string \<Rightarrow> string" where
  "fold_text s =
     (if prefix [CHR 0xC5, CHR 0xBF] s then CHR ''s'' # fold_text (drop 2 s)
      else if prefix [CHR 0xE2, CHR 0x84, CHR 0xAA] s then CHR ''k'' # fold_text (drop 3 s)
      else (case s of [] \<Rightarrow> [] | c # cs \<Rightarrow> lower_ascii c # fold_text cs))"
  by pat_completeness auto
termination
  by (relation "measure length") (auto simp: prefix_def)

declare fold_text.simps [simp del]

definition EqualFold :: "string \<Rightarrow> string \<Rightarrow> bool" where
  "EqualFold s t = (fold_text s = fold_text t)"


section \<open>Numbers as text\<close>

definition digit_char :: "nat \<Rightarrow> char" where
  "digit_char n = char_of (48 + n)"

text \<open>\<open>strconv.FormatUint(n, 10)\<close>, and \<open>FormatInt\<close> for an integer.\<close>

fun dec :: "nat \<Rightarrow> string" where
  "dec n = (if n < 10 then [digit_char n] else dec (n div 10) @ [digit_char (n mod 10)])"

declare dec.simps [simp del]

definition dec_int :: "int \<Rightarrow> string" where
  "dec_int i = (if i < 0 then ''-'' @ dec (nat (- i)) else dec (nat i))"

definition digit_val :: "char \<Rightarrow> nat" where
  "digit_val c = of_char c - 48"

definition undec :: "string \<Rightarrow> nat" where
  "undec s = foldl (\<lambda>n c. 10 * n + digit_val c) 0 s"

lemma digit_char_eval [simp]:
  "digit_char 0 = CHR ''0''"
  "digit_char (Suc 0) = CHR ''1''"
  "digit_char 2 = CHR ''2''"
  "digit_char 3 = CHR ''3''"
  "digit_char 4 = CHR ''4''"
  "digit_char 5 = CHR ''5''"
  "digit_char 6 = CHR ''6''"
  "digit_char 7 = CHR ''7''"
  "digit_char 8 = CHR ''8''"
  "digit_char 9 = CHR ''9''"
  by (simp_all add: digit_char_def char_of_def bit_0)

lemmas dec_eval = dec_int_def dec.simps

lemma digit_val_char: "n < 10 \<Longrightarrow> digit_val (digit_char n) = n"
  by (simp add: digit_val_def digit_char_def)

lemma undec_snoc: "undec (s @ [c]) = 10 * undec s + digit_val c"
  by (simp add: undec_def)

lemma undec_dec: "undec (dec n) = n"
proof (induction n rule: dec.induct)
  case (1 n)
  show ?case
  proof (cases "n < 10")
    case True
    then show ?thesis by (simp add: dec.simps [of n] undec_def digit_val_char)
  next
    case False
    with 1 show ?thesis
      by (simp add: dec.simps [of n] undec_snoc digit_val_char)
  qed
qed

lemma dec_inject [simp]: "dec m = dec n \<longleftrightarrow> m = n"
  by (metis undec_dec)

lemma dec_nonempty [simp]: "dec n \<noteq> []"
  by (subst dec.simps) simp

text \<open>\<open>hex.EncodeToString\<close>.\<close>

definition hex_digit :: "nat \<Rightarrow> char" where
  "hex_digit n = (if n < 10 then char_of (48 + n) else char_of (87 + n))"

definition hex_encode :: "string \<Rightarrow> string" where
  "hex_encode s =
     concat (map (\<lambda>c. let n = of_char c :: nat in [hex_digit (n div 16), hex_digit (n mod 16)]) s)"

lemma length_hex_encode: "length (hex_encode s) = 2 * length s"
  by (induction s) (simp_all add: hex_encode_def Let_def)

text \<open>Decimal text with leading zeros to a width, as the time formats use.\<close>

definition pad_dec :: "nat \<Rightarrow> nat \<Rightarrow> string" where
  "pad_dec w n = replicate (w - length (dec n)) (CHR ''0'') @ dec n"

definition is_digit :: "char \<Rightarrow> bool" where
  "is_digit c = (let n = of_char c :: nat in 48 \<le> n \<and> n \<le> 57)"



section \<open>Text without white space\<close>

text \<open>Visible ASCII characters; text made of them has nothing to trim.\<close>

definition visible :: "char \<Rightarrow> bool" where
  "visible c = (let n = of_char c :: nat in 33 \<le> n \<and> n \<le> 126)"

lemma spaces_not_visible:
  "p \<in> set unicode_spaces \<Longrightarrow> p \<noteq> [] \<and> \<not> visible (hd p) \<and> \<not> visible (last p)"
  by (auto simp: unicode_spaces_def visible_def)

lemma visible_no_space: "list_all visible s \<Longrightarrow> seq_at unicode_spaces s = None"
  unfolding seq_at_None by (cases s) (auto simp: prefix_Cons dest!: spaces_not_visible)

lemma visible_no_space_rev: "list_all visible s \<Longrightarrow> seq_at (map rev unicode_spaces) s = None"
  unfolding seq_at_None
proof (intro ballI impI notI)
  fix p
  assume s: "list_all visible s" and p: "p \<in> set (map rev unicode_spaces)" "p \<noteq> []" "prefix p s"
  from p(1) obtain q where "q \<in> set unicode_spaces" "p = rev q" by auto
  then have "\<not> visible (hd p)" using spaces_not_visible [of q] by (simp add: hd_rev)
  moreover from p(2,3) have "hd p \<in> set s" by (cases p) (auto simp: prefix_def)
  ultimately show False using s by (simp add: list_all_iff)
qed

lemma TrimSpace_visible: "list_all visible s \<Longrightarrow> TrimSpace s = s"
  using visible_no_space_rev [of "rev s"]
  by (simp add: TrimSpace_def trim_left_stop visible_no_space trim_right_space_def strip_seqs_stop)

lemma digit_visible: "is_digit c \<Longrightarrow> visible c"
  by (simp add: is_digit_def visible_def Let_def)

lemma is_digit_digit_char: "n < 10 \<Longrightarrow> is_digit (digit_char n)"
  by (simp add: is_digit_def digit_char_def)

lemma dec_digits: "list_all is_digit (dec n)"
proof (induction n rule: dec.induct)
  case (1 n)
  then show ?case by (cases "n < 10") (simp_all add: dec.simps [of n] is_digit_digit_char)
qed

lemma dec_visible: "list_all visible (dec n)"
  using dec_digits [of n] by (auto simp: list_all_iff intro: digit_visible)

lemma dec_int_visible: "list_all visible (dec_int i)"
  using dec_visible by (simp add: dec_int_def visible_def)

lemma hex_visible: "list_all visible (hex_encode s)"
proof -
  have "n < 16 \<Longrightarrow> visible (hex_digit n)" for n
    by (simp add: hex_digit_def visible_def)
  moreover have "(of_char c :: nat) div 16 < 16" for c
    using of_char_mod_256 [of c, where 'a = nat] mod_less_divisor [of 256 "of_char c :: nat"]
    by (simp add: less_mult_imp_div_less)
  ultimately show ?thesis by (induction s) (simp_all add: hex_encode_def Let_def)
qed

lemma ToLower_Cons: "(of_char c :: nat) < 128 \<Longrightarrow> ToLower (c # cs) = lower_ascii c # ToLower cs"
  by (subst ToLower.simps) auto


section \<open>Reading numbers and truth values\<close>

text \<open>\<open>strconv.ParseInt(s, 10, 64)\<close>.\<close>

definition ParseInt64 :: "string \<Rightarrow> int option" where
  "ParseInt64 s =
     (let neg = (case s of c # _ \<Rightarrow> c = CHR ''-'' | [] \<Rightarrow> False);
          ds = (case s of c # cs \<Rightarrow> if c = CHR ''-'' \<or> c = CHR ''+'' then cs else s | [] \<Rightarrow> s)
      in if ds = [] \<or> \<not> list_all is_digit ds then None
         else (let n = (if neg then - int (undec ds) else int (undec ds))
               in if - (2 ^ 63) \<le> n \<and> n < 2 ^ 63 then Some n else None))"

lemma ParseInt64_dec_int:
  assumes "- (2 ^ 63) \<le> i" "i < 2 ^ 63"
  shows "ParseInt64 (dec_int i) = Some i"
proof -
  obtain c cs where c: "dec (nat i) = c # cs" "is_digit c"
    using dec_digits [of "nat i"] dec_nonempty [of "nat i"]
    by (cases "dec (nat i)") (auto simp del: dec_nonempty)
  then have "c \<noteq> CHR ''-''" "c \<noteq> CHR ''+''" by (auto simp: is_digit_def)
  with c assms dec_digits [of "nat i"] dec_digits [of "nat (- i)"]
    undec_dec [of "nat i"] undec_dec [of "nat (- i)"]
  show ?thesis by (auto simp: ParseInt64_def dec_int_def Let_def)
qed

text \<open>\<open>strconv.Atoi\<close> on a 64-bit machine, and \<open>strconv.ParseBool\<close>.\<close>

definition Atoi :: "string \<Rightarrow> int option" where
  "Atoi s = ParseInt64 s"

definition ParseBool :: "string \<Rightarrow> bool option" where
  "ParseBool s =
     (if s \<in> {''1'', ''t'', ''T'', ''TRUE'', ''true'', ''True''} then Some True
      else if s \<in> {''0'', ''f'', ''F'', ''FALSE'', ''false'', ''False''} then Some False
      else None)"

text \<open>Text whose ends are visible, with anything in front, is trimmed of the blanks in front only.\<close>

lemma visible_hd_no_space: "s \<noteq> [] \<Longrightarrow> visible (hd s) \<Longrightarrow> seq_at unicode_spaces s = None"
  unfolding seq_at_None by (cases s) (auto simp: prefix_Cons dest!: spaces_not_visible)

lemma visible_last_no_space:
  assumes "s \<noteq> []" "visible (last s)"
  shows "seq_at (map rev unicode_spaces) (rev s) = None"
proof -
  from assms obtain c cs where c: "rev s = c # cs" "visible c"
    by (cases "rev s") (auto simp flip: hd_rev)
  have "p \<in> set unicode_spaces \<Longrightarrow> rev p \<noteq> [] \<and> \<not> prefix (rev p) (c # cs)" for p
    using spaces_not_visible [of p] c(2) by (cases "rev p") (auto simp: last_rev [symmetric])
  then show ?thesis by (auto simp: seq_at_None c(1))
qed

lemma TrimSpace_ends:
  "s \<noteq> [] \<Longrightarrow> visible (hd s) \<Longrightarrow> visible (last s) \<Longrightarrow> TrimSpace s = s"
  using visible_last_no_space [of s]
  by (simp add: TrimSpace_def trim_left_stop visible_hd_no_space trim_right_space_def strip_seqs_stop)

lemma TrimSpace_blank [simp]: "TrimSpace (CHR '' '' # s) = TrimSpace s"
  by (simp add: TrimSpace_def trim_left_space_def strip_seqs.simps [of _ "CHR '' '' # s"]
      seq_at_def unicode_spaces_def)

lemma TrimSpace_blanks [simp]: "TrimSpace (replicate n (CHR '' '') @ s) = TrimSpace s"
  by (induction n) simp_all


section \<open>Results\<close>

text \<open>An error stays when the result is mapped.\<close>

lemma map_sum_eq_Inl [simp]: "map_sum id f x = Inl e \<longleftrightarrow> x = Inl e"
  by (cases x) auto

lemma map_sum_eq_Inr: "map_sum id f x = Inr y \<longleftrightarrow> (\<exists>z. x = Inr z \<and> y = f z)"
  by (cases x) auto


section \<open>A bearer token\<close>

lemma fields_visible:
  "list_all visible w \<Longrightarrow> fields_from cur (w @ s) = fields_from (rev w @ cur) s"
proof (induction w arbitrary: cur)
  case (Cons c w)
  then have "seq_at unicode_spaces (c # w @ s) = None" by (simp add: visible_hd_no_space)
  with Cons show ?case by (simp add: fields_from.simps [of cur "c # w @ s"])
qed simp

lemma fields_blank: "cur \<noteq> [] \<Longrightarrow> fields_from cur (CHR '' '' # s) = rev cur # fields_from [] s"
  by (simp add: fields_from.simps [of cur "CHR '' '' # s"] seq_at_def unicode_spaces_def)

lemma fields_end: "cur \<noteq> [] \<Longrightarrow> fields_from cur [] = [rev cur]"
  by (simp add: fields_from.simps [of cur "[]"])

lemma bearer_fields:
  assumes "list_all visible tok" "tok \<noteq> []"
  shows "TrimSpace (''Bearer '' @ tok) = ''Bearer '' @ tok" "Fields (''Bearer '' @ tok) = [''Bearer'', tok]"
proof -
  have "list_all visible ''Bearer''" by (simp add: visible_def)
  from fields_visible [OF this, of "[]" "CHR '' '' # tok"] fields_blank [of "rev ''Bearer''" tok]
    fields_visible [OF assms(1), of "[]" "[]"] fields_end [of "rev tok"] assms(2)
  show "Fields (''Bearer '' @ tok) = [''Bearer'', tok]" by (simp add: Fields_def)
  show "TrimSpace (''Bearer '' @ tok) = ''Bearer '' @ tok"
    using assms by (intro TrimSpace_ends) (auto simp: visible_def [of "CHR ''B''"] list_all_iff)
qed

end
