(* ===== verification/Go_Time.thy ===== *)
theory Go_Time
  imports Go_Strings
begin

text \<open>
  The part of Go's \<open>time\<close> package the program uses.  An instant (\<open>time.Time\<close> in UTC) is an
  integer: nanoseconds since the Unix epoch.  A duration is an integer number of nanoseconds.
  \<open>Format\<close> with the layouts RFC3339, RFC3339Nano and 2006-01-02, and \<open>time.Parse\<close> with the
  layout 2006-01-02, are computed on the proleptic Gregorian calendar as the library does.
\<close>

type_synonym time = int
type_synonym duration = int

definition nsPerSecond :: int where
  "nsPerSecond = 1000000000"

definition nsPerMinute :: int where
  "nsPerMinute = 60 * nsPerSecond"

text \<open>The zero \<open>time.Time\<close>, the first of January of the year 1.\<close>

definition zeroTime :: time where
  "zeroTime = - 62135596800 * nsPerSecond"

text \<open>\<open>t.After(u)\<close>.\<close>

definition After :: "time \<Rightarrow> time \<Rightarrow> bool" where
  "After t u = (u < t)"

definition unix_sec :: "time \<Rightarrow> int" where
  "unix_sec t = t div nsPerSecond"


section \<open>The calendar\<close>

definition is_leap :: "int \<Rightarrow> bool" where
  "is_leap y = (y mod 4 = 0 \<and> (y mod 100 \<noteq> 0 \<or> y mod 400 = 0))"

definition days_in :: "int \<Rightarrow> int \<Rightarrow> int" where
  "days_in y m =
     (if m = 2 then (if is_leap y then 29 else 28)
      else if m \<in> {4, 6, 9, 11} then 30 else 31)"

text \<open>Year, month and day of the day that is \<open>z\<close> days after 1970-01-01 (years start in March
  inside the computation, in eras of 400 years).\<close>

definition civil :: "int \<Rightarrow> int \<times> int \<times> int" where
  "civil z0 =
     (let z = z0 + 719468;
          era = z div 146097;
          doe = z mod 146097;
          yoe = (doe - doe div 1460 + doe div 36524 - doe div 146096) div 365;
          doy = doe - (365 * yoe + yoe div 4 - yoe div 100);
          mp = (5 * doy + 2) div 153;
          d = doy - (153 * mp + 2) div 5 + 1;
          m = (if mp < 10 then mp + 3 else mp - 9);
          y = yoe + era * 400 + (if m \<le> 2 then 1 else 0)
      in (y, m, d))"

text \<open>A year is written with at least four digits, a negative one with a sign.\<close>

definition year_text :: "int \<Rightarrow> string" where
  "year_text y = (if y < 0 then ''-'' @ pad_dec 4 (nat (- y)) else pad_dec 4 (nat y))"

definition date_text :: "time \<Rightarrow> string" where
  "date_text t =
     (let (y, m, d) = civil (unix_sec t div 86400)
      in year_text y @ ''-'' @ pad_dec 2 (nat m) @ ''-'' @ pad_dec 2 (nat d))"

definition clock_text :: "time \<Rightarrow> string" where
  "clock_text t =
     (let s = unix_sec t mod 86400
      in pad_dec 2 (nat (s div 3600)) @ '':'' @ pad_dec 2 (nat (s mod 3600 div 60)) @ '':''
         @ pad_dec 2 (nat (s mod 60)))"

text \<open>\<open>t.UTC().Format(time.RFC3339)\<close>.\<close>

definition rfc3339 :: "time \<Rightarrow> string" where
  "rfc3339 t = date_text t @ ''T'' @ clock_text t @ ''Z''"

text \<open>The fraction of RFC3339Nano: nine digits without the trailing zeros, nothing when zero.\<close>

definition nano_text :: "time \<Rightarrow> string" where
  "nano_text t =
     (let n = nat (t mod nsPerSecond)
      in if n = 0 then [] else ''.'' @ TrimRightChar (CHR ''0'') (pad_dec 9 n))"

definition rfc3339nano :: "time \<Rightarrow> string" where
  "rfc3339nano t = date_text t @ ''T'' @ clock_text t @ nano_text t @ ''Z''"


section \<open>Parsing a date\<close>

text \<open>
  \<open>time.Parse("2006-01-02", s)\<close> succeeds exactly on four digits, a minus, two digits, a minus and
  two digits that name a day of the calendar; the program uses only whether it fails.
\<close>

definition parse_date :: "string \<Rightarrow> (int \<times> int \<times> int) option" where
  "parse_date s =
     (if length s = 10 \<and> s ! 4 = CHR ''-'' \<and> s ! 7 = CHR ''-''
         \<and> list_all is_digit (take 4 s @ take 2 (drop 5 s) @ drop 8 s)
      then (let y = int (undec (take 4 s)); m = int (undec (take 2 (drop 5 s)));
                d = int (undec (drop 8 s))
            in if 1 \<le> m \<and> m \<le> 12 \<and> 1 \<le> d \<and> d \<le> days_in y m then Some (y, m, d) else None)
      else None)"

end
