(* ===== verification/Go_Maps.thy ===== *)
theory Go_Maps
  imports Go_Time "HOL-Library.AList" "HOL-Library.Multiset" "HOL-Library.Monad_Syntax"
begin

text \<open>
  Go maps with string keys.  A map is an association list with distinct keys; the list is the
  order in which a \<open>range\<close> loop visits the entries.  Go leaves that order open, so the list
  order carries no meaning: where a result could depend on it, a lemma shows that it does not,
  or states which orders give which result.
\<close>

type_synonym 'v gomap = "(string \<times> 'v) list"

definition mget :: "'v gomap \<Rightarrow> string \<Rightarrow> 'v option" where
  "mget m = map_of m"

definition mput :: "string \<Rightarrow> 'v \<Rightarrow> 'v gomap \<Rightarrow> 'v gomap" where
  "mput k v m = AList.update k v m"

definition mdel :: "string \<Rightarrow> 'v gomap \<Rightarrow> 'v gomap" where
  "mdel k m = AList.delete k m"

definition mkeys :: "'v gomap \<Rightarrow> string list" where
  "mkeys m = map fst m"

definition mwf :: "'v gomap \<Rightarrow> bool" where
  "mwf m = distinct (mkeys m)"

text \<open>Rewriting the values of a map, entry by entry.\<close>

definition mmap :: "('v \<Rightarrow> 'w) \<Rightarrow> 'v gomap \<Rightarrow> 'w gomap" where
  "mmap f m = map (\<lambda>(k, v). (k, f v)) m"

lemma mget_Nil [simp]: "mget [] = Map.empty"
  by (simp add: mget_def)

lemma mget_Cons: "mget ((k, v) # m) = (mget m)(k \<mapsto> v)"
  by (simp add: mget_def)

lemma mget_mput [simp]: "mget (mput k v m) = (mget m)(k \<mapsto> v)"
  by (simp add: mget_def mput_def update_conv')

lemma mget_mdel [simp]: "mget (mdel k m) = (mget m)(k := None)"
  by (simp add: mget_def mdel_def delete_conv')

lemma mget_mmap [simp]: "mget (mmap f m) k = map_option f (mget m k)"
  by (induction m) (auto simp: mget_def mmap_def)

lemma mwf_Nil [simp]: "mwf []"
  by (simp add: mwf_def mkeys_def)

lemma mwf_mput [simp]: "mwf m \<Longrightarrow> mwf (mput k v m)"
  by (simp add: mwf_def mkeys_def mput_def distinct_update)

lemma mwf_mdel [simp]: "mwf m \<Longrightarrow> mwf (mdel k m)"
  by (simp add: mwf_def mkeys_def mdel_def distinct_delete)

lemma mkeys_mmap [simp]: "mkeys (mmap f m) = mkeys m"
  by (induction m) (auto simp: mkeys_def mmap_def)

lemma mwf_mmap [simp]: "mwf (mmap f m) = mwf m"
  by (simp add: mwf_def)

lemma set_mkeys: "set (mkeys m) = dom (mget m)"
  by (simp add: mkeys_def mget_def dom_map_of_conv_image_fst)

lemma mget_SomeD: "mget m k = Some v \<Longrightarrow> (k, v) \<in> set m"
  by (simp add: mget_def map_of_SomeD)

lemma mget_SomeI: "mwf m \<Longrightarrow> (k, v) \<in> set m \<Longrightarrow> mget m k = Some v"
  by (simp add: mget_def mwf_def mkeys_def)

lemma mget_iff: "mwf m \<Longrightarrow> mget m k = Some v \<longleftrightarrow> (k, v) \<in> set m"
  by (blast intro: mget_SomeI dest: mget_SomeD)

lemma mmap_ident: "(\<And>k v. (k, v) \<in> set m \<Longrightarrow> f v = v) \<Longrightarrow> mmap f m = m"
  unfolding mmap_def by (rule map_idI) auto

lemma mmap_mmap: "mmap f (mmap g m) = mmap (f \<circ> g) m"
  by (induction m) (auto simp: mmap_def)

lemma length_mmap [simp]: "length (mmap f m) = length m"
  by (simp add: mmap_def)

lemma mput_absent: "mget m k = None \<Longrightarrow> mput k v m = m @ [(k, v)]"
  by (induction m) (auto simp: mget_def mput_def split: if_splits)

lemma length_mput_absent: "mget m k = None \<Longrightarrow> length (mput k v m) = Suc (length m)"
  by (simp add: mput_absent)

lemma length_mput_present: "mget m k = Some w \<Longrightarrow> length (mput k v m) = length m"
  by (induction m) (auto simp: mget_def mput_def split: if_splits)

text \<open>Building a map by storing entries in order keeps a list with distinct keys as it is.\<close>

lemma foldl_mput_distinct:
  "distinct (map fst (acc @ xs)) \<Longrightarrow> foldl (\<lambda>m (k, v). mput k v m) acc xs = acc @ xs"
proof (induction xs arbitrary: acc)
  case Nil
  then show ?case by simp
next
  case (Cons x xs)
  obtain k v where x: "x = (k, v)" by (cases x)
  from Cons.prems x have "k \<notin> set (map fst acc)" by auto
  then have "mget acc k = None" by (auto simp: mget_def map_of_eq_None_iff)
  then have "mput k v acc = acc @ [(k, v)]" by (rule mput_absent)
  with Cons.IH [of "acc @ [x]"] Cons.prems x show ?case by simp
qed

text \<open>A sum over the entries does not depend on the order of the range loop.\<close>

lemma sum_list_range_order:
  fixes f :: "string \<times> 'v \<Rightarrow> 'a::comm_monoid_add"
  assumes "mset m = mset m'"
  shows "sum_list (map f m) = sum_list (map f m')"
proof -
  have "sum_mset (mset (map f m)) = sum_mset (mset (map f m'))"
    using assms by simp
  then show ?thesis by (simp only: sum_mset_sum_list)
qed

lemmas map_eval = mget_def mput_def mdel_def

end
