(* ===== verification/Api_Types.thy ===== *)
theory Api_Types
  imports Go_Maps
begin

text \<open>
  The wire types of the Assistant API (\<open>pkg/apiv1/types_gen.go\<close>): one record per struct, a
  pointer field as an \<open>option\<close>, a defined string type as a \<open>string\<close>.  A field is named after
  the Go field with a prefix for its struct, because record selectors share one name space.
  \<open>float64\<close> values are carried, never computed with, as rationals; \<open>any\<close> is a JSON value.
\<close>

datatype json = JNull | JBool bool | JNum rat | JStr string | JArr "json list"
  | JObj "(string \<times> json) list"

type_synonym ExpertType = string

text \<open>The job states, \<open>JobStatus\<close>.\<close>

type_synonym JobStatus = string

definition JobStatusQueued :: JobStatus where "JobStatusQueued = ''queued''"
definition JobStatusRunning :: JobStatus where "JobStatusRunning = ''running''"
definition JobStatusSucceeded :: JobStatus where "JobStatusSucceeded = ''succeeded''"
definition JobStatusFailed :: JobStatus where "JobStatusFailed = ''failed''"
definition JobStatusCanceled :: JobStatus where "JobStatusCanceled = ''canceled''"
definition JobStatusExpired :: JobStatus where "JobStatusExpired = ''expired''"

record CallbackSigning =
  sig_Algorithm :: string
  sig_SecretRef :: string

record CallbackConfig =
  cb_Url :: string
  cb_Signing :: "CallbackSigning option"

record InferenceConfig =
  inf_Provider :: "string option"
  inf_CredentialMode :: "string option"
  inf_Token :: "string option"

record BriefOptions =
  opt_MaxSources :: "int option"
  opt_Language :: "string option"

record SubmitBriefRequest =
  sreq_TenantId :: "string option"
  sreq_ProjectId :: "string option"
  sreq_ExpertId :: string
  sreq_ExpertName :: "string option"
  sreq_ExpertType :: "ExpertType option"
  sreq_Date :: string
  sreq_Timezone :: "string option"
  sreq_Callback :: "CallbackConfig option"
  sreq_Inference :: "InferenceConfig option"
  sreq_Options :: "BriefOptions option"

record SubmitBriefResponse =
  sresp_JobId :: string
  sresp_TenantId :: string
  sresp_ProjectId :: string
  sresp_ExpertId :: string
  sresp_ExpertName :: "string option"
  sresp_ExpertType :: "ExpertType option"
  sresp_Status :: JobStatus
  sresp_SubmittedAt :: string
  sresp_RequestId :: "string option"

record JobStatusResponse =
  st_JobId :: string
  st_TenantId :: string
  st_ProjectId :: string
  st_ExpertId :: string
  st_ExpertName :: "string option"
  st_ExpertType :: "ExpertType option"
  st_Status :: JobStatus
  st_Progress :: "int option"
  st_SubmittedAt :: string
  st_UpdatedAt :: string
  st_Attempt :: int

type_synonym ReferenceRecord = "(string \<times> json) list"

record Citation =
  cit_SourceId :: string
  cit_SourceName :: "string option"
  cit_Title :: string
  cit_Url :: "string option"
  cit_PublishedAt :: string

record ExpertResult =
  er_Title :: "string option"
  er_Answer :: string
  er_Confidence :: rat
  er_FreshnessCutoff :: string
  er_References :: "ReferenceRecord list"
  er_Citations :: "Citation list"
  er_Limitations :: "string list"

record JobResultResponse =
  res_JobId :: string
  res_TenantId :: string
  res_ProjectId :: string
  res_ExpertId :: string
  res_ExpertName :: "string option"
  res_ExpertType :: "ExpertType option"
  res_Status :: string
  res_Result :: ExpertResult

record WebhookDeliveryRecord =
  wdr_DeliveryId :: string
  wdr_EventId :: string
  wdr_EventType :: string
  wdr_JobId :: "string option"
  wdr_CallbackUrl :: string
  wdr_Attempt :: int
  wdr_MaxAttempts :: int
  wdr_Success :: bool
  wdr_HttpStatus :: "int option"
  wdr_Error :: "string option"
  wdr_RequestedAt :: string
  wdr_DurationMs :: int
  wdr_NextRetryAt :: "string option"
  wdr_PayloadSha256 :: string

record JobDeliveriesResponse =
  jdr_JobId :: string
  jdr_TenantId :: string
  jdr_ProjectId :: string
  jdr_Deliveries :: "WebhookDeliveryRecord list"

record TimeWindow =
  tw_Start :: string
  tw_End :: string

record QueryRequest =
  qreq_TenantId :: "string option"
  qreq_ProjectId :: "string option"
  qreq_ExpertId :: string
  qreq_ExpertName :: "string option"
  qreq_ExpertType :: "ExpertType option"
  qreq_Question :: string
  qreq_TimeWindow :: "TimeWindow option"
  qreq_Inference :: "InferenceConfig option"

type_synonym QueryResponse = ExpertResult

record ExpertCapability =
  cap_ExpertId :: string
  cap_ExpertName :: string
  cap_ExpertType :: ExpertType
  cap_Supports :: "string list"
  cap_Status :: string
  cap_Version :: string

record ExpertCapabilitiesResponse =
  ecr_Experts :: "ExpertCapability list"

record Problem =
  pb_Type :: string
  pb_Title :: string
  pb_Status :: int
  pb_Detail :: "string option"
  pb_Instance :: "string option"
  pb_RequestId :: "string option"

text \<open>The body of an Assistant API response: the \<open>any\<close> the handlers return.\<close>

datatype Body =
    BProblem Problem
  | BSubmit SubmitBriefResponse
  | BStatus JobStatusResponse
  | BResult JobResultResponse
  | BDeliveries JobDeliveriesResponse
  | BQuery QueryResponse
  | BExperts ExpertCapabilitiesResponse

type_synonym Reply = "int \<times> Body"

definition StatusOK :: int where "StatusOK = 200"
definition StatusAccepted :: int where "StatusAccepted = 202"
definition StatusBadRequest :: int where "StatusBadRequest = 400"
definition StatusUnauthorized :: int where "StatusUnauthorized = 401"
definition StatusNotFound :: int where "StatusNotFound = 404"
definition StatusMethodNotAllowed :: int where "StatusMethodNotAllowed = 405"
definition StatusConflict :: int where "StatusConflict = 409"
definition StatusRequestEntityTooLarge :: int where "StatusRequestEntityTooLarge = 413"
definition StatusUnsupportedMediaType :: int where "StatusUnsupportedMediaType = 415"
definition StatusTooManyRequests :: int where "StatusTooManyRequests = 429"
definition StatusInternalServerError :: int where "StatusInternalServerError = 500"
definition StatusNotImplemented :: int where "StatusNotImplemented = 501"
definition StatusBadGateway :: int where "StatusBadGateway = 502"

lemmas http_status_defs = StatusOK_def StatusAccepted_def StatusBadRequest_def
  StatusUnauthorized_def StatusNotFound_def StatusMethodNotAllowed_def StatusConflict_def
  StatusRequestEntityTooLarge_def StatusUnsupportedMediaType_def StatusTooManyRequests_def
  StatusInternalServerError_def StatusNotImplemented_def StatusBadGateway_def

lemmas job_status_defs = JobStatusQueued_def JobStatusRunning_def JobStatusSucceeded_def
  JobStatusFailed_def JobStatusCanceled_def JobStatusExpired_def

lemma job_status_distinct [simp, status_simps]:
  "JobStatusQueued \<noteq> JobStatusRunning" "JobStatusQueued \<noteq> JobStatusSucceeded"
  "JobStatusQueued \<noteq> JobStatusFailed" "JobStatusQueued \<noteq> JobStatusCanceled"
  "JobStatusQueued \<noteq> JobStatusExpired" "JobStatusRunning \<noteq> JobStatusSucceeded"
  "JobStatusRunning \<noteq> JobStatusFailed" "JobStatusRunning \<noteq> JobStatusCanceled"
  "JobStatusRunning \<noteq> JobStatusExpired" "JobStatusSucceeded \<noteq> JobStatusFailed"
  "JobStatusSucceeded \<noteq> JobStatusCanceled" "JobStatusSucceeded \<noteq> JobStatusExpired"
  "JobStatusFailed \<noteq> JobStatusCanceled" "JobStatusFailed \<noteq> JobStatusExpired"
  "JobStatusCanceled \<noteq> JobStatusExpired"
  by (simp_all add: job_status_defs)

lemmas job_status_distinct_sym [simp, status_simps] = job_status_distinct [symmetric]

definition job_statuses :: "JobStatus set" where
  "job_statuses = {JobStatusQueued, JobStatusRunning, JobStatusSucceeded, JobStatusFailed,
     JobStatusCanceled, JobStatusExpired}"

end
