(* ===== verification/Job_Store.thy ===== *)
theory Job_Store
  imports Api_Types "HOL-Library.Word"
begin

text \<open>
  The persisted state of the orchestrator (\<open>internal/storage/jobstore\<close>): the stored records, the
  JSON documents they are written as, the file store and the Postgres store.  A Go map that may
  be nil is an \<open>option\<close>.  A document is modelled at the level of JSON values, with the field
  names and the \<open>omitempty\<close> rules of the struct tags; printing a value to bytes and parsing it
  back is \<open>encoding/json\<close>'s and is not modelled.  The locale \<open>job_store\<close> is the contract the
  orchestrator relies on: a state that was saved without an error is the state that is loaded.
\<close>

section \<open>The stored records\<close>

record Job =
  sj_ID :: string
  sj_TenantID :: string
  sj_ProjectID :: string
  sj_ExpertID :: string
  sj_ExpertName :: string
  sj_ExpertType :: string
  sj_Date :: string
  sj_Status :: string
  sj_Progress :: int
  sj_SubmittedAt :: time
  sj_UpdatedAt :: time
  sj_Attempt :: int
  sj_MaxAttempts :: int
  sj_ExpiresAt :: "time option"
  sj_LastError :: "string option"
  sj_Result :: "ExpertResult option"
  sj_Callback :: "CallbackConfig option"

record IdempotencyEntry =
  ie_PayloadHash :: string
  ie_JobID :: string

record DeadLetterEntry =
  dl_JobID :: string
  dl_TenantID :: string
  dl_ProjectID :: string
  dl_Reason :: string
  dl_Attempts :: int
  dl_FailedAt :: time
  dl_LastError :: string
  dl_FinalStatus :: string

record State =
  ss_NextID :: "64 word"
  ss_Jobs :: "Job gomap option"
  ss_Idempotency :: "IdempotencyEntry gomap option"
  ss_DeadLetters :: "DeadLetterEntry gomap option"

definition emptyState :: State where
  "emptyState = \<lparr>ss_NextID = 0, ss_Jobs = Some [], ss_Idempotency = Some [],
     ss_DeadLetters = Some []\<rparr>"

text \<open>The loop and length of a map that may be nil: a nil map is empty.\<close>

definition ranged :: "'v gomap option \<Rightarrow> 'v gomap" where
  "ranged m = (case m of None \<Rightarrow> [] | Some x \<Rightarrow> x)"

text \<open>The three \<open>== nil\<close> repairs at the end of \<open>Load\<close> and the start of \<open>Save\<close>.\<close>

definition fill_nil :: "State \<Rightarrow> State" where
  "fill_nil st = st\<lparr>ss_Jobs := Some (ranged (ss_Jobs st)),
     ss_Idempotency := Some (ranged (ss_Idempotency st)),
     ss_DeadLetters := Some (ranged (ss_DeadLetters st))\<rparr>"

definition state_wf :: "State \<Rightarrow> bool" where
  "state_wf st \<longleftrightarrow> mwf (ranged (ss_Jobs st)) \<and> mwf (ranged (ss_Idempotency st))
     \<and> mwf (ranged (ss_DeadLetters st))"

lemma ranged_simps [simp]: "ranged None = []" "ranged (Some m) = m"
  by (simp_all add: ranged_def)

lemma fill_nil_idem [simp]: "fill_nil (fill_nil st) = fill_nil st"
  by (simp add: fill_nil_def)

lemma state_wf_fill_nil [simp]: "state_wf (fill_nil st) = state_wf st"
  by (simp add: state_wf_def fill_nil_def)


section \<open>JSON documents\<close>

text \<open>
  An encoder writes a field or omits it; a decoder reads a missing or null field as the zero
  value and refuses a field of another type.  An instant is the JSON string that
  \<open>time.MarshalJSON\<close> writes; the document keeps the instant itself, as \<open>JTime\<close>.  Numbers are
  decoded into Go integers only when they are integers.
\<close>

datatype doc = DNull | DBool bool | DStr string | DInt int | DNum rat | DTime time | DArr "doc list"
  | DObj "(string \<times> doc) list" | DAny json

fun dfields :: "(string \<times> doc option) list \<Rightarrow> (string \<times> doc) list" where
  "dfields [] = []"
| "dfields ((k, v) # fs) = (case v of None \<Rightarrow> dfields fs | Some x \<Rightarrow> (k, x) # dfields fs)"

definition dobj :: "(string \<times> doc option) list \<Rightarrow> doc" where
  "dobj fs = DObj (dfields fs)"

fun fields_of :: "doc \<Rightarrow> (string \<times> doc) list option" where
  "fields_of (DObj fs) = Some fs"
| "fields_of d = None"

definition w_str :: "string \<Rightarrow> doc option" where "w_str s = Some (DStr s)"
definition w_str_omit :: "string \<Rightarrow> doc option" where
  "w_str_omit s = (if s = [] then None else Some (DStr s))"
definition w_int :: "int \<Rightarrow> doc option" where "w_int i = Some (DInt i)"
definition w_int_omit :: "int \<Rightarrow> doc option" where
  "w_int_omit i = (if i = 0 then None else Some (DInt i))"
definition w_time :: "time \<Rightarrow> doc option" where "w_time t = Some (DTime t)"
definition w_list_omit :: "('a \<Rightarrow> doc) \<Rightarrow> 'a list \<Rightarrow> doc option" where
  "w_list_omit f xs = (if xs = [] then None else Some (DArr (map f xs)))"

fun r_str :: "doc option \<Rightarrow> string option" where
  "r_str None = Some []"
| "r_str (Some DNull) = Some []"
| "r_str (Some (DStr s)) = Some s"
| "r_str (Some _) = None"

fun r_int :: "doc option \<Rightarrow> int option" where
  "r_int None = Some 0"
| "r_int (Some DNull) = Some 0"
| "r_int (Some (DInt i)) = Some i"
| "r_int (Some _) = None"

fun r_time :: "doc option \<Rightarrow> time option" where
  "r_time None = Some zeroTime"
| "r_time (Some DNull) = Some zeroTime"
| "r_time (Some (DTime t)) = Some t"
| "r_time (Some _) = None"

fun r_bool :: "doc option \<Rightarrow> bool option" where
  "r_bool None = Some False"
| "r_bool (Some DNull) = Some False"
| "r_bool (Some (DBool b)) = Some b"
| "r_bool (Some _) = None"

fun r_num :: "doc option \<Rightarrow> rat option" where
  "r_num None = Some 0"
| "r_num (Some DNull) = Some 0"
| "r_num (Some (DNum r)) = Some r"
| "r_num (Some _) = None"

fun r_ptr :: "(doc option \<Rightarrow> 'a option) \<Rightarrow> doc option \<Rightarrow> 'a option option" where
  "r_ptr f None = Some None"
| "r_ptr f (Some DNull) = Some None"
| "r_ptr f (Some d) = map_option Some (f (Some d))"

fun r_all :: "(doc \<Rightarrow> 'a option) \<Rightarrow> doc list \<Rightarrow> 'a list option" where
  "r_all f [] = Some []"
| "r_all f (d # ds) = Option.bind (f d) (\<lambda>x. map_option ((#) x) (r_all f ds))"

fun r_list :: "(doc \<Rightarrow> 'a option) \<Rightarrow> doc option \<Rightarrow> 'a list option" where
  "r_list f None = Some []"
| "r_list f (Some DNull) = Some []"
| "r_list f (Some (DArr ds)) = r_all f ds"
| "r_list f (Some _) = None"

fun r_any :: "doc \<Rightarrow> json option" where
  "r_any (DAny j) = Some j"
| "r_any _ = None"

lemma r_all_map: "(\<And>x. x \<in> set xs \<Longrightarrow> f (g x) = Some x) \<Longrightarrow> r_all f (map g xs) = Some xs"
  by (induction xs) auto

named_theorems doc_simps
  \<open>reading back a field that was written\<close>

lemma r_w [doc_simps]:
  "r_str (w_str s) = Some s" "r_str (w_str_omit s) = Some s"
  "r_int (w_int i) = Some i" "r_int (w_int_omit i) = Some i"
  "r_time (w_time t) = Some t"
  by (simp_all add: w_str_def w_str_omit_def w_int_def w_int_omit_def w_time_def)

lemma r_ptr_Some: "d \<noteq> DNull \<Longrightarrow> r_ptr f (Some d) = map_option Some (f (Some d))"
  by (cases d) simp_all

lemma r_ptr_map [doc_simps]:
  "(\<And>x. f (Some (g x)) = Some x) \<Longrightarrow> (\<And>x. g x \<noteq> DNull) \<Longrightarrow> r_ptr f (map_option g p) = Some p"
  by (cases p) (simp_all add: r_ptr_Some)

lemma r_list_map [doc_simps]:
  "(\<And>x. f (g x) = Some x) \<Longrightarrow> r_list f (w_list_omit g xs) = Some xs"
  by (simp add: w_list_omit_def r_all_map)

text \<open>Looking a key up in a document with the given fields.\<close>

lemma dfields_keys: "k \<notin> fst ` set fs \<Longrightarrow> map_of (dfields fs) k = None"
  by (induction fs rule: dfields.induct) (auto split: option.splits)

lemma dfields_hit: "k \<notin> fst ` set fs \<Longrightarrow> map_of (dfields ((k, v) # fs)) k = v"
  by (cases v) (simp_all add: dfields_keys)

lemma dfields_miss: "k \<noteq> k0 \<Longrightarrow> map_of (dfields ((k0, v) # fs)) k = map_of (dfields fs) k"
  by (cases v) simp_all

lemmas dfields_lookup = dfields_hit dfields_miss

declare dfields.simps(2) [simp del]


section \<open>Encoding and decoding the state\<close>

definition encSigning :: "CallbackSigning \<Rightarrow> doc" where
  "encSigning c = dobj [(''algorithm'', w_str (sig_Algorithm c)),
     (''secret_ref'', w_str (sig_SecretRef c))]"

definition decSigning :: "doc option \<Rightarrow> CallbackSigning option" where
  "decSigning d = do {
     fs \<leftarrow> Option.bind d fields_of;
     a \<leftarrow> r_str (map_of fs ''algorithm'');
     r \<leftarrow> r_str (map_of fs ''secret_ref'');
     Some \<lparr>sig_Algorithm = a, sig_SecretRef = r\<rparr> }"

definition encCallback :: "CallbackConfig \<Rightarrow> doc" where
  "encCallback c = dobj [(''url'', w_str (cb_Url c)),
     (''signing'', map_option encSigning (cb_Signing c))]"

definition decCallback :: "doc option \<Rightarrow> CallbackConfig option" where
  "decCallback d = do {
     fs \<leftarrow> Option.bind d fields_of;
     u \<leftarrow> r_str (map_of fs ''url'');
     g \<leftarrow> r_ptr decSigning (map_of fs ''signing'');
     Some \<lparr>cb_Url = u, cb_Signing = g\<rparr> }"

definition encCitation :: "Citation \<Rightarrow> doc" where
  "encCitation c = dobj [(''source_id'', w_str (cit_SourceId c)),
     (''source_name'', map_option DStr (cit_SourceName c)), (''title'', w_str (cit_Title c)),
     (''url'', map_option DStr (cit_Url c)), (''published_at'', w_str (cit_PublishedAt c))]"

definition decCitation :: "doc \<Rightarrow> Citation option" where
  "decCitation d = do {
     fs \<leftarrow> fields_of d;
     i \<leftarrow> r_str (map_of fs ''source_id'');
     n \<leftarrow> r_ptr r_str (map_of fs ''source_name'');
     t \<leftarrow> r_str (map_of fs ''title'');
     u \<leftarrow> r_ptr r_str (map_of fs ''url'');
     p \<leftarrow> r_str (map_of fs ''published_at'');
     Some \<lparr>cit_SourceId = i, cit_SourceName = n, cit_Title = t, cit_Url = u,
       cit_PublishedAt = p\<rparr> }"

text \<open>One reference is a JSON object of its own.\<close>

definition encRef :: "ReferenceRecord \<Rightarrow> doc" where "encRef r = DAny (JObj r)"

fun decRef :: "doc \<Rightarrow> ReferenceRecord option" where
  "decRef (DAny (JObj r)) = Some r"
| "decRef _ = None"

definition encResult :: "ExpertResult \<Rightarrow> doc" where
  "encResult r = dobj [(''title'', map_option DStr (er_Title r)),
     (''answer'', w_str (er_Answer r)), (''confidence'', Some (DNum (er_Confidence r))),
     (''freshness_cutoff'', w_str (er_FreshnessCutoff r)),
     (''references'', w_list_omit encRef (er_References r)),
     (''citations'', w_list_omit encCitation (er_Citations r)),
     (''limitations'', w_list_omit DStr (er_Limitations r))]"

definition decResult :: "doc option \<Rightarrow> ExpertResult option" where
  "decResult d = do {
     fs \<leftarrow> Option.bind d fields_of;
     t \<leftarrow> r_ptr r_str (map_of fs ''title'');
     a \<leftarrow> r_str (map_of fs ''answer'');
     c \<leftarrow> r_num (map_of fs ''confidence'');
     f \<leftarrow> r_str (map_of fs ''freshness_cutoff'');
     rs \<leftarrow> r_list decRef (map_of fs ''references'');
     cs \<leftarrow> r_list decCitation (map_of fs ''citations'');
     ls \<leftarrow> r_list (\<lambda>x. r_str (Some x)) (map_of fs ''limitations'');
     Some \<lparr>er_Title = t, er_Answer = a, er_Confidence = c, er_FreshnessCutoff = f,
       er_References = rs, er_Citations = cs, er_Limitations = ls\<rparr> }"

definition encJob :: "Job \<Rightarrow> doc" where
  "encJob j = dobj [(''id'', w_str (sj_ID j)), (''tenant_id'', w_str_omit (sj_TenantID j)),
     (''project_id'', w_str_omit (sj_ProjectID j)), (''expert_id'', w_str (sj_ExpertID j)),
     (''expert_name'', w_str (sj_ExpertName j)), (''expert_type'', w_str (sj_ExpertType j)),
     (''date'', w_str (sj_Date j)), (''status'', w_str (sj_Status j)),
     (''progress'', w_int (sj_Progress j)), (''submitted_at'', w_time (sj_SubmittedAt j)),
     (''updated_at'', w_time (sj_UpdatedAt j)), (''attempt'', w_int (sj_Attempt j)),
     (''max_attempts'', w_int_omit (sj_MaxAttempts j)),
     (''expires_at'', map_option DTime (sj_ExpiresAt j)),
     (''last_error'', map_option DStr (sj_LastError j)),
     (''result'', map_option encResult (sj_Result j)),
     (''callback'', map_option encCallback (sj_Callback j))]"

definition decJob :: "doc \<Rightarrow> Job option" where
  "decJob d = do {
     fs \<leftarrow> fields_of d;
     i \<leftarrow> r_str (map_of fs ''id'');
     t \<leftarrow> r_str (map_of fs ''tenant_id'');
     p \<leftarrow> r_str (map_of fs ''project_id'');
     e \<leftarrow> r_str (map_of fs ''expert_id'');
     en \<leftarrow> r_str (map_of fs ''expert_name'');
     et \<leftarrow> r_str (map_of fs ''expert_type'');
     dt \<leftarrow> r_str (map_of fs ''date'');
     st \<leftarrow> r_str (map_of fs ''status'');
     pr \<leftarrow> r_int (map_of fs ''progress'');
     sa \<leftarrow> r_time (map_of fs ''submitted_at'');
     ua \<leftarrow> r_time (map_of fs ''updated_at'');
     att \<leftarrow> r_int (map_of fs ''attempt'');
     ma \<leftarrow> r_int (map_of fs ''max_attempts'');
     ea \<leftarrow> r_ptr r_time (map_of fs ''expires_at'');
     le \<leftarrow> r_ptr r_str (map_of fs ''last_error'');
     rs \<leftarrow> r_ptr decResult (map_of fs ''result'');
     cb \<leftarrow> r_ptr decCallback (map_of fs ''callback'');
     Some \<lparr>sj_ID = i, sj_TenantID = t, sj_ProjectID = p, sj_ExpertID = e, sj_ExpertName = en,
       sj_ExpertType = et, sj_Date = dt, sj_Status = st, sj_Progress = pr, sj_SubmittedAt = sa,
       sj_UpdatedAt = ua, sj_Attempt = att, sj_MaxAttempts = ma, sj_ExpiresAt = ea,
       sj_LastError = le, sj_Result = rs, sj_Callback = cb\<rparr> }"

definition encIdem :: "IdempotencyEntry \<Rightarrow> doc" where
  "encIdem e = dobj [(''payload_hash'', w_str (ie_PayloadHash e)), (''job_id'', w_str (ie_JobID e))]"

definition decIdem :: "doc \<Rightarrow> IdempotencyEntry option" where
  "decIdem d = do {
     fs \<leftarrow> fields_of d;
     h \<leftarrow> r_str (map_of fs ''payload_hash'');
     j \<leftarrow> r_str (map_of fs ''job_id'');
     Some \<lparr>ie_PayloadHash = h, ie_JobID = j\<rparr> }"

definition encDead :: "DeadLetterEntry \<Rightarrow> doc" where
  "encDead e = dobj [(''job_id'', w_str (dl_JobID e)), (''tenant_id'', w_str (dl_TenantID e)),
     (''project_id'', w_str (dl_ProjectID e)), (''reason'', w_str (dl_Reason e)),
     (''attempts'', w_int (dl_Attempts e)), (''failed_at'', w_time (dl_FailedAt e)),
     (''last_error'', w_str_omit (dl_LastError e)), (''final_status'', w_str (dl_FinalStatus e))]"

definition decDead :: "doc \<Rightarrow> DeadLetterEntry option" where
  "decDead d = do {
     fs \<leftarrow> fields_of d;
     j \<leftarrow> r_str (map_of fs ''job_id'');
     t \<leftarrow> r_str (map_of fs ''tenant_id'');
     p \<leftarrow> r_str (map_of fs ''project_id'');
     r \<leftarrow> r_str (map_of fs ''reason'');
     a \<leftarrow> r_int (map_of fs ''attempts'');
     f \<leftarrow> r_time (map_of fs ''failed_at'');
     l \<leftarrow> r_str (map_of fs ''last_error'');
     s \<leftarrow> r_str (map_of fs ''final_status'');
     Some \<lparr>dl_JobID = j, dl_TenantID = t, dl_ProjectID = p, dl_Reason = r, dl_Attempts = a,
       dl_FailedAt = f, dl_LastError = l, dl_FinalStatus = s\<rparr> }"

text \<open>The whole state: a nil map is written as null, an empty \<open>dead_letters\<close> is omitted.\<close>

definition w_map :: "('v \<Rightarrow> doc) \<Rightarrow> 'v gomap option \<Rightarrow> doc option" where
  "w_map f m = Some (case m of None \<Rightarrow> DNull | Some xs \<Rightarrow> DObj (map (\<lambda>(k, v). (k, f v)) xs))"

definition w_map_omit :: "('v \<Rightarrow> doc) \<Rightarrow> 'v gomap option \<Rightarrow> doc option" where
  "w_map_omit f m = (if ranged m = [] then None else w_map f m)"

fun r_pairs :: "(doc \<Rightarrow> 'v option) \<Rightarrow> 'v gomap \<Rightarrow> (string \<times> doc) list \<Rightarrow> 'v gomap option" where
  "r_pairs f acc [] = Some acc"
| "r_pairs f acc ((k, d) # ds) = Option.bind (f d) (\<lambda>x. r_pairs f (mput k x acc) ds)"

fun r_map :: "(doc \<Rightarrow> 'v option) \<Rightarrow> doc option \<Rightarrow> 'v gomap option option" where
  "r_map f None = Some None"
| "r_map f (Some DNull) = Some None"
| "r_map f (Some (DObj ds)) = map_option Some (r_pairs f [] ds)"
| "r_map f (Some _) = None"

fun r_u64 :: "doc option \<Rightarrow> 64 word option" where
  "r_u64 None = Some 0"
| "r_u64 (Some DNull) = Some 0"
| "r_u64 (Some (DInt i)) = (if 0 \<le> i \<and> i < 2 ^ 64 then Some (word_of_int i) else None)"
| "r_u64 (Some _) = None"

definition encState :: "State \<Rightarrow> doc" where
  "encState st = dobj [(''next_id'', w_int (uint (ss_NextID st))),
     (''jobs'', w_map encJob (ss_Jobs st)),
     (''idempotency'', w_map encIdem (ss_Idempotency st)),
     (''dead_letters'', w_map_omit encDead (ss_DeadLetters st))]"

definition decState :: "doc \<Rightarrow> State option" where
  "decState d = do {
     fs \<leftarrow> fields_of d;
     n \<leftarrow> r_u64 (map_of fs ''next_id'');
     js \<leftarrow> r_map decJob (map_of fs ''jobs'');
     ids \<leftarrow> r_map decIdem (map_of fs ''idempotency'');
     ds \<leftarrow> r_map decDead (map_of fs ''dead_letters'');
     Some \<lparr>ss_NextID = n, ss_Jobs = js, ss_Idempotency = ids, ss_DeadLetters = ds\<rparr> }"

lemma decSigning_enc [doc_simps]: "decSigning (Some (encSigning c)) = Some c"
  by (simp add: decSigning_def encSigning_def dobj_def dfields_lookup doc_simps)

lemma enc_not_null [doc_simps]:
  "encSigning c \<noteq> DNull" "encCallback cb \<noteq> DNull" "encResult r \<noteq> DNull"
  by (simp_all add: encSigning_def encCallback_def encResult_def dobj_def)

lemma decCallback_enc [doc_simps]: "decCallback (Some (encCallback c)) = Some c"
  by (simp add: decCallback_def encCallback_def dobj_def dfields_lookup doc_simps)

lemma r_ptr_leaf [doc_simps]:
  "r_ptr r_str (map_option DStr p) = Some p" "r_ptr r_time (map_option DTime t) = Some t"
  "r_ptr r_int (map_option DInt i) = Some i"
  by (simp_all add: r_ptr_map)

lemma decCitation_enc [doc_simps]: "decCitation (encCitation c) = Some c"
  by (simp add: decCitation_def encCitation_def dobj_def dfields_lookup doc_simps)

lemma decRef_enc [doc_simps]: "decRef (encRef r) = Some r"
  by (simp add: encRef_def)

lemma decResult_enc [doc_simps]: "decResult (Some (encResult r)) = Some r"
  by (simp add: decResult_def encResult_def dobj_def dfields_lookup doc_simps)

lemma decJob_enc [doc_simps]: "decJob (encJob j) = Some j"
  by (simp add: decJob_def encJob_def dobj_def dfields_lookup doc_simps)

lemma decIdem_enc [doc_simps]: "decIdem (encIdem e) = Some e"
  by (simp add: decIdem_def encIdem_def dobj_def dfields_lookup doc_simps)

lemma decDead_enc [doc_simps]: "decDead (encDead e) = Some e"
  by (simp add: decDead_def encDead_def dobj_def dfields_lookup doc_simps)

lemma r_pairs_enc:
  "(\<And>x. f (g x) = Some x) \<Longrightarrow>
     r_pairs f acc (map (\<lambda>(k, v). (k, g v)) xs) = Some (foldl (\<lambda>m (k, v). mput k v m) acc xs)"
  by (induction xs arbitrary: acc) auto

lemma r_map_enc:
  assumes "\<And>x. f (g x) = Some x" and "mwf (ranged m)"
  shows "r_map f (w_map g m) = Some m"
  using assms foldl_mput_distinct [of "[]" "ranged m"]
  by (cases m) (simp_all add: w_map_def r_pairs_enc mwf_def mkeys_def)

lemma r_map_enc_omit:
  assumes "\<And>x. f (g x) = Some x" and "mwf (ranged m)"
  shows "\<exists>m'. r_map f (w_map_omit g m) = Some m' \<and> ranged m' = ranged m"
  using r_map_enc [OF assms] by (cases "ranged m = []") (auto simp: w_map_omit_def)

lemma uint_u64_range: "0 \<le> uint (w :: 64 word)" "uint (w :: 64 word) < 2 ^ 64"
  using uint_bounded [of w] by simp_all

lemma r_u64_enc [doc_simps]: "r_u64 (w_int (uint w)) = Some w"
  using uint_u64_range [of w] by (simp add: w_int_def)

lemma decState_enc:
  assumes "state_wf st"
  shows "\<exists>st'. decState (encState st) = Some st' \<and> fill_nil st' = fill_nil st"
proof -
  from assms have wf: "mwf (ranged (ss_Jobs st))" "mwf (ranged (ss_Idempotency st))"
    "mwf (ranged (ss_DeadLetters st))"
    by (auto simp: state_wf_def)
  obtain ds where ds: "r_map decDead (w_map_omit encDead (ss_DeadLetters st)) = Some ds"
    and eq: "ranged ds = ranged (ss_DeadLetters st)"
    using r_map_enc_omit [OF decDead_enc wf(3)] by blast
  have "decState (encState st) = Some (st\<lparr>ss_DeadLetters := ds\<rparr>)"
    by (simp add: decState_def encState_def dobj_def dfields_lookup doc_simps
        r_map_enc [OF decJob_enc wf(1)] r_map_enc [OF decIdem_enc wf(2)] ds)
  with eq show ?thesis by (simp add: fill_nil_def)
qed


section \<open>The contract of a store\<close>

text \<open>
  What the orchestrator needs of its \<open>Store\<close>: while the medium works, saving succeeds, leaves a
  medium that works, and loading gives back what was saved last.  \<open>healthy\<close> says that the
  medium works; a failing medium may do anything (the JSON file store can even lose the old
  state, see \<open>JSONFileStore_crash_window\<close>).
\<close>

datatype store_error = SE_Context string | SE_IO string | SE_Decode

locale job_store =
  fixes load :: "'s \<Rightarrow> store_error + State"
    and save :: "'s \<Rightarrow> State \<Rightarrow> store_error option \<times> 's"
    and healthy :: "'s \<Rightarrow> bool"
  assumes save_ok: "healthy s \<Longrightarrow> state_wf st \<Longrightarrow> fst (save s st) = None"
    and save_healthy: "healthy s \<Longrightarrow> state_wf st \<Longrightarrow> healthy (snd (save s st))"
    and load_saved: "healthy s \<Longrightarrow> state_wf st \<Longrightarrow> load (snd (save s st)) = Inr (fill_nil st)"
begin

fun save_all :: "'s \<Rightarrow> State list \<Rightarrow> 's" where
  "save_all s [] = s"
| "save_all s (st # sts) = save_all (snd (save s st)) sts"

lemma save_all_healthy:
  "healthy s \<Longrightarrow> list_all state_wf sts \<Longrightarrow> healthy (save_all s sts)"
  by (induction sts arbitrary: s) (auto intro: save_healthy)

lemma save_all_snoc: "save_all s (sts @ [st]) = snd (save (save_all s sts) st)"
  by (induction sts arbitrary: s) auto

lemma last_save_wins:
  assumes "healthy s" and "list_all state_wf sts" and "state_wf st"
  shows "load (save_all s (sts @ [st])) = Inr (fill_nil st)"
  using assms by (simp add: save_all_snoc load_saved save_all_healthy)

end


section \<open>The stores\<close>

text \<open>\<open>NewNopStore\<close>: nothing is kept.\<close>

definition nopStore_Load :: "unit \<Rightarrow> store_error + State" where
  "nopStore_Load s = Inr emptyState"

definition nopStore_Save :: "unit \<Rightarrow> State \<Rightarrow> store_error option \<times> unit" where
  "nopStore_Save s st = (None, s)"

text \<open>
  \<open>JSONFileStore\<close>.  The disk maps paths to contents; a content is empty, a JSON document or
  bytes that are no document.  The fault fields say what the next operation of a kind returns.
\<close>

datatype content = CEmpty | CDoc doc | CBad

record disk =
  dk_files :: "content gomap"
  dk_readErr :: "string option"
  dk_writeErr :: "string option"
  dk_renameErr :: "string option"

definition decodeRaw :: "content \<Rightarrow> store_error + State" where
  "decodeRaw c =
     (case c of
        CEmpty \<Rightarrow> Inr emptyState
      | CBad \<Rightarrow> Inl SE_Decode
      | CDoc d \<Rightarrow> (case decState d of None \<Rightarrow> Inl SE_Decode | Some st \<Rightarrow> Inr (fill_nil st)))"

definition JSONFileStore_Load :: "string option \<Rightarrow> string \<Rightarrow> disk \<Rightarrow> store_error + State" where
  "JSONFileStore_Load ctxErr path d =
     (case ctxErr of
        Some e \<Rightarrow> Inl (SE_Context e)
      | None \<Rightarrow>
          (case mget (dk_files d) path of
             None \<Rightarrow> Inr emptyState
           | Some c \<Rightarrow>
               (case dk_readErr d of Some e \<Rightarrow> Inl (SE_IO e) | None \<Rightarrow> decodeRaw c)))"

text \<open>
  The disk after each system call of \<open>Save\<close>: the write of the temporary file (a failed write
  leaves it damaged), the removal of the old file, the rename.  \<open>json.Marshal\<close> of a state does
  not fail.
\<close>

definition writeTmp :: "string \<Rightarrow> State \<Rightarrow> disk \<Rightarrow> disk" where
  "writeTmp path st d = d\<lparr>dk_files := mput (path @ ''.tmp'')
     (if dk_writeErr d = None then CDoc (encState (fill_nil st)) else CBad) (dk_files d)\<rparr>"

definition removeOld :: "string \<Rightarrow> disk \<Rightarrow> disk" where
  "removeOld path d = d\<lparr>dk_files := mdel path (dk_files d)\<rparr>"

definition renameTmp :: "string \<Rightarrow> disk \<Rightarrow> disk" where
  "renameTmp path d =
     (case (dk_renameErr d, mget (dk_files d) (path @ ''.tmp'')) of
        (None, Some c) \<Rightarrow> d\<lparr>dk_files := mput path c (mdel (path @ ''.tmp'') (dk_files d))\<rparr>
      | _ \<Rightarrow> d)"

definition JSONFileStore_Save ::
  "string option \<Rightarrow> string \<Rightarrow> disk \<Rightarrow> State \<Rightarrow> store_error option \<times> disk" where
  "JSONFileStore_Save ctxErr path d st =
     (case ctxErr of
        Some e \<Rightarrow> (Some (SE_Context e), d)
      | None \<Rightarrow>
          (case dk_writeErr d of
             Some e \<Rightarrow> (Some (SE_IO e), writeTmp path st d)
           | None \<Rightarrow>
               (map_option SE_IO (dk_renameErr d),
                renameTmp path (removeOld path (writeTmp path st d)))))"

definition disk_ok :: "disk \<Rightarrow> bool" where
  "disk_ok d \<longleftrightarrow> dk_readErr d = None \<and> dk_writeErr d = None \<and> dk_renameErr d = None"

lemma tmp_path_differs [simp]: "path \<noteq> path @ ''.tmp''"
  by simp

lemma decodeRaw_enc: "state_wf st \<Longrightarrow> decodeRaw (CDoc (encState (fill_nil st))) = Inr (fill_nil st)"
  using decState_enc [of "fill_nil st"] by (auto simp: decodeRaw_def)

interpretation json_store: job_store "JSONFileStore_Load None path" "JSONFileStore_Save None path" disk_ok
  for path
  by unfold_locales
    (simp_all add: JSONFileStore_Save_def JSONFileStore_Load_def disk_ok_def writeTmp_def
      removeOld_def renameTmp_def decodeRaw_enc)

text \<open>
  \<open>PostgresStore\<close>: one row of a table, read by a query and written by an upsert.  The database
  is the row and the error its next statement returns, if any.
\<close>

record pgdb =
  pg_row :: "content option"
  pg_err :: "string option"

definition PostgresStore_Load :: "string option \<Rightarrow> pgdb \<Rightarrow> store_error + State" where
  "PostgresStore_Load ctxErr db =
     (case ctxErr of
        Some e \<Rightarrow> Inl (SE_Context e)
      | None \<Rightarrow>
          (case pg_err db of
             Some e \<Rightarrow> Inl (SE_IO (''load state: '' @ e))
           | None \<Rightarrow> (case pg_row db of None \<Rightarrow> Inr emptyState | Some c \<Rightarrow> decodeRaw c)))"

definition PostgresStore_Save :: "string option \<Rightarrow> pgdb \<Rightarrow> State \<Rightarrow> store_error option \<times> pgdb" where
  "PostgresStore_Save ctxErr db st =
     (case ctxErr of
        Some e \<Rightarrow> (Some (SE_Context e), db)
      | None \<Rightarrow>
          (case pg_err db of
             Some e \<Rightarrow> (Some (SE_IO (''save state: '' @ e)), db)
           | None \<Rightarrow> (None, db\<lparr>pg_row := Some (CDoc (encState (fill_nil st)))\<rparr>)))"

definition pg_ok :: "pgdb \<Rightarrow> bool" where
  "pg_ok db \<longleftrightarrow> pg_err db = None"

interpretation pg_store: job_store "PostgresStore_Load None" "PostgresStore_Save None" pg_ok
  by unfold_locales
    (simp_all add: PostgresStore_Save_def PostgresStore_Load_def pg_ok_def decodeRaw_enc)


section \<open>What a store keeps\<close>



text \<open>
  A save of the JSON file store is not atomic: if the process stops after the old file has been
  removed and before the rename, a later load finds no file and starts from the empty state, whose
  counter is zero, although the new state lies complete in the temporary file.
\<close>

theorem JSONFileStore_crash_window:
  "JSONFileStore_Load None path (removeOld path (writeTmp path st dk)) = Inr emptyState
   \<and> (dk_writeErr dk = None \<longrightarrow>
       mget (dk_files (removeOld path (writeTmp path st dk))) (path @ ''.tmp'')
         = Some (CDoc (encState (fill_nil st))))"
  by (simp add: JSONFileStore_Load_def removeOld_def writeTmp_def)

theorem JSONFileStore_crash_window_witness:
  "mget (dk_files (removeOld ''s.json'' (writeTmp ''s.json'' emptyState
     \<lparr>dk_files = [], dk_readErr = None, dk_writeErr = None, dk_renameErr = None\<rparr>)))
     (''s.json'' @ ''.tmp'') = Some (CDoc (encState (fill_nil emptyState)))"
  using JSONFileStore_crash_window [of "''s.json''" emptyState "\<lparr>dk_files = [], dk_readErr = None,
      dk_writeErr = None, dk_renameErr = None\<rparr>"] by simp

end
