(* ===== verification/Webhook_Store.thy ===== *)
theory Webhook_Store
  imports Job_Store
begin

text \<open>
  The log of webhook delivery attempts (\<open>internal/delivery/webhook/store.go\<close>): the record, the
  memory store and the JSON lines store.  The locale \<open>delivery_store\<close> is the contract between
  the dispatcher, which writes, and the orchestrator, which lists the records of a job.
\<close>

record DeliveryRecord =
  dr_DeliveryID :: string
  dr_EventID :: string
  dr_EventType :: string
  dr_JobID :: string
  dr_CallbackURL :: string
  dr_Attempt :: int
  dr_MaxAttempts :: int
  dr_Success :: bool
  dr_HTTPStatus :: "int option"
  dr_Error :: "string option"
  dr_RequestedAt :: string
  dr_DurationMs :: int
  dr_NextRetryAt :: "string option"
  dr_PayloadSHA256 :: string

section \<open>The contract\<close>

text \<open>
  The records of a job come back in the order they were written; \<open>fits\<close> says which records the
  store can hold and read back, \<open>good\<close> which stores work.
\<close>

locale delivery_store =
  fixes list_by_job :: "'d \<Rightarrow> string \<Rightarrow> string + DeliveryRecord list"
    and put :: "'d \<Rightarrow> DeliveryRecord \<Rightarrow> 'd"
    and recs :: "'d \<Rightarrow> DeliveryRecord list"
    and fits :: "DeliveryRecord \<Rightarrow> bool"
    and good :: "'d \<Rightarrow> bool"
  assumes recs_write: "good d \<Longrightarrow> fits r \<Longrightarrow> recs (put d r) = recs d @ [r]"
    and good_write: "good d \<Longrightarrow> fits r \<Longrightarrow> good (put d r)"
    and list_recs: "good d \<Longrightarrow> list_all fits (recs d) \<Longrightarrow>
      list_by_job d j = Inr (filter (\<lambda>r. dr_JobID r = TrimSpace j) (recs d))"
begin

fun write_all :: "'d \<Rightarrow> DeliveryRecord list \<Rightarrow> 'd" where
  "write_all d [] = d"
| "write_all d (r # rs) = write_all (put d r) rs"

lemma write_all_recs:
  "good d \<Longrightarrow> list_all fits rs \<Longrightarrow> recs (write_all d rs) = recs d @ rs \<and> good (write_all d rs)"
  by (induction rs arbitrary: d) (auto simp: recs_write good_write)

lemma foldl_write_all: "foldl put d rs = write_all d rs"
  by (induction rs arbitrary: d) auto

lemma list_write_all:
  assumes "good d" and "list_all fits (recs d)" and "list_all fits rs"
  shows "list_by_job (write_all d rs) j =
    Inr (filter (\<lambda>r. dr_JobID r = TrimSpace j) (recs d @ rs))"
  using write_all_recs [OF assms(1,3)] assms by (simp add: list_recs)

end


section \<open>The memory store\<close>

definition MemoryStore_Write :: "DeliveryRecord list \<Rightarrow> DeliveryRecord \<Rightarrow> DeliveryRecord list" where
  "MemoryStore_Write rs r = rs @ [r]"

definition MemoryStore_Records :: "DeliveryRecord list \<Rightarrow> DeliveryRecord list" where
  "MemoryStore_Records rs = rs"

definition MemoryStore_ListByJobID ::
  "string option \<Rightarrow> DeliveryRecord list \<Rightarrow> string \<Rightarrow> string + DeliveryRecord list" where
  "MemoryStore_ListByJobID ctxErr rs jobID0 =
     (case ctxErr of
        Some e \<Rightarrow> Inl e
      | None \<Rightarrow> (let jobID = TrimSpace jobID0
                 in Inr (filter (\<lambda>r. dr_JobID r = jobID) rs)))"

interpretation mem_deliveries: delivery_store "MemoryStore_ListByJobID None" MemoryStore_Write
  MemoryStore_Records "\<lambda>_. True" "\<lambda>_. True"
  by unfold_locales
    (simp_all add: MemoryStore_Write_def MemoryStore_ListByJobID_def MemoryStore_Records_def)


section \<open>The JSON lines store\<close>

definition encRecord :: "DeliveryRecord \<Rightarrow> doc" where
  "encRecord r = dobj [(''delivery_id'', w_str (dr_DeliveryID r)),
     (''event_id'', w_str (dr_EventID r)), (''event_type'', w_str (dr_EventType r)),
     (''job_id'', w_str_omit (dr_JobID r)), (''callback_url'', w_str (dr_CallbackURL r)),
     (''attempt'', w_int (dr_Attempt r)), (''max_attempts'', w_int (dr_MaxAttempts r)),
     (''success'', Some (DBool (dr_Success r))),
     (''http_status'', map_option DInt (dr_HTTPStatus r)),
     (''error'', map_option DStr (dr_Error r)), (''requested_at'', w_str (dr_RequestedAt r)),
     (''duration_ms'', w_int (dr_DurationMs r)),
     (''next_retry_at'', map_option DStr (dr_NextRetryAt r)),
     (''payload_sha256'', w_str (dr_PayloadSHA256 r))]"

definition decRecord :: "doc \<Rightarrow> DeliveryRecord option" where
  "decRecord d = do {
     fs \<leftarrow> fields_of d;
     di \<leftarrow> r_str (map_of fs ''delivery_id'');
     ei \<leftarrow> r_str (map_of fs ''event_id'');
     et \<leftarrow> r_str (map_of fs ''event_type'');
     ji \<leftarrow> r_str (map_of fs ''job_id'');
     cu \<leftarrow> r_str (map_of fs ''callback_url'');
     att \<leftarrow> r_int (map_of fs ''attempt'');
     ma \<leftarrow> r_int (map_of fs ''max_attempts'');
     su \<leftarrow> r_bool (map_of fs ''success'');
     hs \<leftarrow> r_ptr r_int (map_of fs ''http_status'');
     er \<leftarrow> r_ptr r_str (map_of fs ''error'');
     ra \<leftarrow> r_str (map_of fs ''requested_at'');
     du \<leftarrow> r_int (map_of fs ''duration_ms'');
     nr \<leftarrow> r_ptr r_str (map_of fs ''next_retry_at'');
     ps \<leftarrow> r_str (map_of fs ''payload_sha256'');
     Some \<lparr>dr_DeliveryID = di, dr_EventID = ei, dr_EventType = et, dr_JobID = ji,
       dr_CallbackURL = cu, dr_Attempt = att, dr_MaxAttempts = ma, dr_Success = su,
       dr_HTTPStatus = hs, dr_Error = er, dr_RequestedAt = ra, dr_DurationMs = du,
       dr_NextRetryAt = nr, dr_PayloadSHA256 = ps\<rparr> }"

lemma decRecord_enc [doc_simps]: "decRecord (encRecord r) = Some r"
  by (simp add: decRecord_def encRecord_def dobj_def dfields_lookup doc_simps)

text \<open>
  The file is a list of lines: a line is its length in bytes and its document, if it is one.
  \<open>bytes\<close> is the length of an encoded record.  \<open>bufio.Scanner\<close> reads lines shorter than its
  buffer of 64 KiB and stops with an error at a longer one.
\<close>

record jsonl =
  jl_exists :: bool
  jl_lines :: "(nat \<times> doc option) list"
  jl_openErr :: "string option"

definition maxScanTokenSize :: nat where "maxScanTokenSize = 64 * 1024"

definition JSONLStore_Write ::
  "(DeliveryRecord \<Rightarrow> nat) \<Rightarrow> jsonl \<Rightarrow> DeliveryRecord \<Rightarrow> string option \<times> jsonl" where
  "JSONLStore_Write bytes s r =
     (case jl_openErr s of
        Some e \<Rightarrow> (Some e, s)
      | None \<Rightarrow> (None, s\<lparr>jl_exists := True,
                   jl_lines := jl_lines s @ [(bytes r, Some (encRecord r))]\<rparr>))"

fun scan_lines :: "string \<Rightarrow> (nat \<times> doc option) list \<Rightarrow> string + DeliveryRecord list" where
  "scan_lines jobID [] = Inr []"
| "scan_lines jobID ((n, d) # ls) =
     (if maxScanTokenSize \<le> n then Inl ''bufio.Scanner: token too long''
      else (case scan_lines jobID ls of
              Inl e \<Rightarrow> Inl e
            | Inr rs \<Rightarrow>
                Inr (if n = 0 then rs
                     else (case Option.bind d decRecord of
                             None \<Rightarrow> rs
                           | Some r \<Rightarrow> if dr_JobID r = jobID then r # rs else rs))))"

definition JSONLStore_ListByJobID ::
  "string option \<Rightarrow> jsonl \<Rightarrow> string \<Rightarrow> string + DeliveryRecord list" where
  "JSONLStore_ListByJobID ctxErr s jobID0 =
     (case ctxErr of
        Some e \<Rightarrow> Inl e
      | None \<Rightarrow>
          (let jobID = TrimSpace jobID0
           in if \<not> jl_exists s then Inr []
              else (case jl_openErr s of
                      Some e \<Rightarrow> Inl e
                    | None \<Rightarrow> scan_lines jobID (jl_lines s))))"

definition line_recs :: "(nat \<times> doc option) list \<Rightarrow> DeliveryRecord list" where
  "line_recs ls =
     concat (map (\<lambda>(n, d). case Option.bind d decRecord of None \<Rightarrow> [] | Some r \<Rightarrow> [r]) ls)"

definition jl_recs :: "jsonl \<Rightarrow> DeliveryRecord list" where
  "jl_recs s = line_recs (jl_lines s)"

definition jl_fits :: "(DeliveryRecord \<Rightarrow> nat) \<Rightarrow> DeliveryRecord \<Rightarrow> bool" where
  "jl_fits bytes r \<longleftrightarrow> 0 < bytes r \<and> bytes r < maxScanTokenSize"

definition jl_good :: "(DeliveryRecord \<Rightarrow> nat) \<Rightarrow> jsonl \<Rightarrow> bool" where
  "jl_good bytes s \<longleftrightarrow> jl_openErr s = None
     \<and> list_all (\<lambda>l. \<exists>r. l = (bytes r, Some (encRecord r))) (jl_lines s)
     \<and> (jl_exists s \<or> jl_lines s = [])"

lemma jl_recs_snoc:
  "jl_recs (s\<lparr>jl_exists := b, jl_lines := ls @ [(n, Some (encRecord r))]\<rparr>) =
     jl_recs (s\<lparr>jl_lines := ls\<rparr>) @ [r]"
  by (simp add: jl_recs_def line_recs_def doc_simps)

lemma scan_lines_recs:
  assumes "list_all (\<lambda>l. \<exists>r. l = (bytes r, Some (encRecord r))) ls"
    and "list_all (jl_fits bytes) (line_recs ls)"
  shows "scan_lines j ls =
    Inr (filter (\<lambda>r. dr_JobID r = j) (line_recs ls))"
  using assms
  by (induction ls) (auto simp: line_recs_def jl_fits_def doc_simps)

interpretation jsonl_deliveries: delivery_store "JSONLStore_ListByJobID None"
  "\<lambda>s r. snd (JSONLStore_Write bytes s r)" jl_recs "jl_fits bytes" "jl_good bytes"
  for bytes
proof unfold_locales
  fix d r
  assume g: "jl_good bytes d" and f: "jl_fits bytes r"
  show "jl_recs (snd (JSONLStore_Write bytes d r)) = jl_recs d @ [r]"
    using g by (simp add: JSONLStore_Write_def jl_good_def jl_recs_snoc)
  show "jl_good bytes (snd (JSONLStore_Write bytes d r))"
    using g by (auto simp: JSONLStore_Write_def jl_good_def)
next
  fix d j
  assume g: "jl_good bytes d" and f: "list_all (jl_fits bytes) (jl_recs d)"
  then show "JSONLStore_ListByJobID None d j =
      Inr (filter (\<lambda>r. dr_JobID r = TrimSpace j) (jl_recs d))"
    by (auto simp: JSONLStore_ListByJobID_def jl_good_def jl_recs_def scan_lines_recs
        line_recs_def Let_def)
qed


section \<open>Listing the records of a job\<close>

text \<open>
  Both stores list exactly the records of a job, in the order in which they were written, for
  the file store as long as every record takes less than 64 KiB.
\<close>

theorem delivery_records_listed:
  assumes "jl_good bytes s" and "list_all (jl_fits bytes) (jl_recs s)" and "list_all (jl_fits bytes) rs"
  shows "MemoryStore_ListByJobID None (mem_deliveries.write_all ms rs) j
      = Inr (filter (\<lambda>r. dr_JobID r = TrimSpace j) (ms @ rs))
    \<and> JSONLStore_ListByJobID None (jsonl_deliveries.write_all bytes s rs) j
      = Inr (filter (\<lambda>r. dr_JobID r = TrimSpace j) (jl_recs s @ rs))"
  using mem_deliveries.list_write_all [of ms rs j] jsonl_deliveries.list_write_all [OF assms]
  by (simp add: MemoryStore_Records_def list_all_iff)

definition demoRecord :: "string \<Rightarrow> int \<Rightarrow> DeliveryRecord" where
  "demoRecord j n = \<lparr>dr_DeliveryID = ''d'', dr_EventID = ''e'', dr_EventType = ''t'', dr_JobID = j,
     dr_CallbackURL = ''u'', dr_Attempt = n, dr_MaxAttempts = 3, dr_Success = False,
     dr_HTTPStatus = None, dr_Error = None, dr_RequestedAt = [], dr_DurationMs = 0,
     dr_NextRetryAt = None, dr_PayloadSHA256 = []\<rparr>"

theorem delivery_records_listed_witness:
  "JSONLStore_ListByJobID None (jsonl_deliveries.write_all (\<lambda>_. 100)
     \<lparr>jl_exists = False, jl_lines = [], jl_openErr = None\<rparr>
     [demoRecord ''job_1'' 1, demoRecord ''job_2'' 1, demoRecord ''job_1'' 2]) ''job_1''
   = Inr [demoRecord ''job_1'' 1, demoRecord ''job_1'' 2]"
  using delivery_records_listed [of "\<lambda>_. 100" "\<lparr>jl_exists = False, jl_lines = [], jl_openErr = None\<rparr>"
      "[demoRecord ''job_1'' 1, demoRecord ''job_2'' 1, demoRecord ''job_1'' 2]" "[]" "''job_1''"]
  by (simp add: jl_good_def jl_fits_def jl_recs_def line_recs_def maxScanTokenSize_def demoRecord_def
      TrimSpace_visible visible_def)

lemma JSONLStore_Write_ok:
  "jl_openErr s = None \<Longrightarrow> snd (JSONLStore_Write bytes s r)
     = s\<lparr>jl_exists := True, jl_lines := jl_lines s @ [(bytes r, Some (encRecord r))]\<rparr>"
  by (simp add: JSONLStore_Write_def)

lemma scan_lines_long:
  "(n, l) \<in> set ls \<Longrightarrow> maxScanTokenSize \<le> n \<Longrightarrow>
     scan_lines j ls = Inl ''bufio.Scanner: token too long''"
  by (induction ls) (auto split: sum.splits)

text \<open>
  One record of 64 KiB or more makes the file store unreadable: after it has been written, the
  records of no job can be listed any more, whatever is written later.
\<close>

theorem long_record_blocks_listing:
  assumes "jl_openErr s = None" and "maxScanTokenSize \<le> bytes r"
  shows "JSONLStore_ListByJobID None (jsonl_deliveries.write_all bytes
      (snd (JSONLStore_Write bytes s r)) rs) j = Inl ''bufio.Scanner: token too long''"
proof -
  have "jl_openErr (jsonl_deliveries.write_all bytes t rs) = None
      \<and> jl_exists (jsonl_deliveries.write_all bytes t rs)
      \<and> x \<in> set (jl_lines (jsonl_deliveries.write_all bytes t rs))"
    if "jl_openErr t = None" "jl_exists t" "x \<in> set (jl_lines t)" for t x
    using that by (induction rs arbitrary: t) (simp_all add: JSONLStore_Write_ok)
  from this [of "snd (JSONLStore_Write bytes s r)" "(bytes r, Some (encRecord r))"] assms show ?thesis
    by (auto simp: JSONLStore_Write_ok JSONLStore_ListByJobID_def Let_def intro!: scan_lines_long)
qed

theorem long_record_blocks_listing_witness:
  "JSONLStore_ListByJobID None (jsonl_deliveries.write_all (\<lambda>_. 70000)
     (snd (JSONLStore_Write (\<lambda>_. 70000) \<lparr>jl_exists = False, jl_lines = [], jl_openErr = None\<rparr>
       (demoRecord ''job_1'' 1))) []) ''job_2'' = Inl ''bufio.Scanner: token too long''"
  by (rule long_record_blocks_listing) (simp_all add: maxScanTokenSize_def)

end
