(* ===== verification/Job_Queue.thy ===== *)
theory Job_Queue
  imports Go_Maps
begin

text \<open>
  The job queue of the orchestrator (\<open>internal/orchestrator/queue.go\<close>).  The locale \<open>job_queue\<close>
  is the \<open>jobQueue\<close> interface: what an enqueue and a dequeue do to the ids the queue holds.  The
  memory queue is a bounded channel; a \<open>select\<close> is the list of its possible outcomes, empty when
  it blocks.
\<close>

section \<open>The interface\<close>

locale job_queue =
  fixes enq :: "'q \<Rightarrow> string \<Rightarrow> string option \<times> 'q"
    and deq :: "'q \<Rightarrow> (string \<times> 'q) option"
    and depth :: "'q \<Rightarrow> int"
    and contents :: "'q \<Rightarrow> string list"
    and room :: "'q \<Rightarrow> nat"
    and invar :: "'q \<Rightarrow> bool"
  assumes enq_ok: "invar q \<Longrightarrow> 0 < room q \<Longrightarrow> fst (enq q x) = None"
    and enq_contents: "invar q \<Longrightarrow> enq q x = (None, q') \<Longrightarrow> contents q' = contents q @ [x]"
    and enq_room: "invar q \<Longrightarrow> enq q x = (None, q') \<Longrightarrow> Suc (room q') = room q"
    and enq_err: "invar q \<Longrightarrow> enq q x = (Some e, q') \<Longrightarrow> q' = q"
    and deq_some: "invar q \<Longrightarrow> deq q = Some (x, q') \<Longrightarrow> contents q = x # contents q'"
    and deq_none: "invar q \<Longrightarrow> deq q = None \<longleftrightarrow> contents q = []"
    and depth_contents: "invar q \<Longrightarrow> depth q = int (length (contents q))"
    and invar_enq: "invar q \<Longrightarrow> invar (snd (enq q x))"
    and invar_deq: "invar q \<Longrightarrow> deq q = Some (x, q') \<Longrightarrow> invar q'"
begin

text \<open>Enqueueing a list of ids one after the other, as the restart does.\<close>

fun enq_all :: "'q \<Rightarrow> string list \<Rightarrow> 'q" where
  "enq_all q [] = q"
| "enq_all q (x # xs) = enq_all (snd (enq q x)) xs"

lemma enq_contents_cases:
  "invar q \<Longrightarrow> contents (snd (enq q x)) = contents q \<or> contents (snd (enq q x)) = contents q @ [x]"
  by (cases "enq q x"; cases "fst (enq q x)") (auto dest: enq_contents enq_err)

lemma enq_mset:
  "invar q \<Longrightarrow> mset (contents (snd (enq q x))) \<subseteq># add_mset x (mset (contents q))"
  using enq_contents_cases [of q x] by auto

lemma enq_all_contents:
  "invar q \<Longrightarrow> length xs \<le> room q \<Longrightarrow>
     contents (enq_all q xs) = contents q @ xs \<and> invar (enq_all q xs)"
proof (induction xs arbitrary: q)
  case Nil
  then show ?case by simp
next
  case (Cons x xs)
  obtain e q' where q': "enq q x = (e, q')" by (cases "enq q x")
  with Cons.prems enq_ok [of q x] have "enq q x = (None, q')" by simp
  note step = enq_contents [OF Cons.prems(1) this] enq_room [OF Cons.prems(1) this]
  from Cons.prems q' have "invar q'" using invar_enq [of q x] by simp
  with Cons.IH [of q'] Cons.prems step q' show ?case by simp
qed

text \<open>
  A run of a queue: a list of operations, an enqueue of an id or a dequeue.  The results are the
  ids that were accepted, the ids that were taken out, and the queue at the end.
\<close>

fun run_queue :: "string option list \<Rightarrow> 'q \<Rightarrow> string list \<times> string list \<times> 'q" where
  "run_queue [] q = ([], [], q)"
| "run_queue (Some x # ops) q =
     (let (e, q') = enq q x; (accepted, taken, q'') = run_queue ops q'
      in (if e = None then x # accepted else accepted, taken, q''))"
| "run_queue (None # ops) q =
     (case deq q of
        None \<Rightarrow> run_queue ops q
      | Some (x, q') \<Rightarrow> (let (accepted, taken, q'') = run_queue ops q' in (accepted, x # taken, q'')))"

lemma run_queue_order:
  "invar q \<Longrightarrow> run_queue ops q = (accepted, taken, q') \<Longrightarrow>
     taken @ contents q' = contents q @ accepted \<and> invar q'"
proof (induction ops q arbitrary: accepted taken q' rule: run_queue.induct)
  case (1 q)
  then show ?case by simp
next
  case (2 x ops q)
  obtain e r where r: "enq q x = (e, r)" by (cases "enq q x")
  obtain acc tk r' where run: "run_queue ops r = (acc, tk, r')" by (cases "run_queue ops r")
  from r 2(2) have inv: "invar r" using invar_enq [of q x] by simp
  have "contents r = contents q @ (if e = None then [x] else [])"
    using 2(2) r enq_contents [of q x r] enq_err [of q x _ r] by (cases e) simp_all
  moreover have "tk @ contents r' = contents r @ acc \<and> invar r'"
    by (rule 2(1) [OF r [symmetric] refl inv run])
  moreover have "accepted = (if e = None then x # acc else acc)" "taken = tk" "q' = r'"
    using 2(3) r run by auto
  ultimately show ?case by simp
next
  case (3 ops q)
  show ?case
  proof (cases "deq q")
    case None
    from 3(1) [OF None 3(3)] 3(4) None show ?thesis by simp
  next
    case (Some p)
    obtain x r where p: "p = (x, r)" by (cases p)
    obtain acc tk r' where run: "run_queue ops r = (acc, tk, r')" by (cases "run_queue ops r")
    from Some p 3(3) have "invar r" "contents q = x # contents r" by (auto dest: invar_deq deq_some)
    moreover from 3(2) [OF Some p [symmetric] \<open>invar r\<close> run]
    have "tk @ contents r' = contents r @ acc \<and> invar r'" .
    moreover have "accepted = acc" "taken = x # tk" "q' = r'" using 3(4) Some p run by auto
    ultimately show ?thesis by simp
  qed
qed

text \<open>First in, first out: a dequeue takes the oldest id.\<close>

lemma fifo:
  assumes "invar q" and "contents q = y # ys" and "enq q x = (None, q')"
    and "deq q' = Some (z, q'')"
  shows "z = y \<and> contents q'' = ys @ [x]"
proof -
  from assms have "contents q' = y # ys @ [x]" using enq_contents [of q x q'] by simp
  moreover have "invar q'" using invar_enq [OF assms(1), of x] assms(3) by simp
  ultimately show ?thesis using deq_some [of q' z q''] assms(4) by simp
qed

end


section \<open>The memory queue\<close>

record memoryQueue =
  mq_ch :: "string list"
  mq_cap :: nat
  mq_closed :: bool

definition newMemoryQueue :: "int \<Rightarrow> memoryQueue" where
  "newMemoryQueue sz =
     (let n = (if sz \<le> 0 then 256 else sz)
      in \<lparr>mq_ch = [], mq_cap = nat n, mq_closed = False\<rparr>)"

definition ctxCanceled :: string where "ctxCanceled = ''context canceled''"
definition ctxDeadlineExceeded :: string where
  "ctxDeadlineExceeded = ''context deadline exceeded''"

text \<open>
  The outcomes of \<open>Enqueue\<close> when the context is done with the given error or not done: the
  \<open>select\<close> may take the context's case when it is done and the send when the buffer has room;
  with neither it blocks.
\<close>

definition memoryQueue_Enqueue ::
  "string option \<Rightarrow> memoryQueue \<Rightarrow> string \<Rightarrow> (string option \<times> memoryQueue) list" where
  "memoryQueue_Enqueue ctxErr q jobID =
     (if mq_closed q then [(Some ''queue closed'', q)]
      else (case ctxErr of None \<Rightarrow> [] | Some e \<Rightarrow> [(Some e, q)])
        @ (if length (mq_ch q) < mq_cap q then [(None, q\<lparr>mq_ch := mq_ch q @ [jobID]\<rparr>)] else []))"

text \<open>\<open>Dequeue\<close>; the channel itself is never closed, so a receive always has a value.\<close>

definition memoryQueue_Dequeue ::
  "string option \<Rightarrow> memoryQueue \<Rightarrow> ((string + string) \<times> memoryQueue) list" where
  "memoryQueue_Dequeue ctxErr q =
     (case ctxErr of None \<Rightarrow> [] | Some e \<Rightarrow> [(Inl e, q)])
     @ (case mq_ch q of [] \<Rightarrow> [] | x # xs \<Rightarrow> [(Inr x, q\<lparr>mq_ch := xs\<rparr>)])"

definition memoryQueue_Depth :: "memoryQueue \<Rightarrow> int" where
  "memoryQueue_Depth q = int (length (mq_ch q))"

definition memoryQueue_Close :: "memoryQueue \<Rightarrow> memoryQueue" where
  "memoryQueue_Close q = q\<lparr>mq_closed := True\<rparr>"

text \<open>
  An enqueue that waits at most as long as its timeout while nobody receives: it takes the
  outcome that is ready at once, and when it blocks, the one after the deadline.
\<close>

definition enqueueWithin :: "memoryQueue \<Rightarrow> string \<Rightarrow> string option \<times> memoryQueue" where
  "enqueueWithin q jobID =
     (case memoryQueue_Enqueue None q jobID of
        r # _ \<Rightarrow> r
      | [] \<Rightarrow> hd (memoryQueue_Enqueue (Some ctxDeadlineExceeded) q jobID))"

definition tryDequeue :: "memoryQueue \<Rightarrow> (string \<times> memoryQueue) option" where
  "tryDequeue q =
     (case memoryQueue_Dequeue None q of (Inr x, q') # _ \<Rightarrow> Some (x, q') | _ \<Rightarrow> None)"

definition mq_room :: "memoryQueue \<Rightarrow> nat" where
  "mq_room q = (if mq_closed q then 0 else mq_cap q - length (mq_ch q))"

definition mq_invar :: "memoryQueue \<Rightarrow> bool" where
  "mq_invar q \<longleftrightarrow> length (mq_ch q) \<le> mq_cap q"

lemma enqueueWithin_cases:
  "enqueueWithin q x =
     (if mq_closed q then (Some ''queue closed'', q)
      else if length (mq_ch q) < mq_cap q then (None, q\<lparr>mq_ch := mq_ch q @ [x]\<rparr>)
      else (Some ctxDeadlineExceeded, q))"
  by (simp add: enqueueWithin_def memoryQueue_Enqueue_def)

lemma tryDequeue_cases:
  "tryDequeue q = (case mq_ch q of [] \<Rightarrow> None | x # xs \<Rightarrow> Some (x, q\<lparr>mq_ch := xs\<rparr>))"
  by (simp add: tryDequeue_def memoryQueue_Dequeue_def split: list.splits)

interpretation mem_queue: job_queue enqueueWithin tryDequeue memoryQueue_Depth mq_ch mq_room mq_invar
  by unfold_locales
    (auto simp: enqueueWithin_cases tryDequeue_cases mq_room_def mq_invar_def
      memoryQueue_Depth_def split: if_splits list.splits)

lemma newMemoryQueue_invar [simp]: "mq_invar (newMemoryQueue n)"
  by (simp add: mq_invar_def newMemoryQueue_def Let_def)

lemma newMemoryQueue_capacity: "0 < mq_cap (newMemoryQueue n)"
  by (simp add: newMemoryQueue_def Let_def)




end
