(* ===== verification/Orch_State.thy ===== *)
theory Orch_State
  imports Webhook_Store Job_Queue
begin

text \<open>
  The orchestrator's data and helpers (\<open>internal/orchestrator/server.go\<close>): experts, jobs,
  idempotency records, the dead letter queue and the operations every handler shares.

  The server record holds what the Go struct holds under its mutex, the store and the queue, and
  the list of webhook deliveries it has started (\<open>go s.dispatchJobCompletedWebhook\<close>).  What the
  server calls through an interface, or a library computes, is the record \<open>deps\<close>.  Every reading of
  the clock is an argument, one per call of \<open>s.now()\<close>, so that the clock may advance inside a
  handler.  Log lines are not modelled.
\<close>

section \<open>Data\<close>

abbreviation statusQueued :: string where "statusQueued \<equiv> JobStatusQueued"
abbreviation statusRunning :: string where "statusRunning \<equiv> JobStatusRunning"
abbreviation statusSucceeded :: string where "statusSucceeded \<equiv> JobStatusSucceeded"
abbreviation statusFailed :: string where "statusFailed \<equiv> JobStatusFailed"
abbreviation statusCanceled :: string where "statusCanceled \<equiv> JobStatusCanceled"
abbreviation statusExpired :: string where "statusExpired \<equiv> JobStatusExpired"

record expertMetadata =
  em_ExpertID :: string
  em_ExpertName :: string
  em_ExpertType :: string
  em_Version :: string
  em_Supports :: "string list"

record job =
  jb_ID :: string
  jb_TenantID :: string
  jb_ProjectID :: string
  jb_ExpertID :: string
  jb_ExpertName :: string
  jb_ExpertType :: string
  jb_Date :: string
  jb_Status :: string
  jb_Progress :: int
  jb_SubmittedAt :: time
  jb_UpdatedAt :: time
  jb_Attempt :: int
  jb_MaxAttempts :: int
  jb_ExpiresAt :: "time option"
  jb_LastError :: "string option"
  jb_Result :: "ExpertResult option"
  jb_Callback :: "CallbackConfig option"

record idempotencyRecord =
  ir_PayloadHash :: string
  ir_JobID :: string

record ('q, 'st) Server =
  sv_experts :: "expertMetadata gomap"
  sv_jobs :: "job gomap"
  sv_idem :: "idempotencyRecord gomap"
  sv_dlq :: "DeadLetterEntry gomap"
  sv_nextID :: "64 word"
  sv_stateStore :: 'st
  sv_queue :: 'q
  sv_maxAttempts :: int
  sv_jobTTL :: duration
  sv_webhooks :: "(string \<times> CallbackConfig) list"

text \<open>
  What the server calls: \<open>queue.Enqueue\<close> and \<open>Depth\<close>, \<open>stateStore.Save\<close>, the optional
  \<open>deliveryRead.ListByJobID\<close>, and \<open>json.Marshal\<close> and \<open>sha256.Sum256\<close> of a submit request.
\<close>

record ('q, 'st) deps =
  dp_Enqueue :: "'q \<Rightarrow> string \<Rightarrow> string option \<times> 'q"
  dp_Depth :: "'q \<Rightarrow> int"
  dp_Save :: "'st \<Rightarrow> State \<Rightarrow> store_error option \<times> 'st"
  dp_deliveryRead :: "(string \<Rightarrow> string + DeliveryRecord list) option"
  dp_marshal :: "SubmitBriefRequest \<Rightarrow> string option"
  dp_sha256 :: "string \<Rightarrow> string"


section \<open>Helpers\<close>

definition terminal :: "string \<Rightarrow> bool" where
  "terminal st \<longleftrightarrow> st = statusSucceeded \<or> st = statusFailed \<or> st = statusCanceled
     \<or> st = statusExpired"

definition inferStatus :: "string \<Rightarrow> int" where
  "inferStatus code =
     (if code = ''invalid-request'' then StatusBadRequest
      else if code = ''idempotency-mismatch'' then StatusConflict
      else if code = ''not-found'' then StatusNotFound
      else if code = ''result-not-ready'' then StatusConflict
      else if code = ''invalid-transition'' then StatusConflict
      else if code = ''internal-error'' then StatusInternalServerError
      else StatusInternalServerError)"

definition problem :: "string \<Rightarrow> string \<Rightarrow> string \<Rightarrow> string \<Rightarrow> string \<Rightarrow> Problem" where
  "problem inst requestID code title detail =
     \<lparr>pb_Type = ''https://api.cova.example.com/errors/'' @ code, pb_Title = title,
      pb_Status = inferStatus code, pb_Detail = Some detail, pb_Instance = Some inst,
      pb_RequestId = Some requestID\<rparr>"

text \<open>\<open>reqNow\<close> is the reading of \<open>time.Now().UnixNano()\<close>.\<close>

definition normalizeRequestID :: "time \<Rightarrow> string \<Rightarrow> string" where
  "normalizeRequestID reqNow raw =
     (let requestID = TrimSpace raw
      in if requestID \<noteq> [] then requestID else ''req_'' @ dec_int reqNow)"

definition ptrValue :: "string option \<Rightarrow> string" where
  "ptrValue v = (case v of None \<Rightarrow> [] | Some s \<Rightarrow> s)"

definition expertTypePtr :: "string \<Rightarrow> ExpertType option" where
  "expertTypePtr v = (if TrimSpace v = [] then None else Some v)"

definition cloneCallbackConfig :: "CallbackConfig option \<Rightarrow> CallbackConfig option" where
  "cloneCallbackConfig inp =
     (case inp of
        None \<Rightarrow> None
      | Some c \<Rightarrow>
          if TrimSpace (cb_Url c) = [] then None
          else Some \<lparr>cb_Url = TrimSpace (cb_Url c),
                     cb_Signing = map_option (\<lambda>g. \<lparr>sig_Algorithm = TrimSpace (sig_Algorithm g),
                       sig_SecretRef = sig_SecretRef g\<rparr>) (cb_Signing c)\<rparr>)"

definition scopedIdempotencyKey :: "string \<Rightarrow> string \<Rightarrow> string \<Rightarrow> string" where
  "scopedIdempotencyKey tenantID projectID raw0 =
     (let raw = TrimSpace raw0
      in if raw = [] then [] else tenantID @ ''::'' @ projectID @ ''::'' @ raw)"

definition isExpired :: "job \<Rightarrow> time \<Rightarrow> bool" where
  "isExpired j now = (case jb_ExpiresAt j of None \<Rightarrow> False | Some e \<Rightarrow> After now e)"

definition markExpired :: "job \<Rightarrow> time \<Rightarrow> job" where
  "markExpired j now = j\<lparr>jb_Status := statusExpired, jb_UpdatedAt := now\<rparr>"

definition jobInScope :: "job \<Rightarrow> string \<Rightarrow> string \<Rightarrow> bool" where
  "jobInScope j tenantID projectID \<longleftrightarrow> jb_TenantID j = tenantID \<and> jb_ProjectID j = projectID"

definition expertSupports :: "expertMetadata \<Rightarrow> string \<Rightarrow> bool" where
  "expertSupports expert cap = list_ex (\<lambda>item. TrimSpace item = cap) (em_Supports expert)"

definition maxInt :: "int \<Rightarrow> int \<Rightarrow> int" where
  "maxInt a b = (if b < a then a else b)"

definition estimateTokens :: "string \<Rightarrow> int" where
  "estimateTokens text =
     (let trimmed = TrimSpace text
      in if trimmed = [] then 0 else (int (length trimmed) + 3) div 4)"

definition hashRequestPayload :: "('q, 'st) deps \<Rightarrow> SubmitBriefRequest \<Rightarrow> string option" where
  "hashRequestPayload d req = map_option (\<lambda>raw. hex_encode (dp_sha256 d raw)) (dp_marshal d req)"

definition lookupExpert :: "('q, 'st) Server \<Rightarrow> string \<Rightarrow> expertMetadata option" where
  "lookupExpert s expertID = mget (sv_experts s) expertID"


section \<open>Persistence and the queue\<close>

definition storedJob :: "job \<Rightarrow> Job" where
  "storedJob j =
     \<lparr>sj_ID = jb_ID j, sj_TenantID = jb_TenantID j, sj_ProjectID = jb_ProjectID j,
      sj_ExpertID = jb_ExpertID j, sj_ExpertName = jb_ExpertName j,
      sj_ExpertType = jb_ExpertType j, sj_Date = jb_Date j, sj_Status = jb_Status j,
      sj_Progress = jb_Progress j, sj_SubmittedAt = jb_SubmittedAt j,
      sj_UpdatedAt = jb_UpdatedAt j, sj_Attempt = jb_Attempt j,
      sj_MaxAttempts = jb_MaxAttempts j, sj_ExpiresAt = jb_ExpiresAt j,
      sj_LastError = jb_LastError j, sj_Result = jb_Result j,
      sj_Callback = cloneCallbackConfig (jb_Callback j)\<rparr>"

text \<open>The state \<open>persistLocked\<close> builds.\<close>

definition stateOf :: "('q, 'st) Server \<Rightarrow> State" where
  "stateOf s =
     \<lparr>ss_NextID = sv_nextID s,
      ss_Jobs = Some (mmap storedJob (sv_jobs s)),
      ss_Idempotency = Some (mmap (\<lambda>r. \<lparr>ie_PayloadHash = ir_PayloadHash r,
        ie_JobID = ir_JobID r\<rparr>) (sv_idem s)),
      ss_DeadLetters = Some (sv_dlq s)\<rparr>"

text \<open>An error of \<open>Save\<close> is logged and dropped.\<close>

definition persistLocked :: "('q, 'st) deps \<Rightarrow> ('q, 'st) Server \<Rightarrow> ('q, 'st) Server" where
  "persistLocked d s = s\<lparr>sv_stateStore := snd (dp_Save d (sv_stateStore s) (stateOf s))\<rparr>"

text \<open>An error of \<open>Enqueue\<close> is logged and dropped.\<close>

definition enqueue :: "('q, 'st) deps \<Rightarrow> ('q, 'st) Server \<Rightarrow> string \<Rightarrow> ('q, 'st) Server" where
  "enqueue d s jobID = s\<lparr>sv_queue := snd (dp_Enqueue d (sv_queue s) jobID)\<rparr>"

definition putJob :: "string \<Rightarrow> job \<Rightarrow> ('q, 'st) Server \<Rightarrow> ('q, 'st) Server" where
  "putJob jobID j s = s\<lparr>sv_jobs := mput jobID j (sv_jobs s)\<rparr>"

definition getJob :: "('q, 'st) Server \<Rightarrow> string \<Rightarrow> job option" where
  "getJob s jobID = mget (sv_jobs s) jobID"

definition expireJobIfNeeded ::
  "('q, 'st) deps \<Rightarrow> time \<Rightarrow> string \<Rightarrow> ('q, 'st) Server \<Rightarrow> ('q, 'st) Server" where
  "expireJobIfNeeded d now jobID s =
     (case getJob s jobID of
        None \<Rightarrow> s
      | Some current \<Rightarrow>
          if terminal (jb_Status current) then s
          else if isExpired current now
               then persistLocked d (putJob jobID (markExpired current now) s)
               else s)"

text \<open>What the shared operations leave unchanged.\<close>

lemma persistLocked_frame [simp, frame_simps]:
  "sv_experts (persistLocked d s) = sv_experts s" "sv_jobs (persistLocked d s) = sv_jobs s"
  "sv_idem (persistLocked d s) = sv_idem s" "sv_dlq (persistLocked d s) = sv_dlq s"
  "sv_nextID (persistLocked d s) = sv_nextID s" "sv_queue (persistLocked d s) = sv_queue s"
  "sv_maxAttempts (persistLocked d s) = sv_maxAttempts s"
  "sv_jobTTL (persistLocked d s) = sv_jobTTL s"
  "sv_webhooks (persistLocked d s) = sv_webhooks s"
  "getJob (persistLocked d s) = getJob s"
  by (simp_all add: persistLocked_def getJob_def fun_eq_iff)

lemma enqueue_frame [simp, frame_simps]:
  "sv_experts (enqueue d s i) = sv_experts s" "sv_jobs (enqueue d s i) = sv_jobs s"
  "sv_idem (enqueue d s i) = sv_idem s" "sv_dlq (enqueue d s i) = sv_dlq s"
  "sv_nextID (enqueue d s i) = sv_nextID s" "sv_stateStore (enqueue d s i) = sv_stateStore s"
  "sv_maxAttempts (enqueue d s i) = sv_maxAttempts s"
  "sv_jobTTL (enqueue d s i) = sv_jobTTL s" "sv_webhooks (enqueue d s i) = sv_webhooks s"
  "getJob (enqueue d s i) = getJob s"
  by (simp_all add: enqueue_def getJob_def fun_eq_iff)

lemma putJob_frame [simp, frame_simps]:
  "sv_experts (putJob i j s) = sv_experts s" "sv_jobs (putJob i j s) = mput i j (sv_jobs s)"
  "sv_idem (putJob i j s) = sv_idem s" "sv_dlq (putJob i j s) = sv_dlq s"
  "sv_nextID (putJob i j s) = sv_nextID s" "sv_stateStore (putJob i j s) = sv_stateStore s"
  "sv_queue (putJob i j s) = sv_queue s" "sv_maxAttempts (putJob i j s) = sv_maxAttempts s"
  "sv_jobTTL (putJob i j s) = sv_jobTTL s" "sv_webhooks (putJob i j s) = sv_webhooks s"
  "getJob (putJob i j s) = (getJob s)(i \<mapsto> j)"
  by (simp_all add: putJob_def getJob_def fun_eq_iff)

lemma getJob_update [simp]:
  "getJob (s\<lparr>sv_idem := x1\<rparr>) = getJob s" "getJob (s\<lparr>sv_dlq := x2\<rparr>) = getJob s"
  "getJob (s\<lparr>sv_nextID := x3\<rparr>) = getJob s" "getJob (s\<lparr>sv_queue := x4\<rparr>) = getJob s"
  "getJob (s\<lparr>sv_webhooks := x5\<rparr>) = getJob s" "getJob (s\<lparr>sv_stateStore := x6\<rparr>) = getJob s"
  by (simp_all add: getJob_def fun_eq_iff)

lemma markExpired_simps [simp]:
  "jb_Status (markExpired j t) = statusExpired" "jb_ID (markExpired j t) = jb_ID j"
  "jb_TenantID (markExpired j t) = jb_TenantID j" "jb_ProjectID (markExpired j t) = jb_ProjectID j"
  "jb_Attempt (markExpired j t) = jb_Attempt j" "jb_MaxAttempts (markExpired j t) = jb_MaxAttempts j"
  "jb_Result (markExpired j t) = jb_Result j" "jb_Progress (markExpired j t) = jb_Progress j"
  "jb_ExpiresAt (markExpired j t) = jb_ExpiresAt j" "jb_UpdatedAt (markExpired j t) = t"
  by (simp_all add: markExpired_def)

lemma terminal_simps [simp, status_simps]:
  "terminal statusSucceeded" "terminal statusFailed" "terminal statusCanceled"
  "terminal statusExpired" "\<not> terminal statusQueued" "\<not> terminal statusRunning"
  by (simp_all add: terminal_def)

lemma cloneCallbackConfig_idem [simp]:
  "cloneCallbackConfig (cloneCallbackConfig c) = cloneCallbackConfig c"
  by (simp add: cloneCallbackConfig_def option.map_comp comp_def split: option.splits)

end
