(* ===== verification/Go_Http.thy ===== *)
theory Go_Http
  imports Api_Types
begin

text \<open>
  The part of \<open>net/http\<close> the handlers use: requests with their headers, and responses.  A header
  is a Go map from canonical names to lists of values.  A response is what a handler wrote:
  the status, the content type and the value it encoded as JSON (or plain text).
\<close>

type_synonym Header = "string list gomap"

definition upper_ascii :: "char \<Rightarrow> char" where
  "upper_ascii c = (if 97 \<le> (of_char c :: nat) \<and> (of_char c :: nat) \<le> 122
                    then char_of ((of_char c :: nat) - 32) else c)"

text \<open>\<open>textproto.CanonicalMIMEHeaderKey\<close> of a valid header name.\<close>

fun canonical_from :: "bool \<Rightarrow> string \<Rightarrow> string" where
  "canonical_from up [] = []"
| "canonical_from up (c # cs) =
     (if up then upper_ascii c else lower_ascii c) # canonical_from (c = CHR ''-'') cs"

definition canonicalKey :: "string \<Rightarrow> string" where
  "canonicalKey k = canonical_from True k"

definition hGet :: "Header \<Rightarrow> string \<Rightarrow> string" where
  "hGet h k = (case mget h (canonicalKey k) of Some (v # _) \<Rightarrow> v | _ \<Rightarrow> [])"

definition hSet :: "string \<Rightarrow> string \<Rightarrow> Header \<Rightarrow> Header" where
  "hSet k v h = mput (canonicalKey k) [v] h"

definition hDel :: "string \<Rightarrow> Header \<Rightarrow> Header" where
  "hDel k h = mdel (canonicalKey k) h"

lemma hGet_empty [simp]: "hGet [] k = []"
  by (simp add: hGet_def)

lemma hGet_hSet_same [simp]: "hGet (hSet k v h) k = v"
  by (simp add: hGet_def hSet_def)

lemma hGet_hSet_other [simp]:
  "canonicalKey k \<noteq> canonicalKey k' \<Longrightarrow> hGet (hSet k' v h) k = hGet h k"
  by (simp add: hGet_def hSet_def)

lemma hGet_hDel_same [simp]: "hGet (hDel k h) k = []"
  by (simp add: hGet_def hDel_def)

text \<open>The body of a request is its bytes, of which a handler may see at most a limit.\<close>

record Request =
  rq_Method :: string
  rq_Path :: string
  rq_Header :: Header
  rq_RemoteAddr :: string
  rq_Body :: string

datatype payload = PEmpty | PText string | PJson json | PBody Body

record Response =
  rs_Status :: int
  rs_ContentType :: "string option"
  rs_Payload :: payload

definition notFound :: Response where
  "notFound = \<lparr>rs_Status = StatusNotFound, rs_ContentType = Some ''text/plain; charset=utf-8'',
     rs_Payload = PText ''404 page not found''\<rparr>"

definition jsonType :: string where "jsonType = ''application/json''"
definition problemType :: string where "problemType = ''application/problem+json''"

lemmas canonical_eval = canonicalKey_def upper_ascii_def lower_ascii_def

end
