(* ===== verification/OpenAPI_Handler.thy ===== *)
theory OpenAPI_Handler
  imports Go_Http
begin

text \<open>
  The generated HTTP layer of the Assistant API (\<open>internal/api/openapi/server_gen.go\<close>): the
  parameter structs, the interface a server implements, the route table with its path matcher,
  and the dispatch from a request to an operation.

  \<open>ServerInterface\<close> is a record of functions on the server's state, so that the handler is
  modelled once for every implementation.  \<open>json.NewDecoder(r.Body).Decode\<close> is a parameter of
  the handler, one function per request type, which gives no value for a body it refuses.
\<close>

section \<open>Parameters and the server interface\<close>

record SubmitBriefJobParams =
  sp_XRequestId :: string
  sp_IdempotencyKey :: string
  sp_XTenantId :: string
  sp_XProjectId :: string

text \<open>\<open>GetJobStatusParams\<close>, \<open>GetJobResultParams\<close>, \<open>GetJobDeliveriesParams\<close>, \<open>CancelJobParams\<close>
  and \<open>ReplayJobParams\<close> are structs with the same fields.\<close>

record JobParams =
  jp_XRequestId :: string
  jp_JobID :: string
  jp_XTenantId :: string
  jp_XProjectId :: string

text \<open>\<open>QueryExpertParams\<close> and \<open>GetExpertCapabilitiesParams\<close>.\<close>

record ScopeParams =
  cp_XRequestId :: string
  cp_XTenantId :: string
  cp_XProjectId :: string

datatype handler_error = ErrUnimplemented | HandlerError string

type_synonym impl_result = "handler_error + int \<times> Body option"

record 's ServerInterface =
  si_SubmitBriefJob :: "SubmitBriefJobParams \<Rightarrow> SubmitBriefRequest \<Rightarrow> 's \<Rightarrow> impl_result \<times> 's"
  si_GetJobStatus :: "JobParams \<Rightarrow> 's \<Rightarrow> impl_result \<times> 's"
  si_GetJobResult :: "JobParams \<Rightarrow> 's \<Rightarrow> impl_result \<times> 's"
  si_GetJobDeliveries :: "JobParams \<Rightarrow> 's \<Rightarrow> impl_result \<times> 's"
  si_CancelJob :: "JobParams \<Rightarrow> 's \<Rightarrow> impl_result \<times> 's"
  si_ReplayJob :: "JobParams \<Rightarrow> 's \<Rightarrow> impl_result \<times> 's"
  si_QueryExpert :: "ScopeParams \<Rightarrow> QueryRequest \<Rightarrow> 's \<Rightarrow> impl_result \<times> 's"
  si_GetExpertCapabilities :: "ScopeParams \<Rightarrow> 's \<Rightarrow> impl_result \<times> 's"

record decoders =
  dc_Submit :: "string \<Rightarrow> SubmitBriefRequest option"
  dc_Query :: "string \<Rightarrow> QueryRequest option"


section \<open>Routes\<close>

record route =
  ro_method :: string
  ro_path :: string
  ro_operation :: string

definition routes :: "route list" where
  "routes =
    [\<lparr>ro_method = ''POST'', ro_path = ''/v1/assistant/jobs'', ro_operation = ''submitBriefJob''\<rparr>,
     \<lparr>ro_method = ''GET'', ro_path = ''/v1/assistant/jobs/{job_id}'', ro_operation = ''getJobStatus''\<rparr>,
     \<lparr>ro_method = ''GET'', ro_path = ''/v1/assistant/jobs/{job_id}/result'',
      ro_operation = ''getJobResult''\<rparr>,
     \<lparr>ro_method = ''GET'', ro_path = ''/v1/assistant/jobs/{job_id}/deliveries'',
      ro_operation = ''getJobDeliveries''\<rparr>,
     \<lparr>ro_method = ''POST'', ro_path = ''/v1/assistant/jobs/{job_id}/cancel'',
      ro_operation = ''cancelJob''\<rparr>,
     \<lparr>ro_method = ''POST'', ro_path = ''/v1/assistant/jobs/{job_id}/replay'',
      ro_operation = ''replayJob''\<rparr>,
     \<lparr>ro_method = ''POST'', ro_path = ''/v1/assistant/query'', ro_operation = ''queryExpert''\<rparr>,
     \<lparr>ro_method = ''GET'', ro_path = ''/v1/assistant/experts'',
      ro_operation = ''getExpertCapabilities''\<rparr>]"

definition splitPath :: "string \<Rightarrow> string list" where
  "splitPath path =
     (let trimmed = TrimChar (CHR ''/'') path
      in if trimmed = [] then [] else SplitChar (CHR ''/'') trimmed)"

definition is_param :: "string \<Rightarrow> bool" where
  "is_param p \<longleftrightarrow> prefix ''{'' p \<and> suffix ''}'' p"

definition param_key :: "string \<Rightarrow> string" where
  "param_key p = TrimSuffix (TrimPrefix p ''{'') ''}''"

fun match_parts :: "string gomap \<Rightarrow> string list \<Rightarrow> string list \<Rightarrow> string gomap option" where
  "match_parts params (p # ps) (a # as) =
     (if is_param p then match_parts (mput (param_key p) a params) ps as
      else if p \<noteq> a then None else match_parts params ps as)"
| "match_parts params _ _ = Some params"

definition matchPath :: "string \<Rightarrow> string \<Rightarrow> string gomap option" where
  "matchPath pat actual =
     (let patternParts = splitPath pat; actualParts = splitPath actual
      in if length patternParts \<noteq> length actualParts then None
         else match_parts [] patternParts actualParts)"

text \<open>The first route whose method and path match.\<close>

fun find_route :: "route list \<Rightarrow> string \<Rightarrow> string \<Rightarrow> (string \<times> string gomap) option" where
  "find_route [] m path = None"
| "find_route (r # rs) m path =
     (if m \<noteq> ro_method r then find_route rs m path
      else (case matchPath (ro_path r) path of
              None \<Rightarrow> find_route rs m path
            | Some params \<Rightarrow> Some (ro_operation r, params)))"


section \<open>Dispatch\<close>

definition writeProblem :: "int \<Rightarrow> Problem \<Rightarrow> Response" where
  "writeProblem status p =
     \<lparr>rs_Status = status, rs_ContentType = Some problemType, rs_Payload = PBody (BProblem p)\<rparr>"

definition writeResponse :: "int \<Rightarrow> Body option \<Rightarrow> Response" where
  "writeResponse status body =
     (case body of
        None \<Rightarrow> \<lparr>rs_Status = status, rs_ContentType = None, rs_Payload = PEmpty\<rparr>
      | Some b \<Rightarrow>
          \<lparr>rs_Status = status,
           rs_ContentType = Some (if 400 \<le> status then problemType else jsonType),
           rs_Payload = PBody b\<rparr>)"

definition badBody :: "string \<Rightarrow> string \<Rightarrow> Response" where
  "badBody path requestID = writeProblem StatusBadRequest
     \<lparr>pb_Type = ''https://api.cova.example.com/errors/invalid-request'',
      pb_Title = ''Invalid request'', pb_Status = StatusBadRequest,
      pb_Detail = Some ''request body must be valid JSON'', pb_Instance = Some path,
      pb_RequestId = Some requestID\<rparr>"

text \<open>What every branch of the dispatch does with the result of the operation.\<close>

definition respond :: "string \<Rightarrow> string \<Rightarrow> impl_result \<Rightarrow> Response" where
  "respond path requestID r =
     (case r of
        Inl ErrUnimplemented \<Rightarrow> writeProblem StatusNotImplemented
          \<lparr>pb_Type = ''https://api.cova.example.com/errors/not-implemented'',
           pb_Title = ''Not implemented'', pb_Status = StatusNotImplemented,
           pb_Detail = Some ''operation is not implemented'', pb_Instance = Some path,
           pb_RequestId = Some requestID\<rparr>
      | Inl (HandlerError e) \<Rightarrow> writeProblem StatusInternalServerError
          \<lparr>pb_Type = ''https://api.cova.example.com/errors/internal-error'',
           pb_Title = ''Internal error'', pb_Status = StatusInternalServerError,
           pb_Detail = Some e, pb_Instance = Some path, pb_RequestId = Some requestID\<rparr>
      | Inr (status, body) \<Rightarrow> writeResponse status body)"

definition paramOf :: "string gomap \<Rightarrow> string \<Rightarrow> string" where
  "paramOf params k = (case mget params k of None \<Rightarrow> [] | Some v \<Rightarrow> v)"

definition header_trim :: "Request \<Rightarrow> string \<Rightarrow> string" where
  "header_trim r k = TrimSpace (hGet (rq_Header r) k)"

definition submitParams :: "Request \<Rightarrow> SubmitBriefJobParams" where
  "submitParams r =
     \<lparr>sp_XRequestId = header_trim r ''X-Request-Id'',
      sp_IdempotencyKey = header_trim r ''Idempotency-Key'',
      sp_XTenantId = header_trim r ''X-Tenant-Id'',
      sp_XProjectId = header_trim r ''X-Project-Id''\<rparr>"

definition jobParams :: "Request \<Rightarrow> string gomap \<Rightarrow> JobParams" where
  "jobParams r params =
     \<lparr>jp_XRequestId = header_trim r ''X-Request-Id'', jp_JobID = paramOf params ''job_id'',
      jp_XTenantId = header_trim r ''X-Tenant-Id'', jp_XProjectId = header_trim r ''X-Project-Id''\<rparr>"

definition scopeParams :: "Request \<Rightarrow> ScopeParams" where
  "scopeParams r =
     \<lparr>cp_XRequestId = header_trim r ''X-Request-Id'',
      cp_XTenantId = header_trim r ''X-Tenant-Id'', cp_XProjectId = header_trim r ''X-Project-Id''\<rparr>"

text \<open>
  The branches of the dispatch; the five operations on a job have the same one, with the method of
  the interface they call.
\<close>

definition answerOp :: "Request \<Rightarrow> impl_result \<times> 's \<Rightarrow> Response \<times> 's" where
  "answerOp r out = (case out of (res, s) \<Rightarrow> (respond (rq_Path r) (header_trim r ''X-Request-Id'') res, s))"

definition dispatchSubmit ::
  "'s ServerInterface \<Rightarrow> decoders \<Rightarrow> Request \<Rightarrow> 's \<Rightarrow> Response \<times> 's" where
  "dispatchSubmit impl dc r s =
     (case dc_Submit dc (rq_Body r) of
        None \<Rightarrow> (badBody (rq_Path r) (header_trim r ''X-Request-Id''), s)
      | Some req \<Rightarrow> answerOp r (si_SubmitBriefJob impl (submitParams r) req s))"

definition dispatchJob ::
  "(JobParams \<Rightarrow> 's \<Rightarrow> impl_result \<times> 's) \<Rightarrow> Request \<Rightarrow> string gomap \<Rightarrow> 's \<Rightarrow> Response \<times> 's" where
  "dispatchJob method r params s = answerOp r (method (jobParams r params) s)"

definition dispatchQuery ::
  "'s ServerInterface \<Rightarrow> decoders \<Rightarrow> Request \<Rightarrow> 's \<Rightarrow> Response \<times> 's" where
  "dispatchQuery impl dc r s =
     (case dc_Query dc (rq_Body r) of
        None \<Rightarrow> (badBody (rq_Path r) (header_trim r ''X-Request-Id''), s)
      | Some req \<Rightarrow> answerOp r (si_QueryExpert impl (scopeParams r) req s))"

definition dispatchExperts :: "'s ServerInterface \<Rightarrow> Request \<Rightarrow> 's \<Rightarrow> Response \<times> 's" where
  "dispatchExperts impl r s = answerOp r (si_GetExpertCapabilities impl (scopeParams r) s)"

lemmas dispatch_branches = answerOp_def dispatchSubmit_def dispatchJob_def dispatchQuery_def dispatchExperts_def

definition dispatch ::
  "'s ServerInterface \<Rightarrow> decoders \<Rightarrow> string \<Rightarrow> Request \<Rightarrow> string gomap \<Rightarrow> 's \<Rightarrow> Response \<times> 's" where
  "dispatch impl dc operation r params s =
     (if operation = ''submitBriefJob'' then dispatchSubmit impl dc r s
      else if operation = ''getJobStatus'' then dispatchJob (si_GetJobStatus impl) r params s
      else if operation = ''getJobResult'' then dispatchJob (si_GetJobResult impl) r params s
      else if operation = ''getJobDeliveries'' then dispatchJob (si_GetJobDeliveries impl) r params s
      else if operation = ''cancelJob'' then dispatchJob (si_CancelJob impl) r params s
      else if operation = ''replayJob'' then dispatchJob (si_ReplayJob impl) r params s
      else if operation = ''queryExpert'' then dispatchQuery impl dc r s
      else if operation = ''getExpertCapabilities'' then dispatchExperts impl r s
      else (notFound, s))"

text \<open>\<open>Handler.ServeHTTP\<close>.\<close>

definition Handler_ServeHTTP ::
  "'s ServerInterface \<Rightarrow> decoders \<Rightarrow> Request \<Rightarrow> 's \<Rightarrow> Response \<times> 's" where
  "Handler_ServeHTTP impl dc r s =
     (case find_route routes (rq_Method r) (rq_Path r) of
        None \<Rightarrow> (notFound, s)
      | Some (operation, params) \<Rightarrow> dispatch impl dc operation r params s)"

section \<open>The path matcher\<close>

definition param_keys :: "string list \<Rightarrow> string list" where
  "param_keys ps = map param_key (filter is_param ps)"

text \<open>A pattern with values for its parameters filled in.\<close>

definition instantiate :: "string gomap \<Rightarrow> string list \<Rightarrow> string list" where
  "instantiate params ps = map (\<lambda>p. if is_param p then paramOf params (param_key p) else p) ps"

lemma match_parts_keeps:
  "match_parts params ps as = Some out \<Longrightarrow> k \<notin> set (param_keys ps) \<Longrightarrow> mget out k = mget params k"
  by (induction params ps as rule: match_parts.induct) (auto simp: param_keys_def split: if_splits)

lemma match_parts_sound:
  "match_parts params ps as = Some out \<Longrightarrow> length ps = length as \<Longrightarrow> distinct (param_keys ps) \<Longrightarrow>
     instantiate out ps = as"
proof (induction params ps as rule: match_parts.induct)
  case (1 params p ps a as)
  show ?case
  proof (cases "is_param p")
    case True
    with 1 have "match_parts (mput (param_key p) a params) ps as = Some out" by simp
    moreover from True 1 have "param_key p \<notin> set (param_keys ps)" by (simp add: param_keys_def)
    ultimately have "mget out (param_key p) = Some a" by (simp add: match_parts_keeps)
    with True 1 show ?thesis by (simp add: instantiate_def paramOf_def param_keys_def)
  next
    case False
    with 1 show ?thesis by (auto simp: instantiate_def param_keys_def split: if_splits)
  qed
qed (auto simp: instantiate_def)

lemma match_parts_instantiate:
  "distinct (param_keys ps) \<Longrightarrow> (\<And>k. k \<in> set (param_keys ps) \<Longrightarrow> paramOf vs k = f k) \<Longrightarrow>
     \<exists>out. match_parts params ps (instantiate vs ps) = Some out
       \<and> (\<forall>k\<in>set (param_keys ps). mget out k = Some (f k))"
proof (induction ps arbitrary: params)
  case Nil
  then show ?case by (simp add: instantiate_def param_keys_def)
next
  case (Cons p ps)
  let ?params = "if is_param p then mput (param_key p) (f (param_key p)) params else params"
  from Cons.prems have "distinct (param_keys ps)"
    "\<And>k. k \<in> set (param_keys ps) \<Longrightarrow> paramOf vs k = f k"
    by (auto simp: param_keys_def split: if_splits)
  from Cons.IH [OF this, of ?params] obtain out
    where out: "match_parts ?params ps (instantiate vs ps) = Some out"
      "\<forall>k\<in>set (param_keys ps). mget out k = Some (f k)" by blast
  have "is_param p \<Longrightarrow> mget out (param_key p) = Some (f (param_key p))"
    using match_parts_keeps [OF out(1), of "param_key p"] Cons.prems(1) by (simp add: param_keys_def)
  with out Cons.prems show ?case by (auto simp: instantiate_def param_keys_def)
qed

lemma splitPath_Join:
  assumes "ws \<noteq> []" "hd ws \<noteq> []" "last ws \<noteq> []" "\<And>w. w \<in> set ws \<Longrightarrow> CHR ''/'' \<notin> set w"
  shows "splitPath (''/'' @ Join ws ''/'') = ws"
proof -
  have ends: "TrimChar (CHR ''/'') (CHR ''/'' # xs) = xs"
    if "xs \<noteq> []" "hd xs \<noteq> CHR ''/''" "last xs \<noteq> CHR ''/''" for xs :: string
  proof -
    from that(1,3) have "dropWhile (\<lambda>x. x = CHR ''/'') (rev xs) = rev xs"
      by (simp add: dropWhile_eq_self_iff hd_rev)
    moreover from that have "dropWhile (\<lambda>x. x = CHR ''/'') xs = xs" by (cases xs) auto
    ultimately show ?thesis by (simp add: TrimChar_def TrimRightChar_def)
  qed
  have hd_join: "Join ws ''/'' \<noteq> [] \<and> hd (Join ws ''/'') = hd (hd ws)"
    using assms(1,2) by (cases ws; cases "tl ws") auto
  have last_join: "vs \<noteq> [] \<Longrightarrow> last vs \<noteq> [] \<Longrightarrow>
      Join vs ''/'' \<noteq> [] \<and> last (Join vs ''/'') = last (last vs)" for vs
  proof (induction vs)
    case (Cons v vs)
    then show ?case by (cases vs) auto
  qed simp
  have "hd (hd ws) \<noteq> CHR ''/''" using assms by (metis hd_in_set list.set_sel(1))
  moreover have "last (last ws) \<noteq> CHR ''/''" using assms by (metis last_in_set)
  ultimately have "TrimChar (CHR ''/'') (''/'' @ Join ws ''/'') = Join ws ''/''"
    using ends [of "Join ws ''/''"] hd_join last_join [of ws] assms by simp
  then show ?thesis
    using hd_join SplitChar_Join [of ws "CHR ''/''"] assms by (auto simp: splitPath_def)
qed

lemma matchPath_sound:
  "matchPath pat actual = Some params \<Longrightarrow> distinct (param_keys (splitPath pat)) \<Longrightarrow>
     instantiate params (splitPath pat) = splitPath actual"
  by (auto simp: matchPath_def Let_def intro: match_parts_sound split: if_splits)


section \<open>The route table\<close>

lemma splitPath_routes:
  "splitPath ''/v1/assistant/jobs'' = [''v1'', ''assistant'', ''jobs'']"
  "splitPath ''/v1/assistant/jobs/{job_id}'' = [''v1'', ''assistant'', ''jobs'', ''{job_id}'']"
  "splitPath ''/v1/assistant/jobs/{job_id}/result''
     = [''v1'', ''assistant'', ''jobs'', ''{job_id}'', ''result'']"
  "splitPath ''/v1/assistant/jobs/{job_id}/deliveries''
     = [''v1'', ''assistant'', ''jobs'', ''{job_id}'', ''deliveries'']"
  "splitPath ''/v1/assistant/jobs/{job_id}/cancel''
     = [''v1'', ''assistant'', ''jobs'', ''{job_id}'', ''cancel'']"
  "splitPath ''/v1/assistant/jobs/{job_id}/replay''
     = [''v1'', ''assistant'', ''jobs'', ''{job_id}'', ''replay'']"
  "splitPath ''/v1/assistant/query'' = [''v1'', ''assistant'', ''query'']"
  "splitPath ''/v1/assistant/experts'' = [''v1'', ''assistant'', ''experts'']"
  by (simp_all add: splitPath_def TrimChar_def TrimRightChar_def)

lemma is_param_segments [simp]:
  "is_param ''{job_id}''" "\<not> is_param ''v1''" "\<not> is_param ''assistant''" "\<not> is_param ''jobs''"
  "\<not> is_param ''result''" "\<not> is_param ''deliveries''" "\<not> is_param ''cancel''"
  "\<not> is_param ''replay''" "\<not> is_param ''query''" "\<not> is_param ''experts''"
  "param_key ''{job_id}'' = ''job_id''"
  by (simp_all add: is_param_def param_key_def TrimPrefix_def TrimSuffix_def suffix_to_prefix)

text \<open>The path of a job, and of one of the resources under it.\<close>

definition jobPath :: "string \<Rightarrow> string list \<Rightarrow> string" where
  "jobPath job rest = ''/'' @ Join ([''v1'', ''assistant'', ''jobs'', job] @ rest) ''/''"

lemma jobPath_text:
  "jobPath job [] = ''/v1/assistant/jobs/'' @ job"
  "jobPath job [x] = ''/v1/assistant/jobs/'' @ job @ ''/'' @ x"
  by (simp_all add: jobPath_def)

lemma splitPath_jobPath:
  assumes "job \<noteq> []" "CHR ''/'' \<notin> set job" "\<And>x. x \<in> set rest \<Longrightarrow> x \<noteq> [] \<and> CHR ''/'' \<notin> set x"
  shows "splitPath (jobPath job rest) = [''v1'', ''assistant'', ''jobs'', job] @ rest"
  unfolding jobPath_def
proof (rule splitPath_Join)
  show "last ([''v1'', ''assistant'', ''jobs'', job] @ rest) \<noteq> []"
    using assms last_in_set [of rest] by (cases "rest = []") auto
qed (use assms in auto)

lemma matchPath_parts:
  "matchPath pat actual =
     (if length (splitPath pat) \<noteq> length (splitPath actual) then None
      else match_parts [] (splitPath pat) (splitPath actual))"
  by (simp add: matchPath_def)

lemma find_route_parts:
  assumes "job \<noteq> []" "CHR ''/'' \<notin> set job"
  shows "find_route routes ''GET'' (''/v1/assistant/jobs/'' @ job)
           = Some (''getJobStatus'', [(''job_id'', job)])"
    and "find_route routes ''GET'' (''/v1/assistant/jobs/'' @ job @ ''/result'')
           = Some (''getJobResult'', [(''job_id'', job)])"
    and "find_route routes ''GET'' (''/v1/assistant/jobs/'' @ job @ ''/deliveries'')
           = Some (''getJobDeliveries'', [(''job_id'', job)])"
    and "find_route routes ''POST'' (''/v1/assistant/jobs/'' @ job @ ''/cancel'')
           = Some (''cancelJob'', [(''job_id'', job)])"
    and "find_route routes ''POST'' (''/v1/assistant/jobs/'' @ job @ ''/replay'')
           = Some (''replayJob'', [(''job_id'', job)])"
  using splitPath_jobPath [OF assms, of "[]"] splitPath_jobPath [OF assms, of "[''result'']"]
    splitPath_jobPath [OF assms, of "[''deliveries'']"]
    splitPath_jobPath [OF assms, of "[''cancel'']"] splitPath_jobPath [OF assms, of "[''replay'']"]
  by (simp_all add: jobPath_text routes_def matchPath_parts splitPath_routes mput_def)

text \<open>Patterns that a common path can match agree wherever both have a literal.\<close>

definition compatible :: "string list \<Rightarrow> string list \<Rightarrow> bool" where
  "compatible ps qs = list_all2 (\<lambda>p q. is_param p \<or> is_param q \<or> p = q) ps qs"

lemma instantiate_compatible:
  "instantiate vs ps = as \<Longrightarrow> instantiate ws qs = as \<Longrightarrow> compatible ps qs"
  by (induction ps arbitrary: qs as) (auto simp: compatible_def instantiate_def list_all2_Cons1
      split: if_splits)

lemma routes_compatible:
  "list_all (\<lambda>r. list_all (\<lambda>r'. ro_method r = ro_method r' \<longrightarrow>
     compatible (splitPath (ro_path r)) (splitPath (ro_path r')) \<longrightarrow> r = r') routes) routes"
  by (simp add: routes_def splitPath_routes compatible_def)

lemma routes_keys: "r \<in> set routes \<Longrightarrow> distinct (param_keys (splitPath (ro_path r)))"
  by (auto simp: routes_def splitPath_routes param_keys_def)

text \<open>
  No request matches two routes: routes with the same method whose patterns both match a path
  are the same route, so the order of the route table does not matter.
\<close>

theorem routes_unambiguous:
  assumes "r \<in> set routes" and "r' \<in> set routes" and "ro_method r = ro_method r'"
    and "matchPath (ro_path r) path \<noteq> None" and "matchPath (ro_path r') path \<noteq> None"
  shows "r = r'"
proof -
  from assms(4) obtain vs where vs: "matchPath (ro_path r) path = Some vs" by blast
  from assms(5) obtain ws where ws: "matchPath (ro_path r') path = Some ws" by blast
  have "compatible (splitPath (ro_path r)) (splitPath (ro_path r'))"
    using matchPath_sound [OF vs routes_keys [OF assms(1)]]
      matchPath_sound [OF ws routes_keys [OF assms(2)]] by (rule instantiate_compatible)
  with routes_compatible assms(1-3) show ?thesis by (auto simp: list_all_iff)
qed

theorem routes_unambiguous_witness:
  "{r \<in> set routes. ro_method r = ''GET''
      \<and> matchPath (ro_path r) ''/v1/assistant/jobs/job_1'' \<noteq> None}
   = {\<lparr>ro_method = ''GET'', ro_path = ''/v1/assistant/jobs/{job_id}'',
       ro_operation = ''getJobStatus''\<rparr>}"
proof -
  let ?r = "\<lparr>ro_method = ''GET'', ro_path = ''/v1/assistant/jobs/{job_id}'',
       ro_operation = ''getJobStatus''\<rparr>"
  have r: "?r \<in> set routes" "ro_method ?r = ''GET''" by (simp_all add: routes_def)
  have m: "matchPath (ro_path ?r) ''/v1/assistant/jobs/job_1'' \<noteq> None"
    by (simp add: matchPath_def splitPath_def TrimChar_def TrimRightChar_def)
  have "r = ?r" if "r \<in> set routes" "ro_method r = ''GET''"
      "matchPath (ro_path r) ''/v1/assistant/jobs/job_1'' \<noteq> None" for r
    by (rule routes_unambiguous [OF that(1) r(1) _ that(3) m]) (simp only: that(2) r(2))
  with r m show ?thesis by blast
qed

text \<open>
  The path of a job leads to the operation on that job: for an id without a slash, the five
  job routes give back exactly the id that was put into the path.
\<close>

theorem job_routes_roundtrip:
  assumes "job \<noteq> []" "CHR ''/'' \<notin> set job"
  shows "find_route routes ''GET'' (''/v1/assistant/jobs/'' @ job)
           = Some (''getJobStatus'', [(''job_id'', job)])
    \<and> find_route routes ''GET'' (''/v1/assistant/jobs/'' @ job @ ''/result'')
           = Some (''getJobResult'', [(''job_id'', job)])
    \<and> find_route routes ''GET'' (''/v1/assistant/jobs/'' @ job @ ''/deliveries'')
           = Some (''getJobDeliveries'', [(''job_id'', job)])
    \<and> find_route routes ''POST'' (''/v1/assistant/jobs/'' @ job @ ''/cancel'')
           = Some (''cancelJob'', [(''job_id'', job)])
    \<and> find_route routes ''POST'' (''/v1/assistant/jobs/'' @ job @ ''/replay'')
           = Some (''replayJob'', [(''job_id'', job)])"
  using find_route_parts [OF assms] by simp

theorem job_routes_roundtrip_witness:
  "find_route routes ''POST'' ''/v1/assistant/jobs/job_7/cancel''
     = Some (''cancelJob'', [(''job_id'', ''job_7'')])"
  using job_routes_roundtrip [of "''job_7''"] by simp

end
