(* ===== verification/Orch_Api.thy ===== *)
theory Orch_Api
  imports Orch_State OpenAPI_Handler
begin

text \<open>
  The operations of the Assistant API as the orchestrator implements them
  (\<open>internal/orchestrator/server.go\<close>, \<open>SubmitBriefJob\<close> to \<open>GetExpertCapabilities\<close>).

  A handler runs in phases: what it checks before it takes the lock, its critical section, and
  what it does after the unlock.  Each phase that changes state is a definition of its own
  (\<open>expireJobIfNeeded\<close>, \<open>..._locked\<close>, \<open>enqueue\<close>), which the step relation of the system
  interleaves; the handler itself composes them without interruption.
\<close>

section \<open>Responses\<close>

definition bad_request :: "string \<Rightarrow> string \<Rightarrow> string \<Rightarrow> Reply" where
  "bad_request inst requestID detail =
     (StatusBadRequest,
      BProblem (problem inst requestID ''invalid-request'' ''Invalid request'' detail))"

definition scope_required :: string where
  "scope_required = ''headers `X-Tenant-Id` and `X-Project-Id` are required''"

definition job_not_found :: "string \<Rightarrow> string \<Rightarrow> Reply" where
  "job_not_found inst requestID =
     (StatusNotFound, BProblem (problem inst requestID ''not-found'' ''Not Found'' ''job not found''))"

definition job_instance :: "string \<Rightarrow> string \<Rightarrow> string" where
  "job_instance jobID rest = ''/v1/assistant/jobs/'' @ jobID @ rest"

definition submitResponse :: "string \<Rightarrow> job \<Rightarrow> SubmitBriefResponse" where
  "submitResponse requestID j =
     \<lparr>sresp_JobId = jb_ID j, sresp_TenantId = jb_TenantID j, sresp_ProjectId = jb_ProjectID j,
      sresp_ExpertId = jb_ExpertID j, sresp_ExpertName = Some (jb_ExpertName j),
      sresp_ExpertType = expertTypePtr (jb_ExpertType j), sresp_Status = jb_Status j,
      sresp_SubmittedAt = rfc3339 (jb_SubmittedAt j), sresp_RequestId = Some requestID\<rparr>"

definition statusResponse :: "job \<Rightarrow> JobStatusResponse" where
  "statusResponse j =
     \<lparr>st_JobId = jb_ID j, st_TenantId = jb_TenantID j, st_ProjectId = jb_ProjectID j,
      st_ExpertId = jb_ExpertID j, st_ExpertName = Some (jb_ExpertName j),
      st_ExpertType = expertTypePtr (jb_ExpertType j), st_Status = jb_Status j,
      st_Progress = Some (jb_Progress j), st_SubmittedAt = rfc3339 (jb_SubmittedAt j),
      st_UpdatedAt = rfc3339 (jb_UpdatedAt j), st_Attempt = jb_Attempt j\<rparr>"


section \<open>SubmitBriefJob\<close>

text \<open>A body field that names a scope must name the scope of the header.\<close>

definition scope_mismatch :: "string option \<Rightarrow> string \<Rightarrow> bool" where
  "scope_mismatch field headerID =
     (case field of None \<Rightarrow> False
      | Some v \<Rightarrow> TrimSpace v \<noteq> [] \<and> TrimSpace v \<noteq> headerID)"

text \<open>The checks, in the order of the source; the result is the expert the job is for.\<close>

definition submit_check ::
  "('q, 'st) Server \<Rightarrow> SubmitBriefJobParams \<Rightarrow> string \<Rightarrow> SubmitBriefRequest \<Rightarrow> Reply + expertMetadata"
  where
  "submit_check s params requestID req =
     (let tenantID = TrimSpace (sp_XTenantId params);
          projectID = TrimSpace (sp_XProjectId params);
          bad = bad_request ''/v1/assistant/jobs'' requestID;
          expertID = TrimSpace (sreq_ExpertId req)
      in if tenantID = [] \<or> projectID = [] then Inl (bad scope_required)
         else if scope_mismatch (sreq_TenantId req) tenantID
           then Inl (bad ''body `tenant_id` does not match header `X-Tenant-Id`'')
         else if scope_mismatch (sreq_ProjectId req) projectID
           then Inl (bad ''body `project_id` does not match header `X-Project-Id`'')
         else if expertID = [] then Inl (bad ''field `expert_id` is required'')
         else if TrimSpace (sreq_Date req) = [] then Inl (bad ''field `date` is required'')
         else if parse_date (sreq_Date req) = None
           then Inl (bad ''field `date` must use YYYY-MM-DD'')
         else (case lookupExpert s expertID of
                 None \<Rightarrow> Inl (bad ''unknown `expert_id`'')
               | Some expert \<Rightarrow>
                   if \<not> expertSupports expert ''daily_brief''
                   then Inl (bad ''expert does not support `daily_brief`'') else Inr expert))"

definition submit_name :: "SubmitBriefRequest \<Rightarrow> expertMetadata \<Rightarrow> string" where
  "submit_name req expert =
     (let n = ptrValue (sreq_ExpertName req)
      in if TrimSpace n = [] then em_ExpertName expert else n)"

definition submit_type :: "SubmitBriefRequest \<Rightarrow> expertMetadata \<Rightarrow> string" where
  "submit_type req expert =
     (let t = (case sreq_ExpertType req of None \<Rightarrow> [] | Some t \<Rightarrow> t)
      in if TrimSpace t = [] then em_ExpertType expert else t)"

text \<open>\<open>"job_" + strconv.FormatUint(s.nextID, 10)\<close>.\<close>

definition job_id_text :: "64 word \<Rightarrow> string" where
  "job_id_text n = ''job_'' @ dec (unat n)"

definition newJob ::
  "('q, 'st) Server \<Rightarrow> SubmitBriefJobParams \<Rightarrow> SubmitBriefRequest \<Rightarrow> expertMetadata \<Rightarrow> time \<Rightarrow> string \<Rightarrow> job"
  where
  "newJob s params req expert now jobID =
     \<lparr>jb_ID = jobID, jb_TenantID = TrimSpace (sp_XTenantId params),
      jb_ProjectID = TrimSpace (sp_XProjectId params), jb_ExpertID = TrimSpace (sreq_ExpertId req),
      jb_ExpertName = submit_name req expert, jb_ExpertType = submit_type req expert,
      jb_Date = sreq_Date req, jb_Status = statusQueued, jb_Progress = 0,
      jb_SubmittedAt = now, jb_UpdatedAt = now, jb_Attempt = 1, jb_MaxAttempts = sv_maxAttempts s,
      jb_ExpiresAt = Some (now + sv_jobTTL s), jb_LastError = None, jb_Result = None,
      jb_Callback = cloneCallbackConfig (sreq_Callback req)\<rparr>"

text \<open>Storing the new job: the part of the critical section after the idempotency lookup.\<close>

definition submit_create ::
  "('q, 'st) deps \<Rightarrow> time \<Rightarrow> SubmitBriefJobParams \<Rightarrow> SubmitBriefRequest \<Rightarrow> expertMetadata \<Rightarrow>
   string \<Rightarrow> string \<Rightarrow> ('q, 'st) Server \<Rightarrow> job \<times> ('q, 'st) Server" where
  "submit_create d now params req expert key payloadHash s =
     (let nextID = sv_nextID s + 1;
          jobID = job_id_text nextID;
          j = newJob s params req expert now jobID;
          s1 = putJob jobID j (s\<lparr>sv_nextID := nextID\<rparr>);
          s2 = s1\<lparr>sv_dlq := mdel jobID (sv_dlq s1)\<rparr>;
          s3 = (if key \<noteq> []
                then s2\<lparr>sv_idem := mput key \<lparr>ir_PayloadHash = payloadHash, ir_JobID = jobID\<rparr>
                       (sv_idem s2)\<rparr>
                else s2)
      in (j, persistLocked d s3))"

text \<open>
  The critical section.  Its result is the reply and, for a new job, the id to enqueue after the
  unlock.
\<close>

definition SubmitBriefJob_locked ::
  "('q, 'st) deps \<Rightarrow> time \<Rightarrow> SubmitBriefJobParams \<Rightarrow> string \<Rightarrow> SubmitBriefRequest \<Rightarrow> expertMetadata \<Rightarrow>
   string \<Rightarrow> ('q, 'st) Server \<Rightarrow> (Reply \<times> string option) \<times> ('q, 'st) Server" where
  "SubmitBriefJob_locked d now params requestID req expert payloadHash s =
     (let key = scopedIdempotencyKey (TrimSpace (sp_XTenantId params))
                  (TrimSpace (sp_XProjectId params)) (sp_IdempotencyKey params);
          create = (let (j, s') = submit_create d now params req expert key payloadHash s
                    in (((StatusAccepted, BSubmit (submitResponse requestID j)), Some (jb_ID j)), s'))
      in if key = [] then create
         else (case mget (sv_idem s) key of
                 None \<Rightarrow> create
               | Some rec \<Rightarrow>
                   if ir_PayloadHash rec \<noteq> payloadHash
                   then (((StatusConflict,
                       BProblem (problem ''/v1/assistant/jobs'' requestID ''idempotency-mismatch''
                         ''Idempotency mismatch'' ''same Idempotency-Key with different payload'')),
                       None), s)
                   else (case getJob s (ir_JobID rec) of
                           None \<Rightarrow> (((StatusInternalServerError,
                               BProblem (problem ''/v1/assistant/jobs'' requestID ''internal-error''
                                 ''Internal error'' ''idempotency record exists without job'')),
                               None), s)
                         | Some existing \<Rightarrow>
                             (((StatusAccepted, BSubmit (submitResponse requestID existing)), None),
                              s))))"

definition SubmitBriefJob ::
  "('q, 'st) deps \<Rightarrow> time \<Rightarrow> time \<Rightarrow> SubmitBriefJobParams \<Rightarrow> SubmitBriefRequest \<Rightarrow>
   ('q, 'st) Server \<Rightarrow> Reply \<times> ('q, 'st) Server" where
  "SubmitBriefJob d reqNow now params req s =
     (let requestID = normalizeRequestID reqNow (sp_XRequestId params)
      in (case submit_check s params requestID req of
            Inl reply \<Rightarrow> (reply, s)
          | Inr expert \<Rightarrow>
              (case hashRequestPayload d req of
                 None \<Rightarrow> ((StatusInternalServerError,
                     BProblem (problem ''/v1/assistant/jobs'' requestID ''internal-error''
                       ''Internal error'' ''failed to hash request'')), s)
               | Some payloadHash \<Rightarrow>
                   (case SubmitBriefJob_locked d now params requestID req expert payloadHash s of
                      ((reply, None), s') \<Rightarrow> (reply, s')
                    | ((reply, Some jobID), s') \<Rightarrow> (reply, enqueue d s' jobID)))))"


section \<open>Reading a job\<close>

definition scope_missing :: "string \<Rightarrow> string \<Rightarrow> bool" where
  "scope_missing tenantID projectID \<longleftrightarrow> tenantID = [] \<or> projectID = []"

text \<open>
  The frame the job handlers share: the scope headers, the expiry of the job, then \<open>k\<close> on the
  state with the scope and the path of the request.
\<close>

definition with_scope ::
  "('q, 'st) deps \<Rightarrow> time \<Rightarrow> time \<Rightarrow> string \<Rightarrow> JobParams \<Rightarrow>
   (string \<Rightarrow> string \<Rightarrow> string \<Rightarrow> string \<Rightarrow> ('q, 'st) Server \<Rightarrow> Reply \<times> ('q, 'st) Server) \<Rightarrow>
   ('q, 'st) Server \<Rightarrow> Reply \<times> ('q, 'st) Server" where
  "with_scope d reqNow now rest params k s =
     (let requestID = normalizeRequestID reqNow (jp_XRequestId params);
          tenantID = TrimSpace (jp_XTenantId params);
          projectID = TrimSpace (jp_XProjectId params);
          inst = job_instance (jp_JobID params) rest
      in if scope_missing tenantID projectID
         then (bad_request inst requestID scope_required, s)
         else k inst requestID tenantID projectID (expireJobIfNeeded d now (jp_JobID params) s))"

text \<open>The job the request names, when it is in the request's scope.\<close>

definition scopedJob :: "('q, 'st) Server \<Rightarrow> string \<Rightarrow> string \<Rightarrow> string \<Rightarrow> job option" where
  "scopedJob s jobID tenantID projectID =
     (case getJob s jobID of
        None \<Rightarrow> None
      | Some j \<Rightarrow> if jobInScope j tenantID projectID then Some j else None)"

definition GetJobStatus ::
  "('q, 'st) deps \<Rightarrow> time \<Rightarrow> time \<Rightarrow> JobParams \<Rightarrow> ('q, 'st) Server \<Rightarrow> Reply \<times> ('q, 'st) Server" where
  "GetJobStatus d reqNow now params =
     with_scope d reqNow now [] params (\<lambda>inst requestID tenantID projectID s.
       (case scopedJob s (jp_JobID params) tenantID projectID of
          None \<Rightarrow> job_not_found inst requestID
        | Some current \<Rightarrow> (StatusOK, BStatus (statusResponse current)), s))"

definition resultResponse :: "job \<Rightarrow> ExpertResult \<Rightarrow> JobResultResponse" where
  "resultResponse j r =
     \<lparr>res_JobId = jb_ID j, res_TenantId = jb_TenantID j, res_ProjectId = jb_ProjectID j,
      res_ExpertId = jb_ExpertID j, res_ExpertName = Some (jb_ExpertName j),
      res_ExpertType = expertTypePtr (jb_ExpertType j), res_Status = jb_Status j, res_Result = r\<rparr>"

definition GetJobResult ::
  "('q, 'st) deps \<Rightarrow> time \<Rightarrow> time \<Rightarrow> JobParams \<Rightarrow> ('q, 'st) Server \<Rightarrow> Reply \<times> ('q, 'st) Server" where
  "GetJobResult d reqNow now params =
     with_scope d reqNow now ''/result'' params (\<lambda>inst requestID tenantID projectID s.
       (case scopedJob s (jp_JobID params) tenantID projectID of
          None \<Rightarrow> job_not_found inst requestID
        | Some current \<Rightarrow>
            (case (jb_Status current = statusSucceeded, jb_Result current) of
               (True, Some r) \<Rightarrow> (StatusOK, BResult (resultResponse current r))
             | _ \<Rightarrow> (StatusConflict,
                  BProblem (problem inst requestID ''result-not-ready'' ''Result not ready''
                    ''job is still running''))), s))"

definition deliveryView :: "DeliveryRecord \<Rightarrow> WebhookDeliveryRecord" where
  "deliveryView rec =
     \<lparr>wdr_DeliveryId = dr_DeliveryID rec, wdr_EventId = dr_EventID rec,
      wdr_EventType = dr_EventType rec,
      wdr_JobId = (if TrimSpace (dr_JobID rec) \<noteq> [] then Some (dr_JobID rec) else None),
      wdr_CallbackUrl = dr_CallbackURL rec, wdr_Attempt = dr_Attempt rec,
      wdr_MaxAttempts = dr_MaxAttempts rec, wdr_Success = dr_Success rec,
      wdr_HttpStatus = dr_HTTPStatus rec, wdr_Error = dr_Error rec,
      wdr_RequestedAt = dr_RequestedAt rec, wdr_DurationMs = dr_DurationMs rec,
      wdr_NextRetryAt = dr_NextRetryAt rec, wdr_PayloadSha256 = dr_PayloadSHA256 rec\<rparr>"

definition GetJobDeliveries ::
  "('q, 'st) deps \<Rightarrow> time \<Rightarrow> time \<Rightarrow> JobParams \<Rightarrow> ('q, 'st) Server \<Rightarrow> Reply \<times> ('q, 'st) Server" where
  "GetJobDeliveries d reqNow now params =
     with_scope d reqNow now ''/deliveries'' params (\<lambda>inst requestID tenantID projectID s.
       (case scopedJob s (jp_JobID params) tenantID projectID of
          None \<Rightarrow> job_not_found inst requestID
        | Some current \<Rightarrow>
            (case (case dp_deliveryRead d of None \<Rightarrow> Inr [] | Some list \<Rightarrow> list (jp_JobID params)) of
               Inl e \<Rightarrow> (StatusInternalServerError,
                  BProblem (problem inst requestID ''internal-error'' ''Internal error''
                    ''failed to list webhook deliveries''))
             | Inr records \<Rightarrow> (StatusOK,
                  BDeliveries \<lparr>jdr_JobId = jp_JobID params, jdr_TenantId = jb_TenantID current,
                    jdr_ProjectId = jb_ProjectID current,
                    jdr_Deliveries = map deliveryView records\<rparr>)), s))"


section \<open>Canceling and replaying a job\<close>

definition invalid_transition :: "string \<Rightarrow> string \<Rightarrow> string \<Rightarrow> Reply" where
  "invalid_transition inst requestID detail =
     (StatusConflict, BProblem (problem inst requestID ''invalid-transition''
        ''Invalid state transition'' detail))"

definition CancelJob_locked ::
  "('q, 'st) deps \<Rightarrow> time \<Rightarrow> string \<Rightarrow> string \<Rightarrow> string \<Rightarrow> string \<Rightarrow> string \<Rightarrow>
   ('q, 'st) Server \<Rightarrow> Reply \<times> ('q, 'st) Server" where
  "CancelJob_locked d now jobID inst requestID tenantID projectID s =
     (case scopedJob s jobID tenantID projectID of
        None \<Rightarrow> (job_not_found inst requestID, s)
      | Some current \<Rightarrow>
          if terminal (jb_Status current)
          then (invalid_transition inst requestID ''job is already terminal'', s)
          else (let j = current\<lparr>jb_Status := statusCanceled, jb_UpdatedAt := now\<rparr>
                in ((StatusAccepted, BStatus (statusResponse j)), persistLocked d (putJob jobID j s))))"

definition CancelJob ::
  "('q, 'st) deps \<Rightarrow> time \<Rightarrow> time \<Rightarrow> time \<Rightarrow> JobParams \<Rightarrow> ('q, 'st) Server \<Rightarrow>
   Reply \<times> ('q, 'st) Server" where
  "CancelJob d reqNow now1 now2 params =
     with_scope d reqNow now1 ''/cancel'' params
       (CancelJob_locked d now2 (jp_JobID params))"

definition replayed :: "job \<Rightarrow> time \<Rightarrow> job" where
  "replayed j now = j\<lparr>jb_Status := statusQueued, jb_Progress := 0, jb_Attempt := 1,
     jb_UpdatedAt := now, jb_LastError := None\<rparr>"

definition ReplayJob_locked ::
  "('q, 'st) deps \<Rightarrow> time \<Rightarrow> string \<Rightarrow> string \<Rightarrow> string \<Rightarrow> string \<Rightarrow> string \<Rightarrow>
   ('q, 'st) Server \<Rightarrow> (Reply + string) \<times> ('q, 'st) Server" where
  "ReplayJob_locked d now jobID inst requestID tenantID projectID s =
     (case scopedJob s jobID tenantID projectID of
        None \<Rightarrow> (Inl (job_not_found inst requestID), s)
      | Some current \<Rightarrow>
          if jb_Status current \<noteq> statusFailed \<and> jb_Status current \<noteq> statusCanceled
             \<and> jb_Status current \<noteq> statusExpired
          then (Inl (invalid_transition inst requestID
                  ''only failed/canceled/expired jobs can be replayed''), s)
          else (let s1 = putJob jobID (replayed current now) s;
                    s2 = s1\<lparr>sv_dlq := mdel (jb_ID current) (sv_dlq s1)\<rparr>
                in (Inr (jb_ID current), persistLocked d s2)))"

text \<open>
  The response is built after the enqueue, from the shared job: what a worker that was faster has
  already done to it shows in the response.  Here nothing happens in between.
\<close>

definition ReplayJob ::
  "('q, 'st) deps \<Rightarrow> time \<Rightarrow> time \<Rightarrow> time \<Rightarrow> JobParams \<Rightarrow> ('q, 'st) Server \<Rightarrow>
   Reply \<times> ('q, 'st) Server" where
  "ReplayJob d reqNow now1 now2 params =
     with_scope d reqNow now1 ''/replay'' params (\<lambda>inst requestID tenantID projectID s.
       (case ReplayJob_locked d now2 (jp_JobID params) inst requestID tenantID projectID s of
          (Inl reply, s') \<Rightarrow> (reply, s')
        | (Inr jobID, s') \<Rightarrow>
            (case getJob s' (jp_JobID params) of
               None \<Rightarrow> (job_not_found inst requestID, s')
             | Some current \<Rightarrow>
                 ((StatusAccepted, BStatus (statusResponse current)), enqueue d s' jobID))))"


section \<open>Queries and capabilities\<close>

definition query_check ::
  "('q, 'st) Server \<Rightarrow> ScopeParams \<Rightarrow> string \<Rightarrow> QueryRequest \<Rightarrow> Reply + expertMetadata" where
  "query_check s params requestID req =
     (let tenantID = TrimSpace (cp_XTenantId params);
          projectID = TrimSpace (cp_XProjectId params);
          bad = bad_request ''/v1/assistant/query'' requestID
      in if tenantID = [] \<or> projectID = [] then Inl (bad scope_required)
         else if scope_mismatch (qreq_TenantId req) tenantID
           then Inl (bad ''body `tenant_id` does not match header `X-Tenant-Id`'')
         else if scope_mismatch (qreq_ProjectId req) projectID
           then Inl (bad ''body `project_id` does not match header `X-Project-Id`'')
         else if TrimSpace (qreq_ExpertId req) = [] then Inl (bad ''field `expert_id` is required'')
         else if TrimSpace (qreq_Question req) = [] then Inl (bad ''field `question` is required'')
         else (case lookupExpert s (qreq_ExpertId req) of
                 None \<Rightarrow> Inl (bad ''unknown `expert_id`'')
               | Some expert \<Rightarrow>
                   if \<not> expertSupports expert ''query''
                   then Inl (bad ''expert does not support `query`'') else Inr expert))"

definition queryAnswer :: "expertMetadata \<Rightarrow> string \<Rightarrow> time \<Rightarrow> QueryResponse" where
  "queryAnswer expert question now =
     \<lparr>er_Title = Some (''Quick answer from '' @ em_ExpertName expert),
      er_Answer = ''Mock answer for question: '' @ question,
      er_Confidence = 76 / 100, er_FreshnessCutoff = rfc3339 now,
      er_References =
        [[(''kind'', JStr ''article''), (''ref_id'', JStr ''src_query_001''),
          (''title'', JStr ''Mock Query Source''),
          (''uri'', JStr ''https://example.com/mock-query-source''),
          (''published_at'', JStr (rfc3339 (now - 10 * nsPerMinute)))]],
      er_Citations = [], er_Limitations = []\<rparr>"

definition QueryExpert ::
  "time \<Rightarrow> time \<Rightarrow> ScopeParams \<Rightarrow> QueryRequest \<Rightarrow> ('q, 'st) Server \<Rightarrow> Reply" where
  "QueryExpert reqNow now params req s =
     (let requestID = normalizeRequestID reqNow (cp_XRequestId params)
      in (case query_check s params requestID req of
            Inl reply \<Rightarrow> reply
          | Inr expert \<Rightarrow> (StatusOK, BQuery (queryAnswer expert (qreq_Question req) now))))"

definition expertCapability :: "expertMetadata \<Rightarrow> ExpertCapability" where
  "expertCapability e =
     \<lparr>cap_ExpertId = em_ExpertID e, cap_ExpertName = em_ExpertName e,
      cap_ExpertType = em_ExpertType e, cap_Supports = em_Supports e, cap_Status = ''active'',
      cap_Version = em_Version e\<rparr>"

definition GetExpertCapabilities ::
  "time \<Rightarrow> ScopeParams \<Rightarrow> ('q, 'st) Server \<Rightarrow> Reply" where
  "GetExpertCapabilities reqNow params s =
     (let requestID = normalizeRequestID reqNow (cp_XRequestId params)
      in if TrimSpace (cp_XTenantId params) = [] \<or> TrimSpace (cp_XProjectId params) = []
         then bad_request ''/v1/assistant/experts'' requestID scope_required
         else (StatusOK, BExperts \<lparr>ecr_Experts = map (expertCapability \<circ> snd) (sv_experts s)\<rparr>))"

lemmas orch_handler_defs [handler_defs] = SubmitBriefJob_def GetJobStatus_def GetJobResult_def
  GetJobDeliveries_def CancelJob_def ReplayJob_def QueryExpert_def GetExpertCapabilities_def

end
