(* ===== verification/Orch_Metrics.thy ===== *)
theory Orch_Metrics
  imports Orch_Api
begin

text \<open>
  The observability endpoints of the orchestrator: \<open>MetricsSnapshot\<close>, \<open>MetricsHandler\<close> and
  \<open>HealthHandler\<close> of \<open>internal/orchestrator/server.go\<close>.  The snapshot is a fold over the jobs in
  the order of a \<open>range\<close> loop; the lemmas give each counter as a count over the jobs, so the
  order does not matter.
\<close>

record TenantMetrics =
  tm_TenantID :: string
  tm_ProjectID :: string
  tm_JobsTotal :: int
  tm_Queued :: int
  tm_Running :: int
  tm_Succeeded :: int
  tm_Failed :: int
  tm_Canceled :: int
  tm_Expired :: int
  tm_RetryCount :: int
  tm_EstimatedTokens :: int

definition zeroTenant :: TenantMetrics where
  "zeroTenant = \<lparr>tm_TenantID = [], tm_ProjectID = [], tm_JobsTotal = 0, tm_Queued = 0,
     tm_Running = 0, tm_Succeeded = 0, tm_Failed = 0, tm_Canceled = 0, tm_Expired = 0,
     tm_RetryCount = 0, tm_EstimatedTokens = 0\<rparr>"

record MetricsSnapshot =
  ms_TimestampUTC :: string
  ms_QueueDepth :: int
  ms_JobsTotal :: int
  ms_DLQTotal :: int
  ms_ByStatus :: "int gomap"
  ms_ByTenant :: "TenantMetrics gomap"

definition metricsKey :: "job \<Rightarrow> string" where
  "metricsKey j = jb_TenantID j @ ''::'' @ jb_ProjectID j"

text \<open>\<open>m[k]++\<close> on a map of integers.\<close>

definition mincr :: "string \<Rightarrow> int gomap \<Rightarrow> int gomap" where
  "mincr k m = mput k ((case mget m k of None \<Rightarrow> 0 | Some n \<Rightarrow> n) + 1) m"

definition countStatus :: "string \<Rightarrow> TenantMetrics \<Rightarrow> TenantMetrics" where
  "countStatus st t =
     (if st = statusQueued then t\<lparr>tm_Queued := tm_Queued t + 1\<rparr>
      else if st = statusRunning then t\<lparr>tm_Running := tm_Running t + 1\<rparr>
      else if st = statusSucceeded then t\<lparr>tm_Succeeded := tm_Succeeded t + 1\<rparr>
      else if st = statusFailed then t\<lparr>tm_Failed := tm_Failed t + 1\<rparr>
      else if st = statusCanceled then t\<lparr>tm_Canceled := tm_Canceled t + 1\<rparr>
      else if st = statusExpired then t\<lparr>tm_Expired := tm_Expired t + 1\<rparr>
      else t)"

text \<open>The body of the loop for one job and the entry of its tenant.\<close>

definition countTenant :: "job \<Rightarrow> TenantMetrics \<Rightarrow> TenantMetrics" where
  "countTenant j t =
     (let t1 = t\<lparr>tm_TenantID := jb_TenantID j, tm_ProjectID := jb_ProjectID j,
                 tm_JobsTotal := tm_JobsTotal t + 1,
                 tm_RetryCount := tm_RetryCount t + maxInt (jb_Attempt j - 1) 0\<rparr>;
          t2 = countStatus (jb_Status j) t1
      in (case jb_Result j of
            None \<Rightarrow> t2
          | Some r \<Rightarrow>
              t2\<lparr>tm_EstimatedTokens := tm_EstimatedTokens t2 + estimateTokens (er_Answer r)\<rparr>))"

definition tenantOf :: "TenantMetrics gomap \<Rightarrow> string \<Rightarrow> TenantMetrics" where
  "tenantOf m key = (case mget m key of None \<Rightarrow> zeroTenant | Some t \<Rightarrow> t)"

definition countJob :: "int gomap \<times> TenantMetrics gomap \<Rightarrow> string \<times> job \<Rightarrow>
  int gomap \<times> TenantMetrics gomap" where
  "countJob acc item =
     (let j = snd item; key = metricsKey j
      in (mincr (jb_Status j) (fst acc),
          mput key (countTenant j (tenantOf (snd acc) key)) (snd acc)))"

definition zeroByStatus :: "int gomap" where
  "zeroByStatus = [(statusQueued, 0), (statusRunning, 0), (statusSucceeded, 0), (statusFailed, 0),
     (statusCanceled, 0), (statusExpired, 0)]"

definition MetricsSnapshot :: "('q, 'st) deps \<Rightarrow> time \<Rightarrow> ('q, 'st) Server \<Rightarrow> MetricsSnapshot" where
  "MetricsSnapshot d now s =
     (let counts = foldl countJob (zeroByStatus, []) (sv_jobs s)
      in \<lparr>ms_TimestampUTC = rfc3339nano now, ms_QueueDepth = dp_Depth d (sv_queue s),
          ms_JobsTotal = int (length (sv_jobs s)), ms_DLQTotal = int (length (sv_dlq s)),
          ms_ByStatus = fst counts, ms_ByTenant = snd counts\<rparr>)"

datatype 'a plain_reply = StatusOnly int | Encoded 'a

definition MetricsHandler ::
  "('q, 'st) deps \<Rightarrow> time \<Rightarrow> Request \<Rightarrow> ('q, 'st) Server \<Rightarrow> MetricsSnapshot plain_reply" where
  "MetricsHandler d now r s =
     (if rq_Method r \<noteq> ''GET'' then StatusOnly StatusMethodNotAllowed
      else Encoded (MetricsSnapshot d now s))"

definition HealthHandler ::
  "('q, 'st) deps \<Rightarrow> time \<Rightarrow> Request \<Rightarrow> ('q, 'st) Server \<Rightarrow> json plain_reply" where
  "HealthHandler d now r s =
     (if rq_Method r \<noteq> ''GET'' then StatusOnly StatusMethodNotAllowed
      else Encoded (JObj
        [(''status'', JStr ''ok''), (''queue_depth'', JNum (of_int (dp_Depth d (sv_queue s)))),
         (''jobs_total'', JNum (of_int (int (length (sv_jobs s))))),
         (''timestamp'', JStr (rfc3339nano now))]))"


section \<open>What the counters count\<close>

lemma mget_mincr: "mget (mincr k m) k' =
    (if k' = k then Some ((case mget m k of None \<Rightarrow> 0 | Some n \<Rightarrow> n) + 1) else mget m k')"
  by (simp add: mincr_def)

text \<open>The number of jobs with a property, and the sum of a quantity over the jobs of a tenant.\<close>

definition jobCount :: "(job \<Rightarrow> bool) \<Rightarrow> job gomap \<Rightarrow> int" where
  "jobCount P jobs = int (length (filter (P \<circ> snd) jobs))"

definition jobSum :: "(job \<Rightarrow> int) \<Rightarrow> string \<Rightarrow> job gomap \<Rightarrow> int" where
  "jobSum f key jobs = sum_list (map (f \<circ> snd) (filter (\<lambda>e. metricsKey (snd e) = key) jobs))"

definition statusCount :: "int gomap \<Rightarrow> string \<Rightarrow> int" where
  "statusCount m st = (case mget m st of None \<Rightarrow> 0 | Some n \<Rightarrow> n)"

lemma foldl_countJob_status:
  "statusCount (fst (foldl countJob acc jobs)) st
     = statusCount (fst acc) st + jobCount (\<lambda>j. jb_Status j = st) jobs"
  by (induction jobs arbitrary: acc)
    (auto simp: countJob_def Let_def statusCount_def jobCount_def mget_mincr)

lemma foldl_countJob_tenant:
  assumes "\<And>j t. f (countTenant j t) = f t + g j"
  shows "f (tenantOf (snd (foldl countJob acc jobs)) key)
     = f (tenantOf (snd acc) key) + jobSum g key jobs"
proof (induction jobs arbitrary: acc)
  case Nil
  then show ?case by (simp add: jobSum_def)
next
  case (Cons e jobs)
  have "f (tenantOf (snd (countJob acc e)) key)
      = f (tenantOf (snd acc) key) + (if metricsKey (snd e) = key then g (snd e) else 0)"
    by (auto simp: countJob_def Let_def tenantOf_def assms)
  with Cons show ?case by (simp add: jobSum_def)
qed

lemma countTenant_fields:
  "tm_JobsTotal (countTenant j t) = tm_JobsTotal t + 1"
  "tm_RetryCount (countTenant j t) = tm_RetryCount t + maxInt (jb_Attempt j - 1) 0"
  "tm_EstimatedTokens (countTenant j t) = tm_EstimatedTokens t
     + (case jb_Result j of None \<Rightarrow> 0 | Some r \<Rightarrow> estimateTokens (er_Answer r))"
  "tm_Queued (countTenant j t) = tm_Queued t + (if jb_Status j = statusQueued then 1 else 0)"
  "tm_Running (countTenant j t) = tm_Running t + (if jb_Status j = statusRunning then 1 else 0)"
  "tm_Succeeded (countTenant j t) = tm_Succeeded t + (if jb_Status j = statusSucceeded then 1 else 0)"
  "tm_Failed (countTenant j t) = tm_Failed t + (if jb_Status j = statusFailed then 1 else 0)"
  "tm_Canceled (countTenant j t) = tm_Canceled t + (if jb_Status j = statusCanceled then 1 else 0)"
  "tm_Expired (countTenant j t) = tm_Expired t + (if jb_Status j = statusExpired then 1 else 0)"
  by (auto simp: countTenant_def countStatus_def Let_def split: option.splits)

lemma zeroByStatus_zero: "statusCount zeroByStatus st = 0"
  by (simp add: statusCount_def zeroByStatus_def mget_def)

lemma jobSum_one: "jobSum (\<lambda>_. 1) key jobs = jobCount (\<lambda>j. metricsKey j = key) jobs"
  by (induction jobs) (auto simp: jobSum_def jobCount_def)

lemma jobCount_order: "mset m = mset m' \<Longrightarrow> jobCount P m = jobCount P m'"
  unfolding jobCount_def by (metis mset_filter size_mset)

lemma jobSum_order: "mset m = mset m' \<Longrightarrow> jobSum f key m = jobSum f key m'"
  unfolding jobSum_def
  by (rule sum_list_range_order [of "filter (\<lambda>e. metricsKey (snd e) = key) m", unfolded o_def,
      folded o_def]) (simp only: mset_filter)


section \<open>Properties\<close>

definition spread :: "(TenantMetrics \<Rightarrow> int) \<Rightarrow> TenantMetrics gomap \<Rightarrow> int" where
  "spread f m = sum_list (map (f \<circ> snd) m)"

lemma sum_mput:
  fixes g :: "'v \<Rightarrow> int"
  shows "mwf m \<Longrightarrow> sum_list (map (g \<circ> snd) (mput k v m))
     = sum_list (map (g \<circ> snd) m) - (case mget m k of None \<Rightarrow> 0 | Some w \<Rightarrow> g w) + g v"
proof (induction m)
  case Nil
  then show ?case by (simp add: mput_def)
next
  case (Cons e m)
  obtain k' w where e: "e = (k', w)" by (cases e)
  from Cons.prems have "mwf m" by (simp add: mwf_def mkeys_def)
  with Cons e show ?case by (simp add: mput_def mget_def)
qed

lemma mincr_sum: "mwf m \<Longrightarrow> sum_list (map snd (mincr k m)) = sum_list (map snd m) + 1"
  using sum_mput [of m "\<lambda>n. n" k] by (simp add: mincr_def comp_def split: option.splits)

lemma countJob_wf: "mwf (fst acc) \<Longrightarrow> mwf (snd acc) \<Longrightarrow>
    mwf (fst (countJob acc e)) \<and> mwf (snd (countJob acc e))"
  by (simp add: countJob_def Let_def mincr_def)

lemma countJob_totals:
  assumes "mwf (fst acc)" "mwf (snd acc)"
  shows "sum_list (map snd (fst (countJob acc e))) = sum_list (map snd (fst acc)) + 1"
    and "spread tm_JobsTotal (snd (countJob acc e)) = spread tm_JobsTotal (snd acc) + 1"
  using assms sum_mput [OF assms(2), of tm_JobsTotal]
  by (auto simp: countJob_def Let_def mincr_sum spread_def countTenant_fields tenantOf_def
      zeroTenant_def split: option.splits)

lemma foldl_countJob_totals:
  "mwf (fst acc) \<Longrightarrow> mwf (snd acc) \<Longrightarrow>
     sum_list (map snd (fst (foldl countJob acc jobs)))
       = sum_list (map snd (fst acc)) + int (length jobs)
     \<and> spread tm_JobsTotal (snd (foldl countJob acc jobs))
       = spread tm_JobsTotal (snd acc) + int (length jobs)"
  by (induction jobs arbitrary: acc) (simp_all add: countJob_totals countJob_wf)

text \<open>
  The totals of a snapshot agree: the counters by status, the job counters of all tenants and
  the number of jobs are the same number.
\<close>

theorem metrics_totals:
  "sum_list (map snd (ms_ByStatus (MetricsSnapshot d now s))) = ms_JobsTotal (MetricsSnapshot d now s)
   \<and> spread tm_JobsTotal (ms_ByTenant (MetricsSnapshot d now s))
       = ms_JobsTotal (MetricsSnapshot d now s)"
  using foldl_countJob_totals [of "(zeroByStatus, [])" "sv_jobs s"]
  by (simp add: MetricsSnapshot_def Let_def spread_def zeroByStatus_def mwf_def mkeys_def)

text \<open>The entry of a tenant's project, and the number of its jobs in a state.\<close>

definition tenantMetrics ::
  "('q, 'st) deps \<Rightarrow> time \<Rightarrow> ('q, 'st) Server \<Rightarrow> string \<Rightarrow> TenantMetrics" where
  "tenantMetrics d now s key = tenantOf (ms_ByTenant (MetricsSnapshot d now s)) key"

definition inState :: "string \<Rightarrow> string \<Rightarrow> ('q, 'st) Server \<Rightarrow> int" where
  "inState st key s = jobSum (\<lambda>j. if jb_Status j = st then 1 else 0) key (sv_jobs s)"

text \<open>
  Every counter of a snapshot is the count it is named after: by status over all jobs, and for
  a tenant and project over the jobs with that key; retries are the attempts after the first, and
  the token estimate is the sum of the estimates of the answers.
\<close>

theorem metrics_counters:
  "statusCount (ms_ByStatus (MetricsSnapshot d now s)) st
      = jobCount (\<lambda>j. jb_Status j = st) (sv_jobs s)
    \<and> tm_JobsTotal (tenantMetrics d now s key) = jobCount (\<lambda>j. metricsKey j = key) (sv_jobs s)
    \<and> tm_Queued (tenantMetrics d now s key) = inState statusQueued key s
    \<and> tm_Running (tenantMetrics d now s key) = inState statusRunning key s
    \<and> tm_Succeeded (tenantMetrics d now s key) = inState statusSucceeded key s
    \<and> tm_Failed (tenantMetrics d now s key) = inState statusFailed key s
    \<and> tm_Canceled (tenantMetrics d now s key) = inState statusCanceled key s
    \<and> tm_Expired (tenantMetrics d now s key) = inState statusExpired key s
    \<and> tm_RetryCount (tenantMetrics d now s key)
        = jobSum (\<lambda>j. maxInt (jb_Attempt j - 1) 0) key (sv_jobs s)
    \<and> tm_EstimatedTokens (tenantMetrics d now s key) = jobSum (\<lambda>j. case jb_Result j of None \<Rightarrow> 0
        | Some r \<Rightarrow> estimateTokens (er_Answer r)) key (sv_jobs s)"
proof -
  note fold = foldl_countJob_tenant [of _ _ "(zeroByStatus, [])" "sv_jobs s" key, OF countTenant_fields(1)]
    foldl_countJob_tenant [of _ _ "(zeroByStatus, [])" "sv_jobs s" key, OF countTenant_fields(2)]
    foldl_countJob_tenant [of _ _ "(zeroByStatus, [])" "sv_jobs s" key, OF countTenant_fields(3)]
    foldl_countJob_tenant [of _ _ "(zeroByStatus, [])" "sv_jobs s" key, OF countTenant_fields(4)]
    foldl_countJob_tenant [of _ _ "(zeroByStatus, [])" "sv_jobs s" key, OF countTenant_fields(5)]
    foldl_countJob_tenant [of _ _ "(zeroByStatus, [])" "sv_jobs s" key, OF countTenant_fields(6)]
    foldl_countJob_tenant [of _ _ "(zeroByStatus, [])" "sv_jobs s" key, OF countTenant_fields(7)]
    foldl_countJob_tenant [of _ _ "(zeroByStatus, [])" "sv_jobs s" key, OF countTenant_fields(8)]
    foldl_countJob_tenant [of _ _ "(zeroByStatus, [])" "sv_jobs s" key, OF countTenant_fields(9)]
  show ?thesis
    unfolding tenantMetrics_def inState_def MetricsSnapshot_def Let_def
    by (simp add: fold foldl_countJob_status zeroByStatus_zero jobSum_one)
      (simp add: tenantOf_def zeroTenant_def)
qed

end
