(* ===== verification/Executor.thy ===== *)
theory Executor
  imports Go_Http
begin

text \<open>
  The executors a worker runs a brief with (\<open>internal/worker/executor/\<close>): the mock executor and
  the client of the expert runtime.  What an execution can come to is \<open>exec_outcome\<close>: a result,
  the runtime having accepted the task for later (\<open>ErrAsyncAccepted\<close>), or an error.
\<close>

record BriefInput =
  bi_JobID :: string
  bi_TenantID :: string
  bi_ProjectID :: string
  bi_ExpertID :: string
  bi_ExpertName :: string
  bi_ExpertType :: string
  bi_Date :: string
  bi_TraceID :: string

datatype exec_outcome = ExecOk ExpertResult | ExecAsync | ExecErr string


section \<open>The mock executor\<close>

record mockConfig =
  mk_stageDelay :: duration

definition WithStageDelay :: "duration \<Rightarrow> mockConfig \<Rightarrow> mockConfig" where
  "WithStageDelay delay c = (if 0 < delay then c\<lparr>mk_stageDelay := delay\<rparr> else c)"

definition NewMockExecutor :: "(mockConfig \<Rightarrow> mockConfig) list \<Rightarrow> mockConfig" where
  "NewMockExecutor opts = fold (\<lambda>opt c. opt c) opts \<lparr>mk_stageDelay = 200 * 1000000\<rparr>"

text \<open>\<open>ctxErr\<close>: the error of the context when it is done before the timer.\<close>

definition sleepWithContext :: "string option \<Rightarrow> duration \<Rightarrow> string option" where
  "sleepWithContext ctxErr dur = (if dur \<le> 0 then None else ctxErr)"

definition MockExecutor_ExecuteBrief ::
  "mockConfig \<Rightarrow> string option \<Rightarrow> string option \<Rightarrow> time \<Rightarrow> BriefInput \<Rightarrow> exec_outcome" where
  "MockExecutor_ExecuteBrief cfg ctxErr1 ctxErr2 now inp =
     (case sleepWithContext ctxErr1 (mk_stageDelay cfg) of
        Some e \<Rightarrow> ExecErr e
      | None \<Rightarrow>
          (case sleepWithContext ctxErr2 (mk_stageDelay cfg) of
             Some e \<Rightarrow> ExecErr e
           | None \<Rightarrow> ExecOk
               \<lparr>er_Title = Some (bi_Date inp @ '' market brief''),
                er_Answer = ''Mock brief generated for expert '' @ bi_ExpertID inp @ '' on ''
                  @ bi_Date inp @ ''.'',
                er_Confidence = 82 / 100, er_FreshnessCutoff = rfc3339 now,
                er_References =
                  [[(''kind'', JStr ''article''), (''ref_id'', JStr ''src_mock_001''),
                    (''title'', JStr ''Mock Market Source''),
                    (''uri'', JStr ''https://example.com/mock-source''),
                    (''published_at'', JStr (rfc3339 (now - 15 * nsPerMinute)))]],
                er_Citations = [], er_Limitations = [''mock runtime response'']\<rparr>))"


section \<open>The runtime executor\<close>

record RuntimeExecutor =
  re_baseURL :: string
  re_authToken :: string
  re_asyncMode :: bool
  re_taskTimeout :: duration

definition WithRuntimeAuthToken :: "string \<Rightarrow> RuntimeExecutor \<Rightarrow> RuntimeExecutor" where
  "WithRuntimeAuthToken token e = e\<lparr>re_authToken := TrimSpace token\<rparr>"

definition WithRuntimeAsyncMode :: "bool \<Rightarrow> RuntimeExecutor \<Rightarrow> RuntimeExecutor" where
  "WithRuntimeAsyncMode v e = e\<lparr>re_asyncMode := v\<rparr>"

definition WithRuntimeTaskTimeout :: "duration \<Rightarrow> RuntimeExecutor \<Rightarrow> RuntimeExecutor" where
  "WithRuntimeTaskTimeout v e = (if 0 < v then e\<lparr>re_taskTimeout := v\<rparr> else e)"

definition NewRuntimeExecutor ::
  "string \<Rightarrow> (RuntimeExecutor \<Rightarrow> RuntimeExecutor) list \<Rightarrow> RuntimeExecutor" where
  "NewRuntimeExecutor baseURL opts = fold (\<lambda>opt e. opt e) opts
     \<lparr>re_baseURL = TrimRightChar (CHR ''/'') (TrimSpace baseURL), re_authToken = [],
      re_asyncMode = False, re_taskTimeout = 60 * nsPerSecond\<rparr>"

record runtimeTaskRequest =
  rt_TaskID :: string
  rt_JobID :: string
  rt_TenantID :: string
  rt_ProjectID :: string
  rt_TaskType :: string
  rt_Date :: string
  rt_TimeoutSeconds :: int
  rt_TraceID :: string

record runtimeTaskResponse =
  rr_Status :: string
  rr_Result :: "ExpertResult option"

text \<open>What the executor calls outside the program: building a request for a URL (which may refuse
  it), the HTTP client, decoding the response, and SHA-256.\<close>

record runtimeClient =
  rc_build :: "string \<Rightarrow> string option"
  rc_do :: "string \<Rightarrow> Header \<Rightarrow> runtimeTaskRequest \<Rightarrow> string + int \<times> string"
  rc_decode :: "string \<Rightarrow> string + runtimeTaskResponse"
  rc_sha256 :: "string \<Rightarrow> string"

definition timeoutSeconds :: "duration \<Rightarrow> int" where
  "timeoutSeconds t = (let secs = t div nsPerSecond in if secs \<le> 0 then 60 else secs)"

definition taskRequest :: "RuntimeExecutor \<Rightarrow> BriefInput \<Rightarrow> runtimeTaskRequest" where
  "taskRequest e inp =
     \<lparr>rt_TaskID = bi_JobID inp, rt_JobID = bi_JobID inp, rt_TenantID = bi_TenantID inp,
      rt_ProjectID = bi_ProjectID inp, rt_TaskType = ''daily_brief'', rt_Date = bi_Date inp,
      rt_TimeoutSeconds = timeoutSeconds (re_taskTimeout e), rt_TraceID = bi_TraceID inp\<rparr>"

definition traceparentFromID :: "(string \<Rightarrow> string) \<Rightarrow> string \<Rightarrow> string" where
  "traceparentFromID sha256 i =
     (let digest = sha256 (TrimSpace i)
      in ''00-'' @ hex_encode (take 16 digest) @ ''-'' @ hex_encode (take 8 (drop 16 digest)) @ ''-01'')"

definition taskHeaders :: "runtimeClient \<Rightarrow> RuntimeExecutor \<Rightarrow> BriefInput \<Rightarrow> Header" where
  "taskHeaders c e inp =
     (let h1 = hSet ''Content-Type'' ''application/json'' [];
          h2 = (if re_authToken e \<noteq> [] then hSet ''Authorization'' (''Bearer '' @ re_authToken e) h1
                else h1);
          h3 = (if re_asyncMode e then hSet ''X-COVA-Execution-Mode'' ''async'' h2 else h2)
      in if TrimSpace (bi_TraceID inp) \<noteq> []
         then hSet ''traceparent'' (traceparentFromID (rc_sha256 c) (bi_TraceID inp))
                (hSet ''X-Request-Id'' (bi_TraceID inp) h3)
         else h3)"

definition RuntimeExecutor_ExecuteBrief ::
  "runtimeClient \<Rightarrow> RuntimeExecutor \<Rightarrow> BriefInput \<Rightarrow> exec_outcome" where
  "RuntimeExecutor_ExecuteBrief c e inp =
     (let url = re_baseURL e @ ''/runtime/v1/tasks''
      in if TrimSpace (re_baseURL e) = [] then ExecErr ''runtime base url is required''
         else (case rc_build c url of
                 Some err \<Rightarrow> ExecErr (''build runtime request: '' @ err)
               | None \<Rightarrow>
                   (case rc_do c url (taskHeaders c e inp) (taskRequest e inp) of
                      Inl err \<Rightarrow> ExecErr (''call runtime api: '' @ err)
                    | Inr (status, body) \<Rightarrow>
                        if status = StatusAccepted then ExecAsync
                        else if status \<noteq> StatusOK
                          then ExecErr (''runtime api status='' @ dec_int status @ '' body=''
                                 @ TrimSpace body)
                        else (case rc_decode c body of
                                Inl err \<Rightarrow> ExecErr (''decode runtime response: '' @ err)
                              | Inr resp \<Rightarrow>
                                  (case rr_Result resp of
                                     None \<Rightarrow> ExecErr ''runtime response missing result''
                                   | Some r \<Rightarrow> ExecOk r)))))"

lemma timeoutSeconds_positive: "0 < timeoutSeconds t"
  by (simp add: timeoutSeconds_def Let_def)

text \<open>
  The runtime executor reports a result exactly when the runtime answered the task with 200
  and a body that decodes to a result, and an asynchronous execution exactly when it answered 202;
  everything else is an error.
\<close>

theorem runtime_outcomes:
  fixes c e inp
  assumes "TrimSpace (re_baseURL e) \<noteq> []" and "rc_build c (re_baseURL e @ ''/runtime/v1/tasks'') = None"
  shows "(RuntimeExecutor_ExecuteBrief c e inp = ExecAsync \<longleftrightarrow>
       (\<exists>body. rc_do c (re_baseURL e @ ''/runtime/v1/tasks'') (taskHeaders c e inp)
          (taskRequest e inp) = Inr (202, body)))
     \<and> (RuntimeExecutor_ExecuteBrief c e inp = ExecOk r \<longleftrightarrow>
       (\<exists>body resp. rc_do c (re_baseURL e @ ''/runtime/v1/tasks'') (taskHeaders c e inp)
          (taskRequest e inp) = Inr (200, body) \<and> rc_decode c body = Inr resp
          \<and> rr_Result resp = Some r))"
  using assms
  by (auto simp: RuntimeExecutor_ExecuteBrief_def Let_def http_status_defs
      split: sum.splits option.splits prod.splits)

definition demoClient :: runtimeClient where
  "demoClient = \<lparr>rc_build = (\<lambda>_. None), rc_do = (\<lambda>_ _ _. Inr (202, [])),
     rc_decode = (\<lambda>_. Inl []), rc_sha256 = (\<lambda>s. s)\<rparr>"

theorem runtime_outcomes_witness:
  "RuntimeExecutor_ExecuteBrief demoClient (NewRuntimeExecutor ''http://r'' [])
     \<lparr>bi_JobID = ''job_1'', bi_TenantID = ''t'', bi_ProjectID = ''p'', bi_ExpertID = ''e'',
      bi_ExpertName = ''E'', bi_ExpertType = ''x'', bi_Date = ''2024-01-01'', bi_TraceID = ''job_1''\<rparr>
   = ExecAsync"
proof -
  have "TrimSpace (re_baseURL (NewRuntimeExecutor ''http://r'' [])) \<noteq> []"
    by (simp add: NewRuntimeExecutor_def TrimRightChar_def trim_eval)
  moreover have "rc_build demoClient u = None" for u by (simp add: demoClient_def)
  ultimately show ?thesis
    using runtime_outcomes [of "NewRuntimeExecutor ''http://r'' []" demoClient]
    by (simp add: demoClient_def)
qed

end
