(* ===== verification/Webhook_Dispatcher.thy ===== *)
theory Webhook_Dispatcher
  imports Webhook_Store Go_Http
begin

text \<open>
  The webhook dispatcher (\<open>internal/delivery/webhook/dispatcher.go\<close>): events, signing, the retry
  loop and the record it writes for every attempt.

  Times and durations are integers (nanoseconds); the back-off is computed in floating point as
  the code does, on rationals with the rounding \<open>rnd\<close> of the machine as a parameter.  Converting a
  number that does not fit into 64 bits is left open by Go: its result is the parameter \<open>oor\<close>.
  HMAC, SHA-256, the JSON encoding, the HTTP client, the random generator, the clock and the sleep
  function are the record \<open>denv\<close>; each reading in attempt number \<open>n\<close> is a function of \<open>n\<close>.
\<close>

section \<open>Configuration and events\<close>

record dconfig =
  dc_maxAttempts :: int
  dc_initialBackoff :: duration
  dc_maxBackoff :: duration
  dc_requestTimeout :: duration
  dc_jitterFraction :: rat
  dc_source :: string

definition dispatcherDefaults :: dconfig where
  "dispatcherDefaults =
     \<lparr>dc_maxAttempts = 10, dc_initialBackoff = 200 * 1000000, dc_maxBackoff = 3 * nsPerSecond,
      dc_requestTimeout = 3 * nsPerSecond, dc_jitterFraction = 2 / 10,
      dc_source = ''cova://orchestrator''\<rparr>"

definition WithMaxAttempts :: "int \<Rightarrow> dconfig \<Rightarrow> dconfig" where
  "WithMaxAttempts v c = (if 0 < v then c\<lparr>dc_maxAttempts := v\<rparr> else c)"

definition WithInitialBackoff :: "duration \<Rightarrow> dconfig \<Rightarrow> dconfig" where
  "WithInitialBackoff v c = (if 0 \<le> v then c\<lparr>dc_initialBackoff := v\<rparr> else c)"

definition WithMaxBackoff :: "duration \<Rightarrow> dconfig \<Rightarrow> dconfig" where
  "WithMaxBackoff v c = (if 0 \<le> v then c\<lparr>dc_maxBackoff := v\<rparr> else c)"

definition WithRequestTimeout :: "duration \<Rightarrow> dconfig \<Rightarrow> dconfig" where
  "WithRequestTimeout v c = (if 0 < v then c\<lparr>dc_requestTimeout := v\<rparr> else c)"

definition WithJitterFraction :: "rat \<Rightarrow> dconfig \<Rightarrow> dconfig" where
  "WithJitterFraction v c = (if 0 \<le> v then c\<lparr>dc_jitterFraction := v\<rparr> else c)"

definition WithSource :: "string \<Rightarrow> dconfig \<Rightarrow> dconfig" where
  "WithSource v c = (if TrimSpace v \<noteq> [] then c\<lparr>dc_source := TrimSpace v\<rparr> else c)"

definition NewDispatcher :: "(dconfig \<Rightarrow> dconfig) list \<Rightarrow> dconfig" where
  "NewDispatcher opts = fold (\<lambda>opt c. opt c) opts dispatcherDefaults"

record JobCompletedData =
  jc_JobID :: string
  jc_Status :: string
  jc_ResultURL :: string

text \<open>
  \<open>Event.Data\<close> is of type \<open>any\<close>: the data of a completed job when the dispatcher makes the event,
  a decoded JSON value when the verifier does.
\<close>

datatype event_data = DJob JobCompletedData | DJson json

record Event =
  ev_SpecVersion :: string
  ev_ID :: string
  ev_Type :: string
  ev_Source :: string
  ev_Time :: string
  ev_DataContentType :: string
  ev_Data :: event_data

definition extractJobID :: "event_data \<Rightarrow> string" where
  "extractJobID data =
     (case data of
        DJob v \<Rightarrow> jc_JobID v
      | DJson (JObj m) \<Rightarrow> (case map_of m ''job_id'' of Some (JStr raw) \<Rightarrow> raw | _ \<Rightarrow> [])
      | DJson _ \<Rightarrow> [])"

text \<open>\<open>seq\<close> is the counter of the dispatcher before the call; it wraps at 64 bits.\<close>

definition newEvent :: "dconfig \<Rightarrow> time \<Rightarrow> 64 word \<Rightarrow> string \<Rightarrow> event_data \<Rightarrow> Event \<times> 64 word" where
  "newEvent c now seq eventType payload =
     (let seq' = seq + 1
      in (\<lparr>ev_SpecVersion = ''1.0'',
           ev_ID = ''evt_'' @ dec_int now @ ''_'' @ dec (unat seq'),
           ev_Type = eventType, ev_Source = dc_source c, ev_Time = rfc3339 now,
           ev_DataContentType = ''application/json'', ev_Data = payload\<rparr>, seq'))"


section \<open>One attempt\<close>

datatype attempt_error = Retryable string | NonRetryable string

fun isNonRetryable :: "attempt_error \<Rightarrow> bool" where
  "isNonRetryable (NonRetryable _) = True"
| "isNonRetryable (Retryable _) = False"

fun errText :: "attempt_error \<Rightarrow> string" where
  "errText (NonRetryable e) = e"
| "errText (Retryable e) = e"

record denv =
  de_marshal :: "Event \<Rightarrow> string + string"
  de_sha256 :: "string \<Rightarrow> string"
  de_hmac :: "string \<Rightarrow> string \<Rightarrow> string"
  de_build :: "string \<Rightarrow> string option"
  de_client :: "int \<Rightarrow> string \<Rightarrow> Header \<Rightarrow> string \<Rightarrow> string + int"
  de_now :: "int \<Rightarrow> time"
  de_signNow :: "int \<Rightarrow> time"
  de_elapsed :: "int \<Rightarrow> duration"
  de_random :: "int \<Rightarrow> rat"
  de_sleep :: "int \<Rightarrow> duration \<Rightarrow> string option"
  de_rnd :: "rat \<Rightarrow> rat"
  de_oor :: int

definition computeHMAC :: "(string \<Rightarrow> string \<Rightarrow> string) \<Rightarrow> string \<Rightarrow> string \<Rightarrow> string \<Rightarrow> string" where
  "computeHMAC hmac secret timestamp payload =
     hex_encode (hmac secret (timestamp @ ''.'' @ payload))"

definition payloadSHA256 :: "(string \<Rightarrow> string) \<Rightarrow> string \<Rightarrow> string" where
  "payloadSHA256 sha256 payload = hex_encode (sha256 payload)"

text \<open>The signature headers of an attempt, or why there are none.\<close>

definition signHeaders ::
  "denv \<Rightarrow> int \<Rightarrow> CallbackConfig \<Rightarrow> string \<Rightarrow> Header \<Rightarrow> attempt_error + Header" where
  "signHeaders e n callback payload h =
     (case cb_Signing callback of
        None \<Rightarrow> Inr h
      | Some g \<Rightarrow>
          (let algorithm = ToLower (TrimSpace (sig_Algorithm g));
               secret = TrimSpace (sig_SecretRef g);
               ts = dec_int (unix_sec (de_signNow e n))
           in if algorithm \<noteq> ''hmac-sha256''
              then Inl (NonRetryable (''unsupported signing algorithm: '' @ sig_Algorithm g))
              else if secret = [] then Inl (NonRetryable ''empty signing secret'')
              else Inr (hSet ''X-COVA-Signature''
                          (''sha256='' @ computeHMAC (de_hmac e) secret ts payload)
                          (hSet ''X-COVA-Timestamp'' ts h))))"

record attemptResult =
  ar_statusCode :: int
  ar_duration :: duration
  ar_err :: "attempt_error option"

definition tryOnce ::
  "denv \<Rightarrow> int \<Rightarrow> CallbackConfig \<Rightarrow> string \<Rightarrow> string \<Rightarrow> attemptResult" where
  "tryOnce e n callback url payload =
     (let result = (\<lambda>code err. \<lparr>ar_statusCode = code, ar_duration = de_elapsed e n, ar_err = err\<rparr>)
      in (case de_build e url of
            Some err \<Rightarrow> result 0 (Some (Retryable (''build request: '' @ err)))
          | None \<Rightarrow>
              (case signHeaders e n callback payload
                      (hSet ''Content-Type'' ''application/json'' []) of
                 Inl err \<Rightarrow> result 0 (Some err)
               | Inr h \<Rightarrow>
                   (case de_client e n url h payload of
                      Inl err \<Rightarrow> result 0 (Some (Retryable (''send request: '' @ err)))
                    | Inr code \<Rightarrow>
                        if code < 200 \<or> 300 \<le> code
                        then result code
                               (Some (Retryable (''unexpected status code: '' @ dec_int code)))
                        else result code None))))"


section \<open>Back-off\<close>

text \<open>\<open>time.Duration(x)\<close> of a float: truncation, with \<open>oor\<close> for what does not fit.\<close>

definition toDuration :: "int \<Rightarrow> rat \<Rightarrow> duration" where
  "toDuration oor x =
     (let n = (if 0 \<le> x then \<lfloor>x\<rfloor> else \<lceil>x\<rceil>)
      in if - (2 ^ 63) \<le> n \<and> n < 2 ^ 63 then n else oor)"

text \<open>
  \<open>math.Pow(2, n)\<close> is exact up to 2^1023 and infinite from there on; a product with an infinite
  factor is infinite or not a number, and its conversion does not fit either way.
\<close>

definition rawBackoff :: "(rat \<Rightarrow> rat) \<Rightarrow> int \<Rightarrow> dconfig \<Rightarrow> int \<Rightarrow> duration" where
  "rawBackoff rnd oor c attempt =
     (let base0 = rnd (of_int (dc_initialBackoff c));
          base = (if base0 < 0 then 0 else base0)
      in if 1023 < attempt - 1 then oor
         else toDuration oor (rnd (base * 2 ^ nat (attempt - 1))))"

definition jitterFactor :: "(rat \<Rightarrow> rat) \<Rightarrow> dconfig \<Rightarrow> rat \<Rightarrow> rat" where
  "jitterFactor rnd c r =
     (let j = rnd (1 + rnd (rnd (rnd (r * 2) - 1) * dc_jitterFraction c))
      in if j < 0 then 0 else j)"

definition backoff :: "(rat \<Rightarrow> rat) \<Rightarrow> int \<Rightarrow> dconfig \<Rightarrow> rat \<Rightarrow> int \<Rightarrow> duration" where
  "backoff rnd oor c r attempt =
     (let raw = rawBackoff rnd oor c attempt;
          b = (if 0 < dc_maxBackoff c \<and> dc_maxBackoff c < raw then dc_maxBackoff c else raw)
      in if b \<le> 0 \<or> dc_jitterFraction c \<le> 0 then b
         else toDuration oor (rnd (rnd (of_int b) * jitterFactor rnd c r)))"


section \<open>The retry loop\<close>

text \<open>The record of attempt \<open>n\<close>; milliseconds are truncated (elapsed time is not negative).\<close>

definition attemptRecord ::
  "denv \<Rightarrow> dconfig \<Rightarrow> Event \<Rightarrow> string \<Rightarrow> string \<Rightarrow> int \<Rightarrow> attemptResult \<Rightarrow> DeliveryRecord" where
  "attemptRecord e c event url payload n result =
     (let retryable = (case ar_err result of
                         None \<Rightarrow> False
                       | Some err \<Rightarrow> n < dc_maxAttempts c \<and> \<not> isNonRetryable err);
          delay = (if retryable then backoff (de_rnd e) (de_oor e) c (de_random e n) n else 0)
      in \<lparr>dr_DeliveryID = ev_ID event @ ''.'' @ dec_int n, dr_EventID = ev_ID event,
          dr_EventType = ev_Type event, dr_JobID = extractJobID (ev_Data event),
          dr_CallbackURL = url, dr_Attempt = n, dr_MaxAttempts = dc_maxAttempts c,
          dr_Success = (ar_err result = None),
          dr_HTTPStatus = (if 0 < ar_statusCode result then Some (ar_statusCode result) else None),
          dr_Error = map_option errText (ar_err result),
          dr_RequestedAt = rfc3339nano (de_now e n),
          dr_DurationMs = ar_duration result div 1000000,
          dr_NextRetryAt = (if retryable then Some (rfc3339nano (de_now e n + delay)) else None),
          dr_PayloadSHA256 = payloadSHA256 (de_sha256 e) payload\<rparr>)"

text \<open>
  The loop from attempt \<open>n\<close> on; \<open>put\<close> writes a record (its error is dropped).  The result is the
  error \<open>deliver\<close> returns, if any.
\<close>

function attempts_from ::
  "denv \<Rightarrow> dconfig \<Rightarrow> ('d \<Rightarrow> DeliveryRecord \<Rightarrow> 'd) \<Rightarrow> CallbackConfig \<Rightarrow> Event \<Rightarrow> string \<Rightarrow> string \<Rightarrow>
   string \<Rightarrow> int \<Rightarrow> 'd \<Rightarrow> string option \<times> 'd" where
  "attempts_from e c put callback event url payload lastErr n store =
     (let failed = Some (''webhook delivery failed after '' @ dec_int (dc_maxAttempts c)
                     @ '' attempts: '' @ lastErr)
      in if dc_maxAttempts c < n then (failed, store)
         else (let result = tryOnce e n callback url payload;
                   store' = put store (attemptRecord e c event url payload n result)
               in (case ar_err result of
                     None \<Rightarrow> (None, store')
                   | Some err \<Rightarrow>
                       if n = dc_maxAttempts c \<or> isNonRetryable err
                       then (Some (''webhook delivery failed after '' @ dec_int (dc_maxAttempts c)
                               @ '' attempts: '' @ errText err), store')
                       else (case de_sleep e n
                                    (backoff (de_rnd e) (de_oor e) c (de_random e n) n) of
                               Some waitErr \<Rightarrow>
                                 (Some (''webhook retry canceled: '' @ waitErr), store')
                             | None \<Rightarrow>
                                 attempts_from e c put callback event url payload (errText err)
                                   (n + 1) store'))))"
  by pat_completeness auto
termination
  by (relation "measure (\<lambda>(e, c, put, callback, event, url, payload, lastErr, n, store).
        nat (dc_maxAttempts c + 1 - n))") auto

declare attempts_from.simps [simp del]

definition deliver ::
  "denv \<Rightarrow> dconfig \<Rightarrow> ('d \<Rightarrow> DeliveryRecord \<Rightarrow> 'd) \<Rightarrow> CallbackConfig \<Rightarrow> Event \<Rightarrow> 'd \<Rightarrow>
   string option \<times> 'd" where
  "deliver e c put callback event store =
     (let url = TrimSpace (cb_Url callback)
      in if url = [] then (None, store)
         else (case de_marshal e event of
                 Inl err \<Rightarrow> (Some (''marshal webhook event: '' @ err), store)
               | Inr payload \<Rightarrow>
                   attempts_from e c put callback event url payload ''%!w(<nil>)'' 1 store))"

definition DeliverJobCompleted ::
  "denv \<Rightarrow> dconfig \<Rightarrow> ('d \<Rightarrow> DeliveryRecord \<Rightarrow> 'd) \<Rightarrow> time \<Rightarrow> 64 word \<Rightarrow> CallbackConfig \<Rightarrow>
   JobCompletedData \<Rightarrow> 'd \<Rightarrow> string option \<times> 'd \<times> 64 word" where
  "DeliverJobCompleted e c put now seq callback payload store =
     (let (event, seq') = newEvent c now seq ''com.cova.job.completed'' (DJob payload);
          (err, store') = deliver e c put callback event store
      in (err, store', seq'))"


section \<open>The records of a delivery\<close>

abbreviation append_record :: "DeliveryRecord list \<Rightarrow> DeliveryRecord \<Rightarrow> DeliveryRecord list" where
  "append_record rs r \<equiv> rs @ [r]"

text \<open>The records do not depend on the store they go to.\<close>

lemma attempts_from_put:
  "attempts_from e c put callback event url payload lastErr n (foldl put store acc)
     = (let (res, rs) = attempts_from e c append_record callback event url payload lastErr n acc
        in (res, foldl put store rs))"
proof (induction e c "append_record" callback event url payload lastErr n acc
    rule: attempts_from.induct)
  case (1 e c callback event url payload lastErr n acc)
  let ?r = "attemptRecord e c event url payload n (tryOnce e n callback url payload)"
  have put: "foldl put store (acc @ [?r]) = put (foldl put store acc) ?r" by simp
  from 1 show ?case
    by (subst (1 2) attempts_from.simps)
      (auto simp: Let_def put [symmetric] simp del: foldl_append split: option.splits)
qed

lemma attemptRecord_simps [simp]:
  "dr_Attempt (attemptRecord e c event url payload n result) = n"
  "dr_MaxAttempts (attemptRecord e c event url payload n result) = dc_maxAttempts c"
  "dr_JobID (attemptRecord e c event url payload n result) = extractJobID (ev_Data event)"
  "dr_EventID (attemptRecord e c event url payload n result) = ev_ID event"
  "dr_Success (attemptRecord e c event url payload n result) \<longleftrightarrow> ar_err result = None"
  by (simp_all add: attemptRecord_def Let_def)

lemma attemptRecord_retry:
  "ar_err result = Some err \<Longrightarrow> n < dc_maxAttempts c \<Longrightarrow> \<not> isNonRetryable err \<Longrightarrow>
     \<exists>ts. dr_NextRetryAt (attemptRecord e c event url payload n result) = Some ts"
  by (simp add: attemptRecord_def Let_def)

text \<open>
  What a run of the loop from attempt \<open>n\<close> writes: consecutive attempts, of which only the last may
  succeed, and after each of the others there is a retry time.
\<close>

definition good_run ::
  "denv \<Rightarrow> dconfig \<Rightarrow> CallbackConfig \<Rightarrow> string \<Rightarrow> string \<Rightarrow> int \<Rightarrow> string option \<Rightarrow>
   DeliveryRecord list \<Rightarrow> bool" where
  "good_run e c callback url payload n res rs \<longleftrightarrow>
     rs \<noteq> [] \<and> int (length rs) \<le> dc_maxAttempts c + 1 - n
     \<and> map dr_Attempt rs = map (\<lambda>i. n + int i) [0..<length rs]
     \<and> (\<forall>r\<in>set (butlast rs). \<not> dr_Success r \<and> dr_NextRetryAt r \<noteq> None)
     \<and> (res = None \<longleftrightarrow> dr_Success (last rs))
     \<and> (res \<noteq> None \<longrightarrow> dr_Attempt (last rs) = dc_maxAttempts c
          \<or> (\<exists>err. ar_err (tryOnce e (dr_Attempt (last rs)) callback url payload)
               = Some (NonRetryable err))
          \<or> (\<exists>dur. de_sleep e (dr_Attempt (last rs)) dur \<noteq> None))"

lemma good_run_Cons:
  assumes "good_run e c callback url payload (n + 1) res rs" and "dr_Attempt r = n"
    and "\<not> dr_Success r" and "dr_NextRetryAt r \<noteq> None"
  shows "good_run e c callback url payload n res (r # rs)"
proof -
  have "map (\<lambda>i. n + int i) [0..<Suc k] = n # map (\<lambda>i. n + 1 + int i) [0..<k]" for k
    by (simp add: upt_conv_Cons map_Suc_upt [symmetric] comp_def del: upt_Suc)
  with assms show ?thesis by (auto simp: good_run_def simp del: upt_Suc)
qed

lemma attempts_from_run:
  "n \<le> dc_maxAttempts c \<Longrightarrow>
   \<exists>res rs. attempts_from e c append_record callback event url payload lastErr n acc = (res, acc @ rs)
     \<and> good_run e c callback url payload n res rs"
proof (induction e c "append_record" callback event url payload lastErr n acc
    rule: attempts_from.induct)
  case (1 e c callback event url payload lastErr n acc)
  define result where "result = tryOnce e n callback url payload"
  define r where "r = attemptRecord e c event url payload n result"
  note step = attempts_from.simps [of e c append_record callback event url payload lastErr n acc]
  show ?case
  proof (cases "ar_err result")
    case None
    with 1(2) have "good_run e c callback url payload n None [r]"
      by (simp add: good_run_def r_def)
    with None 1(2) step show ?thesis by (simp add: Let_def result_def r_def)
  next
    case (Some err)
    let ?sleep = "de_sleep e n (backoff (de_rnd e) (de_oor e) c (de_random e n) n)"
    show ?thesis
    proof (cases "n = dc_maxAttempts c \<or> isNonRetryable err \<or> ?sleep \<noteq> None")
      case True
      then have "\<exists>m. attempts_from e c append_record callback event url payload lastErr n acc
          = (Some m, acc @ [r])"
        using Some 1(2) step by (auto simp: Let_def result_def r_def split: option.splits)
      then obtain m where m: "attempts_from e c append_record callback event url payload lastErr n acc
          = (Some m, acc @ [r])" by blast
      have "good_run e c callback url payload n (Some m) [r]"
        using True Some 1(2) by (cases err) (auto simp: good_run_def r_def result_def)
      with m show ?thesis by blast
    next
      case False
      with 1(2) have lt: "n < dc_maxAttempts c" by simp
      from False Some lt step have "attempts_from e c append_record callback event url payload lastErr n acc
          = attempts_from e c append_record callback event url payload (errText err) (n + 1) (acc @ [r])"
        by (simp add: Let_def result_def r_def)
      moreover have "\<exists>res rs. attempts_from e c append_record callback event url payload
          (errText err) (n + 1) (acc @ [r]) = (res, (acc @ [r]) @ rs)
          \<and> good_run e c callback url payload (n + 1) res rs"
        unfolding r_def result_def
        by (rule 1(1) [OF refl _ refl refl]) (use False Some lt in \<open>auto simp: result_def r_def\<close>)
      ultimately obtain res rs where
        "attempts_from e c append_record callback event url payload lastErr n acc
          = (res, (acc @ [r]) @ rs)" and run: "good_run e c callback url payload (n + 1) res rs"
        by auto
      moreover from run have "good_run e c callback url payload n res (r # rs)"
        by (rule good_run_Cons) (use False Some lt in \<open>auto simp: r_def attemptRecord_retry\<close>)
      ultimately show ?thesis by auto
    qed
  qed
qed

lemma deliver_put:
  "deliver e c put callback event store
     = (let (res, rs) = deliver e c append_record callback event [] in (res, foldl put store rs))"
  using attempts_from_put [of e c put callback event _ _ _ _ store "[]"]
  by (simp add: deliver_def Let_def split: sum.splits)

text \<open>Every record of a delivery names the job of the event.\<close>

lemma attempts_from_job:
  "attempts_from e c append_record callback event url payload lastErr n acc = (res, out) \<Longrightarrow>
     r \<in> set out \<Longrightarrow> r \<in> set acc \<or> dr_JobID r = extractJobID (ev_Data event)"
proof (induction e c "append_record" callback event url payload lastErr n acc
    arbitrary: res out rule: attempts_from.induct)
  case (1 e c callback event url payload lastErr n acc)
  let ?r = "attemptRecord e c event url payload n (tryOnce e n callback url payload)"
  note step = attempts_from.simps [of e c append_record callback event url payload lastErr n acc]
  have "dr_JobID ?r = extractJobID (ev_Data event)" by simp
  with 1 show ?case by (fastforce simp: step Let_def split: option.splits if_splits)
qed

lemma deliver_job:
  "deliver e c append_record callback event [] = (res, rs) \<Longrightarrow> r \<in> set rs \<Longrightarrow>
     dr_JobID r = extractJobID (ev_Data event)"
  using attempts_from_job by (fastforce simp: deliver_def Let_def split: if_splits sum.splits)

text \<open>
  C11. A delivery makes between one and the configured maximum of attempts and records each of them
  in order; only the last attempt can succeed, every failed attempt before it has a retry time, and
  the delivery reports success exactly when the last attempt did.  It gives up early only on a
  failure that cannot be retried or when its sleep is interrupted.
\<close>

theorem delivery_attempts:
  assumes "1 \<le> dc_maxAttempts c" and "TrimSpace (cb_Url callback) \<noteq> []"
    and "de_marshal e event = Inr payload"
    and "deliver e c append_record callback event [] = (res, rs)"
  shows "good_run e c callback (TrimSpace (cb_Url callback)) payload 1 res rs"
  using assms attempts_from_run [OF assms(1), of e callback event "TrimSpace (cb_Url callback)"
      payload "''%!w(<nil>)''" "[]"]
  by (auto simp: deliver_def Let_def)

definition demoEnv :: denv where
  "demoEnv = \<lparr>de_marshal = (\<lambda>_. Inr ''{}''), de_sha256 = (\<lambda>s. s), de_hmac = (\<lambda>k m. CHR ''m'' # k @ m),
     de_build = (\<lambda>_. None), de_client = (\<lambda>n _ _ _. Inr (if n < 3 then 503 else 200)),
     de_now = (\<lambda>n. n), de_signNow = (\<lambda>n. n), de_elapsed = (\<lambda>_. 0), de_random = (\<lambda>_. 1 / 2),
     de_sleep = (\<lambda>_ _. None), de_rnd = (\<lambda>x. x), de_oor = 0\<rparr>"

definition demoEvent :: Event where
  "demoEvent = \<lparr>ev_SpecVersion = ''1.0'', ev_ID = ''evt_1_1'', ev_Type = ''com.cova.job.completed'',
     ev_Source = ''cova://orchestrator'', ev_Time = [], ev_DataContentType = ''application/json'',
     ev_Data = DJob \<lparr>jc_JobID = ''job_1'', jc_Status = ''succeeded'', jc_ResultURL = []\<rparr>\<rparr>"

definition demoCallback :: CallbackConfig where
  "demoCallback = \<lparr>cb_Url = ''http://cb'', cb_Signing = None\<rparr>"

lemma demoEnv_simps [simp]:
  "de_marshal demoEnv ev = Inr ''{}''" "de_build demoEnv url = None" "de_sleep demoEnv n dur = None"
  by (simp_all add: demoEnv_def)

lemma demo_url [simp]: "TrimSpace (cb_Url demoCallback) = ''http://cb''"
  by (simp add: demoCallback_def trim_eval)

lemma demo_tryOnce [simp]:
  "ar_err (tryOnce demoEnv n demoCallback url payload)
     = (if n < 3 then Some (Retryable ''unexpected status code: 503'') else None)"
  by (simp add: tryOnce_def demoEnv_def demoCallback_def signHeaders_def Let_def dec_eval)

theorem delivery_attempts_witness:
  "\<exists>rs. deliver demoEnv dispatcherDefaults append_record demoCallback demoEvent [] = (None, rs)
     \<and> good_run demoEnv dispatcherDefaults demoCallback ''http://cb'' ''{}'' 1 None rs"
proof -
  obtain rs where rs: "deliver demoEnv dispatcherDefaults append_record demoCallback demoEvent []
      = (None, rs)"
    by (simp add: deliver_def attempts_from.simps dispatcherDefaults_def Let_def)
  then show ?thesis
    using delivery_attempts [of dispatcherDefaults demoCallback demoEnv demoEvent "''{}''" None rs]
    by (simp add: dispatcherDefaults_def)
qed


section \<open>Success after failures\<close>

lemma attempts_from_success:
  assumes "ar_err (tryOnce e m callback url payload) = None" and "m \<le> dc_maxAttempts c"
    and "\<And>i. n \<le> i \<Longrightarrow> i < m \<Longrightarrow>
      \<exists>err. ar_err (tryOnce e i callback url payload) = Some (Retryable err)"
    and "\<And>i dur. n \<le> i \<Longrightarrow> i < m \<Longrightarrow> de_sleep e i dur = None"
    and "n \<le> m"
  shows "fst (attempts_from e c put callback event url payload lastErr n store) = None"
  using assms
proof (induction "nat (m - n)" arbitrary: n lastErr store)
  case 0
  then have "n = m" by simp
  with 0 show ?case by (subst attempts_from.simps) (simp add: Let_def)
next
  case (Suc k)
  then have lt: "n < m" by simp
  with Suc.prems(3) [of n] obtain err
    where "ar_err (tryOnce e n callback url payload) = Some (Retryable err)" by auto
  moreover have "fst (attempts_from e c put callback event url payload err (n + 1) st) = None" for st
    by (rule Suc.hyps(1)) (use Suc lt in auto)
  ultimately show ?case
    using Suc.prems(4) [of n] lt Suc.prems(2) by (subst attempts_from.simps) (simp add: Let_def)
qed

text \<open>
  A receiver that is down for a while still gets its event: when every attempt before number
  \<open>m\<close> fails in a way that can be retried, no sleep is interrupted, and attempt \<open>m\<close>, within the
  maximum, succeeds, then the delivery succeeds.
\<close>

theorem delivery_eventually_succeeds:
  assumes "1 \<le> m" and "m \<le> dc_maxAttempts c" and "de_marshal e event = Inr payload"
    and "ar_err (tryOnce e m callback (TrimSpace (cb_Url callback)) payload) = None"
    and "\<And>i. 1 \<le> i \<Longrightarrow> i < m \<Longrightarrow> \<exists>err. ar_err (tryOnce e i callback
           (TrimSpace (cb_Url callback)) payload) = Some (Retryable err)"
    and "\<And>i dur. 1 \<le> i \<Longrightarrow> i < m \<Longrightarrow> de_sleep e i dur = None"
  shows "fst (deliver e c put callback event store) = None"
  using attempts_from_success [of e m callback "TrimSpace (cb_Url callback)" payload c 1 put event
      "''%!w(<nil>)''" store] assms
  by (simp add: deliver_def Let_def)

theorem delivery_eventually_succeeds_witness:
  "fst (deliver demoEnv dispatcherDefaults append_record demoCallback demoEvent []) = None"
  by (rule delivery_eventually_succeeds [of 3 _ _ _ "''{}''"]) (simp_all add: dispatcherDefaults_def)


section \<open>Bounds of the back-off\<close>

text \<open>What IEEE 754 guarantees of a rounding: it is monotone, and exact on integers of 53 bits.\<close>

definition float_rounding :: "(rat \<Rightarrow> rat) \<Rightarrow> bool" where
  "float_rounding rnd \<longleftrightarrow> mono rnd \<and> (\<forall>n. \<bar>n\<bar> \<le> 2 ^ 53 \<longrightarrow> rnd (of_int n) = of_int n)"

lemma rnd_int: "float_rounding rnd \<Longrightarrow> \<bar>n\<bar> \<le> 2 ^ 53 \<Longrightarrow> rnd (of_int n) = of_int n"
  by (simp add: float_rounding_def)

lemma rnd_between:
  "float_rounding rnd \<Longrightarrow> of_int a \<le> x \<Longrightarrow> x \<le> of_int b \<Longrightarrow> \<bar>a\<bar> \<le> 2 ^ 53 \<Longrightarrow> \<bar>b\<bar> \<le> 2 ^ 53 \<Longrightarrow>
     of_int a \<le> rnd x \<and> rnd x \<le> of_int b"
  using monoD [of rnd "of_int a" x] monoD [of rnd x "of_int b"]
  by (simp add: float_rounding_def)

lemma jitter_between:
  assumes "float_rounding rnd" "0 \<le> r" "r \<le> 1" "0 < dc_jitterFraction c" "dc_jitterFraction c \<le> 1"
  shows "0 \<le> jitterFactor rnd c r \<and> jitterFactor rnd c r \<le> 2"
proof -
  let ?a = "rnd (rnd (r * 2) - 1)"
  have "0 \<le> rnd (r * 2) \<and> rnd (r * 2) \<le> 2" using rnd_between [of rnd 0 "r * 2" 2] assms by simp
  then have a: "- 1 \<le> ?a \<and> ?a \<le> 1" using rnd_between [of rnd "- 1" "rnd (r * 2) - 1" 1] assms by simp
  have "\<bar>?a * dc_jitterFraction c\<bar> \<le> 1 * 1"
    unfolding abs_mult by (rule mult_mono) (use a assms in auto)
  then have "- 1 \<le> rnd (?a * dc_jitterFraction c) \<and> rnd (?a * dc_jitterFraction c) \<le> 1"
    using rnd_between [of rnd "- 1" "?a * dc_jitterFraction c" 1] assms by auto
  then show ?thesis
    using rnd_between [of rnd 0 "1 + rnd (?a * dc_jitterFraction c)" 2] assms
    by (simp add: jitterFactor_def Let_def)
qed

lemma jittered_between:
  assumes "float_rounding rnd" "0 < b" "b \<le> M" "M \<le> 2 ^ 52" "0 \<le> f" "f \<le> 2"
  shows "0 \<le> toDuration oor (rnd (rnd (of_int b) * f))
    \<and> toDuration oor (rnd (rnd (of_int b) * f)) \<le> 2 * M"
proof -
  have b: "rnd (of_int b) = of_int b" using assms by (simp add: rnd_int)
  have "of_int b * f \<le> of_int M * 2" by (rule mult_mono) (use assms in auto)
  moreover have "0 \<le> of_int b * f" using assms by simp
  ultimately have "0 \<le> rnd (of_int b * f) \<and> rnd (of_int b * f) \<le> of_int (2 * M)"
    using rnd_between [of rnd 0 "of_int b * f" "2 * M"] assms by (simp add: mult.commute)
  then have "0 \<le> \<lfloor>rnd (of_int b * f)\<rfloor>" "\<lfloor>rnd (of_int b * f)\<rfloor> \<le> 2 * M"
    by (auto simp: le_floor_iff floor_le_iff)
  with assms b \<open>0 \<le> rnd (of_int b * f) \<and> _\<close> show ?thesis
    by (simp add: toDuration_def Let_def)
qed

text \<open>
  A wait between two attempts is never negative and at most twice the configured maximum, for
  every rounding of the machine, as long as the exponential does not overflow 64 bits.
\<close>

theorem backoff_bounds:
  assumes "float_rounding rnd" and "0 \<le> r" "r \<le> 1" and "dc_jitterFraction c \<le> 1"
    and "0 < dc_maxBackoff c" "dc_maxBackoff c \<le> 2 ^ 52"
    and "0 \<le> rawBackoff rnd oor c attempt"
  shows "0 \<le> backoff rnd oor c r attempt \<and> backoff rnd oor c r attempt \<le> 2 * dc_maxBackoff c"
proof -
  let ?raw = "rawBackoff rnd oor c attempt"
  let ?b = "if 0 < dc_maxBackoff c \<and> dc_maxBackoff c < ?raw then dc_maxBackoff c else ?raw"
  have "?b \<le> dc_maxBackoff c" and "0 \<le> ?b" using assms by auto
  with assms jitter_between [OF assms(1-3), of c]
    jittered_between [OF assms(1), of ?b "dc_maxBackoff c" "jitterFactor rnd c r" oor]
  show ?thesis unfolding backoff_def Let_def by (auto simp del: if_weak_cong)
qed

lemma float_rounding_id: "float_rounding (\<lambda>x. x)"
  by (simp add: float_rounding_def mono_def)

theorem backoff_bounds_witness:
  "rawBackoff (\<lambda>x. x) 0 dispatcherDefaults 9 = 51200 * 1000000
   \<and> 0 \<le> backoff (\<lambda>x. x) 0 dispatcherDefaults (1 / 2) 9
   \<and> backoff (\<lambda>x. x) 0 dispatcherDefaults (1 / 2) 9 \<le> 6 * nsPerSecond"
proof -
  have "rawBackoff (\<lambda>x. x) 0 dispatcherDefaults 9 = 51200 * 1000000"
    by (simp add: rawBackoff_def toDuration_def dispatcherDefaults_def Let_def)
  then show ?thesis
    using backoff_bounds [OF float_rounding_id, of "1 / 2" dispatcherDefaults 0 9]
    by (simp add: dispatcherDefaults_def nsPerSecond_def)
qed

end
