(* ===== verification/Webhook_Verify.thy ===== *)
theory Webhook_Verify
  imports Webhook_Dispatcher "HOL-Library.Word"
begin

text \<open>
  The verifier of incoming webhooks (\<open>internal/delivery/webhook/verify.go\<close>): timestamp window,
  HMAC signature, event id, and the replay guard with its time to live.  The locale
  \<open>replay_guard\<close> is the \<open>ReplayGuard\<close> interface; the in-memory guard provides it.
\<close>

section \<open>Errors and parsing\<close>

datatype verify_error = ErrMissingTimestamp | ErrMissingSignature | ErrInvalidSignature
  | ErrTimestampOutOfWindow | ErrTimestampSyntax string | ErrInvalidEventPayload string | ErrMissingEventID
  | ErrReplayDetected | ErrInvalidSignatureShape

definition wrap64 :: "int \<Rightarrow> int" where
  "wrap64 n = sint (word_of_int n :: 64 word)"

text \<open>
  \<open>time.Unix(sec, 0)\<close>: the library counts seconds from the year 1 in 64 bits, so the largest
  arguments wrap around.
\<close>

definition unixToInternal :: int where "unixToInternal = 62135596800"

definition time_Unix :: "int \<Rightarrow> time" where
  "time_Unix sec = (wrap64 (sec + unixToInternal) - unixToInternal) * nsPerSecond"

definition minDuration :: duration where "minDuration = - (2 ^ 63)"
definition maxDuration :: duration where "maxDuration = 2 ^ 63 - 1"

text \<open>\<open>t.Sub(u)\<close> saturates.\<close>

definition time_Sub :: "time \<Rightarrow> time \<Rightarrow> duration" where
  "time_Sub t u = (if t - u < minDuration then minDuration
                   else if maxDuration < t - u then maxDuration else t - u)"

definition absDuration :: "duration \<Rightarrow> duration" where
  "absDuration d = (if d < 0 then wrap64 (- d) else d)"

definition parseUnixTimestamp :: "string \<Rightarrow> time option" where
  "parseUnixTimestamp value = map_option time_Unix (ParseInt64 value)"

definition parseSignatureHeader :: "string \<Rightarrow> verify_error + string" where
  "parseSignatureHeader raw =
     (if \<not> prefix ''sha256='' (ToLower raw) then Inl ErrInvalidSignatureShape
      else (let out = TrimSpace (drop 7 raw)
            in if out = [] then Inl ErrInvalidSignatureShape else Inr out))"


section \<open>The replay guard\<close>

text \<open>
  What a guard promises: an id that it has marked is reported as seen until its time to live is
  over, whatever is checked in between; an id that was never marked is not reported.
\<close>

locale replay_guard =
  fixes check :: "'g \<Rightarrow> string \<Rightarrow> time \<Rightarrow> duration \<Rightarrow> bool \<times> 'g"
    and live :: "'g \<Rightarrow> string \<Rightarrow> time option"
    and invar :: "'g \<Rightarrow> bool"
  assumes check_seen: "invar g \<Longrightarrow> 0 < ttl \<Longrightarrow> fst (check g i now ttl) \<longleftrightarrow>
      (case live g i of None \<Rightarrow> False | Some e \<Rightarrow> now < e)"
    and check_marks: "invar g \<Longrightarrow> 0 < ttl \<Longrightarrow> \<not> fst (check g i now ttl) \<Longrightarrow>
      live (snd (check g i now ttl)) i = Some (now + ttl)"
    and check_keeps: "invar g \<Longrightarrow> 0 < ttl \<Longrightarrow> live g i = Some e \<Longrightarrow> now < e \<Longrightarrow>
      live (snd (check g j now ttl)) i = Some e"
    and check_invar: "invar g \<Longrightarrow> invar (snd (check g i now ttl))"
begin

text \<open>A sequence of checks, with the time of each.\<close>

fun check_all :: "'g \<Rightarrow> duration \<Rightarrow> (string \<times> time) list \<Rightarrow> 'g" where
  "check_all g ttl [] = g"
| "check_all g ttl ((i, now) # rest) = check_all (snd (check g i now ttl)) ttl rest"

lemma live_check_all:
  "invar g \<Longrightarrow> 0 < ttl \<Longrightarrow> live g i = Some e \<Longrightarrow> \<forall>c\<in>set cs. snd c < e \<Longrightarrow>
     live (check_all g ttl cs) i = Some e \<and> invar (check_all g ttl cs)"
proof (induction cs arbitrary: g)
  case (Cons c cs)
  obtain j t where c: "c = (j, t)" by (cases c)
  from c Cons.prems have "live (snd (check g j t ttl)) i = Some e" by (auto intro: check_keeps)
  with Cons.IH [of "snd (check g j t ttl)"] Cons.prems c show ?case by (simp add: check_invar)
qed simp

lemma replay_detected:
  assumes "invar g" and "0 < ttl" and "\<not> fst (check g i now ttl)"
    and "\<forall>c\<in>set cs. snd c < now + ttl" and "now' < now + ttl"
  shows "fst (check (check_all (snd (check g i now ttl)) ttl cs) i now' ttl)"
  using live_check_all [OF check_invar [OF assms(1)] assms(2) check_marks [OF assms(1-3)] assms(4)]
    assms
  by (simp add: check_seen)

end

type_synonym InMemoryReplayGuard = "time gomap"

definition defaultReplayTTL :: duration where "defaultReplayTTL = 15 * nsPerMinute"
definition defaultAllowedSkew :: duration where "defaultAllowedSkew = 5 * nsPerMinute"

text \<open>The clean-up loop deletes the entries that are over.\<close>

definition guard_cleanup :: "time \<Rightarrow> InMemoryReplayGuard \<Rightarrow> InMemoryReplayGuard" where
  "guard_cleanup now seen =
     foldl (\<lambda>m (k, expireAt). if \<not> After expireAt now then mdel k m else m) seen seen"

definition CheckAndMark ::
  "InMemoryReplayGuard \<Rightarrow> string \<Rightarrow> time \<Rightarrow> duration \<Rightarrow> bool \<times> InMemoryReplayGuard" where
  "CheckAndMark seen eventID now ttl0 =
     (let ttl = (if ttl0 \<le> 0 then defaultReplayTTL else ttl0);
          seen' = guard_cleanup now seen
      in if (case mget seen' eventID of None \<Rightarrow> False | Some e \<Rightarrow> After e now) then (True, seen')
         else (False, mput eventID (now + ttl) seen'))"

lemma foldl_mdel_mget:
  "mget (foldl (\<lambda>m (k, e). if \<not> After e now then mdel k m else m) m es) k =
     (if \<exists>e. (k, e) \<in> set es \<and> \<not> After e now then None else mget m k)"
  by (induction es arbitrary: m) (auto split: if_splits)

lemma guard_cleanup_get:
  assumes "mwf seen"
  shows "mget (guard_cleanup now seen) k
    = (case mget seen k of None \<Rightarrow> None | Some e \<Rightarrow> if now < e then Some e else None)"
proof (cases "mget seen k")
  case None
  then show ?thesis unfolding guard_cleanup_def foldl_mdel_mget by simp
next
  case (Some e)
  then have "(k, e') \<in> set seen \<longleftrightarrow> e' = e" for e'
    using mget_iff [OF assms, of k e'] by auto
  with Some show ?thesis unfolding guard_cleanup_def foldl_mdel_mget by (simp add: After_def)
qed

lemma foldl_mdel_wf:
  "mwf m \<Longrightarrow> mwf (foldl (\<lambda>m (k, e). if \<not> After e now then mdel k m else m) m es)"
  by (induction es arbitrary: m) auto

interpretation memory_guard: replay_guard CheckAndMark mget mwf
proof unfold_locales
  fix g :: InMemoryReplayGuard and i now ttl
  assume "mwf g" "(0::int) < ttl"
  then show "fst (CheckAndMark g i now ttl) \<longleftrightarrow> (case mget g i of None \<Rightarrow> False | Some e \<Rightarrow> now < e)"
    by (cases "mget g i") (auto simp: CheckAndMark_def Let_def After_def guard_cleanup_get)
next
  fix g :: InMemoryReplayGuard and i now ttl
  assume "(0::int) < ttl" "\<not> fst (CheckAndMark g i now ttl)"
  then show "mget (snd (CheckAndMark g i now ttl)) i = Some (now + ttl)"
    by (auto simp: CheckAndMark_def Let_def split: if_splits)
next
  fix g :: InMemoryReplayGuard and i j now ttl e
  assume "mwf g" "(0::int) < ttl" "mget g i = Some e" "now < e"
  then show "mget (snd (CheckAndMark g j now ttl)) i = Some e"
    by (cases "mget g j") (auto simp: CheckAndMark_def Let_def After_def guard_cleanup_get)
next
  fix g :: InMemoryReplayGuard and i now ttl
  assume "mwf g"
  then show "mwf (snd (CheckAndMark g i now ttl))"
    by (simp add: CheckAndMark_def Let_def guard_cleanup_def foldl_mdel_wf)
qed


section \<open>The verifier\<close>

record verifyConfig =
  vc_allowedSkew :: duration
  vc_replayTTL :: duration

record Verifier =
  vf_secret :: string
  vf_cfg :: verifyConfig

definition WithAllowedSkew :: "duration \<Rightarrow> verifyConfig \<Rightarrow> verifyConfig" where
  "WithAllowedSkew v c = (if 0 < v then c\<lparr>vc_allowedSkew := v\<rparr> else c)"

definition WithReplayTTL :: "duration \<Rightarrow> verifyConfig \<Rightarrow> verifyConfig" where
  "WithReplayTTL v c = (if 0 < v then c\<lparr>vc_replayTTL := v\<rparr> else c)"

definition NewVerifier :: "string \<Rightarrow> (verifyConfig \<Rightarrow> verifyConfig) list \<Rightarrow> Verifier" where
  "NewVerifier secret opts =
     \<lparr>vf_secret = TrimSpace secret,
      vf_cfg = fold (\<lambda>opt c. opt c) opts
        \<lparr>vc_allowedSkew = defaultAllowedSkew, vc_replayTTL = defaultReplayTTL\<rparr>\<rparr>"

text \<open>HMAC, \<open>json.Unmarshal\<close> into an \<open>Event\<close> with its error text, and the text of the error
  \<open>strconv.ParseInt\<close> gives for a string it refuses.\<close>

record verifyEnv =
  ve_hmac :: "string \<Rightarrow> string \<Rightarrow> string"
  ve_unmarshal :: "string \<Rightarrow> string + Event"
  ve_parseErr :: "string \<Rightarrow> string"

text \<open>
  The checks before the replay guard.  The result is the event and its trimmed id.
\<close>

definition verify_signed ::
  "verifyEnv \<Rightarrow> Verifier \<Rightarrow> Header \<Rightarrow> string \<Rightarrow> time \<Rightarrow> verify_error + Event \<times> string" where
  "verify_signed env v headers body now =
     (let timestamp = TrimSpace (hGet headers ''X-COVA-Timestamp'');
          signature = TrimSpace (hGet headers ''X-COVA-Signature'')
      in if timestamp = [] then Inl ErrMissingTimestamp
         else if signature = [] then Inl ErrMissingSignature
         else (case parseUnixTimestamp timestamp of
                 None \<Rightarrow> Inl (ErrTimestampSyntax (ve_parseErr env timestamp))
               | Some eventTime \<Rightarrow>
                   if vc_allowedSkew (vf_cfg v) < absDuration (time_Sub now eventTime)
                   then Inl ErrTimestampOutOfWindow
                   else (case parseSignatureHeader signature of
                           Inl e \<Rightarrow> Inl e
                         | Inr rawSig \<Rightarrow>
                             if rawSig \<noteq> computeHMAC (ve_hmac env) (vf_secret v) timestamp body
                             then Inl ErrInvalidSignature
                             else (case ve_unmarshal env body of
                                     Inl e \<Rightarrow> Inl (ErrInvalidEventPayload e)
                                   | Inr event \<Rightarrow>
                                       (let eventID = TrimSpace (ev_ID event)
                                        in if eventID = [] then Inl ErrMissingEventID
                                           else Inr (event, eventID))))))"

text \<open>\<open>Verifier.Verify\<close>, with the \<open>CheckAndMark\<close> of the guard it was given.\<close>

definition Verify ::
  "('g \<Rightarrow> string \<Rightarrow> time \<Rightarrow> duration \<Rightarrow> bool \<times> 'g) \<Rightarrow> verifyEnv \<Rightarrow> Verifier \<Rightarrow> Header \<Rightarrow> string \<Rightarrow>
   time \<Rightarrow> 'g \<Rightarrow> (verify_error + Event) \<times> 'g" where
  "Verify check env v headers body now g =
     (case verify_signed env v headers body now of
        Inl e \<Rightarrow> (Inl e, g)
      | Inr (event, eventID) \<Rightarrow>
          (let (alreadySeen, g') = check g eventID now (vc_replayTTL (vf_cfg v))
           in (if alreadySeen then Inl ErrReplayDetected else Inr event, g')))"

text \<open>
  A verified event was signed: the verifier accepts only when the signature header is the HMAC
  of the timestamp header and the body under the secret, the body decodes to the event it returns,
  and the event has an id that the guard had not seen; and then the guard has seen it.
\<close>

theorem verify_accepts_signed:
  assumes "Verify check env v headers body now g = (Inr event, g')"
  shows "parseSignatureHeader (TrimSpace (hGet headers ''X-COVA-Signature''))
      = Inr (computeHMAC (ve_hmac env) (vf_secret v)
               (TrimSpace (hGet headers ''X-COVA-Timestamp'')) body)
    \<and> ve_unmarshal env body = Inr event
    \<and> TrimSpace (ev_ID event) \<noteq> []
    \<and> (\<exists>t. parseUnixTimestamp (TrimSpace (hGet headers ''X-COVA-Timestamp'')) = Some t
         \<and> absDuration (time_Sub now t) \<le> vc_allowedSkew (vf_cfg v))
    \<and> check g (TrimSpace (ev_ID event)) now (vc_replayTTL (vf_cfg v)) = (False, g')"
  using assms
  by (auto simp: Verify_def verify_signed_def Let_def split: sum.splits option.splits prod.splits
      if_splits)


section \<open>Replays\<close>

text \<open>A sequence of requests (headers, body, time), as the verifier sees them.\<close>

fun verify_all ::
  "('g \<Rightarrow> string \<Rightarrow> time \<Rightarrow> duration \<Rightarrow> bool \<times> 'g) \<Rightarrow> verifyEnv \<Rightarrow> Verifier \<Rightarrow>
   (Header \<times> string \<times> time) list \<Rightarrow> 'g \<Rightarrow> 'g" where
  "verify_all check env v [] g = g"
| "verify_all check env v ((h, b, t) # rest) g =
     verify_all check env v rest (snd (Verify check env v h b t g))"

lemma Verify_guard:
  "snd (Verify check env v h b t g) = g
   \<or> (\<exists>i. snd (Verify check env v h b t g) = snd (check g i t (vc_replayTTL (vf_cfg v))))"
proof (cases "verify_signed env v h b t")
  case (Inr r)
  then have "snd (Verify check env v h b t g) = snd (check g (snd r) t (vc_replayTTL (vf_cfg v)))"
    by (cases r; cases "check g (snd r) t (vc_replayTTL (vf_cfg v))") (simp add: Verify_def)
  then show ?thesis by blast
qed (simp add: Verify_def)

lemma verify_all_checks:
  "\<exists>cs. verify_all CheckAndMark env v reqs g
      = memory_guard.check_all g (vc_replayTTL (vf_cfg v)) cs
    \<and> snd ` set cs \<subseteq> (snd \<circ> snd) ` set reqs"
proof (induction reqs arbitrary: g)
  case Nil
  show ?case by (rule exI [of _ "[]"]) simp
next
  case (Cons r reqs)
  obtain h b t where r: "r = (h, b, t)" by (cases r)
  let ?g = "snd (Verify CheckAndMark env v h b t g)"
  from Cons.IH [of ?g] obtain cs where cs: "verify_all CheckAndMark env v reqs ?g
      = memory_guard.check_all ?g (vc_replayTTL (vf_cfg v)) cs"
    "snd ` set cs \<subseteq> (snd \<circ> snd) ` set reqs" by blast
  from Verify_guard [of CheckAndMark env v h b t g] show ?case
  proof
    assume "?g = g"
    with cs r show ?thesis by (intro exI [of _ cs]) auto
  next
    assume "\<exists>i. ?g = snd (CheckAndMark g i t (vc_replayTTL (vf_cfg v)))"
    then obtain i where "?g = snd (CheckAndMark g i t (vc_replayTTL (vf_cfg v)))" by blast
    with cs r show ?thesis by (intro exI [of _ "(i, t) # cs"]) auto
  qed
qed

lemma NewVerifier_ttl: "0 < vc_replayTTL (vf_cfg (NewVerifier secret []))"
  by (simp add: NewVerifier_def defaultReplayTTL_def nsPerMinute_def nsPerSecond_def)

text \<open>
  C12. No event is accepted twice within the time to live: once the verifier has accepted an event,
  and after any further requests, it accepts no request that carries the same event id before the
  time to live is over.
\<close>

theorem replay_rejected:
  assumes "mwf g" and "0 < vc_replayTTL (vf_cfg v)"
    and "Verify CheckAndMark env v h b now g = (Inr event, g')"
    and "\<forall>r\<in>set reqs. snd (snd r) < now + vc_replayTTL (vf_cfg v)"
    and "now' < now + vc_replayTTL (vf_cfg v)"
    and "TrimSpace (ev_ID event') = TrimSpace (ev_ID event)"
  shows "fst (Verify CheckAndMark env v h' b' now' (verify_all CheckAndMark env v reqs g'))
    \<noteq> Inr event'"
proof
  let ?ttl = "vc_replayTTL (vf_cfg v)"
  let ?g = "verify_all CheckAndMark env v reqs g'"
  assume "fst (Verify CheckAndMark env v h' b' now' ?g) = Inr event'"
  then obtain g'' where "Verify CheckAndMark env v h' b' now' ?g = (Inr event', g'')"
    by (cases "Verify CheckAndMark env v h' b' now' ?g") auto
  then have unseen: "\<not> fst (CheckAndMark ?g (TrimSpace (ev_ID event)) now' ?ttl)"
    using assms(6)
    by (auto simp: Verify_def verify_signed_def Let_def split: sum.splits option.splits prod.splits
      if_splits)
  from assms(3) have first: "CheckAndMark g (TrimSpace (ev_ID event)) now ?ttl = (False, g')"
    by (auto simp: Verify_def verify_signed_def Let_def split: sum.splits option.splits prod.splits
      if_splits)
  obtain cs where cs: "?g = memory_guard.check_all g' ?ttl cs"
      "snd ` set cs \<subseteq> (snd \<circ> snd) ` set reqs"
    using verify_all_checks by blast
  have "\<forall>c\<in>set cs. snd c < now + ?ttl"
  proof
    fix c assume "c \<in> set cs"
    with cs(2) obtain r where "r \<in> set reqs" "snd c = snd (snd r)" by fastforce
    with assms(4) show "snd c < now + ?ttl" by simp
  qed
  then show False
    using memory_guard.replay_detected [OF assms(1,2), of "TrimSpace (ev_ID event)" now cs now']
      first cs(1) assms(5) unseen by simp
qed


section \<open>The window and the signature\<close>

lemma wrap64_id: "- (2 ^ 63) \<le> n \<Longrightarrow> n < 2 ^ 63 \<Longrightarrow> wrap64 n = n"
  by (simp add: wrap64_def sint_sbintrunc' signed_take_bit_int_eq_self)

lemma absDuration_exact:
  "absDuration (time_Sub t u) =
     (if t - u \<le> minDuration then minDuration
      else if maxDuration < t - u then maxDuration else \<bar>t - u\<bar>)"
proof (cases "t - u \<le> minDuration")
  case True
  have "wrap64 (- minDuration) = minDuration" by (simp add: wrap64_def minDuration_def)
  with True show ?thesis
    by (cases "t - u = minDuration") (auto simp: absDuration_def time_Sub_def minDuration_def
        maxDuration_def)
next
  case False
  then have "t - u < 0 \<Longrightarrow> wrap64 (u - t) = u - t"
    by (intro wrap64_id) (simp_all add: minDuration_def)
  with False show ?thesis
    by (auto simp: absDuration_def time_Sub_def maxDuration_def minDuration_def)
qed

text \<open>
  The timestamp window is symmetric except at the far end: for an allowed skew that is a
  duration, a timestamp passes exactly when it is at most the skew away from the clock, or at least
  2^63 nanoseconds (292 years) ahead of it, where the negation of the saturated difference overflows.
\<close>

theorem timestamp_window:
  assumes "0 \<le> skew" and "skew < maxDuration"
  shows "absDuration (time_Sub now t) \<le> skew \<longleftrightarrow> \<bar>now - t\<bar> \<le> skew \<or> now - t \<le> minDuration"
  using assms by (auto simp: absDuration_exact minDuration_def maxDuration_def)

text \<open>A timestamp in the year 2700 passes a window of five minutes in the year 2024.\<close>

theorem timestamp_window_witness:
  "absDuration (time_Sub (1704067200 * nsPerSecond) (time_Unix 23036745600)) \<le> defaultAllowedSkew"
proof -
  have t: "time_Unix 23036745600 = 23036745600 * nsPerSecond"
    by (simp add: time_Unix_def unixToInternal_def wrap64_id)
  have "0 \<le> defaultAllowedSkew" "defaultAllowedSkew < maxDuration"
    by (simp_all add: defaultAllowedSkew_def maxDuration_def nsPerMinute_def nsPerSecond_def)
  from timestamp_window [OF this, of "1704067200 * nsPerSecond" "time_Unix 23036745600"] show ?thesis
    by (simp add: t minDuration_def nsPerSecond_def)
qed

lemma time_Unix_small: "\<bar>sec\<bar> \<le> 2 ^ 62 \<Longrightarrow> time_Unix sec = sec * nsPerSecond"
  by (simp add: time_Unix_def wrap64_id unixToInternal_def)

lemma parseSignature_hex:
  assumes "hex_encode m \<noteq> []"
  shows "parseSignatureHeader (TrimSpace (''sha256='' @ hex_encode m)) = Inr (hex_encode m)"
proof -
  have "list_all visible (''sha256='' @ hex_encode m)"
    using hex_visible by (simp add: visible_def)
  then have "TrimSpace (''sha256='' @ hex_encode m) = ''sha256='' @ hex_encode m"
    by (rule TrimSpace_visible)
  with assms hex_visible [of m] show ?thesis
    by (simp add: parseSignatureHeader_def ToLower_Cons lower_ascii_def TrimSpace_visible)
qed


text \<open>
  Headers with the decimal seconds of the instant \<open>t\<close> and the signature of payload and timestamp
  under the verifier's secret are accepted.
\<close>

definition signedHeaders :: "(string \<Rightarrow> string \<Rightarrow> string) \<Rightarrow> string \<Rightarrow> time \<Rightarrow> string \<Rightarrow> Header \<Rightarrow> Header" where
  "signedHeaders hmac secret t payload h =
     hSet ''X-COVA-Signature'' (''sha256='' @ computeHMAC hmac secret (dec_int (unix_sec t)) payload)
       (hSet ''X-COVA-Timestamp'' (dec_int (unix_sec t)) h)"

lemma signed_headers_accepted:
  assumes headers: "headers = signedHeaders hmac (TrimSpace secret) t payload h"
    and verifier: "v = NewVerifier secret []" and hmac: "ve_hmac env = hmac"
    and mac: "\<And>k m. hmac k m \<noteq> []"
    and body: "ve_unmarshal env payload = Inr event" "TrimSpace (ev_ID event) \<noteq> []"
    and clock: "\<bar>unix_sec t\<bar> \<le> 2 ^ 62" "\<bar>now - unix_sec t * nsPerSecond\<bar> \<le> defaultAllowedSkew"
    and fresh: "mget guard (TrimSpace (ev_ID event)) = None" "mwf guard"
  shows "fst (Verify CheckAndMark env v headers payload now guard) = Inr event"
proof -
  let ?ts = "dec_int (unix_sec t)"
  let ?mac = "computeHMAC hmac (vf_secret v) ?ts payload"
  have secret: "vf_secret v = TrimSpace secret" by (simp add: verifier NewVerifier_def)
  have keys: "canonicalKey ''X-COVA-Timestamp'' \<noteq> canonicalKey ''X-COVA-Signature''"
    by (simp add: canonical_eval)
  have ts: "hGet headers ''X-COVA-Timestamp'' = ?ts" "TrimSpace ?ts = ?ts" "?ts \<noteq> []"
    using keys by (simp add: headers signedHeaders_def, simp only: TrimSpace_visible dec_int_visible,
        simp add: dec_int_def)
  have "hex_encode (hmac k m) \<noteq> []" for k m
    using mac [of k m] by (metis length_0_conv length_hex_encode mult_eq_0_iff zero_neq_numeral)
  then have sig: "parseSignatureHeader (TrimSpace (hGet headers ''X-COVA-Signature'')) = Inr ?mac"
    by (simp add: headers signedHeaders_def secret computeHMAC_def parseSignature_hex
        del: append_Cons append_Nil)
  moreover have "TrimSpace (hGet headers ''X-COVA-Signature'') \<noteq> []"
    using sig by (auto simp: parseSignatureHeader_def ToLower.simps)
  moreover have "parseUnixTimestamp ?ts = Some (unix_sec t * nsPerSecond)"
    using clock by (simp add: parseUnixTimestamp_def ParseInt64_dec_int time_Unix_small)
  moreover have "absDuration (time_Sub now (unix_sec t * nsPerSecond)) \<le> vc_allowedSkew (vf_cfg v)"
    using clock by (simp add: absDuration_exact verifier NewVerifier_def minDuration_def
        maxDuration_def defaultAllowedSkew_def nsPerMinute_def nsPerSecond_def)
  ultimately have "verify_signed env v headers payload now = Inr (event, TrimSpace (ev_ID event))"
    using ts body by (simp add: verify_signed_def Let_def hmac)
  moreover have "0 < vc_replayTTL (vf_cfg v)" by (simp add: verifier NewVerifier_ttl)
  then have "\<not> fst (CheckAndMark guard (TrimSpace (ev_ID event)) now (vc_replayTTL (vf_cfg v)))"
    using memory_guard.check_seen [OF fresh(2)] fresh(1) by simp
  ultimately show ?thesis by (auto simp: Verify_def split: prod.split)
qed

lemma signed_delivery_accepted:
  assumes sign: "signHeaders e n callback payload h = Inr headers"
    and signing: "cb_Signing callback = Some g"
    and verifier: "v = NewVerifier (sig_SecretRef g) []" and hmac: "ve_hmac env = de_hmac e"
    and mac: "\<And>k m. de_hmac e k m \<noteq> []"
    and body: "ve_unmarshal env payload = Inr event" "TrimSpace (ev_ID event) \<noteq> []"
    and clock: "\<bar>unix_sec (de_signNow e n)\<bar> \<le> 2 ^ 62"
      "\<bar>now - unix_sec (de_signNow e n) * nsPerSecond\<bar> \<le> defaultAllowedSkew"
    and fresh: "mget guard (TrimSpace (ev_ID event)) = None" "mwf guard"
  shows "fst (Verify CheckAndMark env v headers payload now guard) = Inr event"
proof -
  from sign signing
  have "headers = signedHeaders (de_hmac e) (TrimSpace (sig_SecretRef g)) (de_signNow e n) payload h"
    by (auto simp: signHeaders_def signedHeaders_def Let_def split: if_splits)
  then show ?thesis
    by (rule signed_headers_accepted [OF _ verifier hmac mac body clock fresh])
qed

text \<open>
  C13. What the dispatcher signs, the verifier accepts: with the same secret and HMAC, the headers of
  an attempt pass the verification of the payload when the clocks differ by at most the allowed
  skew, the payload decodes to an event with an id, and the guard has not seen that id.
\<close>

theorem signed_delivery_verifies:
  assumes sign: "signHeaders e n callback payload h = Inr headers"
    and signing: "cb_Signing callback = Some g"
    and verifier: "v = NewVerifier (sig_SecretRef g) []" and hmac: "ve_hmac env = de_hmac e"
    and mac: "\<And>k m. de_hmac e k m \<noteq> []"
    and body: "ve_unmarshal env payload = Inr event" "TrimSpace (ev_ID event) \<noteq> []"
    and clock: "\<bar>unix_sec (de_signNow e n)\<bar> \<le> 2 ^ 62"
      "\<bar>now - unix_sec (de_signNow e n) * nsPerSecond\<bar> \<le> defaultAllowedSkew"
    and fresh: "mget guard (TrimSpace (ev_ID event)) = None" "mwf guard"
  shows "fst (Verify CheckAndMark env v headers payload now guard) = Inr event"
  using assms by (rule signed_delivery_accepted)

text \<open>A concrete signed request, for the witnesses.\<close>

definition demoVerifyEnv :: verifyEnv where
  "demoVerifyEnv = \<lparr>ve_hmac = de_hmac demoEnv, ve_unmarshal = (\<lambda>_. Inr demoEvent),
     ve_parseErr = (\<lambda>_. [])\<rparr>"

definition signedCallback :: CallbackConfig where
  "signedCallback = \<lparr>cb_Url = ''http://cb'',
     cb_Signing = Some \<lparr>sig_Algorithm = ''hmac-sha256'', sig_SecretRef = ''s3cret''\<rparr>\<rparr>"

definition demoHeaders :: Header where
  "demoHeaders = hSet ''X-COVA-Signature''
     (''sha256='' @ computeHMAC (de_hmac demoEnv) ''s3cret'' (dec_int 0) ''{}'')
     (hSet ''X-COVA-Timestamp'' (dec_int 0) [])"

lemma demo_trims: "TrimSpace ''s3cret'' = ''s3cret''" "TrimSpace ''evt_1_1'' = ''evt_1_1''"
    "TrimSpace ''hmac-sha256'' = ''hmac-sha256''"
  by (simp_all add: TrimSpace_visible visible_def)

lemma demo_signHeaders: "signHeaders demoEnv 1 signedCallback ''{}'' [] = Inr demoHeaders"
  by (simp add: signHeaders_def signedCallback_def demoHeaders_def Let_def demo_trims ToLower_Cons
      lower_ascii_def ToLower.simps [of "[]"] demoEnv_def unix_sec_def nsPerSecond_def)

theorem signed_delivery_verifies_witness:
  "fst (Verify CheckAndMark demoVerifyEnv (NewVerifier ''s3cret'' []) demoHeaders ''{}'' 0 [])
     = Inr demoEvent"
  by (rule signed_delivery_verifies [OF demo_signHeaders, where g =
        "\<lparr>sig_Algorithm = ''hmac-sha256'', sig_SecretRef = ''s3cret''\<rparr>"])
    (simp_all add: signedCallback_def demoVerifyEnv_def demoEvent_def demo_trims demoEnv_def
      unix_sec_def nsPerSecond_def defaultAllowedSkew_def nsPerMinute_def)

lemma demo_accepted:
  "fst (Verify CheckAndMark demoVerifyEnv (NewVerifier ''s3cret'' []) demoHeaders ''{}'' 0 [])
     = Inr demoEvent"
  by (rule signed_delivery_accepted [OF demo_signHeaders, where g =
        "\<lparr>sig_Algorithm = ''hmac-sha256'', sig_SecretRef = ''s3cret''\<rparr>"])
    (simp_all add: signedCallback_def demoVerifyEnv_def demoEvent_def demo_trims demoEnv_def
      unix_sec_def nsPerSecond_def defaultAllowedSkew_def nsPerMinute_def)

theorem verify_accepts_signed_witness:
  "parseSignatureHeader (TrimSpace (hGet demoHeaders ''X-COVA-Signature''))
     = Inr (computeHMAC (de_hmac demoEnv) (vf_secret (NewVerifier ''s3cret'' []))
              (TrimSpace (hGet demoHeaders ''X-COVA-Timestamp'')) ''{}'')"
proof -
  obtain g' where "Verify CheckAndMark demoVerifyEnv (NewVerifier ''s3cret'' []) demoHeaders ''{}'' 0 []
      = (Inr demoEvent, g')"
    using demo_accepted by (metis prod.collapse)
  from verify_accepts_signed [OF this] show ?thesis by (simp add: demoVerifyEnv_def)
qed

theorem replay_rejected_witness:
  "\<exists>g. Verify CheckAndMark demoVerifyEnv (NewVerifier ''s3cret'' []) demoHeaders ''{}'' 0 []
        = (Inr demoEvent, g)
     \<and> fst (Verify CheckAndMark demoVerifyEnv (NewVerifier ''s3cret'' []) demoHeaders ''{}'' 60 g)
        \<noteq> Inr demoEvent"
proof -
  obtain g where g: "Verify CheckAndMark demoVerifyEnv (NewVerifier ''s3cret'' []) demoHeaders ''{}'' 0 []
      = (Inr demoEvent, g)"
    using demo_accepted by (metis prod.collapse)
  then show ?thesis
    using replay_rejected [OF _ NewVerifier_ttl g, of "[]" 60 demoEvent]
    by (simp add: NewVerifier_def defaultReplayTTL_def nsPerMinute_def nsPerSecond_def)
qed

end
