(* ===== verification/Orch_Worker.thy ===== *)
theory Orch_Worker
  imports Orch_Api Executor Webhook_Verify
begin

text \<open>
  The asynchronous half of the orchestrator (\<open>internal/orchestrator/server.go\<close>): the worker loop
  and \<open>processBriefJob\<close>, the events of the expert runtime, and the restart (\<open>NewServer\<close>,
  \<open>loadState\<close>).

  \<open>processBriefJob\<close> takes the lock twice: to start the job and to finish it after the executor has
  run.  The two critical sections are \<open>processStart\<close> and \<open>processFinish\<close>; in between, every other
  operation may run.  The goroutine that delivers a webhook is recorded in \<open>sv_webhooks\<close>.
\<close>

section \<open>The worker\<close>

definition briefInput :: "job \<Rightarrow> BriefInput" where
  "briefInput j =
     \<lparr>bi_JobID = jb_ID j, bi_TenantID = jb_TenantID j, bi_ProjectID = jb_ProjectID j,
      bi_ExpertID = jb_ExpertID j, bi_ExpertName = jb_ExpertName j,
      bi_ExpertType = jb_ExpertType j, bi_Date = jb_Date j, bi_TraceID = jb_ID j\<rparr>"

text \<open>The first critical section; the result is the input of the executor, if it is to run.\<close>

definition processStart ::
  "('q, 'st) deps \<Rightarrow> time \<Rightarrow> time \<Rightarrow> string \<Rightarrow> ('q, 'st) Server \<Rightarrow>
   BriefInput option \<times> ('q, 'st) Server" where
  "processStart d now1 now2 jobID s =
     (case getJob s jobID of
        None \<Rightarrow> (None, s)
      | Some current \<Rightarrow>
          if jb_Status current = statusCanceled then (None, s)
          else if isExpired current now1
            then (None, persistLocked d (putJob jobID (markExpired current now2) s))
          else (Some (briefInput current),
                persistLocked d (putJob jobID
                  (current\<lparr>jb_Status := statusRunning, jb_Progress := 30, jb_UpdatedAt := now2\<rparr>) s)))"

text \<open>What is left to do after the unlock.\<close>

datatype followup = FNone | FEnqueue | FWebhook CallbackConfig

text \<open>The second critical section when the runtime accepted the task for later.\<close>

definition finishAsync ::
  "('q, 'st) deps \<Rightarrow> time \<Rightarrow> time \<Rightarrow> string \<Rightarrow> ('q, 'st) Server \<Rightarrow> ('q, 'st) Server" where
  "finishAsync d now1 now2 jobID s =
     (case getJob s jobID of
        None \<Rightarrow> s
      | Some current \<Rightarrow>
          if jb_Status current \<noteq> statusCanceled \<and> \<not> isExpired current now1
          then persistLocked d (putJob jobID
                 (current\<lparr>jb_Status := statusRunning, jb_Progress := 60, jb_UpdatedAt := now2\<rparr>) s)
          else s)"

definition deadLetter :: "job \<Rightarrow> string \<Rightarrow> time \<Rightarrow> string \<Rightarrow> DeadLetterEntry" where
  "deadLetter j reason failedAt lastError =
     \<lparr>dl_JobID = jb_ID j, dl_TenantID = jb_TenantID j, dl_ProjectID = jb_ProjectID j,
      dl_Reason = reason, dl_Attempts = jb_Attempt j, dl_FailedAt = failedAt,
      dl_LastError = lastError, dl_FinalStatus = jb_Status j\<rparr>"

definition putDead :: "string \<Rightarrow> DeadLetterEntry \<Rightarrow> ('q, 'st) Server \<Rightarrow> ('q, 'st) Server" where
  "putDead k e s = s\<lparr>sv_dlq := mput k e (sv_dlq s)\<rparr>"

definition delDead :: "string \<Rightarrow> ('q, 'st) Server \<Rightarrow> ('q, 'st) Server" where
  "delDead k s = s\<lparr>sv_dlq := mdel k (sv_dlq s)\<rparr>"

text \<open>The second critical section after an error of the executor.\<close>

definition finishErr ::
  "('q, 'st) deps \<Rightarrow> string \<Rightarrow> time \<Rightarrow> string \<Rightarrow> ('q, 'st) Server \<Rightarrow> followup \<times> ('q, 'st) Server"
  where
  "finishErr d err now jobID s =
     (case getJob s jobID of
        None \<Rightarrow> (FNone, s)
      | Some current0 \<Rightarrow>
          (let current = current0\<lparr>jb_LastError := Some err, jb_UpdatedAt := now\<rparr>
           in if jb_Status current = statusCanceled
              then (FNone, persistLocked d (putJob jobID current s))
              else if isExpired current now
              then (FNone, persistLocked d (putJob jobID (markExpired current now) s))
              else if jb_Attempt current < jb_MaxAttempts current
              then (FEnqueue, persistLocked d (putJob jobID
                     (current\<lparr>jb_Attempt := jb_Attempt current + 1, jb_Status := statusQueued,
                        jb_Progress := 0\<rparr>) s))
              else (let failed = current\<lparr>jb_Status := statusFailed, jb_Progress := 100\<rparr>
                    in (FNone, persistLocked d (putDead jobID
                          (deadLetter failed ''max_attempts_exhausted'' now err)
                          (putJob jobID failed s))))))"

text \<open>The second critical section after a result.\<close>

definition finishOk ::
  "('q, 'st) deps \<Rightarrow> ExpertResult \<Rightarrow> time \<Rightarrow> string \<Rightarrow> ('q, 'st) Server \<Rightarrow>
   followup \<times> ('q, 'st) Server" where
  "finishOk d r now jobID s =
     (case getJob s jobID of
        None \<Rightarrow> (FNone, s)
      | Some current \<Rightarrow>
          if jb_Status current = statusCanceled then (FNone, persistLocked d s)
          else if isExpired current now
            then (FNone, persistLocked d (putJob jobID (markExpired current now) s))
          else (let j = current\<lparr>jb_Status := statusSucceeded, jb_Progress := 100,
                          jb_Result := Some r, jb_LastError := None, jb_UpdatedAt := now\<rparr>
                in (case cloneCallbackConfig (jb_Callback current) of
                      None \<Rightarrow> FNone
                    | Some cb \<Rightarrow> if TrimSpace (cb_Url cb) = [] then FNone else FWebhook cb,
                    persistLocked d (delDead jobID (putJob jobID j s)))))"

definition processFinish ::
  "('q, 'st) deps \<Rightarrow> exec_outcome \<Rightarrow> time \<Rightarrow> time \<Rightarrow> string \<Rightarrow> ('q, 'st) Server \<Rightarrow>
   followup \<times> ('q, 'st) Server" where
  "processFinish d outcome now1 now2 jobID s =
     (case outcome of
        ExecAsync \<Rightarrow> (FNone, finishAsync d now1 now2 jobID s)
      | ExecErr err \<Rightarrow> finishErr d err now1 jobID s
      | ExecOk r \<Rightarrow> finishOk d r now1 jobID s)"

definition startWebhook :: "string \<Rightarrow> CallbackConfig \<Rightarrow> ('q, 'st) Server \<Rightarrow> ('q, 'st) Server" where
  "startWebhook jobID cb s = s\<lparr>sv_webhooks := sv_webhooks s @ [(jobID, cb)]\<rparr>"

definition doFollowup ::
  "('q, 'st) deps \<Rightarrow> string \<Rightarrow> followup \<Rightarrow> ('q, 'st) Server \<Rightarrow> ('q, 'st) Server" where
  "doFollowup d jobID f s =
     (case f of FNone \<Rightarrow> s | FEnqueue \<Rightarrow> enqueue d s jobID | FWebhook cb \<Rightarrow> startWebhook jobID cb s)"

text \<open>\<open>processBriefJob\<close> without interruption; \<open>clk\<close> gives the readings of the clock in order.\<close>

definition processBriefJob ::
  "('q, 'st) deps \<Rightarrow> (BriefInput \<Rightarrow> exec_outcome) \<Rightarrow> (nat \<Rightarrow> time) \<Rightarrow> string \<Rightarrow>
   ('q, 'st) Server \<Rightarrow> ('q, 'st) Server" where
  "processBriefJob d exec clk jobID s =
     (case processStart d (clk 0) (clk 1) jobID s of
        (None, s') \<Rightarrow> s'
      | (Some inp, s') \<Rightarrow>
          (let (f, s'') = processFinish d (exec inp) (clk 2) (clk 3) jobID s'
           in doFollowup d jobID f s''))"

text \<open>One round of \<open>workerLoop\<close> that finds an item, with the acknowledgement the queue asks for.\<close>

definition workerRound ::
  "('q, 'st) deps \<Rightarrow> ('q \<Rightarrow> (string \<times> 'q) option) \<Rightarrow> (string \<Rightarrow> 'q \<Rightarrow> 'q) \<Rightarrow>
   (BriefInput \<Rightarrow> exec_outcome) \<Rightarrow> (nat \<Rightarrow> time) \<Rightarrow> ('q, 'st) Server \<Rightarrow> ('q, 'st) Server option" where
  "workerRound d deq ack exec clk s =
     (case deq (sv_queue s) of
        None \<Rightarrow> None
      | Some (jobID, q) \<Rightarrow>
          (let s' = processBriefJob d exec clk jobID (s\<lparr>sv_queue := q\<rparr>)
           in Some (s'\<lparr>sv_queue := ack jobID (sv_queue s')\<rparr>)))"

text \<open>The event the webhook goroutine sends.\<close>

definition jobCompletedData :: "string \<Rightarrow> JobCompletedData" where
  "jobCompletedData jobID =
     \<lparr>jc_JobID = jobID, jc_Status = statusSucceeded,
      jc_ResultURL = ''/v1/assistant/jobs/'' @ jobID @ ''/result''\<rparr>"

definition dispatchJobCompletedWebhook ::
  "denv \<Rightarrow> dconfig \<Rightarrow> ('d \<Rightarrow> DeliveryRecord \<Rightarrow> 'd) \<Rightarrow> time \<Rightarrow> 64 word \<Rightarrow> string \<Rightarrow> CallbackConfig \<Rightarrow>
   'd \<Rightarrow> string option \<times> 'd \<times> 64 word" where
  "dispatchJobCompletedWebhook e c put now seq jobID callback store =
     DeliverJobCompleted e c put now seq callback (jobCompletedData jobID) store"


section \<open>Events of the runtime\<close>

record expertTaskEventData =
  te_TaskID :: string
  te_JobID :: string
  te_TraceID :: string
  te_Status :: string
  te_Result :: "ExpertResult option"
  te_Error :: "string option"

text \<open>
  \<open>Event.Data\<close> for the type switch: the struct, a pointer to it, or any other value.  For the last,
  \<open>remarshal\<close> is \<open>json.Marshal\<close> followed by \<open>json.Unmarshal\<close>; the code has one message for the
  failure of either.
\<close>

datatype task_any = TData expertTaskEventData | TPtr "expertTaskEventData option" | TAny event_data

definition checkJobID :: "expertTaskEventData \<Rightarrow> string + expertTaskEventData" where
  "checkJobID v = (if TrimSpace (te_JobID v) = [] then Inl ''event data missing job_id'' else Inr v)"

definition parseExpertEventData ::
  "(event_data \<Rightarrow> expertTaskEventData option) \<Rightarrow> task_any \<Rightarrow> string + expertTaskEventData" where
  "parseExpertEventData remarshal raw =
     (case raw of
        TData v \<Rightarrow> checkJobID v
      | TPtr None \<Rightarrow> Inl ''event data missing job_id''
      | TPtr (Some v) \<Rightarrow> checkJobID v
      | TAny data \<Rightarrow> (case remarshal data of
            None \<Rightarrow> Inl ''event data is invalid''
          | Some v \<Rightarrow> checkJobID v))"

text \<open>The verifier the server was given, if any, with its state; otherwise the body is decoded.\<close>

definition parseExpertEvent ::
  "(Header \<Rightarrow> string \<Rightarrow> 'g \<Rightarrow> (string + Event) \<times> 'g) option \<Rightarrow> (string \<Rightarrow> string + Event) \<Rightarrow>
   Header \<Rightarrow> string \<Rightarrow> 'g \<Rightarrow> (string + Event) \<times> 'g" where
  "parseExpertEvent verifier unmarshal headers raw g =
     (case verifier of
        Some v \<Rightarrow> v headers raw g
      | None \<Rightarrow> (case unmarshal raw of
            Inl e \<Rightarrow> (Inl (''invalid event payload: '' @ e), g)
          | Inr event \<Rightarrow> (Inr event, g)))"

definition event_problem :: "string \<Rightarrow> string \<Rightarrow> int \<Rightarrow> string \<Rightarrow> int \<times> json" where
  "event_problem code title status detail =
     (status, JObj [(''type'', JStr (''https://api.cova.example.com/errors/'' @ code)),
        (''title'', JStr title), (''status'', JNum (of_int status)), (''detail'', JStr detail)])"

text \<open>What an event does to a job that is not terminal; \<open>None\<close> for a status it does not know.\<close>

definition eventJob :: "expertTaskEventData \<Rightarrow> time \<Rightarrow> job \<Rightarrow> job option" where
  "eventJob data now current =
     (let st = TrimSpace (te_Status data)
      in if st = statusSucceeded
         then Some (current\<lparr>jb_Status := statusSucceeded, jb_Progress := 100,
                     jb_Result := te_Result data, jb_LastError := None, jb_UpdatedAt := now\<rparr>)
         else if st = statusFailed
         then Some (current\<lparr>jb_Status := statusFailed, jb_Progress := 100,
                     jb_LastError := te_Error data, jb_UpdatedAt := now\<rparr>)
         else if st = statusCanceled
         then Some (current\<lparr>jb_Status := statusCanceled, jb_Progress := 100, jb_UpdatedAt := now\<rparr>)
         else None)"

text \<open>The critical section: an error reply, or the webhook to start.\<close>

definition applyEvent ::
  "('q, 'st) deps \<Rightarrow> time \<Rightarrow> expertTaskEventData \<Rightarrow> ('q, 'st) Server \<Rightarrow>
   ((int \<times> json) + CallbackConfig option) \<times> ('q, 'st) Server" where
  "applyEvent d now data s =
     (case getJob s (te_JobID data) of
        None \<Rightarrow> (Inl (event_problem ''not-found'' ''Not found'' StatusNotFound ''job not found''), s)
      | Some current \<Rightarrow>
          if terminal (jb_Status current) then (Inr None, s)
          else (case eventJob data now current of
                  None \<Rightarrow> (Inl (event_problem ''invalid-input'' ''Invalid input'' StatusBadRequest
                              ''unsupported event status''), s)
                | Some j \<Rightarrow>
                    (let s1 = putJob (te_JobID data) j s;
                         s2 = (if jb_Status j = statusSucceeded then delDead (jb_ID current) s1
                               else if jb_Status j = statusFailed
                               then putDead (jb_ID current)
                                      (deadLetter j ''runtime_failed'' now (ptrValue (te_Error data))) s1
                               else s1)
                     in (Inr (if jb_Status j = statusSucceeded
                              then cloneCallbackConfig (jb_Callback current) else None),
                         persistLocked d s2))))"

definition maxEventBody :: nat where "maxEventBody = 2 ^ 20"

definition ExpertEventsHandler ::
  "('q, 'st) deps \<Rightarrow> (Header \<Rightarrow> string \<Rightarrow> 'g \<Rightarrow> (string + Event) \<times> 'g) option \<Rightarrow>
   (string \<Rightarrow> string + Event) \<Rightarrow> (event_data \<Rightarrow> expertTaskEventData option) \<Rightarrow> time \<Rightarrow> Request \<Rightarrow>
   'g \<Rightarrow> ('q, 'st) Server \<Rightarrow> (int \<times> json) \<times> 'g \<times> ('q, 'st) Server" where
  "ExpertEventsHandler d verifier unmarshal remarshal now r g s =
     (if rq_Method r \<noteq> ''POST'' then ((StatusMethodNotAllowed, JNull), g, s)
      else if maxEventBody < length (rq_Body r)
      then (event_problem ''invalid-request'' ''Invalid request'' StatusBadRequest
              ''invalid event payload'', g, s)
      else (case parseExpertEvent verifier unmarshal (rq_Header r) (rq_Body r) g of
              (Inl e, g') \<Rightarrow>
                (event_problem ''unauthorized'' ''Unauthorized'' StatusUnauthorized e, g', s)
            | (Inr event, g') \<Rightarrow>
                (case parseExpertEventData remarshal (TAny (ev_Data event)) of
                   Inl e \<Rightarrow>
                     (event_problem ''invalid-input'' ''Invalid input'' StatusBadRequest e, g', s)
                 | Inr data \<Rightarrow>
                     (case applyEvent d now data s of
                        (Inl reply, s') \<Rightarrow> (reply, g', s')
                      | (Inr callback, s') \<Rightarrow>
                          ((StatusAccepted, JObj [(''status'', JStr ''accepted''),
                             (''job_id'', JStr (te_JobID data))]), g',
                           (case callback of
                              None \<Rightarrow> s'
                            | Some cb \<Rightarrow>
                                if TrimSpace (cb_Url cb) = [] then s'
                                else startWebhook (te_JobID data) cb s'))))))"

end
