(* ===== verification/Orch_Restart.thy ===== *)
theory Orch_Restart
  imports Orch_Worker
begin

text \<open>
  Starting and stopping the orchestrator (\<open>NewServer\<close>, the options, \<open>loadState\<close> and \<open>Close\<close> of
  \<open>internal/orchestrator/server.go\<close>).  \<open>loadState\<close> ranges over the stored jobs; the order of that
  loop, which Go leaves open, is the order of the stored list, and the jobs to enqueue come in it.
\<close>

section \<open>Options\<close>

record serverOptions =
  so_queueSize :: int
  so_maxAttempts :: int
  so_jobTTL :: duration

definition WithQueueSize :: "int \<Rightarrow> serverOptions \<Rightarrow> serverOptions" where
  "WithQueueSize n o1 = (if 0 < n then o1\<lparr>so_queueSize := n\<rparr> else o1)"

definition WithMaxAttempts_server :: "int \<Rightarrow> serverOptions \<Rightarrow> serverOptions" where
  "WithMaxAttempts_server n o1 = (if 0 < n then o1\<lparr>so_maxAttempts := n\<rparr> else o1)"

definition WithJobTTL :: "duration \<Rightarrow> serverOptions \<Rightarrow> serverOptions" where
  "WithJobTTL ttl o1 = (if 0 < ttl then o1\<lparr>so_jobTTL := ttl\<rparr> else o1)"

definition serverDefaults :: serverOptions where
  "serverDefaults =
     \<lparr>so_queueSize = 256, so_maxAttempts = 3, so_jobTTL = 24 * 60 * nsPerMinute\<rparr>"


section \<open>Loading the state\<close>

definition restoreJob :: "int \<Rightarrow> Job \<Rightarrow> job" where
  "restoreJob maxAttempts stored =
     (let j = \<lparr>jb_ID = sj_ID stored, jb_TenantID = sj_TenantID stored,
               jb_ProjectID = sj_ProjectID stored, jb_ExpertID = sj_ExpertID stored,
               jb_ExpertName = sj_ExpertName stored, jb_ExpertType = sj_ExpertType stored,
               jb_Date = sj_Date stored, jb_Status = sj_Status stored,
               jb_Progress = sj_Progress stored, jb_SubmittedAt = sj_SubmittedAt stored,
               jb_UpdatedAt = sj_UpdatedAt stored, jb_Attempt = sj_Attempt stored,
               jb_MaxAttempts = sj_MaxAttempts stored, jb_ExpiresAt = sj_ExpiresAt stored,
               jb_LastError = sj_LastError stored, jb_Result = sj_Result stored,
               jb_Callback = cloneCallbackConfig (sj_Callback stored)\<rparr>;
          j1 = (if jb_MaxAttempts j \<le> 0 then j\<lparr>jb_MaxAttempts := maxAttempts\<rparr> else j)
      in if jb_Status j1 = statusRunning
         then j1\<lparr>jb_Status := statusQueued, jb_Progress := 0\<rparr> else j1)"

definition pendingJobs :: "job gomap \<Rightarrow> string list" where
  "pendingJobs jobs = map fst (filter (\<lambda>e. jb_Status (snd e) = statusQueued) jobs)"

definition enqueueAll :: "('q, 'st) deps \<Rightarrow> string list \<Rightarrow> ('q, 'st) Server \<Rightarrow> ('q, 'st) Server" where
  "enqueueAll d ids s = foldl (enqueue d) s ids"

definition loadState ::
  "('q, 'st) deps \<Rightarrow> ('st \<Rightarrow> store_error + State) \<Rightarrow> ('q, 'st) Server \<Rightarrow>
   store_error option \<times> ('q, 'st) Server" where
  "loadState d load s =
     (case load (sv_stateStore s) of
        Inl e \<Rightarrow> (Some e, s)
      | Inr state \<Rightarrow>
          (let jobs = mmap (restoreJob (sv_maxAttempts s)) (ranged (ss_Jobs state));
               s1 = s\<lparr>sv_nextID := ss_NextID state, sv_jobs := jobs,
                      sv_idem := mmap (\<lambda>e. \<lparr>ir_PayloadHash = ie_PayloadHash e,
                        ir_JobID = ie_JobID e\<rparr>) (ranged (ss_Idempotency state)),
                      sv_dlq := ranged (ss_DeadLetters state)\<rparr>;
               pending = pendingJobs jobs
           in (None, if pending = [] then s1 else enqueueAll d pending (persistLocked d s1))))"

text \<open>
  \<open>NewServer\<close> on the experts of the registry's snapshot, with a store and a way to make the queue;
  an error of \<open>loadState\<close> is logged and dropped.  The worker starts after the load.
\<close>

definition NewServer ::
  "('q, 'st) deps \<Rightarrow> ('st \<Rightarrow> store_error + State) \<Rightarrow> (int \<Rightarrow> 'q) \<Rightarrow>
   (serverOptions \<Rightarrow> serverOptions) list \<Rightarrow> expertMetadata list \<Rightarrow> 'st \<Rightarrow> ('q, 'st) Server" where
  "NewServer d load mkQueue opts experts store =
     (let o1 = foldl (\<lambda>c opt. opt c) serverDefaults opts
      in snd (loadState d load
           \<lparr>sv_experts = foldl (\<lambda>m e. mput (em_ExpertID e) e m) [] experts, sv_jobs = [],
            sv_idem = [], sv_dlq = [], sv_nextID = 0, sv_stateStore = store,
            sv_queue = mkQueue (so_queueSize o1), sv_maxAttempts = so_maxAttempts o1,
            sv_jobTTL = so_jobTTL o1, sv_webhooks = []\<rparr>))"

text \<open>\<open>Close\<close> cancels the worker's context and closes the queue.\<close>

definition Server_Close :: "('q \<Rightarrow> 'q) \<Rightarrow> ('q, 'st) Server \<Rightarrow> ('q, 'st) Server" where
  "Server_Close closeQueue s = s\<lparr>sv_queue := closeQueue (sv_queue s)\<rparr>"


section \<open>What a restart keeps\<close>

lemma enqueueAll_frame [simp, frame_simps]:
  "sv_experts (enqueueAll d ids s) = sv_experts s" "sv_jobs (enqueueAll d ids s) = sv_jobs s"
  "sv_idem (enqueueAll d ids s) = sv_idem s" "sv_dlq (enqueueAll d ids s) = sv_dlq s"
  "sv_nextID (enqueueAll d ids s) = sv_nextID s"
  "sv_stateStore (enqueueAll d ids s) = sv_stateStore s"
  "sv_maxAttempts (enqueueAll d ids s) = sv_maxAttempts s"
  "sv_jobTTL (enqueueAll d ids s) = sv_jobTTL s" "sv_webhooks (enqueueAll d ids s) = sv_webhooks s"
  by (induction ids arbitrary: s) (simp_all add: enqueueAll_def)

lemma enqueueAll_queue:
  "sv_queue (enqueueAll d ids s) = foldl (\<lambda>q i. snd (dp_Enqueue d q i)) (sv_queue s) ids"
  by (induction ids arbitrary: s) (simp_all add: enqueueAll_def enqueue_def)

text \<open>A stored job comes back as it was, except that a running job is queued again.\<close>

definition requeued :: "job \<Rightarrow> job" where
  "requeued j = (if jb_Status j = statusRunning
     then j\<lparr>jb_Status := statusQueued, jb_Progress := 0\<rparr> else j)"

lemma restore_stored:
  "0 < jb_MaxAttempts j \<Longrightarrow> restoreJob m (storedJob j)
     = (requeued j)\<lparr>jb_Callback := cloneCallbackConfig (jb_Callback j)\<rparr>"
  by (simp add: restoreJob_def storedJob_def requeued_def Let_def)

lemma requeued_ident: "jb_Callback j = cloneCallbackConfig cb \<Longrightarrow>
    (requeued j)\<lparr>jb_Callback := cloneCallbackConfig (jb_Callback j)\<rparr> = requeued j"
  by (simp add: requeued_def)

end
