(* ===== verification/Orch_Invariant.thy ===== *)
theory Orch_Invariant
  imports Orch_Restart
begin

text \<open>
  The invariant of the orchestrator's state and what every operation keeps.  \<open>server_ok\<close> says that
  the maps are well formed, that a job is stored under its id with an attempt between one and its
  maximum, a progress between 0 and 100 and one of the six states, that dead letters and
  idempotency records belong to jobs, and that the ids of the jobs were given out by the counter.
  \<open>evolves s s'\<close> says that a step from \<open>s\<close> to \<open>s'\<close> keeps the invariant, drops no job, changes
  nothing of a job that identifies it, and keeps every idempotency record.
\<close>

definition job_ok :: "string \<Rightarrow> job \<Rightarrow> bool" where
  "job_ok k j \<longleftrightarrow> jb_ID j = k \<and> 1 \<le> jb_Attempt j \<and> jb_Attempt j \<le> jb_MaxAttempts j
     \<and> 0 \<le> jb_Progress j \<and> jb_Progress j \<le> 100 \<and> jb_Status j \<in> job_statuses"

definition issued :: "64 word \<Rightarrow> string \<Rightarrow> bool" where
  "issued n k \<longleftrightarrow> (\<exists>i. 0 < i \<and> i \<le> unat n \<and> k = ''job_'' @ dec i)"

definition server_ok :: "('q, 'st) Server \<Rightarrow> bool" where
  "server_ok s \<longleftrightarrow>
     mwf (sv_jobs s) \<and> mwf (sv_idem s) \<and> mwf (sv_dlq s) \<and> 1 \<le> sv_maxAttempts s
     \<and> (\<forall>k j. getJob s k = Some j \<longrightarrow> job_ok k j \<and> issued (sv_nextID s) k)
     \<and> (\<forall>k e. mget (sv_dlq s) k = Some e \<longrightarrow> dl_JobID e = k \<and> getJob s k \<noteq> None)
     \<and> (\<forall>k r. mget (sv_idem s) k = Some r \<longrightarrow> getJob s (ir_JobID r) \<noteq> None)"

definition same_identity :: "job \<Rightarrow> job \<Rightarrow> bool" where
  "same_identity j j' \<longleftrightarrow> jb_ID j' = jb_ID j \<and> jb_TenantID j' = jb_TenantID j
     \<and> jb_ProjectID j' = jb_ProjectID j \<and> jb_ExpertID j' = jb_ExpertID j
     \<and> jb_ExpertName j' = jb_ExpertName j \<and> jb_ExpertType j' = jb_ExpertType j
     \<and> jb_Date j' = jb_Date j \<and> jb_SubmittedAt j' = jb_SubmittedAt j
     \<and> jb_MaxAttempts j' = jb_MaxAttempts j \<and> jb_ExpiresAt j' = jb_ExpiresAt j
     \<and> jb_Callback j' = jb_Callback j"

definition evolves :: "('q, 'st) Server \<Rightarrow> ('q, 'st) Server \<Rightarrow> bool" where
  "evolves s s' \<longleftrightarrow>
     (server_ok s \<longrightarrow> server_ok s')
     \<and> (\<forall>i j. getJob s i = Some j \<longrightarrow> (\<exists>j'. getJob s' i = Some j' \<and> same_identity j j'))
     \<and> (\<forall>k r. mget (sv_idem s) k = Some r \<longrightarrow> mget (sv_idem s') k = Some r)"

lemma same_identity_refl [simp]: "same_identity j j"
  by (simp add: same_identity_def)

lemma same_identity_trans: "same_identity a b \<Longrightarrow> same_identity b c \<Longrightarrow> same_identity a c"
  by (simp add: same_identity_def)

lemma evolves_refl [simp, intro]: "evolves s s"
  by (simp add: evolves_def)

lemma evolves_trans: "evolves a b \<Longrightarrow> evolves b c \<Longrightarrow> evolves a c"
  unfolding evolves_def by (meson same_identity_trans)

lemma server_ok_job: "server_ok s \<Longrightarrow> getJob s k = Some j \<Longrightarrow> job_ok k j"
  by (simp add: server_ok_def)

section \<open>The building blocks\<close>

lemma evolves_frame:
  "sv_jobs s' = sv_jobs s \<Longrightarrow> sv_idem s' = sv_idem s \<Longrightarrow> sv_dlq s' = sv_dlq s \<Longrightarrow>
   sv_nextID s' = sv_nextID s \<Longrightarrow> sv_maxAttempts s' = sv_maxAttempts s \<Longrightarrow> evolves s s'"
  by (simp add: evolves_def server_ok_def getJob_def)

lemma evolves_persist [simp]: "evolves s (persistLocked d s)"
  by (rule evolves_frame) simp_all

lemma evolves_enqueue [simp]: "evolves s (enqueue d s i)"
  by (rule evolves_frame) simp_all

lemma evolves_startWebhook [simp]: "evolves s (startWebhook i cb s)"
  by (rule evolves_frame) (simp_all add: startWebhook_def)

lemma evolves_queue [simp]: "evolves s (s\<lparr>sv_queue := q\<rparr>)"
  by (rule evolves_frame) simp_all

lemma evolves_persist_after: "evolves s s' \<Longrightarrow> evolves s (persistLocked d s')"
  by (rule evolves_trans [OF _ evolves_persist])

text \<open>Replacing a job by one with the same identity and legal fields.\<close>

lemma evolves_putJob:
  assumes "getJob s k = Some j" and "same_identity j j'" and "job_ok k j \<Longrightarrow> job_ok k j'"
  shows "evolves s (putJob k j' s)"
  using assms unfolding evolves_def server_ok_def by auto

lemma evolves_delDead [simp]: "evolves s (delDead k s)"
  by (auto simp: evolves_def server_ok_def delDead_def)

lemma evolves_putDead:
  assumes "getJob s k \<noteq> None" and "dl_JobID e = k"
  shows "evolves s (putDead k e s)"
  using assms by (auto simp: evolves_def server_ok_def putDead_def)

lemma job_status_mem [simp]:
  "statusQueued \<in> job_statuses" "statusRunning \<in> job_statuses" "statusSucceeded \<in> job_statuses"
  "statusFailed \<in> job_statuses" "statusCanceled \<in> job_statuses" "statusExpired \<in> job_statuses"
  by (simp_all add: job_statuses_def)


section \<open>The operations on one job\<close>

lemma evolves_markExpired:
  "getJob s k = Some j \<Longrightarrow> evolves s (persistLocked d (putJob k (markExpired j t) s))"
  by (rule evolves_persist_after, rule evolves_putJob)
    (auto simp: same_identity_def markExpired_def job_ok_def)

lemma evolves_expireJobIfNeeded: "evolves s (expireJobIfNeeded d now i s)"
  by (auto simp: expireJobIfNeeded_def intro: evolves_markExpired split: option.splits)

lemma scopedJob_SomeD:
  "scopedJob s i t p = Some j \<Longrightarrow> getJob s i = Some j \<and> jobInScope j t p"
  by (auto simp: scopedJob_def split: option.splits if_splits)

lemma evolves_CancelJob_locked: "evolves s (snd (CancelJob_locked d now i inst rid t p s))"
  by (auto simp: CancelJob_locked_def Let_def same_identity_def job_ok_def dest!: scopedJob_SomeD
      intro!: evolves_persist_after evolves_putJob split: option.splits)

lemma evolves_ReplayJob_locked:
  "evolves s (snd (ReplayJob_locked d now i inst rid t p s))"
proof (cases "scopedJob s i t p")
  case None
  then show ?thesis by (simp add: ReplayJob_locked_def)
next
  case (Some j)
  then have j: "getJob s i = Some j" by (blast dest: scopedJob_SomeD)
  then have "evolves s (putJob i (replayed j now) s)"
    by (rule evolves_putJob) (auto simp: replayed_def same_identity_def job_ok_def)
  then have "evolves s (persistLocked d (delDead (jb_ID j) (putJob i (replayed j now) s)))"
    by (intro evolves_persist_after) (rule evolves_trans [OF _ evolves_delDead])
  with Some show ?thesis by (simp add: ReplayJob_locked_def Let_def delDead_def)
qed

lemma evolves_processStart: "evolves s (snd (processStart d now1 now2 i s))"
  by (auto simp: processStart_def markExpired_def same_identity_def job_ok_def
      intro!: evolves_markExpired evolves_persist_after evolves_putJob split: option.splits)

lemma evolves_finishAsync: "evolves s (finishAsync d now1 now2 i s)"
  by (auto simp: finishAsync_def same_identity_def job_ok_def
      intro!: evolves_persist_after evolves_putJob split: option.splits)

lemma evolves_finishErr:
  assumes "server_ok s"
  shows "evolves s (snd (finishErr d err now i s))"
proof (cases "getJob s i")
  case None
  then show ?thesis by (simp add: finishErr_def)
next
  case (Some j)
  let ?failed = "j\<lparr>jb_LastError := Some err, jb_UpdatedAt := now, jb_Status := statusFailed,
    jb_Progress := 100\<rparr>"
  have put: "evolves s (putJob i j' s)" if "same_identity j j'" "job_ok i j \<Longrightarrow> job_ok i j'" for j'
    using evolves_putJob [OF Some that] .
  have id: "jb_ID j = i" using server_ok_job [OF assms Some] by (simp add: job_ok_def)
  have "evolves s (putJob i ?failed s)"
    by (rule put) (auto simp: same_identity_def job_ok_def)
  then have "evolves s (putDead i (deadLetter ?failed ''max_attempts_exhausted'' now err)
      (putJob i ?failed s))"
    by (rule evolves_trans) (rule evolves_putDead, simp_all add: deadLetter_def id)
  with Some show ?thesis
    by (auto simp: finishErr_def Let_def same_identity_def job_ok_def markExpired_def
        intro!: evolves_persist_after put)
qed

lemma evolves_finishOk: "evolves s (snd (finishOk d r now i s))"
proof (cases "getJob s i")
  case None
  then show ?thesis by (simp add: finishOk_def)
next
  case (Some j)
  let ?done = "j\<lparr>jb_Status := statusSucceeded, jb_Progress := 100, jb_Result := Some r,
    jb_LastError := None, jb_UpdatedAt := now\<rparr>"
  have "evolves s (putJob i ?done s)"
    by (rule evolves_putJob [OF Some]) (auto simp: same_identity_def job_ok_def)
  then have "evolves s (delDead i (putJob i ?done s))" by (rule evolves_trans) simp
  with Some show ?thesis
    by (auto simp: finishOk_def Let_def intro: evolves_persist_after evolves_markExpired)
qed

lemma evolves_processFinish:
  "server_ok s \<Longrightarrow> evolves s (snd (processFinish d outcome now1 now2 i s))"
  by (simp add: processFinish_def evolves_finishAsync evolves_finishErr evolves_finishOk
      split: exec_outcome.split)

lemma evolves_doFollowup: "evolves s (doFollowup d i f s)"
  by (simp add: doFollowup_def split: followup.split)

lemma eventJob_simps:
  "eventJob data now j = Some j' \<Longrightarrow> same_identity j j' \<and> (job_ok k j \<longrightarrow> job_ok k j')"
  by (auto simp: eventJob_def Let_def same_identity_def job_ok_def split: if_splits)

lemma evolves_applyEvent:
  assumes "server_ok s"
  shows "evolves s (snd (applyEvent d now data s))"
proof (cases "getJob s (te_JobID data)")
  case None
  then show ?thesis by (simp add: applyEvent_def)
next
  case (Some j)
  have id: "jb_ID j = te_JobID data" using server_ok_job [OF assms Some] by (simp add: job_ok_def)
  show ?thesis
  proof (cases "eventJob data now j")
    case None
    with Some show ?thesis by (simp add: applyEvent_def)
  next
    case (Some j')
    note ev = eventJob_simps [OF Some]
    then have put: "evolves s (putJob (te_JobID data) j' s)"
      by (intro evolves_putJob [OF \<open>getJob s (te_JobID data) = Some j\<close>]) auto
    moreover have "jb_ID j' = jb_ID j" using ev by (simp add: same_identity_def)
    then have "evolves s (putDead (te_JobID data)
        (deadLetter j' ''runtime_failed'' now (ptrValue (te_Error data)))
        (putJob (te_JobID data) j' s))"
      by (intro evolves_trans [OF put] evolves_putDead) (simp_all add: deadLetter_def id)
    moreover have "evolves s (delDead (te_JobID data) (putJob (te_JobID data) j' s))"
      by (rule evolves_trans [OF put]) simp
    ultimately show ?thesis
      using Some \<open>getJob s (te_JobID data) = Some j\<close> id
      by (auto simp: applyEvent_def Let_def intro: evolves_persist_after)
  qed
qed


section \<open>Submitting\<close>

lemma unat_succ: "unat n + 1 < 2 ^ 64 \<Longrightarrow> unat (n + 1 :: 64 word) = unat n + 1"
  by (simp add: unat_word_ariths)

lemma issued_succ: "unat n + 1 < 2 ^ 64 \<Longrightarrow> issued n k \<Longrightarrow> issued (n + 1) k"
  unfolding issued_def by (auto simp: unat_succ)

lemma issued_new: "unat n + 1 < 2 ^ 64 \<Longrightarrow> issued (n + 1) (job_id_text (n + 1))"
  unfolding issued_def job_id_text_def by (intro exI [of _ "unat (n + 1)"]) (simp add: unat_succ)

text \<open>The next id is not in use, as long as the counter does not wrap.\<close>

lemma fresh_id:
  assumes "server_ok s" "unat (sv_nextID s) + 1 < 2 ^ 64"
  shows "getJob s (job_id_text (sv_nextID s + 1)) = None"
proof (rule ccontr)
  assume "getJob s (job_id_text (sv_nextID s + 1)) \<noteq> None"
  with assms(1) have "issued (sv_nextID s) (job_id_text (sv_nextID s + 1))"
    by (auto simp: server_ok_def)
  then obtain i where "i \<le> unat (sv_nextID s)" "dec i = dec (unat (sv_nextID s + 1))"
    by (auto simp: issued_def job_id_text_def)
  with assms(2) show False by (simp add: unat_succ)
qed

lemma getJob_submit_create:
  "submit_create d now params req expert key h s = (j, s') \<Longrightarrow>
     getJob s' = (getJob s)(job_id_text (sv_nextID s + 1) \<mapsto> j)
     \<and> j = newJob s params req expert now (job_id_text (sv_nextID s + 1))
     \<and> sv_nextID s' = sv_nextID s + 1 \<and> sv_queue s' = sv_queue s \<and> sv_experts s' = sv_experts s
     \<and> sv_maxAttempts s' = sv_maxAttempts s \<and> sv_webhooks s' = sv_webhooks s
     \<and> mget (sv_idem s') = (if key = [] then mget (sv_idem s) else (mget (sv_idem s))(key \<mapsto>
          \<lparr>ir_PayloadHash = h, ir_JobID = job_id_text (sv_nextID s + 1)\<rparr>))"
  by (auto simp: submit_create_def Let_def newJob_def fun_eq_iff)

lemma newJob_ok: "1 \<le> sv_maxAttempts s \<Longrightarrow> job_ok k (newJob s params req expert now k)"
  by (simp add: job_ok_def newJob_def)

lemma evolves_submit_create:
  assumes "submit_create d now params req expert key h s = (j, s')"
    and "key \<noteq> [] \<Longrightarrow> mget (sv_idem s) key = None"
    and "unat (sv_nextID s) + 1 < 2 ^ 64" and "server_ok s"
  shows "evolves s s'"
proof -
  note get = getJob_submit_create [OF assms(1)] and fresh = fresh_id [OF assms(4,3)]
  have dlq: "mget (sv_dlq s') = (mget (sv_dlq s))(job_id_text (sv_nextID s + 1) := None)"
    and wf: "mwf (sv_jobs s') \<and> mwf (sv_idem s') \<and> mwf (sv_dlq s')"
    using assms(1,4) by (auto simp: submit_create_def Let_def server_ok_def)
  have "server_ok s'"
    using assms(4) get dlq wf newJob_ok [of s] issued_new [OF assms(3)] issued_succ [OF assms(3)]
    by (auto simp: server_ok_def split: if_splits)
  with get fresh assms(2) show ?thesis
    by (auto simp: evolves_def same_identity_def split: if_splits)
qed

lemma evolves_SubmitBriefJob_locked:
  assumes "unat (sv_nextID s) + 1 < 2 ^ 64" and "server_ok s"
  shows "evolves s (snd (SubmitBriefJob_locked d now params rid req expert h s))"
proof -
  let ?key = "scopedIdempotencyKey (TrimSpace (sp_XTenantId params))
    (TrimSpace (sp_XProjectId params)) (sp_IdempotencyKey params)"
  have "evolves s (snd (submit_create d now params req expert ?key h s))"
    if "?key = [] \<or> mget (sv_idem s) ?key = None"
    by (rule evolves_submit_create [OF prod.collapse [symmetric] _ assms]) (use that in blast)
  then show ?thesis
    by (auto simp: SubmitBriefJob_locked_def Let_def split: option.splits prod.splits)
qed

end
