(* ===== verification/Orch_System.thy ===== *)
theory Orch_System
  imports Orch_Invariant
begin

text \<open>
  The orchestrator as a state machine.  A state is the server, the ids a handler has still to
  enqueue after its unlock, and where the one worker goroutine is in its loop; a step is one
  critical section (or one call outside of the lock), so that the steps of concurrent handlers, the
  worker and the events of the runtime interleave in every order.  Each reading of the clock is
  free, except that nothing is assumed of it.

  Two fields only record: the ids whose \<open>Enqueue\<close> returned an error, and the number of calls that
  passed the checks of \<open>SubmitBriefJob\<close>.
\<close>

section \<open>The step relation\<close>

datatype worker_pc = WIdle | WGot string | WExec string BriefInput | WDone string followup

record ('q, 'st) System =
  sy_server :: "('q, 'st) Server"
  sy_tails :: "string list"
  sy_worker :: worker_pc
  sy_lost :: "string list"
  sy_submits :: nat

datatype action = ASubmit | AExpire | ACancel | AReplay string | AEnqueue | AEvent
  | ADequeue | AStart | AFinish | AFollowup

text \<open>An \<open>Enqueue\<close> whose error is only logged.\<close>

definition sys_enqueue :: "('q, 'st) deps \<Rightarrow> string \<Rightarrow> ('q, 'st) System \<Rightarrow> ('q, 'st) System" where
  "sys_enqueue d i S = S\<lparr>sy_server := enqueue d (sy_server S) i,
     sy_lost := (if fst (dp_Enqueue d (sv_queue (sy_server S)) i) = None then sy_lost S
                 else i # sy_lost S)\<rparr>"

definition sys_followup :: "('q, 'st) deps \<Rightarrow> string \<Rightarrow> followup \<Rightarrow> ('q, 'st) System \<Rightarrow> ('q, 'st) System"
  where
  "sys_followup d i f S =
     (case f of
        FNone \<Rightarrow> S
      | FEnqueue \<Rightarrow> sys_enqueue d i S
      | FWebhook cb \<Rightarrow> S\<lparr>sy_server := startWebhook i cb (sy_server S)\<rparr>)"

inductive orch_step ::
  "('q, 'st) deps \<Rightarrow> ('q \<Rightarrow> (string \<times> 'q) option) \<Rightarrow> action \<Rightarrow>
   ('q, 'st) System \<Rightarrow> ('q, 'st) System \<Rightarrow> bool"
  for d :: "('q, 'st) deps" and deq :: "'q \<Rightarrow> (string \<times> 'q) option"
where
  submit: "submit_check (sy_server S) params rid req = Inr expert \<Longrightarrow>
     hashRequestPayload d req = Some h \<Longrightarrow>
     SubmitBriefJob_locked d now params rid req expert h (sy_server S) = ((reply, f), s') \<Longrightarrow>
     orch_step d deq ASubmit S
       (S\<lparr>sy_server := s', sy_tails := sy_tails S @ (case f of None \<Rightarrow> [] | Some i \<Rightarrow> [i]),
          sy_submits := sy_submits S + 1\<rparr>)"
| expire: "orch_step d deq AExpire S (S\<lparr>sy_server := expireJobIfNeeded d now i (sy_server S)\<rparr>)"
| cancel: "orch_step d deq ACancel S
     (S\<lparr>sy_server := snd (CancelJob_locked d now i inst rid t p (sy_server S))\<rparr>)"
| replay: "ReplayJob_locked d now i inst rid t p (sy_server S) = (r, s') \<Longrightarrow>
     orch_step d deq (AReplay i) S
       (S\<lparr>sy_server := s', sy_tails := sy_tails S @ (case r of Inl reply \<Rightarrow> [] | Inr k \<Rightarrow> [k])\<rparr>)"
| enq: "i \<in> set (sy_tails S) \<Longrightarrow>
     orch_step d deq AEnqueue S ((sys_enqueue d i S)\<lparr>sy_tails := remove1 i (sy_tails S)\<rparr>)"
| event: "applyEvent d now data (sy_server S) = (r, s') \<Longrightarrow>
     orch_step d deq AEvent S
       (S\<lparr>sy_server := (case r of Inr (Some cb) \<Rightarrow> startWebhook (te_JobID data) cb s' | _ \<Rightarrow> s')\<rparr>)"
| dequeue: "sy_worker S = WIdle \<Longrightarrow> deq (sv_queue (sy_server S)) = Some (i, q) \<Longrightarrow>
     orch_step d deq ADequeue S
       (S\<lparr>sy_server := (sy_server S)\<lparr>sv_queue := q\<rparr>, sy_worker := WGot i\<rparr>)"
| start: "sy_worker S = WGot i \<Longrightarrow> processStart d now1 now2 i (sy_server S) = (r, s') \<Longrightarrow>
     orch_step d deq AStart S
       (S\<lparr>sy_server := s', sy_worker := (case r of None \<Rightarrow> WIdle | Some inp \<Rightarrow> WExec i inp)\<rparr>)"
| finish: "sy_worker S = WExec i inp \<Longrightarrow>
     processFinish d outcome now1 now2 i (sy_server S) = (f, s') \<Longrightarrow>
     orch_step d deq AFinish S (S\<lparr>sy_server := s', sy_worker := WDone i f\<rparr>)"
| followup: "sy_worker S = WDone i f \<Longrightarrow>
     orch_step d deq AFollowup S ((sys_followup d i f S)\<lparr>sy_worker := WIdle\<rparr>)"

inductive_cases orch_stepE: "orch_step d deq a S S'"

inductive orch_reach ::
  "('q, 'st) deps \<Rightarrow> ('q \<Rightarrow> (string \<times> 'q) option) \<Rightarrow> ('q, 'st) System \<Rightarrow> ('q, 'st) System \<Rightarrow> bool"
  for d deq S0
where
  refl: "orch_reach d deq S0 S0"
| step: "orch_reach d deq S0 S \<Longrightarrow> orch_step d deq a S S' \<Longrightarrow> orch_reach d deq S0 S'"


section \<open>Every step keeps the invariant\<close>

lemma sys_enqueue_simps [simp]:
  "sy_server (sys_enqueue d i S) = enqueue d (sy_server S) i"
  "sy_tails (sys_enqueue d i S) = sy_tails S" "sy_worker (sys_enqueue d i S) = sy_worker S"
  "sy_submits (sys_enqueue d i S) = sy_submits S"
  "set (sy_lost S) \<subseteq> set (sy_lost (sys_enqueue d i S))"
  by (auto simp: sys_enqueue_def)

lemma sys_followup_simps [simp]:
  "sy_server (sys_followup d i f S) = doFollowup d i f (sy_server S)"
  "sy_tails (sys_followup d i f S) = sy_tails S"
  "sy_submits (sys_followup d i f S) = sy_submits S"
  "set (sy_lost S) \<subseteq> set (sy_lost (sys_followup d i f S))"
  by (auto simp: sys_followup_def doFollowup_def split: followup.splits
      intro: subsetD [OF sys_enqueue_simps(5)])

lemma step_evolves:
  assumes "orch_step d deq a S S'" and "server_ok (sy_server S)"
    and "unat (sv_nextID (sy_server S)) + 1 < 2 ^ 64 \<or> a \<noteq> ASubmit"
  shows "evolves (sy_server S) (sy_server S')"
  using assms(1)
proof cases
  case (submit params rid req expert h now reply f s')
  then show ?thesis
    using assms evolves_SubmitBriefJob_locked [of "sy_server S" d now params rid req expert h] by simp
next
  case (replay now i inst rid t p r s')
  then show ?thesis
    using evolves_ReplayJob_locked [of "sy_server S" d now i inst rid t p] by simp
next
  case (event now data r s')
  then have "evolves (sy_server S) s'"
    using evolves_applyEvent [OF assms(2), of d now data] by simp
  then show ?thesis unfolding event(2)
    by (auto split: sum.splits option.splits intro: evolves_trans [OF _ evolves_startWebhook])
next
  case (start i now1 now2 r s')
  then show ?thesis using evolves_processStart [of "sy_server S" d now1 now2 i] by simp
next
  case (finish i inp outcome now1 now2 f s')
  then show ?thesis
    using evolves_processFinish [OF assms(2), of d outcome now1 now2 i] by simp
qed (simp_all add: evolves_expireJobIfNeeded evolves_CancelJob_locked evolves_doFollowup)

text \<open>The counter of job ids: a step of a submit advances it by at most one, no other step does.\<close>

lemma nextID_frame [simp, frame_simps]:
  "sv_nextID (expireJobIfNeeded d now i s) = sv_nextID s"
  "sv_nextID (snd (CancelJob_locked d now i inst rid t p s)) = sv_nextID s"
  "sv_nextID (snd (ReplayJob_locked d now i inst rid t p s)) = sv_nextID s"
  "sv_nextID (snd (processStart d now1 now2 i s)) = sv_nextID s"
  "sv_nextID (snd (processFinish d outcome now1 now2 i s)) = sv_nextID s"
  "sv_nextID (doFollowup d i f s) = sv_nextID s"
  "sv_nextID (snd (applyEvent d now data s)) = sv_nextID s"
  "sv_nextID (startWebhook i cb s) = sv_nextID s"
  by (auto simp: expireJobIfNeeded_def CancelJob_locked_def ReplayJob_locked_def processStart_def
      processFinish_def finishAsync_def finishErr_def finishOk_def doFollowup_def applyEvent_def
      startWebhook_def putDead_def delDead_def Let_def
      split: option.splits exec_outcome.splits followup.splits)

lemma nextID_submit:
  "sv_nextID (snd (SubmitBriefJob_locked d now params rid req expert h s)) = sv_nextID s
   \<or> sv_nextID (snd (SubmitBriefJob_locked d now params rid req expert h s)) = sv_nextID s + 1"
  by (auto simp: SubmitBriefJob_locked_def Let_def split: option.splits prod.splits
      dest: getJob_submit_create)

lemma nextID_step:
  assumes "orch_step d deq a S S'" and "unat (sv_nextID (sy_server S)) + 1 < 2 ^ 64 \<or> a \<noteq> ASubmit"
  shows "unat (sv_nextID (sy_server S')) + sy_submits S
           \<le> unat (sv_nextID (sy_server S)) + sy_submits S'
    \<and> sy_submits S \<le> sy_submits S' \<and> (a = ASubmit \<longrightarrow> sy_submits S' = sy_submits S + 1)"
  using assms(1)
proof cases
  case (submit params rid req expert h now reply f s')
  then show ?thesis
    using nextID_submit [of d now params rid req expert h "sy_server S"] assms(2)
    by (auto simp: unat_succ)
next
  case (replay now i inst rid t p r s')
  then show ?thesis
    using nextID_frame(3) [of d now i inst rid t p "sy_server S"] by (simp split: sum.splits)
next
  case (event now data r s')
  then show ?thesis
    using nextID_frame(7) [of d now data "sy_server S"] by (simp split: sum.splits option.splits)
next
  case (start i now1 now2 r s')
  then show ?thesis
    using nextID_frame(4) [of d now1 now2 i "sy_server S"] by simp
next
  case (finish i inp outcome now1 now2 f s')
  then show ?thesis
    using nextID_frame(5) [of d outcome now1 now2 i "sy_server S"] by simp
qed simp_all

lemma reach_evolves:
  assumes "orch_reach d deq S0 S" and "server_ok (sy_server S0)"
    and "unat (sv_nextID (sy_server S0)) + (sy_submits S - sy_submits S0) < 2 ^ 64"
  shows "server_ok (sy_server S) \<and> evolves (sy_server S0) (sy_server S)
    \<and> sy_submits S0 \<le> sy_submits S
    \<and> unat (sv_nextID (sy_server S)) + sy_submits S0 \<le> unat (sv_nextID (sy_server S0)) + sy_submits S"
  using assms
proof (induction rule: orch_reach.induct)
  case refl
  then show ?case by simp
next
  case (step S a S')
  have mono: "sy_submits S \<le> sy_submits S' \<and> (a = ASubmit \<longrightarrow> sy_submits S' = sy_submits S + 1)"
    using step.hyps(2) by cases (auto split: sum.splits option.splits)
  with step have ih: "server_ok (sy_server S)" "evolves (sy_server S0) (sy_server S)"
    "sy_submits S0 \<le> sy_submits S"
    "unat (sv_nextID (sy_server S)) + sy_submits S0 \<le> unat (sv_nextID (sy_server S0)) + sy_submits S"
    by auto
  have room: "unat (sv_nextID (sy_server S)) + 1 < 2 ^ 64 \<or> a \<noteq> ASubmit"
    using ih mono step.prems by auto
  have ev: "evolves (sy_server S) (sy_server S')"
    by (rule step_evolves [OF step.hyps(2) ih(1) room])
  moreover from ev ih(1) have "server_ok (sy_server S')" by (simp add: evolves_def)
  ultimately show ?case
    using ih nextID_step [OF step.hyps(2) room] evolves_trans [OF ih(2) ev] by auto
qed


section \<open>No queued job is forgotten\<close>

definition queuedIDs :: "('q, 'st) Server \<Rightarrow> string set" where
  "queuedIDs s = {i. \<exists>j. getJob s i = Some j \<and> jb_Status j = statusQueued}"

fun workerIDs :: "worker_pc \<Rightarrow> string set" where
  "workerIDs (WGot i) = {i}"
| "workerIDs (WDone i FEnqueue) = {i}"
| "workerIDs _ = {}"

lemma queuedIDs_frame:
  "getJob s' = getJob s \<Longrightarrow> queuedIDs s' = queuedIDs s"
  by (simp add: queuedIDs_def)

lemma queuedIDs_persist [simp]: "queuedIDs (persistLocked d s) = queuedIDs s"
  "queuedIDs (enqueue d s i) = queuedIDs s" "queuedIDs (startWebhook i cb s) = queuedIDs s"
  "queuedIDs (s\<lparr>sv_queue := q\<rparr>) = queuedIDs s" "queuedIDs (putDead k e s) = queuedIDs s"
  "queuedIDs (delDead k s) = queuedIDs s" "queuedIDs (s\<lparr>sv_dlq := m\<rparr>) = queuedIDs s"
  by (rule queuedIDs_frame, simp add: startWebhook_def putDead_def delDead_def)+

lemma queuedIDs_putJob [simp]:
  "queuedIDs (putJob i j s) =
     (if jb_Status j = statusQueued then insert i (queuedIDs s) else queuedIDs s - {i})"
  by (auto simp: queuedIDs_def)

lemma queuedIDs_expire: "queuedIDs (expireJobIfNeeded d now i s) \<subseteq> queuedIDs s"
  by (auto simp: expireJobIfNeeded_def split: option.splits)

lemma queuedIDs_cancel:
  "queuedIDs (snd (CancelJob_locked d now i inst rid t p s)) \<subseteq> queuedIDs s"
  by (auto simp: CancelJob_locked_def Let_def split: option.splits)

lemma queuedIDs_replay:
  "server_ok s \<Longrightarrow> ReplayJob_locked d now i inst rid t p s = (r, s') \<Longrightarrow>
     queuedIDs s' \<subseteq> queuedIDs s \<union> (case r of Inl _ \<Rightarrow> {} | Inr k \<Rightarrow> {k})"
  by (auto simp: ReplayJob_locked_def Let_def replayed_def job_ok_def
      split: option.splits if_splits dest!: scopedJob_SomeD server_ok_job)

lemma queuedIDs_submit:
  "SubmitBriefJob_locked d now params rid req expert h s = ((reply, f), s') \<Longrightarrow>
     queuedIDs s' \<subseteq> queuedIDs s \<union> (case f of None \<Rightarrow> {} | Some k \<Rightarrow> {k})"
  by (auto simp: SubmitBriefJob_locked_def Let_def queuedIDs_def newJob_def
      split: option.splits if_splits prod.splits dest!: getJob_submit_create)

lemma queuedIDs_event:
  "queuedIDs (snd (applyEvent d now data s)) \<subseteq> queuedIDs s"
  by (auto simp: applyEvent_def eventJob_def Let_def split: option.splits if_splits)

lemma queuedIDs_start:
  "processStart d now1 now2 i s = (r, s') \<Longrightarrow> queuedIDs s' \<subseteq> queuedIDs s - {i}"
  by (auto simp: processStart_def queuedIDs_def split: option.splits if_splits)

lemma queuedIDs_finish:
  "processFinish d outcome now1 now2 i s = (f, s') \<Longrightarrow>
     queuedIDs s' \<subseteq> queuedIDs s \<union> (if f = FEnqueue then {i} else {})"
  by (auto simp: processFinish_def finishAsync_def finishErr_def finishOk_def Let_def
      split: exec_outcome.splits option.splits if_splits)

text \<open>The queue of a server is only touched by an enqueue and a dequeue.\<close>

lemma queue_frame [simp, frame_simps]:
  "sv_queue (persistLocked d s) = sv_queue s"
  "sv_queue (expireJobIfNeeded d now i s) = sv_queue s"
  "sv_queue (snd (CancelJob_locked d now i inst rid t p s)) = sv_queue s"
  "sv_queue (startWebhook i cb s) = sv_queue s"
  by (auto simp: expireJobIfNeeded_def CancelJob_locked_def startWebhook_def Let_def
      split: option.splits)

lemma queue_frame_results:
  "ReplayJob_locked d now i inst rid t p s = (r1, s1) \<Longrightarrow> sv_queue s1 = sv_queue s"
  "SubmitBriefJob_locked d now params rid req expert h s = (r2, s2) \<Longrightarrow> sv_queue s2 = sv_queue s"
  "applyEvent d now data s = (r3, s3) \<Longrightarrow> sv_queue s3 = sv_queue s"
  "processStart d now1 now2 i s = (r4, s4) \<Longrightarrow> sv_queue s4 = sv_queue s"
  "processFinish d outcome now1 now2 i s = (r5, s5) \<Longrightarrow> sv_queue s5 = sv_queue s"
  by (auto simp: ReplayJob_locked_def SubmitBriefJob_locked_def applyEvent_def processStart_def
      processFinish_def finishAsync_def finishErr_def finishOk_def putDead_def delDead_def Let_def
      split: option.splits if_splits prod.splits exec_outcome.splits dest!: getJob_submit_create)


text \<open>Where an id may be on its way to the worker, with those whose enqueue has failed.\<close>

definition landed :: "('q \<Rightarrow> string list) \<Rightarrow> ('q, 'st) System \<Rightarrow> string set" where
  "landed contents S = set (sy_lost S) \<union> set (contents (sv_queue (sy_server S)))"

definition underway :: "('q \<Rightarrow> string list) \<Rightarrow> ('q, 'st) System \<Rightarrow> string set" where
  "underway contents S = landed contents S \<union> set (sy_tails S) \<union> workerIDs (sy_worker S)"

context job_queue
begin

definition tracked :: "('q, 'st) System \<Rightarrow> bool" where
  "tracked S \<longleftrightarrow> invar (sv_queue (sy_server S)) \<and> queuedIDs (sy_server S) \<subseteq> underway contents S"

lemma enqueue_tracks:
  assumes "dp_Enqueue d = enq" and "invar (sv_queue (sy_server S))"
  shows "invar (sv_queue (sy_server (sys_enqueue d i S)))
    \<and> insert i (landed contents S) \<subseteq> landed contents (sys_enqueue d i S)"
proof -
  obtain e q' where q': "enq (sv_queue (sy_server S)) i = (e, q')"
    by (cases "enq (sv_queue (sy_server S)) i")
  with invar_enq [OF assms(2), of i] have "invar q'" by simp
  moreover have "contents q' = contents (sv_queue (sy_server S)) @ [i]" if "e = None"
    using enq_contents [OF assms(2)] q' that by blast
  moreover have "q' = sv_queue (sy_server S)" if "e = Some x" for x
    using enq_err [OF assms(2)] q' that by blast
  ultimately show ?thesis
    using q' assms(1) by (cases e) (auto simp: landed_def sys_enqueue_def enqueue_def)
qed

lemma step_tracked:
  assumes "orch_step d deq a S S'" and "dp_Enqueue d = enq"
    and "server_ok (sy_server S)" and "tracked S"
  shows "tracked S'"
  using assms(1)
proof cases
  case (submit params rid req expert h now reply f s')
  then show ?thesis
    using assms(4) queuedIDs_submit [OF submit(5)] queue_frame_results(2) [OF submit(5)]
    by (auto simp: tracked_def underway_def landed_def split: option.splits)
next
  case (expire now i)
  then show ?thesis
    using assms(4) queuedIDs_expire [of d now i "sy_server S"] by (auto simp: tracked_def underway_def landed_def)
next
  case (cancel now i inst rid t p)
  then show ?thesis
    using assms(4) queuedIDs_cancel [of d now i inst rid t p "sy_server S"]
    by (auto simp: tracked_def underway_def landed_def)
next
  case (replay now i inst rid t p r s')
  then show ?thesis
    using assms(4) queuedIDs_replay [OF assms(3) replay(3)] queue_frame_results(1) [OF replay(3)]
    by (auto simp: tracked_def underway_def landed_def split: sum.splits)
next
  case (enq i)
  have "set (sy_tails S) \<subseteq> insert i (set (remove1 i (sy_tails S)))"
    by (metis in_set_remove1 insert_iff subsetI)
  moreover have "landed contents S' = landed contents (sys_enqueue d i S)"
    by (simp add: enq(2) landed_def)
  moreover have "insert i (landed contents S) \<subseteq> landed contents (sys_enqueue d i S)"
    and "invar (sv_queue (sy_server (sys_enqueue d i S)))"
    using enqueue_tracks [OF assms(2), of S i] assms(4) by (simp_all add: tracked_def)
  ultimately show ?thesis
    using assms(4) unfolding tracked_def underway_def by (auto simp: enq(2))
next
  case (event now data r s')
  then show ?thesis
    using assms(4) queuedIDs_event [of d now data "sy_server S"] queue_frame_results(3) [OF event(3)]
    by (auto simp: tracked_def underway_def landed_def split: sum.splits option.splits)
next
  case (dequeue i q)
  then show ?thesis
    using assms(4) deq_some [of "sv_queue (sy_server S)" i q]
      invar_deq [of "sv_queue (sy_server S)" i q]
    by (auto simp: tracked_def underway_def landed_def)
next
  case (start i now1 now2 r s')
  then show ?thesis
    using assms(4) queuedIDs_start [OF start(4)] queue_frame_results(4) [OF start(4)]
    by (auto simp: tracked_def underway_def landed_def split: option.splits)
next
  case (finish i inp outcome now1 now2 f s')
  then show ?thesis
    using assms(4) queuedIDs_finish [OF finish(4)] queue_frame_results(5) [OF finish(4)]
    by (auto simp: tracked_def underway_def landed_def split: if_splits)
next
  case (followup i f)
  have "insert i (landed contents S) \<subseteq> landed contents (sys_enqueue d i S)"
    and "invar (sv_queue (sy_server (sys_enqueue d i S)))"
    using enqueue_tracks [OF assms(2), of S i] assms(4) by (simp_all add: tracked_def)
  with followup assms(4) show ?thesis
    by (cases f) (auto simp: tracked_def underway_def sys_followup_def landed_def)
qed

lemma reach_tracked:
  assumes "orch_reach d deq S0 S" and "dp_Enqueue d = enq" and "server_ok (sy_server S0)"
    and "unat (sv_nextID (sy_server S0)) + (sy_submits S - sy_submits S0) < 2 ^ 64"
    and "tracked S0"
  shows "tracked S"
  using assms
proof (induction rule: orch_reach.induct)
  case (step S a S')
  have "sy_submits S \<le> sy_submits S'"
    using step.hyps(2) by cases (auto split: sum.splits option.splits)
  with step.prems have room: "unat (sv_nextID (sy_server S0)) + (sy_submits S - sy_submits S0) < 2 ^ 64"
    by simp
  from reach_evolves [OF step.hyps(1) step.prems(2) room] have "server_ok (sy_server S)" by simp
  moreover have "tracked S" by (rule step.IH [OF step.prems(1,2) room step.prems(4)])
  ultimately show ?case by (rule step_tracked [OF step.hyps(2) step.prems(1)])
qed

end


section \<open>What a step does to a terminal job\<close>

lemma getJob_submit:
  assumes "server_ok s" "unat (sv_nextID s) + 1 < 2 ^ 64" "getJob s i = Some j"
  shows "getJob (snd (SubmitBriefJob_locked d now params rid req expert h s)) i = Some j"
  using assms fresh_id [OF assms(1,2)]
  by (auto simp: SubmitBriefJob_locked_def Let_def split: option.splits prod.splits
      dest!: getJob_submit_create)

lemma terminal_kept:
  assumes "orch_step d deq a S S'" and "a \<notin> {AStart, AFinish, AReplay i}"
    and "server_ok (sy_server S)" and "unat (sv_nextID (sy_server S)) + 1 < 2 ^ 64"
    and "getJob (sy_server S) i = Some j" and "terminal (jb_Status j)"
  shows "getJob (sy_server S') i = Some j"
  using assms(1)
proof cases
  case (submit params rid req expert h now reply f s')
  then show ?thesis
    using getJob_submit [OF assms(3-5), of d now params rid req expert h] by simp
next
  case (cancel now k inst rid t p)
  with assms show ?thesis
    by (auto simp: CancelJob_locked_def Let_def split: option.splits dest!: scopedJob_SomeD)
next
  case (replay now k inst rid t p r s')
  with assms show ?thesis
    by (auto simp: ReplayJob_locked_def Let_def split: option.splits if_splits)
next
  case (event now data r s')
  with assms show ?thesis
    by (auto simp: applyEvent_def Let_def startWebhook_def putDead_def delDead_def
        split: option.splits if_splits sum.splits)
qed (use assms in \<open>auto simp: expireJobIfNeeded_def doFollowup_def startWebhook_def
      split: option.splits followup.splits\<close>)

lemma canceled_kept:
  assumes "orch_step d deq a S S'" and "a \<noteq> AReplay i"
    and "server_ok (sy_server S)" and "unat (sv_nextID (sy_server S)) + 1 < 2 ^ 64"
    and "getJob (sy_server S) i = Some j" and "jb_Status j = statusCanceled"
  shows "\<exists>j'. getJob (sy_server S') i = Some j' \<and> jb_Status j' = statusCanceled
    \<and> jb_Result j' = jb_Result j"
proof (cases "a \<in> {AStart, AFinish}")
  case False
  with assms terminal_kept [OF assms(1), of i] show ?thesis by auto
next
  case True
  from assms(1) show ?thesis
  proof cases
    case (start k now1 now2 r s')
    with assms show ?thesis by (auto simp: processStart_def split: option.splits if_splits)
  next
    case (finish k inp outcome now1 now2 f s')
    with assms show ?thesis
      by (auto simp: processFinish_def finishAsync_def finishErr_def finishOk_def Let_def
          putDead_def delDead_def split: exec_outcome.splits option.splits if_splits)
  qed (use True in auto)
qed

end
