(* ===== verification/Orch_Demo.thy ===== *)
theory Orch_Demo
  imports Orch_System
begin

text \<open>
  A small concrete orchestrator for the witnesses of the properties: one expert, the memory queue,
  the store that keeps nothing, and the first submit, cancel and replay on it.
\<close>

definition demoDeps :: "(memoryQueue, unit) deps" where
  "demoDeps = \<lparr>dp_Enqueue = enqueueWithin, dp_Depth = memoryQueue_Depth, dp_Save = nopStore_Save,
     dp_deliveryRead = None, dp_marshal = (\<lambda>req. Some (sreq_Date req)), dp_sha256 = (\<lambda>s. s)\<rparr>"

definition demoExpert :: expertMetadata where
  "demoExpert = \<lparr>em_ExpertID = ''e1'', em_ExpertName = ''Expert'', em_ExpertType = ''market'',
     em_Version = ''1'', em_Supports = [''daily_brief'']\<rparr>"

definition demoServer :: "(memoryQueue, unit) Server" where
  "demoServer = NewServer demoDeps nopStore_Load newMemoryQueue [] [demoExpert] ()"

definition demoReq :: SubmitBriefRequest where
  "demoReq = \<lparr>sreq_TenantId = None, sreq_ProjectId = None, sreq_ExpertId = ''e1'',
     sreq_ExpertName = None, sreq_ExpertType = None, sreq_Date = ''2024-01-01'',
     sreq_Timezone = None, sreq_Callback = None, sreq_Inference = None, sreq_Options = None\<rparr>"

definition demoParams :: SubmitBriefJobParams where
  "demoParams = \<lparr>sp_XRequestId = ''r'', sp_IdempotencyKey = ''k'', sp_XTenantId = ''t'',
     sp_XProjectId = ''p''\<rparr>"

definition demoJob :: job where
  "demoJob = \<lparr>jb_ID = ''job_1'', jb_TenantID = ''t'', jb_ProjectID = ''p'', jb_ExpertID = ''e1'',
     jb_ExpertName = ''Expert'', jb_ExpertType = ''market'', jb_Date = ''2024-01-01'',
     jb_Status = statusQueued, jb_Progress = 0, jb_SubmittedAt = 0, jb_UpdatedAt = 0,
     jb_Attempt = 1, jb_MaxAttempts = 3, jb_ExpiresAt = Some (24 * 60 * nsPerMinute),
     jb_LastError = None, jb_Result = None, jb_Callback = None\<rparr>"

definition demoState :: "(memoryQueue, unit) Server" where
  "demoState = snd (submit_create demoDeps 0 demoParams demoReq demoExpert ''t::p::k''
     (hex_encode ''2024-01-01'') demoServer)"

definition demoSystem :: "(memoryQueue, unit) System" where
  "demoSystem = \<lparr>sy_server = demoServer, sy_tails = [], sy_worker = WIdle, sy_lost = [],
     sy_submits = 0\<rparr>"

lemma demo_words [simp]:
  "TrimSpace ''t'' = ''t''" "TrimSpace ''p'' = ''p''" "TrimSpace ''k'' = ''k''"
  "TrimSpace ''r'' = ''r''" "TrimSpace ''e1'' = ''e1''" "TrimSpace ''market'' = ''market''"
  "TrimSpace ''2024-01-01'' = ''2024-01-01''" "TrimSpace ''daily_brief'' = ''daily_brief''"
  by (simp_all add: TrimSpace_visible visible_def)

lemma demo_date [simp]: "parse_date ''2024-01-01'' = Some (2024, 1, 1)"
  by (simp add: parse_date_def is_digit_def undec_def digit_val_def days_in_def)

lemma demoServer_simps [simp]:
  "sv_experts demoServer = [(''e1'', demoExpert)]" "sv_jobs demoServer = []"
  "sv_idem demoServer = []" "sv_dlq demoServer = []" "sv_nextID demoServer = 0"
  "sv_queue demoServer = newMemoryQueue 256" "sv_maxAttempts demoServer = 3"
  "sv_jobTTL demoServer = 24 * 60 * nsPerMinute" "sv_webhooks demoServer = []"
  by (simp_all add: demoServer_def NewServer_def loadState_def nopStore_Load_def emptyState_def
      serverDefaults_def Let_def mmap_def pendingJobs_def demoExpert_def mput_def)

lemma demoServer_getJob [simp]: "getJob demoServer i = None"
  by (simp add: getJob_def)

lemma demoServer_ok [simp]: "server_ok demoServer"
  by (simp add: server_ok_def)

lemma demoDeps_simps [simp]:
  "dp_Enqueue demoDeps = enqueueWithin" "dp_deliveryRead demoDeps = None"
  "hashRequestPayload demoDeps req = Some (hex_encode (sreq_Date req))"
  by (simp_all add: demoDeps_def hashRequestPayload_def)

lemma demo_check:
  "sv_experts s = [(''e1'', demoExpert)] \<Longrightarrow> submit_check s demoParams rid demoReq = Inr demoExpert"
  by (simp add: submit_check_def demoParams_def demoReq_def scope_mismatch_def lookupExpert_def
      mget_def expertSupports_def Let_def) (simp add: demoExpert_def)

lemma demo_key [simp]: "scopedIdempotencyKey ''t'' ''p'' ''k'' = ''t::p::k''"
  by (simp add: scopedIdempotencyKey_def)

lemma demo_newJob: "newJob demoServer demoParams demoReq demoExpert 0 ''job_1'' = demoJob"
  by (simp add: newJob_def demoParams_def demoReq_def demoExpert_def demoJob_def submit_name_def
      submit_type_def ptrValue_def cloneCallbackConfig_def)

lemma job_id_text_1: "job_id_text 1 = ''job_1''"
  by (simp add: job_id_text_def dec_eval)

lemma demo_create:
  "submit_create demoDeps 0 demoParams demoReq demoExpert ''t::p::k'' (hex_encode ''2024-01-01'')
     demoServer = (demoJob, demoState)"
  using job_id_text_1
  by (simp add: demoState_def submit_create_def Let_def demo_newJob [symmetric] newJob_def)

lemma demo_locked:
  "SubmitBriefJob_locked demoDeps 0 demoParams rid demoReq demoExpert (hex_encode ''2024-01-01'')
     demoServer
   = (((StatusAccepted, BSubmit (submitResponse rid demoJob)), Some ''job_1''), demoState)"
proof -
  have "jb_ID demoJob = ''job_1''" by (simp add: demoJob_def)
  then show ?thesis
    by (simp add: SubmitBriefJob_locked_def demo_create)
      (simp add: demoParams_def demo_create [unfolded demoParams_def] Let_def)
qed

lemma demoState_simps [simp]:
  "getJob demoState = [''job_1'' \<mapsto> demoJob]" "sv_nextID demoState = 1"
  "sv_queue demoState = newMemoryQueue 256" "sv_experts demoState = [(''e1'', demoExpert)]"
  "mget (sv_idem demoState) = [''t::p::k'' \<mapsto>
     \<lparr>ir_PayloadHash = hex_encode ''2024-01-01'', ir_JobID = ''job_1''\<rparr>]"
  "sv_maxAttempts demoState = 3" "sv_webhooks demoState = []"
  using getJob_submit_create [OF demo_create] job_id_text_1 by (simp_all add: fun_eq_iff)

text \<open>The submit as a step of the system.\<close>

definition demoSubmitted :: "(memoryQueue, unit) System" where
  "demoSubmitted = \<lparr>sy_server = demoState, sy_tails = [''job_1''], sy_worker = WIdle, sy_lost = [],
     sy_submits = 1\<rparr>"

lemma demo_submit_step: "orch_step demoDeps tryDequeue ASubmit demoSystem demoSubmitted"
proof -
  have "orch_step demoDeps tryDequeue ASubmit demoSystem
      (demoSystem\<lparr>sy_server := demoState, sy_tails := sy_tails demoSystem
         @ (case Some ''job_1'' of None \<Rightarrow> [] | Some i \<Rightarrow> [i]), sy_submits := sy_submits demoSystem + 1\<rparr>)"
    by (rule orch_step.submit [where rid = "''r''" and h = "hex_encode ''2024-01-01''"
        and params = demoParams and req = demoReq and expert = demoExpert and now = 0
        and reply = "(StatusAccepted, BSubmit (submitResponse ''r'' demoJob))"])
      (simp_all add: demoSystem_def demo_check demo_locked, simp add: demoReq_def)
  then show ?thesis by (simp add: demoSystem_def demoSubmitted_def)
qed

lemma demo_reach: "orch_reach demoDeps tryDequeue demoSystem demoSubmitted"
  by (rule orch_reach.step [OF orch_reach.refl demo_submit_step])

lemma demoState_ok [simp]: "server_ok demoState"
  using reach_evolves [OF demo_reach] by (simp add: demoSystem_def demoSubmitted_def)

definition demoResult :: ExpertResult where
  "demoResult = \<lparr>er_Title = None, er_Answer = ''ok'', er_Confidence = 1, er_FreshnessCutoff = [],
     er_References = [], er_Citations = [], er_Limitations = []\<rparr>"

end
