(* ===== verification/Orch_Properties.thy ===== *)
theory Orch_Properties
  imports Orch_Demo
begin

text \<open>
  What the orchestrator guarantees, stated over its step relation and its handlers: the state
  invariant and the identity of jobs over all interleavings, that no queued job is forgotten,
  which steps may change a terminal job, idempotent submission, tenant isolation, retries, and
  what is lost or repeated.
\<close>

section \<open>Over all interleavings\<close>

text \<open>
  C2. Whatever the handlers, the worker and the runtime's events do, in any order, the state stays
  consistent: maps well formed, every job under its own id with an attempt between one and its
  maximum, a progress between 0 and 100 and a known status, and dead letters and idempotency
  records only for jobs that exist (as long as the 64-bit counter of ids does not wrap).
\<close>

theorem orchestrator_invariant:
  assumes "orch_reach d deq S0 S" and "server_ok (sy_server S0)"
    and "unat (sv_nextID (sy_server S0)) + (sy_submits S - sy_submits S0) < 2 ^ 64"
  shows "server_ok (sy_server S)"
  using reach_evolves [OF assms] by simp

theorem orchestrator_invariant_witness:
  "server_ok (sy_server demoSubmitted) \<and> getJob (sy_server demoSubmitted) ''job_1'' = Some demoJob"
  using orchestrator_invariant [OF demo_reach] by (simp add: demoSystem_def demoSubmitted_def)

text \<open>
  C4. A job never disappears and never changes what identifies it: its id, tenant, project,
  expert, date, submission time, maximum of attempts, expiry and callback are the same in every
  later state.
\<close>

theorem job_identity_kept:
  assumes "orch_reach d deq S0 S" and "server_ok (sy_server S0)"
    and "unat (sv_nextID (sy_server S0)) + (sy_submits S - sy_submits S0) < 2 ^ 64"
    and "getJob (sy_server S0) i = Some j"
  shows "\<exists>j'. getJob (sy_server S) i = Some j' \<and> same_identity j j'"
  using reach_evolves [OF assms(1-3)] assms(4) by (simp add: evolves_def)

definition demoCanceled :: "(memoryQueue, unit) System" where
  "demoCanceled = demoSubmitted\<lparr>sy_server := snd (CancelJob_locked demoDeps 5 ''job_1'' [] ''r''
     ''t'' ''p'' (sy_server demoSubmitted))\<rparr>"

lemma demo_cancel_step: "orch_step demoDeps tryDequeue ACancel demoSubmitted demoCanceled"
  unfolding demoCanceled_def by (rule orch_step.cancel)

lemma demo_canceled_job:
  "getJob (sy_server demoCanceled) ''job_1'' = Some (demoJob\<lparr>jb_Status := statusCanceled,
     jb_UpdatedAt := 5\<rparr>)"
proof -
  have "scopedJob demoState ''job_1'' ''t'' ''p'' = Some demoJob"
    by (simp add: scopedJob_def jobInScope_def) (simp add: demoJob_def)
  moreover have "\<not> terminal (jb_Status demoJob)" by (simp add: demoJob_def)
  ultimately show ?thesis
    by (simp add: demoCanceled_def demoSubmitted_def CancelJob_locked_def Let_def)
qed

theorem job_identity_kept_witness:
  "\<exists>j'. getJob (sy_server demoCanceled) ''job_1'' = Some j' \<and> same_identity demoJob j'"
  by (rule job_identity_kept [OF orch_reach.step [OF orch_reach.refl demo_cancel_step]])
    (simp_all add: demoSubmitted_def demoCanceled_def)

text \<open>
  C5. No queued job is forgotten: in every reachable state of a server with the memory queue, the
  id of a job in state queued is in the queue, in the hands of a handler about to enqueue it or of
  the worker, or its enqueue reported an error (which the code only logs).
\<close>

theorem no_queued_job_forgotten:
  assumes "orch_reach d tryDequeue S0 S" and "dp_Enqueue d = enqueueWithin"
    and "server_ok (sy_server S0)"
    and "unat (sv_nextID (sy_server S0)) + (sy_submits S - sy_submits S0) < 2 ^ 64"
    and "mq_invar (sv_queue (sy_server S0))"
    and "queuedIDs (sy_server S0) \<subseteq> underway mq_ch S0"
    and "getJob (sy_server S) i = Some j" and "jb_Status j = statusQueued"
  shows "i \<in> set (sy_lost S) \<or> i \<in> set (mq_ch (sv_queue (sy_server S))) \<or> i \<in> set (sy_tails S)
     \<or> i \<in> workerIDs (sy_worker S)"
proof -
  have "mem_queue.tracked S0" using assms(5,6) by (simp add: mem_queue.tracked_def)
  from mem_queue.reach_tracked [OF assms(1-4) this] assms(7,8) show ?thesis
    by (auto simp: mem_queue.tracked_def underway_def landed_def queuedIDs_def)
qed

theorem no_queued_job_forgotten_witness:
  "''job_1'' \<in> set (sy_lost demoSubmitted)
   \<or> ''job_1'' \<in> set (mq_ch (sv_queue (sy_server demoSubmitted)))
   \<or> ''job_1'' \<in> set (sy_tails demoSubmitted) \<or> ''job_1'' \<in> workerIDs (sy_worker demoSubmitted)"
  by (rule no_queued_job_forgotten [OF demo_reach, where j = demoJob])
    (simp_all add: demoSystem_def demoSubmitted_def queuedIDs_def demoJob_def)

text \<open>
  C8. A terminal job is only touched by a replay of that job or by the worker: a submit, a status
  query, a cancel, another job's replay, an event of the runtime, and the queue leave it exactly
  as it is.
\<close>

theorem terminal_job_absorbing:
  assumes "orch_step d deq a S S'" and "a \<notin> {AStart, AFinish, AReplay i}"
    and "server_ok (sy_server S)" and "unat (sv_nextID (sy_server S)) + 1 < 2 ^ 64"
    and "getJob (sy_server S) i = Some j" and "terminal (jb_Status j)"
  shows "getJob (sy_server S') i = Some j"
  by (rule terminal_kept [OF assms])

lemma demoCanceled_ok [simp]: "server_ok (sy_server demoCanceled)"
    "sv_nextID (sy_server demoCanceled) = 1"
  using evolves_CancelJob_locked [of demoState demoDeps 5 "''job_1''" "[]" "''r''" "''t''" "''p''"]
  by (simp_all add: demoCanceled_def demoSubmitted_def evolves_def)

theorem terminal_job_absorbing_witness:
  "getJob (expireJobIfNeeded demoDeps (10 ^ 15) ''job_1'' (sy_server demoCanceled)) ''job_1''
     = Some (demoJob\<lparr>jb_Status := statusCanceled, jb_UpdatedAt := 5\<rparr>)"
  using terminal_job_absorbing [OF orch_step.expire [of demoDeps tryDequeue demoCanceled "10 ^ 15"
        "''job_1''"] _ demoCanceled_ok(1) _ demo_canceled_job]
  by simp

text \<open>
  C9. A canceled job stays canceled, and gets no result, until it is replayed: no other step, the
  worker's with the outcome of an execution that was running included, changes its state.
\<close>

theorem canceled_until_replayed:
  assumes "orch_step d deq a S S'" and "a \<noteq> AReplay i"
    and "server_ok (sy_server S)" and "unat (sv_nextID (sy_server S)) + 1 < 2 ^ 64"
    and "getJob (sy_server S) i = Some j" and "jb_Status j = statusCanceled"
  shows "\<exists>j'. getJob (sy_server S') i = Some j' \<and> jb_Status j' = statusCanceled
    \<and> jb_Result j' = jb_Result j"
  by (rule canceled_kept [OF assms])

theorem canceled_until_replayed_witness:
  "\<exists>j'. getJob (snd (processFinish demoDeps (ExecOk demoResult) 7 7 ''job_1'' (sy_server demoCanceled)))
      ''job_1'' = Some j' \<and> jb_Status j' = statusCanceled \<and> jb_Result j' = None"
proof -
  let ?S = "demoCanceled\<lparr>sy_worker := WExec ''job_1'' (briefInput demoJob)\<rparr>"
  let ?fin = "processFinish demoDeps (ExecOk demoResult) 7 7 ''job_1'' (sy_server demoCanceled)"
  have "orch_step demoDeps tryDequeue AFinish ?S
      (?S\<lparr>sy_server := snd ?fin, sy_worker := WDone ''job_1'' (fst ?fin)\<rparr>)"
    by (rule orch_step.finish [where outcome = "ExecOk demoResult" and ?now1.0 = 7 and ?now2.0 = 7]) simp_all
  from canceled_until_replayed [OF this, of "''job_1''"] demo_canceled_job show ?thesis
    by (simp add: demoJob_def)
qed

end
