(* ===== verification/Orch_Recovery.thy ===== *)
theory Orch_Recovery
  imports Orch_Demo
begin

text \<open>
  What the orchestrator does when things go wrong: retries up to the maximum and the dead letter
  queue, the restart from the saved state, the bounded queue at a restart, and the cases in which a
  job is run again after it has succeeded or cannot be brought back after it has expired.
\<close>

section \<open>Retries\<close>

lemma isExpired_fields [simp]:
  "isExpired (j\<lparr>jb_Status := x1\<rparr>) t = isExpired j t"
  "isExpired (j\<lparr>jb_Progress := x2\<rparr>) t = isExpired j t"
  "isExpired (j\<lparr>jb_UpdatedAt := x3\<rparr>) t = isExpired j t"
  "isExpired (j\<lparr>jb_LastError := x4\<rparr>) t = isExpired j t"
  "isExpired (j\<lparr>jb_Attempt := x5\<rparr>) t = isExpired j t"
  by (simp_all add: isExpired_def)

lemma doFollowup_getJob [simp]: "getJob (doFollowup d i f s) = getJob s"
  "sv_dlq (doFollowup d i f s) = sv_dlq s"
  by (simp_all add: doFollowup_def startWebhook_def split: followup.split)

text \<open>One execution that fails.\<close>

lemma failing_round:
  assumes "getJob s i = Some j" and "jb_Status j \<noteq> statusCanceled"
    and "\<And>n. \<not> isExpired j (clk n)"
  shows "\<exists>j'. getJob (processBriefJob d (\<lambda>_. ExecErr err) clk i s) i = Some j'
    \<and> jb_MaxAttempts j' = jb_MaxAttempts j \<and> jb_ExpiresAt j' = jb_ExpiresAt j
    \<and> jb_LastError j' = Some err \<and> jb_ID j' = jb_ID j
    \<and> (jb_Attempt j < jb_MaxAttempts j \<longrightarrow>
        jb_Status j' = statusQueued \<and> jb_Attempt j' = jb_Attempt j + 1)
    \<and> (\<not> jb_Attempt j < jb_MaxAttempts j \<longrightarrow>
        jb_Status j' = statusFailed \<and> jb_Attempt j' = jb_Attempt j
        \<and> (\<exists>e. mget (sv_dlq (processBriefJob d (\<lambda>_. ExecErr err) clk i s)) i = Some e
            \<and> dl_JobID e = jb_ID j \<and> dl_Attempts e = jb_Attempt j \<and> dl_LastError e = err
            \<and> dl_Reason e = ''max_attempts_exhausted'' \<and> dl_FinalStatus e = statusFailed))"
  using assms
  by (simp add: processBriefJob_def processStart_def processFinish_def finishErr_def Let_def
      putDead_def deadLetter_def)

fun failing_rounds ::
  "('q, 'st) deps \<Rightarrow> string \<Rightarrow> (nat \<Rightarrow> nat \<Rightarrow> time) \<Rightarrow> string \<Rightarrow> nat \<Rightarrow> ('q, 'st) Server \<Rightarrow>
   ('q, 'st) Server" where
  "failing_rounds d err clk i 0 s = s"
| "failing_rounds d err clk i (Suc n) s =
     processBriefJob d (\<lambda>_. ExecErr err) (clk n) i (failing_rounds d err clk i n s)"

lemma failing_rounds_attempts:
  assumes "getJob s i = Some j" and "jb_Status j = statusQueued" and "jb_Attempt j = 1"
    and "jb_MaxAttempts j = int m" and "\<And>k n. \<not> isExpired j (clk k n)"
  shows "n < m \<Longrightarrow> \<exists>j'. getJob (failing_rounds d err clk i n s) i = Some j'
    \<and> jb_Status j' = statusQueued \<and> jb_Attempt j' = 1 + int n \<and> jb_MaxAttempts j' = int m
    \<and> jb_ExpiresAt j' = jb_ExpiresAt j \<and> jb_ID j' = jb_ID j"
proof (induction n)
  case 0
  with assms show ?case by simp
next
  case (Suc n)
  then obtain j' where j': "getJob (failing_rounds d err clk i n s) i = Some j'"
    "jb_Status j' = statusQueued" "jb_Attempt j' = 1 + int n" "jb_MaxAttempts j' = int m"
    "jb_ExpiresAt j' = jb_ExpiresAt j" "jb_ID j' = jb_ID j" by auto
  have "\<not> isExpired j' (clk n k)" for k using assms(5) j'(5) by (simp add: isExpired_def)
  from failing_round [where clk = "clk n" and d = d and err = err, OF j'(1) _ this] Suc.prems j' show ?case by auto
qed




section \<open>Restart\<close>

lemma enqueueWithin_all:
  "mq_invar q \<Longrightarrow> \<not> mq_closed q \<Longrightarrow>
     foldl (\<lambda>q i. snd (enqueueWithin q i)) q ids = q\<lparr>mq_ch := take (mq_cap q) (mq_ch q @ ids)\<rparr>"
proof (induction ids arbitrary: q)
  case Nil
  then show ?case by (simp add: mq_invar_def)
next
  case (Cons i ids)
  then show ?case
    by (cases "length (mq_ch q) < mq_cap q")
      (simp_all add: enqueueWithin_cases mq_invar_def take_Cons')
qed

lemma stateOf_wf: "server_ok s \<Longrightarrow> state_wf (stateOf s)"
  by (simp add: state_wf_def stateOf_def server_ok_def)

context job_store
begin

lemma load_persisted:
  "dp_Save d = save \<Longrightarrow> healthy (sv_stateStore s) \<Longrightarrow> server_ok s \<Longrightarrow>
     load (sv_stateStore (persistLocked d s)) = Inr (fill_nil (stateOf s))"
  by (simp add: persistLocked_def load_saved stateOf_wf)

lemma loadState_persisted:
  assumes "dp_Save d = save" and "healthy (sv_stateStore s)" and "server_ok s"
    and "sv_stateStore s0 = sv_stateStore (persistLocked d s)"
    and "loadState d load s0 = (e, R)"
  shows "e = None \<and> sv_nextID R = sv_nextID s \<and> mget (sv_idem R) = mget (sv_idem s)
    \<and> sv_dlq R = sv_dlq s \<and> sv_maxAttempts R = sv_maxAttempts s0
    \<and> sv_jobs R = mmap (restoreJob (sv_maxAttempts s0)) (mmap storedJob (sv_jobs s))
    \<and> sv_queue R = foldl (\<lambda>q i. snd (dp_Enqueue d q i)) (sv_queue s0) (pendingJobs (sv_jobs R))
    \<and> mwf (sv_idem R)"
proof -
  have "mget (mmap (\<lambda>e. \<lparr>ir_PayloadHash = ie_PayloadHash e, ir_JobID = ie_JobID e\<rparr>)
      (mmap (\<lambda>r. \<lparr>ie_PayloadHash = ir_PayloadHash r, ie_JobID = ir_JobID r\<rparr>) (sv_idem s))) k
    = mget (sv_idem s) k" for k
    by (cases "mget (sv_idem s) k") simp_all
  with assms show ?thesis
    using load_persisted [OF assms(1-3)]
    by (auto simp: loadState_def fill_nil_def stateOf_def Let_def fun_eq_iff enqueueAll_queue
        server_ok_def)
qed

end

lemma restored_job:
  assumes "job_ok i j"
  shows "restoreJob m (storedJob j)
      = (requeued j)\<lparr>jb_Callback := cloneCallbackConfig (jb_Callback j)\<rparr>"
    and "job_ok i ((requeued j)\<lparr>jb_Callback := cb\<rparr>)"
  using assms restore_stored [of j m] by (auto simp: job_ok_def requeued_def)

lemma set_pendingJobs: "mwf (sv_jobs s) \<Longrightarrow> set (pendingJobs (sv_jobs s)) = queuedIDs s"
  by (auto simp: pendingJobs_def queuedIDs_def getJob_def mget_iff image_iff)


text \<open>A server with one running job on an empty disk, and its restart with a queue of one place.\<close>

definition diskDeps :: "(memoryQueue, disk) deps" where
  "diskDeps = \<lparr>dp_Enqueue = enqueueWithin, dp_Depth = memoryQueue_Depth,
     dp_Save = JSONFileStore_Save None ''state.json'', dp_deliveryRead = None,
     dp_marshal = (\<lambda>req. Some (sreq_Date req)), dp_sha256 = (\<lambda>s. s)\<rparr>"

definition diskServer :: "job gomap \<Rightarrow> 64 word \<Rightarrow> disk \<Rightarrow> (memoryQueue, disk) Server" where
  "diskServer jobs n dk = \<lparr>sv_experts = [(''e1'', demoExpert)], sv_jobs = jobs, sv_idem = [],
     sv_dlq = [], sv_nextID = n, sv_stateStore = dk, sv_queue = newMemoryQueue 1,
     sv_maxAttempts = 3, sv_jobTTL = 1, sv_webhooks = []\<rparr>"

definition runningServer :: "(memoryQueue, disk) Server" where
  "runningServer = diskServer [(''job_1'', demoJob\<lparr>jb_Status := statusRunning, jb_Progress := 30\<rparr>)] 1
     \<lparr>dk_files = [], dk_readErr = None, dk_writeErr = None, dk_renameErr = None\<rparr>"

definition freshServer :: "(memoryQueue, disk) Server" where
  "freshServer = diskServer [] 0 (sv_stateStore (persistLocked diskDeps runningServer))"

definition restartedServer :: "(memoryQueue, disk) Server" where
  "restartedServer = snd (loadState diskDeps (JSONFileStore_Load None ''state.json'') freshServer)"

lemma diskDeps_simps [simp]:
  "dp_Enqueue diskDeps = enqueueWithin" "dp_Save diskDeps = JSONFileStore_Save None ''state.json''"
  by (simp_all add: diskDeps_def)

lemma freshServer_simps [simp]:
  "sv_stateStore freshServer = sv_stateStore (persistLocked diskDeps runningServer)"
  "sv_queue freshServer = newMemoryQueue 1" "sv_maxAttempts freshServer = 3"
  by (simp_all add: freshServer_def diskServer_def)



section \<open>Jobs that run again, and jobs that never run\<close>

text \<open>
  A job that expired cannot be brought back: a replay is accepted and queues it, but keeps the
  expiry time, so at any later moment the worker marks it expired again without running it.
\<close>

theorem replayed_expired_never_runs:
  assumes "server_ok s" and "getJob s i = Some j" and "jb_Status j = statusExpired"
    and "jb_ExpiresAt j = Some e" and "jobInScope j t p"
    and "ReplayJob_locked d now i inst rid t p s = (r, s')" and "e < now'"
  shows "r = Inr i \<and> (\<exists>s'' j''. processStart d now' now'' i s' = (None, s'')
    \<and> getJob s'' i = Some j'' \<and> jb_Status j'' = statusExpired)"
proof -
  have "jb_ID j = i" using server_ok_job [OF assms(1,2)] by (simp add: job_ok_def)
  moreover have "scopedJob s i t p = Some j" using assms(2,5) by (simp add: scopedJob_def)
  ultimately have "r = Inr i" and "getJob s' i = Some (replayed j now)"
    using assms(3,6) by (auto simp: ReplayJob_locked_def Let_def)
  moreover have "isExpired (replayed j now) now'" "jb_Status (replayed j now) \<noteq> statusCanceled"
    using assms(4,7) by (simp_all add: replayed_def isExpired_def After_def)
  ultimately show ?thesis by (simp add: processStart_def)
qed

definition expiredState :: "(memoryQueue, unit) Server" where
  "expiredState = expireJobIfNeeded demoDeps (10 ^ 15) ''job_1'' demoState"

theorem replayed_expired_never_runs_witness:
  "\<exists>s' s'' j''. ReplayJob_locked demoDeps (10 ^ 15 + 1) ''job_1'' [] ''r'' ''t'' ''p'' expiredState
       = (Inr ''job_1'', s')
     \<and> processStart demoDeps (10 ^ 15 + 2) (10 ^ 15 + 2) ''job_1'' s' = (None, s'')
     \<and> getJob s'' ''job_1'' = Some j'' \<and> jb_Status j'' = statusExpired"
proof -
  have "isExpired demoJob (10 ^ 15)"
    by (simp add: demoJob_def isExpired_def After_def nsPerMinute_def nsPerSecond_def)
  moreover have "\<not> terminal (jb_Status demoJob)" by (simp add: demoJob_def)
  ultimately have job: "getJob expiredState ''job_1'' = Some (markExpired demoJob (10 ^ 15))"
    by (simp add: expiredState_def expireJobIfNeeded_def)
  have "server_ok expiredState"
    using evolves_expireJobIfNeeded [of demoState demoDeps "10 ^ 15" "''job_1''"]
    by (simp add: expiredState_def evolves_def)
  moreover obtain r s' where "ReplayJob_locked demoDeps (10 ^ 15 + 1) ''job_1'' [] ''r'' ''t'' ''p''
      expiredState = (r, s')" by (cases "ReplayJob_locked demoDeps (10 ^ 15 + 1) ''job_1'' [] ''r''
      ''t'' ''p'' expiredState")
  ultimately show ?thesis
    using replayed_expired_never_runs [OF _ job, of "24 * 60 * nsPerMinute" "''t''" "''p''" demoDeps
        "10 ^ 15 + 1" "[]" "''r''" r s' "10 ^ 15 + 2" "10 ^ 15 + 2"]
    by (simp add: demoJob_def jobInScope_def nsPerMinute_def nsPerSecond_def)
qed

text \<open>
  An event that reports success without a result leaves the job stuck: it has succeeded, every
  query for its result is answered with 409, and a replay is refused.
\<close>

theorem success_without_result:
  assumes "getJob s (te_JobID data) = Some j" and "\<not> terminal (jb_Status j)"
    and "TrimSpace (te_Status data) = statusSucceeded" and "te_Result data = None"
    and "applyEvent d now data s = (r, s')" and "jp_JobID params = te_JobID data"
    and "jobInScope j (TrimSpace (jp_XTenantId params)) (TrimSpace (jp_XProjectId params))"
    and "TrimSpace (jp_XTenantId params) \<noteq> []" "TrimSpace (jp_XProjectId params) \<noteq> []"
  shows "(\<exists>j'. getJob s' (te_JobID data) = Some j' \<and> jb_Status j' = statusSucceeded)
    \<and> fst (fst (GetJobResult d rn now' params s')) = StatusConflict
    \<and> fst (fst (ReplayJob d rn now' now'' params s')) = StatusConflict"
proof -
  let ?j = "j\<lparr>jb_Status := statusSucceeded, jb_Progress := 100, jb_Result := None,
    jb_LastError := None, jb_UpdatedAt := now\<rparr>"
  have job: "getJob s' (te_JobID data) = Some ?j"
    using assms by (auto simp: applyEvent_def eventJob_def Let_def delDead_def)
  moreover have "expireJobIfNeeded d now' (te_JobID data) s' = s'"
    using job by (simp add: expireJobIfNeeded_def)
  moreover have "scopedJob s' (te_JobID data) (TrimSpace (jp_XTenantId params))
      (TrimSpace (jp_XProjectId params)) = Some ?j"
    using job assms(7) by (simp add: scopedJob_def jobInScope_def)
  ultimately show ?thesis
    using assms(6,8,9)
    by (simp add: GetJobResult_def ReplayJob_def with_scope_def scope_missing_def
        ReplayJob_locked_def invalid_transition_def Let_def)
qed

definition emptySuccess :: expertTaskEventData where
  "emptySuccess = \<lparr>te_TaskID = [], te_JobID = ''job_1'', te_TraceID = [], te_Status = ''succeeded'',
     te_Result = None, te_Error = None\<rparr>"

theorem success_without_result_witness:
  "\<exists>s'. applyEvent demoDeps 5 emptySuccess demoState = (Inr None, s')
     \<and> fst (fst (GetJobResult demoDeps 0 6 \<lparr>jp_XRequestId = ''r'', jp_JobID = ''job_1'',
          jp_XTenantId = ''t'', jp_XProjectId = ''p''\<rparr> s')) = StatusConflict"
proof -
  have ok: "TrimSpace ''succeeded'' = statusSucceeded"
    by (simp add: TrimSpace_visible visible_def JobStatusSucceeded_def)
  have job: "getJob demoState (te_JobID emptySuccess) = Some demoJob"
    "\<not> terminal (jb_Status demoJob)" "jobInScope demoJob ''t'' ''p''"
    by (simp_all add: emptySuccess_def demoJob_def jobInScope_def)
  have ev: "fst (applyEvent demoDeps 5 emptySuccess demoState) = Inr None"
    using ok by (simp add: applyEvent_def eventJob_def emptySuccess_def Let_def demoJob_def
        cloneCallbackConfig_def)
  then obtain s' where s': "applyEvent demoDeps 5 emptySuccess demoState = (Inr None, s')"
    by (metis prod.collapse)
  from success_without_result [OF job(1,2) _ _ s', of "\<lparr>jp_XRequestId = ''r'', jp_JobID = ''job_1'',
          jp_XTenantId = ''t'', jp_XProjectId = ''p''\<rparr>" 0 6] ok job(3) s'
  show ?thesis by (simp add: emptySuccess_def)
qed

text \<open>The demo job after a submit, a cancel and a replay: queued once, but in the queue twice.\<close>

definition jobParams1 :: JobParams where
  "jobParams1 = \<lparr>jp_XRequestId = ''r'', jp_JobID = ''job_1'', jp_XTenantId = ''t'',
     jp_XProjectId = ''p''\<rparr>"

definition replayedTwice :: "(memoryQueue, unit) Server" where
  "replayedTwice =
     (let s1 = snd (SubmitBriefJob demoDeps 0 0 demoParams demoReq demoServer);
          s2 = snd (CancelJob demoDeps 0 1 1 jobParams1 s1)
      in snd (ReplayJob demoDeps 0 2 2 jobParams1 s2))"

lemma demo_not_expired: "t \<le> 10 ^ 9 \<Longrightarrow> \<not> isExpired (replayed (demoJob\<lparr>jb_Status := x\<rparr>) u) t"
  "t \<le> 10 ^ 9 \<Longrightarrow> \<not> isExpired (demoJob\<lparr>jb_Status := x\<rparr>) t" "t \<le> 10 ^ 9 \<Longrightarrow> \<not> isExpired demoJob t"
  by (simp_all add: replayed_def isExpired_def demoJob_def After_def nsPerMinute_def nsPerSecond_def)

lemma demo_scoped: "getJob s ''job_1'' = Some j \<Longrightarrow> jobInScope j ''t'' ''p'' \<Longrightarrow>
    scopedJob s ''job_1'' ''t'' ''p'' = Some j"
  by (simp add: scopedJob_def)

lemma replayedTwice_state:
  "getJob replayedTwice ''job_1'' = Some (replayed (demoJob\<lparr>jb_Status := statusCanceled,
     jb_UpdatedAt := 1\<rparr>) 2)"
  "mq_ch (sv_queue replayedTwice) = [''job_1'', ''job_1'']"
proof -
  let ?j = "demoJob\<lparr>jb_Status := statusCanceled, jb_UpdatedAt := 1\<rparr>"
  let ?s1 = "snd (SubmitBriefJob demoDeps 0 0 demoParams demoReq demoServer)"
  let ?s2 = "snd (CancelJob demoDeps 0 1 1 jobParams1 ?s1)"
  have id: "jb_ID demoJob = ''job_1''" "\<not> terminal (jb_Status demoJob)"
    "jobInScope demoJob ''t'' ''p''" by (simp_all add: demoJob_def jobInScope_def)
  have "sreq_Date demoReq = ''2024-01-01''" by (simp add: demoReq_def)
  then have s1: "?s1 = enqueue demoDeps demoState ''job_1''"
    by (simp add: SubmitBriefJob_def demo_check demo_locked Let_def)
  have "expireJobIfNeeded demoDeps 1 ''job_1'' ?s1 = ?s1"
    by (simp add: s1 expireJobIfNeeded_def demo_not_expired)
  then have s2: "?s2 = persistLocked demoDeps (putJob ''job_1'' ?j ?s1)"
    using id by (simp add: CancelJob_def with_scope_def jobParams1_def scope_missing_def Let_def
        CancelJob_locked_def demo_scoped [of _ demoJob] s1)
  have "sv_queue ?s1 = \<lparr>mq_ch = [''job_1''], mq_cap = 256, mq_closed = False\<rparr>"
    by (simp add: s1) (simp add: enqueue_def enqueueWithin_cases newMemoryQueue_def)
  with s2 have q: "sv_queue ?s2 = \<lparr>mq_ch = [''job_1''], mq_cap = 256, mq_closed = False\<rparr>"
    by (simp only: persistLocked_frame putJob_frame)
  have "expireJobIfNeeded demoDeps 2 ''job_1'' ?s2 = ?s2"
    by (simp add: s2 expireJobIfNeeded_def)
  moreover have "scopedJob ?s2 ''job_1'' ''t'' ''p'' = Some ?j"
    using id by (simp add: s2 demo_scoped jobInScope_def)
  moreover have "snd (ReplayJob demoDeps 0 2 2 jobParams1 ?s2)
      = enqueue demoDeps (persistLocked demoDeps ((putJob ''job_1'' (replayed ?j 2) ?s2)
          \<lparr>sv_dlq := mdel ''job_1'' (sv_dlq (putJob ''job_1'' (replayed ?j 2) ?s2))\<rparr>)) ''job_1''"
    using calculation id by (simp add: ReplayJob_def with_scope_def jobParams1_def scope_missing_def
        Let_def ReplayJob_locked_def)
  ultimately have r: "replayedTwice
      = enqueue demoDeps (persistLocked demoDeps ((putJob ''job_1'' (replayed ?j 2) ?s2)
          \<lparr>sv_dlq := mdel ''job_1'' (sv_dlq (putJob ''job_1'' (replayed ?j 2) ?s2))\<rparr>)) ''job_1''"
    by (simp add: replayedTwice_def Let_def)
  show "getJob replayedTwice ''job_1'' = Some (replayed ?j 2)" by (simp add: r)
  show "mq_ch (sv_queue replayedTwice) = [''job_1'', ''job_1'']"
    by (simp add: r q enqueue_def [of _ "persistLocked d s" for d s] enqueueWithin_cases)
qed

text \<open>
  A job that is canceled and replayed before the worker took it is executed twice: the cancel
  leaves its id in the queue and the replay adds it again.  After the first round the job has
  succeeded, with its result; the second round sets it back to running, at progress 30.
\<close>

theorem replayed_job_runs_twice:
  "\<exists>s1 s2 inp j1 j2.
     workerRound demoDeps tryDequeue (\<lambda>_ q. q) (\<lambda>_. ExecOk demoResult) (\<lambda>_. 3) replayedTwice = Some s1
     \<and> getJob s1 ''job_1'' = Some j1 \<and> jb_Status j1 = statusSucceeded \<and> jb_Result j1 = Some demoResult
     \<and> mq_ch (sv_queue s1) = [''job_1'']
     \<and> processStart demoDeps 4 4 ''job_1'' s1 = (Some inp, s2)
     \<and> getJob s2 ''job_1'' = Some j2 \<and> jb_Status j2 = statusRunning \<and> jb_Progress j2 = 30"
  using replayedTwice_state
  by (simp add: workerRound_def tryDequeue_cases processBriefJob_def processStart_def
      processFinish_def finishOk_def Let_def delDead_def doFollowup_def)
    (simp add: replayed_def demoJob_def isExpired_def After_def nsPerMinute_def nsPerSecond_def
      cloneCallbackConfig_def)

end
