(* ===== verification/Go_Float.thy ===== *)
theory Go_Float
  imports Go_Time "HOL-Library.Log_Nat"
begin

text \<open>
  Go's \<open>float64\<close> as the program uses it: sums, products and quotients of finite values.  A value
  is the rational number it stands for, and every operation computes the exact result and rounds
  it to the nearest number with a 53-bit significand, ties to the even one (IEEE 754).  Infinities
  and NaN are left out; a result that would overflow to an infinity stays a large number here.
\<close>

section \<open>Rounding\<close>

text \<open>The binary exponent of a positive rational: \<open>2 ^ e \<le> x < 2 ^ (e + 1)\<close>.\<close>

definition expo :: "rat \<Rightarrow> int" where
  "expo x = (let (p, q) = quotient_of x; e = bitlen p - bitlen q
             in if 2 powi e \<le> x then e else e - 1)"

definition round_even :: "rat \<Rightarrow> int" where
  "round_even x =
     (let f = \<lfloor>x\<rfloor>; d = x - of_int f
      in if d < 1 / 2 \<or> (d = 1 / 2 \<and> even f) then f else f + 1)"

definition ulp_exp :: "rat \<Rightarrow> int" where
  "ulp_exp x = max (expo x) (- 1022) - 52"

definition round64 :: "rat \<Rightarrow> rat" where
  "round64 x =
     (if x = 0 then 0
      else if x < 0 then - (of_int (round_even (- x / 2 powi ulp_exp (- x))) * 2 powi ulp_exp (- x))
      else of_int (round_even (x / 2 powi ulp_exp x)) * 2 powi ulp_exp x)"

type_synonym float64 = rat

text \<open>The conversion from an integer, and the operations.\<close>

definition fint :: "int \<Rightarrow> float64" where "fint n = round64 (of_int n)"
definition fadd :: "float64 \<Rightarrow> float64 \<Rightarrow> float64" where "fadd x y = round64 (x + y)"
definition fsub :: "float64 \<Rightarrow> float64 \<Rightarrow> float64" where "fsub x y = round64 (x - y)"
definition fmul :: "float64 \<Rightarrow> float64 \<Rightarrow> float64" where "fmul x y = round64 (x * y)"
definition fdiv :: "float64 \<Rightarrow> float64 \<Rightarrow> float64" where "fdiv x y = round64 (x / y)"

text \<open>\<open>t.Sub(u)\<close>, which saturates, and \<open>d.Seconds()\<close>, which divides towards zero.\<close>

definition maxDuration :: int where "maxDuration = 2 ^ 63 - 1"

definition timeSub :: "time \<Rightarrow> time \<Rightarrow> duration" where
  "timeSub t u = max (- maxDuration - 1) (min maxDuration (t - u))"

definition Seconds :: "duration \<Rightarrow> float64" where
  "Seconds d =
     (let s = sgn d * (\<bar>d\<bar> div nsPerSecond); n = sgn d * (\<bar>d\<bar> mod nsPerSecond)
      in fadd (fint s) (fdiv (fint n) (fint nsPerSecond)))"


section \<open>The exponent\<close>

lemma powi_add: "(2::rat) powi (a + b) = 2 powi a * 2 powi b"
  by (simp add: power_int_add)

lemma powi_nat: "(2::rat) powi (int n) = 2 ^ n"
  by simp

lemma powi_pos [simp]: "0 < (2::rat) powi e"
  by simp

lemma powi_mono: "a \<le> b \<Longrightarrow> (2::rat) powi a \<le> 2 powi b"
  by (simp add: power_int_increasing)

lemma powi_less: "(2::rat) powi a < 2 powi b \<Longrightarrow> a < b"
  using powi_mono [of b a] by (meson linorder_not_less)

lemma bitlen_rat:
  assumes "0 < (n::int)"
  shows "(2::rat) powi (bitlen n - 1) \<le> of_int n \<and> of_int n < (2::rat) powi bitlen n"
proof -
  from assms have b: "2 ^ nat (bitlen n - 1) \<le> n \<and> n < 2 ^ nat (bitlen n)" "0 < bitlen n"
    using bitlen_bounds [of n] by (simp_all add: bitlen_def compute_floorlog)
  then have "of_int (2 ^ nat (bitlen n - 1)) \<le> (of_int n :: rat)"
    "(of_int n :: rat) < of_int (2 ^ nat (bitlen n))" by (simp_all only: of_int_le_iff of_int_less_iff)
  with b(2) show ?thesis by (simp add: power_int_def)
qed

lemma expo_bounds:
  assumes "0 < x"
  shows "2 powi expo x \<le> x \<and> x < 2 powi (expo x + 1)"
proof -
  obtain p q where pq: "quotient_of x = (p, q)" by (cases "quotient_of x")
  then have q: "0 < q" and x: "x = of_int p / of_int q"
    by (auto dest: quotient_of_denom_pos quotient_of_div)
  with assms have p: "0 < p" by (simp add: zero_less_divide_iff)
  let ?e = "bitlen p - bitlen q"
  have "(2::rat) powi (bitlen p - 1) \<le> of_int p" "(of_int p :: rat) < 2 powi bitlen p"
    using bitlen_rat [OF p] by auto
  moreover have "(2::rat) powi (bitlen q - 1) \<le> of_int q" "(of_int q :: rat) < 2 powi bitlen q"
    using bitlen_rat [OF q] by auto
  ultimately have lo: "2 powi (bitlen p - 1) / 2 powi bitlen q \<le> x"
    and hi: "x < 2 powi bitlen p / 2 powi (bitlen q - 1)"
    using p q unfolding x by (auto intro!: frac_le frac_less)
  have "(2::rat) powi (bitlen p - 1) / 2 powi bitlen q = 2 powi (?e - 1)"
    "(2::rat) powi bitlen p / 2 powi (bitlen q - 1) = 2 powi (?e + 1)"
    by (simp_all add: power_int_diff power_int_add)
  with lo hi have "2 powi (?e - 1) \<le> x" "x < 2 powi (?e + 1)" by simp_all
  then show ?thesis by (auto simp: expo_def pq Let_def)
qed


section \<open>Rounding is monotone and fixes what a float64 can hold\<close>

lemma round_even_of_int [simp]: "round_even (of_int n) = n"
  by (simp add: round_even_def)

lemma round_even_mono:
  assumes "x \<le> y"
  shows "round_even x \<le> round_even y"
proof (cases "\<lfloor>x\<rfloor> = \<lfloor>y\<rfloor>")
  case True
  with assms show ?thesis by (auto simp: round_even_def Let_def)
next
  case False
  with floor_mono [OF assms] have "\<lfloor>x\<rfloor> + 1 \<le> \<lfloor>y\<rfloor>" by simp
  moreover have "round_even x \<le> \<lfloor>x\<rfloor> + 1" "\<lfloor>y\<rfloor> \<le> round_even y"
    by (simp_all add: round_even_def Let_def)
  ultimately show ?thesis by linarith
qed

lemma round64_pos_eq:
  "0 < x \<Longrightarrow> round64 x = of_int (round_even (x / 2 powi ulp_exp x)) * 2 powi ulp_exp x"
  by (simp add: round64_def)

lemma round64_0 [simp]: "round64 0 = 0"
  by (simp add: round64_def)

text \<open>A significand of at most 53 bits and an exponent in range are kept.\<close>

lemma round64_exact_less:
  assumes "0 < m" "m < 2 ^ 53" "- 1074 \<le> e"
  shows "round64 (of_int m * 2 powi e) = of_int m * 2 powi e"
proof -
  define x where "x = of_int m * (2::rat) powi e"
  from assms have x: "0 < x" by (simp add: x_def)
  have "(of_int m :: rat) < of_int (2 ^ 53)" using assms(2) by (simp only: of_int_less_iff)
  then have "x < 2 powi 53 * 2 powi e" by (simp add: x_def)
  with expo_bounds [OF x] have "(2::rat) powi expo x < 2 powi (53 + e)"
    unfolding powi_add by linarith
  then have "expo x < 53 + e" by (rule powi_less)
  with assms(3) have u: "ulp_exp x \<le> e" by (simp add: ulp_exp_def)
  then obtain n where n: "e = ulp_exp x + int n" by (metis zle_iff_zadd)
  have "(2::rat) powi e = 2 powi ulp_exp x * 2 ^ n"
    using powi_add [of "ulp_exp x" "int n"] n powi_nat by simp
  then have q: "x / 2 powi ulp_exp x = of_int (m * 2 ^ n)"
    unfolding nonzero_divide_eq_eq [OF less_imp_neq [OF powi_pos, symmetric]]
    by (simp add: x_def mult.commute)
  then have "round64 x = of_int (m * 2 ^ n) * 2 powi ulp_exp x"
    by (simp only: round64_pos_eq [OF x] round_even_of_int)
  also have "\<dots> = x" using q by (simp add: nonzero_divide_eq_eq)
  finally show ?thesis unfolding x_def .
qed

lemma round64_exact:
  assumes "0 \<le> m" "m \<le> 2 ^ 53" "- 1074 \<le> e"
  shows "round64 (of_int m * 2 powi e) = of_int m * 2 powi e"
proof -
  consider "m = 0" | "0 < m" "m < 2 ^ 53" | "m = 2 ^ 53" using assms by linarith
  then show ?thesis
  proof cases
    case 3
    have "of_int m * (2::rat) powi e = of_int (2 ^ 52) * 2 powi (e + 1)"
      by (simp add: 3 power_int_add)
    with round64_exact_less [of "2 ^ 52" "e + 1"] assms(3) show ?thesis by simp
  qed (use assms round64_exact_less in auto)
qed

lemma round64_of_int: "0 \<le> n \<Longrightarrow> n \<le> 2 ^ 53 \<Longrightarrow> round64 (of_int n) = of_int n"
  using round64_exact [of n 0] by simp

text \<open>The significand of a rounded positive number.\<close>

lemma significand:
  assumes "0 < x"
  shows "x / 2 powi ulp_exp x < of_int (2 ^ 53)"
    and "expo x \<ge> - 1022 \<Longrightarrow> of_int (2 ^ 52) \<le> x / 2 powi ulp_exp x"
proof -
  have "expo x + 1 \<le> 53 + ulp_exp x" by (simp add: ulp_exp_def)
  with expo_bounds [OF assms] have "x < 2 powi (53 + ulp_exp x)"
    using powi_mono by (meson order_less_le_trans)
  then show "x / 2 powi ulp_exp x < of_int (2 ^ 53)"
    unfolding powi_add by (simp add: pos_divide_less_eq)
  assume "expo x \<ge> - 1022"
  then have "expo x = 52 + ulp_exp x" by (simp add: ulp_exp_def)
  with expo_bounds [OF assms] have "2 powi (52 + ulp_exp x) \<le> x" by simp
  then show "of_int (2 ^ 52) \<le> x / 2 powi ulp_exp x"
    unfolding powi_add by (simp add: pos_le_divide_eq)
qed

lemma round64_significand:
  assumes "0 < x"
  shows "\<exists>m. 0 \<le> m \<and> m \<le> 2 ^ 53 \<and> round64 x = of_int m * 2 powi ulp_exp x"
proof (intro exI conjI)
  let ?m = "round_even (x / 2 powi ulp_exp x)"
  have "round_even (of_int 0) \<le> ?m" by (rule round_even_mono) (simp add: assms less_imp_le)
  then show "0 \<le> ?m" by (simp only: round_even_of_int)
  have "?m \<le> round_even (of_int (2 ^ 53))"
    using significand(1) [OF assms] by (intro round_even_mono less_imp_le)
  then show "?m \<le> 2 ^ 53" by (simp only: round_even_of_int)
qed (rule round64_pos_eq [OF assms])

lemma round64_nonneg: "0 \<le> x \<Longrightarrow> 0 \<le> round64 x"
  using round64_significand [of x] by (cases "x = 0") auto

lemma round64_idem: "0 \<le> x \<Longrightarrow> round64 (round64 x) = round64 x"
proof (cases "x = 0")
  case False
  assume "0 \<le> x"
  with False obtain m where "0 \<le> m" "m \<le> 2 ^ 53" "round64 x = of_int m * 2 powi ulp_exp x"
    using round64_significand [of x] by auto
  moreover have "- 1074 \<le> ulp_exp x" by (simp add: ulp_exp_def)
  ultimately show ?thesis using round64_exact by simp
qed simp

lemma round64_mono:
  assumes "0 \<le> x" "x \<le> y"
  shows "round64 x \<le> round64 y"
proof (cases "x = 0")
  case True
  with assms show ?thesis by (simp add: round64_nonneg)
next
  case False
  with assms have x: "0 < x" and y: "0 < y" by simp_all
  have "(2::rat) powi expo x < 2 powi (expo y + 1)"
    using expo_bounds [OF x] expo_bounds [OF y] assms(2) by linarith
  then have "expo x \<le> expo y" using powi_less by fastforce
  then have le: "ulp_exp x \<le> ulp_exp y" by (simp add: ulp_exp_def)
  show ?thesis
  proof (cases "ulp_exp x = ulp_exp y")
    case True
    have "round_even (x / 2 powi ulp_exp y) \<le> round_even (y / 2 powi ulp_exp y)"
      using assms(2) by (intro round_even_mono divide_right_mono) simp_all
    with True x y show ?thesis by (simp add: round64_pos_eq mult_right_mono)
  next
    case False
    with le have less: "ulp_exp x + 1 \<le> ulp_exp y" and n: "expo y \<ge> - 1022"
      by (auto simp: ulp_exp_def)
    obtain m where m: "m \<le> 2 ^ 53" "round64 x = of_int m * 2 powi ulp_exp x"
      using round64_significand [OF x] by blast
    have "(of_int m :: rat) \<le> of_int (2 ^ 53)" using m(1) by (simp only: of_int_le_iff)
    then have "round64 x \<le> of_int (2 ^ 53) * 2 powi ulp_exp x"
      unfolding m(2) by (intro mult_right_mono) simp_all
    also have "\<dots> = of_int (2 ^ 52) * 2 powi (ulp_exp x + 1)" by (simp add: power_int_add)
    also have "\<dots> \<le> of_int (2 ^ 52) * 2 powi ulp_exp y"
      using powi_mono [OF less] by (intro mult_left_mono) simp_all
    also have "\<dots> \<le> of_int (round_even (y / 2 powi ulp_exp y)) * 2 powi ulp_exp y"
    proof -
      have "round_even (of_int (2 ^ 52)) \<le> round_even (y / 2 powi ulp_exp y)"
        using significand(2) [OF y n] by (rule round_even_mono)
      then have "(of_int (2 ^ 52) :: rat) \<le> of_int (round_even (y / 2 powi ulp_exp y))"
        by (simp only: round_even_of_int of_int_le_iff)
      then show ?thesis by (rule mult_right_mono) simp
    qed
    finally show ?thesis by (simp add: round64_pos_eq [OF y])
  qed
qed


section \<open>The operations on the values the program computes\<close>

text \<open>The non-negative numbers a \<open>float64\<close> can hold.\<close>

definition is_float :: "rat \<Rightarrow> bool" where
  "is_float x \<longleftrightarrow> 0 \<le> x \<and> round64 x = x"

lemma is_float_round64: "0 \<le> x \<Longrightarrow> is_float (round64 x)"
  by (simp add: is_float_def round64_nonneg round64_idem)

lemma is_float_nonneg: "is_float x \<Longrightarrow> 0 \<le> x"
  by (simp add: is_float_def)

lemma is_float_of_int: "0 \<le> n \<Longrightarrow> n \<le> 2 ^ 53 \<Longrightarrow> is_float (of_int n)"
  by (simp add: is_float_def round64_of_int)

lemma is_float_1 [simp]: "is_float 1"
  using is_float_of_int [of 1] by simp

lemma is_float_fint: "0 \<le> n \<Longrightarrow> is_float (fint n)"
  unfolding fint_def by (rule is_float_round64) simp

lemma fint_mono: "0 \<le> m \<Longrightarrow> m \<le> n \<Longrightarrow> fint m \<le> fint n"
  unfolding fint_def by (rule round64_mono) simp_all

lemma fint_small [simp]: "0 \<le> n \<Longrightarrow> n \<le> 2 ^ 53 \<Longrightarrow> fint n = of_int n"
  by (simp add: fint_def round64_of_int)

text \<open>A rounded result below a value of the type stays below it.\<close>

lemma round64_le_float: "0 \<le> x \<Longrightarrow> x \<le> y \<Longrightarrow> is_float y \<Longrightarrow> round64 x \<le> y"
  using round64_mono [of x y] by (simp add: is_float_def)

lemma round64_ge_float: "is_float x \<Longrightarrow> x \<le> y \<Longrightarrow> x \<le> round64 y"
  using round64_mono [of x y] by (simp add: is_float_def)

lemma fint_nsPerSecond: "fint nsPerSecond = 1000000000"
  by (simp add: nsPerSecond_def)

lemma Seconds_nonneg_parts:
  "0 \<le> d \<Longrightarrow> Seconds d =
     fadd (fint (d div nsPerSecond)) (fdiv (fint (d mod nsPerSecond)) (fint nsPerSecond))"
  by (cases "d = 0") (simp_all add: Seconds_def Let_def)

lemma Seconds_whole:
  assumes "0 \<le> s" "s \<le> 2 ^ 53"
  shows "Seconds (s * nsPerSecond) = of_int s"
  using assms by (simp add: Seconds_nonneg_parts nsPerSecond_def fadd_def fdiv_def round64_of_int)

lemma Seconds_nonneg:
  assumes "0 \<le> d"
  shows "0 \<le> Seconds d"
proof -
  from assms have "0 \<le> fint (d div nsPerSecond)" "0 \<le> fint (d mod nsPerSecond)"
    by (simp_all add: fint_def round64_nonneg nsPerSecond_def pos_imp_zdiv_nonneg_iff)
  then show ?thesis
    by (simp add: Seconds_nonneg_parts assms fadd_def fdiv_def round64_nonneg fint_nsPerSecond)
qed


section \<open>The error of one operation\<close>

lemma round_even_le: "of_int (round_even x) \<le> x + 1"
proof -
  have "round_even x \<le> \<lfloor>x\<rfloor> + 1" by (simp add: round_even_def Let_def)
  then have "(of_int (round_even x) :: rat) \<le> of_int (\<lfloor>x\<rfloor> + 1)" by (simp only: of_int_le_iff)
  also have "\<dots> \<le> x + 1" by simp
  finally show ?thesis .
qed

text \<open>Rounding adds at most one unit in the last place: a relative error above the subnormal
  numbers, an absolute one in general.\<close>

lemma round64_upper_ulp: "0 < x \<Longrightarrow> round64 x \<le> x + 2 powi ulp_exp x"
proof -
  assume x: "0 < x"
  have "of_int (round_even (x / 2 powi ulp_exp x)) * 2 powi ulp_exp x
      \<le> (x / 2 powi ulp_exp x + 1) * 2 powi ulp_exp x"
    by (intro mult_right_mono round_even_le) simp
  also have "\<dots> = x + 2 powi ulp_exp x" by (simp add: distrib_right)
  finally show ?thesis by (simp add: round64_pos_eq [OF x])
qed

lemma round64_powi: "- 1074 \<le> e \<Longrightarrow> round64 (2 powi e) = 2 powi e"
  using round64_exact [of 1 e] by simp

text \<open>The smallest normal number.\<close>

definition minNormal :: rat where
  "minNormal = 2 powi (- 1022)"

lemma minNormal_le: "- 1022 \<le> e \<Longrightarrow> minNormal \<le> 2 powi e"
  unfolding minNormal_def by (rule powi_mono)

lemma round64_upper_rel:
  assumes "minNormal \<le> x"
  shows "round64 x \<le> x + x / 2 ^ 52"
proof -
  have x: "0 < x" using assms powi_pos [of "- 1022"] unfolding minNormal_def by linarith
  from expo_bounds [OF x] assms have "2 powi (- 1022) < (2::rat) powi (expo x + 1)"
    unfolding minNormal_def by linarith
  from powi_less [OF this] have "expo x = ulp_exp x + 52" by (simp add: ulp_exp_def)
  with expo_bounds [OF x] have "2 powi ulp_exp x * 2 powi 52 \<le> x" by (simp add: powi_add)
  then have "2 powi ulp_exp x \<le> x / 2 ^ 52" by (simp add: pos_le_divide_eq)
  with round64_upper_ulp [OF x] show ?thesis by linarith
qed

lemma round64_upper:
  assumes "0 \<le> x" "x \<le> b" "1 \<le> b"
  shows "round64 x \<le> x + b / 2 ^ 52"
proof (cases "minNormal \<le> x")
  case True
  have "x / 2 ^ 52 \<le> b / 2 ^ 52" using assms(2) by (intro divide_right_mono) simp_all
  with round64_upper_rel [OF True] show ?thesis by linarith
next
  case False
  with assms(1) have "round64 x \<le> round64 minNormal" by (intro round64_mono) simp_all
  also have "\<dots> = minNormal" unfolding minNormal_def by (rule round64_powi) simp
  also have "\<dots> \<le> 2 powi (- 52)" by (rule minNormal_le) simp
  also have "(2::rat) powi (- 52) = 1 / 2 ^ 52" by (simp add: power_int_minus_divide)
  also have "\<dots> \<le> b / 2 ^ 52" using assms(3) by (rule divide_right_mono) simp
  finally show ?thesis using assms(1) by linarith
qed

text \<open>The length of a duration in seconds, as a rational, and the error of \<open>Seconds\<close>.\<close>

definition secs :: "duration \<Rightarrow> rat" where
  "secs d = of_int d / 1000000000"

lemma minNormal_grid: "minNormal \<le> 2 powi (- 30)" "(2::rat) powi (- 30) \<le> 1 / 1000000000"
  "minNormal \<le> 1"
  using minNormal_le [of "- 30"] minNormal_le [of 0] by (simp_all add: power_int_minus)

lemma round64_rel_grid:
  assumes "x = 0 \<or> 1 / 1000000000 \<le> x"
  shows "round64 x \<le> x + x / 2 ^ 52"
  using assms
proof
  assume "1 / 1000000000 \<le> x"
  with minNormal_grid(1,2) have "minNormal \<le> x" by linarith
  then show ?thesis by (rule round64_upper_rel)
qed simp

lemma Seconds_upper:
  assumes "0 \<le> d"
  shows "Seconds d \<le> secs d + secs d / 2 ^ 50"
proof -
  define s where "s = (of_int (d div nsPerSecond) :: rat)"
  define n where "n = (of_int (d mod nsPerSecond) :: rat)"
  have d: "of_int d = s * 1000000000 + n"
  proof -
    have "d = d div nsPerSecond * 1000000000 + d mod nsPerSecond"
      unfolding nsPerSecond_def by (simp only: div_mult_mod_eq)
    then have "(of_int d :: rat) = of_int (d div nsPerSecond * 1000000000 + d mod nsPerSecond)"
      by (rule arg_cong)
    then show ?thesis by (simp only: of_int_add of_int_mult of_int_numeral s_def n_def)
  qed
  have s: "s = 0 \<or> 1 \<le> s" "0 \<le> s"
    using assms by (auto simp: s_def nsPerSecond_def pos_imp_zdiv_nonneg_iff)
  have n: "n = 0 \<or> 1 \<le> n" "0 \<le> n"
    by (auto simp: n_def nsPerSecond_def)
  have fs: "round64 s \<le> s + s / 2 ^ 52" using s by (intro round64_rel_grid) auto
  have fn: "round64 (n / 1000000000) \<le> n / 1000000000 + n / 1000000000 / 2 ^ 52"
    using n by (intro round64_rel_grid) (auto simp: divide_right_mono)
  have rs: "round64 s = 0 \<or> 1 \<le> round64 s" "0 \<le> round64 s"
    using s round64_mono [of 1 s] round64_of_int [of 1] by auto
  have g: "2 powi (- 30) \<le> round64 (n / 1000000000)" if "n \<noteq> 0"
  proof -
    from that n have "2 powi (- 30) \<le> n / 1000000000" using minNormal_grid(2) by simp
    then have "round64 (2 powi (- 30)) \<le> round64 (n / 1000000000)" by (intro round64_mono) simp_all
    then show ?thesis using round64_powi [of "- 30"] by simp
  qed
  have "0 \<le> round64 (n / 1000000000)" using n(2) by (simp add: round64_nonneg)
  with rs g have "round64 s + round64 (n / 1000000000) = 0
      \<or> minNormal \<le> round64 s + round64 (n / 1000000000)"
    using minNormal_grid by (cases "n = 0") fastforce+
  then have "round64 (round64 s + round64 (n / 1000000000))
      \<le> (round64 s + round64 (n / 1000000000)) + (round64 s + round64 (n / 1000000000)) / 2 ^ 52"
    by (elim disjE) (simp, rule round64_upper_rel)
  moreover have "Seconds d = round64 (round64 s + round64 (n / 1000000000))"
  proof -
    have "fint (d mod nsPerSecond) = n"
      by (simp add: n_def nsPerSecond_def pos_mod_bound [THEN less_imp_le, THEN order_trans])
    then show ?thesis
      by (simp add: Seconds_nonneg_parts assms fadd_def fdiv_def s_def fint_nsPerSecond)
        (simp add: fint_def)
  qed
  moreover have "secs d = s + n / 1000000000" by (simp add: secs_def d add_divide_distrib)
  ultimately show ?thesis using fs fn s(2) n(2) by (simp add: field_simps)
qed

end
