(* ===== verification/Gateway_Limiter.thy ===== *)
theory Gateway_Limiter
  imports Go_Maps Go_Float "HOL-Library.Word"
begin

text \<open>
  The rate limiter of the gateway (\<open>ipLimiter\<close> in \<open>internal/api/gateway/middleware.go\<close>): one
  token bucket per client key, refilled by the time since the last request of the key, with a
  sweep that drops buckets idle for more than ten minutes on every hundredth request.  Each call
  of \<open>Allow\<close> runs under the limiter's lock, so a run of the limiter is a sequence of calls.
\<close>

section \<open>The limiter\<close>

record bucket =
  bk_tokens :: float64
  bk_last :: time
  bk_lastSeen :: time

record ipLimiter =
  il_rate :: float64
  il_burst :: float64
  il_entries :: "bucket gomap"
  il_requests :: "64 word"

definition newIPLimiter :: "float64 \<Rightarrow> int \<Rightarrow> ipLimiter" where
  "newIPLimiter rate burst =
     \<lparr>il_rate = rate, il_burst = fint burst, il_entries = [], il_requests = 0\<rparr>"

definition limiterTTL :: duration where
  "limiterTTL = 10 * nsPerMinute"

definition cleanupIfNeeded :: "time \<Rightarrow> ipLimiter \<Rightarrow> ipLimiter" where
  "cleanupIfNeeded now l =
     (let l1 = l\<lparr>il_requests := il_requests l + 1\<rparr>
      in if unat (il_requests l1) mod 100 \<noteq> 0 then l1
         else l1\<lparr>il_entries := filter (\<lambda>(key, b). \<not> timeSub now (bk_lastSeen b) > limiterTTL)
                               (il_entries l1)\<rparr>)"

text \<open>The tokens of a bucket after the refill for the time since its last request.\<close>

definition refill :: "ipLimiter \<Rightarrow> time \<Rightarrow> bucket \<Rightarrow> float64" where
  "refill l current b =
     (let elapsed = Seconds (timeSub current (bk_last b))
      in if 0 < elapsed then
           (let t = fadd (bk_tokens b) (fmul elapsed (il_rate l))
            in if il_burst l < t then il_burst l else t)
         else bk_tokens b)"

definition Allow :: "string \<Rightarrow> time \<Rightarrow> ipLimiter \<Rightarrow> bool \<times> ipLimiter" where
  "Allow key current l =
     (case mget (il_entries l) key of
        None \<Rightarrow>
          (True, cleanupIfNeeded current (l\<lparr>il_entries :=
             mput key \<lparr>bk_tokens = fsub (il_burst l) 1, bk_last = current, bk_lastSeen = current\<rparr>
               (il_entries l)\<rparr>))
      | Some b \<Rightarrow>
          (let t = refill l current b;
               allowed = 1 \<le> t;
               t' = (if allowed then fsub t 1 else t)
           in (allowed, cleanupIfNeeded current (l\<lparr>il_entries :=
                 mput key \<lparr>bk_tokens = t', bk_last = current, bk_lastSeen = current\<rparr>
                   (il_entries l)\<rparr>))))"

text \<open>A run: the calls in order, with the answer of each.\<close>

fun runLimiter :: "(string \<times> time) list \<Rightarrow> ipLimiter \<Rightarrow> bool list \<times> ipLimiter" where
  "runLimiter [] l = ([], l)"
| "runLimiter ((key, now) # cs) l =
     (let (a, l1) = Allow key now l; (as, l2) = runLimiter cs l1 in (a # as, l2))"

text \<open>The number of requests of a key that a run lets through.\<close>

fun admitted :: "string \<Rightarrow> (string \<times> time) list \<Rightarrow> bool list \<Rightarrow> nat" where
  "admitted key ((k, now) # cs) (a # as) = (if k = key \<and> a then 1 else 0) + admitted key cs as"
| "admitted key _ _ = 0"


section \<open>What a call keeps\<close>

definition bucket_ok :: "float64 \<Rightarrow> time \<Rightarrow> bucket \<Rightarrow> bool" where
  "bucket_ok burst now b \<longleftrightarrow> is_float (bk_tokens b) \<and> bk_tokens b \<le> burst
     \<and> bk_last b = bk_lastSeen b \<and> bk_last b \<le> now"

definition limiter_ok :: "time \<Rightarrow> ipLimiter \<Rightarrow> bool" where
  "limiter_ok now l \<longleftrightarrow> mwf (il_entries l) \<and> is_float (il_burst l) \<and> 1 \<le> il_burst l
     \<and> 0 \<le> il_rate l
     \<and> (\<forall>key b. mget (il_entries l) key = Some b \<longrightarrow> bucket_ok (il_burst l) now b)"

lemma limiter_okD:
  assumes "limiter_ok now l"
  shows "mwf (il_entries l)" "is_float (il_burst l)" "1 \<le> il_burst l" "0 \<le> il_rate l"
  using assms by (simp_all add: limiter_ok_def)

lemma limiter_ok_bucket:
  assumes "limiter_ok now l" "mget (il_entries l) key = Some b"
  shows "is_float (bk_tokens b)" "0 \<le> bk_tokens b" "bk_tokens b \<le> il_burst l"
    "bk_lastSeen b = bk_last b" "bk_last b \<le> now"
proof -
  from assms have "bucket_ok (il_burst l) now b" by (simp add: limiter_ok_def)
  then show "is_float (bk_tokens b)" "0 \<le> bk_tokens b" "bk_tokens b \<le> il_burst l"
    "bk_lastSeen b = bk_last b" "bk_last b \<le> now"
    by (simp_all add: bucket_ok_def is_float_nonneg)
qed

lemma mget_filter:
  "mwf m \<Longrightarrow> mget (filter (\<lambda>(k, v). P v) m) k
     = (case mget m k of None \<Rightarrow> None | Some v \<Rightarrow> if P v then Some v else None)"
proof (induction m)
  case (Cons x m)
  obtain k' v' where x: "x = (k', v')" by (cases x)
  from Cons.prems x have "mwf m" and k': "mget m k' = None"
    by (auto simp: mwf_def mkeys_def mget_def map_of_eq_None_iff)
  with Cons.IH x show ?case by (auto simp: mget_Cons split: option.splits)
qed simp

lemma mwf_filter: "mwf m \<Longrightarrow> mwf (filter P m)"
  unfolding mwf_def mkeys_def by (rule distinct_map_filter)

text \<open>The sweep changes nothing but the entries, and of those it can only drop idle ones.\<close>

lemma cleanup_frame [simp]:
  "il_rate (cleanupIfNeeded now l) = il_rate l"
  "il_burst (cleanupIfNeeded now l) = il_burst l"
  "il_requests (cleanupIfNeeded now l) = il_requests l + 1"
  by (simp_all add: cleanupIfNeeded_def Let_def)

lemma cleanup_wf: "mwf (il_entries l) \<Longrightarrow> mwf (il_entries (cleanupIfNeeded now l))"
  by (simp add: cleanupIfNeeded_def Let_def mwf_filter)

lemma cleanup_entry:
  assumes "mwf (il_entries l)"
  shows "mget (il_entries (cleanupIfNeeded now l)) key = mget (il_entries l) key
    \<or> (\<exists>b. mget (il_entries l) key = Some b \<and> timeSub now (bk_lastSeen b) > limiterTTL
         \<and> mget (il_entries (cleanupIfNeeded now l)) key = None)"
  using assms by (auto simp: cleanupIfNeeded_def Let_def mget_filter split: option.splits)

lemma cleanup_fresh:
  assumes "mwf (il_entries l)" "mget (il_entries l) key = Some b" "bk_lastSeen b = now"
  shows "mget (il_entries (cleanupIfNeeded now l)) key = Some b"
  using assms
  by (auto simp: cleanupIfNeeded_def Let_def mget_filter timeSub_def maxDuration_def
      limiterTTL_def nsPerMinute_def nsPerSecond_def)

lemma cleanup_ok: "limiter_ok now l \<Longrightarrow> limiter_ok now (cleanupIfNeeded now l)"
  unfolding limiter_ok_def
  by (metis (no_types, lifting) cleanup_entry cleanup_frame(1,2) cleanup_wf option.distinct(1))

lemma refill_bounds:
  assumes "limiter_ok now l" "mget (il_entries l) key = Some b" "now \<le> current"
  shows "is_float (refill l current b) \<and> refill l current b \<le> il_burst l
    \<and> bk_tokens b \<le> refill l current b"
proof -
  from assms have b: "is_float (bk_tokens b)" "bk_tokens b \<le> il_burst l" "is_float (il_burst l)"
    "0 \<le> il_rate l" by (auto simp: limiter_ok_def bucket_ok_def)
  let ?e = "Seconds (timeSub current (bk_last b))"
  let ?t = "fadd (bk_tokens b) (fmul ?e (il_rate l))"
  have "is_float ?t \<and> bk_tokens b \<le> ?t" if "0 < ?e"
  proof -
    from that b have "0 \<le> fmul ?e (il_rate l)" by (simp add: fmul_def round64_nonneg)
    with b is_float_nonneg show ?thesis
      by (auto simp: fadd_def intro!: is_float_round64 round64_ge_float)
  qed
  with b show ?thesis by (auto simp: refill_def Let_def)
qed

lemma fsub_one_bounds:
  assumes "is_float t" "1 \<le> t" "t \<le> b"
  shows "is_float (fsub t 1)" and "fsub t 1 \<le> b"
proof -
  from assms show "is_float (fsub t 1)" by (simp add: fsub_def is_float_round64)
  have "fsub t 1 \<le> t" unfolding fsub_def using assms by (intro round64_le_float) simp_all
  with assms show "fsub t 1 \<le> b" by simp
qed

text \<open>The bucket a call leaves behind for its own key.\<close>

definition served :: "ipLimiter \<Rightarrow> string \<Rightarrow> time \<Rightarrow> bool \<times> float64" where
  "served l key current =
     (case mget (il_entries l) key of
        None \<Rightarrow> (True, fsub (il_burst l) 1)
      | Some b \<Rightarrow> (let t = refill l current b in (1 \<le> t, if 1 \<le> t then fsub t 1 else t)))"

lemma Allow_served:
  "Allow key current l =
     (fst (served l key current),
      cleanupIfNeeded current (l\<lparr>il_entries :=
        mput key \<lparr>bk_tokens = snd (served l key current), bk_last = current,
                  bk_lastSeen = current\<rparr> (il_entries l)\<rparr>))"
  by (simp add: Allow_def served_def Let_def split: option.split)

lemma served_ok:
  assumes "limiter_ok now l" "now \<le> current"
  shows "is_float (snd (served l key current)) \<and> snd (served l key current) \<le> il_burst l"
proof (cases "mget (il_entries l) key")
  case None
  then show ?thesis
    using assms fsub_one_bounds [of "il_burst l" "il_burst l"]
    by (simp add: served_def limiter_ok_def)
next
  case (Some b)
  with refill_bounds [OF assms(1) Some assms(2)] show ?thesis
    by (auto simp: served_def Let_def intro: fsub_one_bounds)
qed

lemma limiter_ok_later: "limiter_ok now l \<Longrightarrow> now \<le> now' \<Longrightarrow> limiter_ok now' l"
  by (fastforce simp: limiter_ok_def bucket_ok_def)

lemma put_ok:
  assumes "limiter_ok now l" "now \<le> current"
  shows "limiter_ok current (l\<lparr>il_entries :=
    mput key \<lparr>bk_tokens = snd (served l key current), bk_last = current, bk_lastSeen = current\<rparr>
      (il_entries l)\<rparr>)"
  using served_ok [OF assms, of key] limiter_ok_later [OF assms]
  by (simp add: limiter_ok_def bucket_ok_def) metis

lemma Allow_keeps_ok:
  assumes "limiter_ok now l" "now \<le> current"
  shows "limiter_ok current (snd (Allow key current l))"
  unfolding Allow_served snd_conv by (rule cleanup_ok [OF put_ok [OF assms]])

lemma new_limiter_ok: "1 \<le> burst \<Longrightarrow> 0 \<le> rate \<Longrightarrow> limiter_ok now (newIPLimiter rate burst)"
  using fint_mono [of 1 burst] by (simp add: limiter_ok_def newIPLimiter_def is_float_fint)

lemma Allow_frame [simp]:
  "il_rate (snd (Allow key current l)) = il_rate l"
  "il_burst (snd (Allow key current l)) = il_burst l"
  by (simp_all add: Allow_served)

lemma Allow_own:
  assumes "mwf (il_entries l)"
  shows "mget (il_entries (snd (Allow key current l))) key
    = Some \<lparr>bk_tokens = snd (served l key current), bk_last = current, bk_lastSeen = current\<rparr>"
  unfolding Allow_served snd_conv by (rule cleanup_fresh) (simp_all add: assms)

lemma Allow_other:
  assumes "mwf (il_entries l)" "key' \<noteq> key"
  shows "mget (il_entries (snd (Allow key current l))) key' = mget (il_entries l) key'
    \<or> (\<exists>b. mget (il_entries l) key' = Some b \<and> timeSub current (bk_lastSeen b) > limiterTTL
         \<and> mget (il_entries (snd (Allow key current l))) key' = None)"
  unfolding Allow_served snd_conv
  using cleanup_entry [of "l\<lparr>il_entries := mput key \<lparr>bk_tokens = snd (served l key current),
    bk_last = current, bk_lastSeen = current\<rparr> (il_entries l)\<rparr>" current key'] assms by simp


section \<open>A burst at one instant\<close>

lemma refill_same_instant: "bk_last b = now \<Longrightarrow> refill l now b = bk_tokens b"
  using Seconds_whole [of 0] by (simp add: refill_def timeSub_def maxDuration_def)

lemma upt_split: "map f [0..<Suc n] = f 0 # map f (map Suc [0..<n])"
  unfolding map_Suc_upt by (simp add: upt_conv_Cons del: upt_Suc)

lemma runLimiter_burst:
  assumes "mwf (il_entries l)" "0 \<le> t" "t \<le> 2 ^ 53"
    and "mget (il_entries l) key
      = Some \<lparr>bk_tokens = of_int t, bk_last = now, bk_lastSeen = now\<rparr>"
  shows "fst (runLimiter (replicate n (key, now)) l) = map (\<lambda>i. int i < t) [0..<n]"
  using assms
proof (induction n arbitrary: t l)
  case (Suc n)
  let ?l1 = "snd (Allow key now l)" and ?t1 = "if 1 \<le> t then t - 1 else t"
  have "served l key now = (1 \<le> t, of_int ?t1)"
    using Suc.prems round64_of_int [of "t - 1"]
    by (simp add: served_def refill_same_instant fsub_def)
  then have a: "fst (Allow key now l) = (1 \<le> t)"
    and e: "mget (il_entries ?l1) key
      = Some \<lparr>bk_tokens = of_int ?t1, bk_last = now, bk_lastSeen = now\<rparr>"
    using Allow_own [OF Suc.prems(1), of key now] by (simp_all add: Allow_served)
  have "mwf (il_entries ?l1)" using Suc.prems(1) by (simp add: Allow_served cleanup_wf)
  from Suc.IH [OF this _ _ e] Suc.prems(2,3)
  have "fst (runLimiter (replicate n (key, now)) ?l1) = map (\<lambda>i. int i < ?t1) [0..<n]" by simp
  also have "\<dots> = map (\<lambda>i. int (Suc i) < t) [0..<n]" using Suc.prems(2) by auto
  finally have ih: "fst (runLimiter (replicate n (key, now)) ?l1)
    = map (\<lambda>i. int i < t) (map Suc [0..<n])" by simp
  have "fst (runLimiter (replicate (Suc n) (key, now)) l)
      = fst (Allow key now l) # fst (runLimiter (replicate n (key, now)) ?l1)"
    by (simp add: split_beta)
  moreover have "(1 \<le> t) = (0 < t)" by linarith
  ultimately show ?case unfolding a ih by (simp add: upt_split del: runLimiter.simps upt_Suc)
qed simp

lemma fresh_key_burst:
  assumes "mwf (il_entries l)" "mget (il_entries l) key = None"
    and "il_burst l = of_int b" "1 \<le> b" "b \<le> 2 ^ 53"
  shows "fst (runLimiter (replicate n (key, now)) l) = map (\<lambda>i. int i < b) [0..<n]"
proof (cases n)
  case (Suc m)
  let ?l1 = "snd (Allow key now l)"
  have "served l key now = (True, of_int (b - 1))"
    using assms round64_of_int [of "b - 1"] by (simp add: served_def fsub_def)
  then have a: "fst (Allow key now l)"
    and e: "mget (il_entries ?l1) key
      = Some \<lparr>bk_tokens = of_int (b - 1), bk_last = now, bk_lastSeen = now\<rparr>"
    using Allow_own [OF assms(1), of key now] by (simp_all add: Allow_served)
  have "mwf (il_entries ?l1)" using assms(1) by (simp add: Allow_served cleanup_wf)
  from runLimiter_burst [OF this _ _ e, of m] assms(4,5)
  have "fst (runLimiter (replicate m (key, now)) ?l1) = map (\<lambda>i. int i < b) (map Suc [0..<m])"
    by auto
  moreover have "fst (runLimiter (replicate (Suc m) (key, now)) l)
      = fst (Allow key now l) # fst (runLimiter (replicate m (key, now)) ?l1)"
    by (simp add: split_beta)
  ultimately show ?thesis
    unfolding Suc using a assms(4) by (simp add: upt_split del: runLimiter.simps upt_Suc)
qed simp


section \<open>The rate\<close>

text \<open>What a key may still spend at an instant.\<close>

definition budget :: "ipLimiter \<Rightarrow> string \<Rightarrow> time \<Rightarrow> rat" where
  "budget l key now =
     (case mget (il_entries l) key of
        None \<Rightarrow> il_burst l
      | Some b \<Rightarrow> min (il_burst l) (bk_tokens b + il_rate l * secs (now - bk_last b)))"

lemma secs_0 [simp]: "secs 0 = 0"
  by (simp add: secs_def)

lemma secs_mono: "d \<le> d' \<Longrightarrow> secs d \<le> secs d'"
  by (simp add: secs_def divide_right_mono)

lemma secs_add: "secs (a - c) = secs (a - b) + secs (b - c)"
  by (simp add: secs_def diff_divide_distrib)

lemma round64_capped:
  assumes "0 \<le> x" "1 \<le> b"
  shows "min (round64 x) b \<le> x + b / 2 ^ 52"
proof (cases "x \<le> b")
  case True
  with round64_upper [OF assms(1) True assms(2)] show ?thesis by linarith
next
  case False
  have "0 \<le> b / 2 ^ 52" using assms(2) by simp
  with False show ?thesis by linarith
qed

lemma earned_upper:
  assumes "0 \<le> d" "0 \<le> rate" "1 \<le> b"
  shows "min (fmul (Seconds d) rate) b \<le> secs d * rate + b / 2 ^ 49"
proof (cases "secs d * rate \<le> b")
  case True
  have sd: "0 \<le> secs d" using assms(1) by (simp add: secs_def)
  have "Seconds d * rate \<le> (secs d + secs d / 2 ^ 50) * rate"
    using Seconds_upper [OF assms(1)] assms(2) by (rule mult_right_mono)
  also have "\<dots> = secs d * rate + secs d * rate / 2 ^ 50" by (simp add: distrib_right)
  also have "\<dots> \<le> secs d * rate + b / 2 ^ 50" 
    by (intro add_left_mono divide_right_mono True) simp
  finally have e: "Seconds d * rate \<le> secs d * rate + b / 2 ^ 50" .
  have "0 \<le> Seconds d * rate" using Seconds_nonneg [OF assms(1)] assms(2) by simp
  from round64_capped [OF this assms(3)] e
  have "min (fmul (Seconds d) rate) b \<le> secs d * rate + (b / 2 ^ 50 + b / 2 ^ 52)"
    unfolding fmul_def by linarith
  moreover have "b / 2 ^ 50 + b / 2 ^ 52 \<le> b / 2 ^ 49" using assms(3) by simp
  ultimately show ?thesis by linarith
next
  case False
  have "0 \<le> b / 2 ^ 49" using assms(3) by simp
  with False show ?thesis by linarith
qed

text \<open>One call never lets through more than the budget, up to the rounding.\<close>

definition slack :: "ipLimiter \<Rightarrow> rat" where
  "slack l = il_burst l / 2 ^ 47"

lemma refill_upper:
  assumes "limiter_ok now l" "mget (il_entries l) key = Some b" "now \<le> current"
  shows "refill l current b
    \<le> bk_tokens b + il_rate l * secs (current - bk_last b) + il_burst l / 2 ^ 48"
proof -
  let ?d = "timeSub current (bk_last b)" and ?B = "il_burst l"
  note b = limiter_ok_bucket(1,3) [OF assms(1,2)] limiter_okD(3,4) [OF assms(1)]
    order_trans [OF limiter_ok_bucket(5) [OF assms(1,2)] assms(3)]
  from b(5) have d: "0 \<le> ?d" "?d \<le> current - bk_last b"
    by (auto simp: timeSub_def maxDuration_def)
  have r: "secs ?d * il_rate l \<le> il_rate l * secs (current - bk_last b)"
    using mult_right_mono [OF secs_mono [OF d(2)] b(4)] by (simp add: mult.commute)
  have r0: "0 \<le> il_rate l * secs (current - bk_last b)"
    using b(4,5) by (simp add: secs_def)
  have B: "0 \<le> ?B / 2 ^ 48" using b(3) by simp
  let ?z = "fmul (Seconds ?d) (il_rate l)" and ?t = "bk_tokens b"
  have z0: "0 \<le> ?z" using Seconds_nonneg [OF d(1)] b(4) by (simp add: fmul_def round64_nonneg)
  have z: "min ?z ?B \<le> il_rate l * secs (current - bk_last b) + ?B / 2 ^ 49"
    using earned_upper [OF d(1) b(4,3)] r by linarith
  have t0: "0 \<le> ?t" using b(1) by (rule is_float_nonneg)
  have "min (fadd ?t ?z) ?B \<le> ?t + min ?z ?B + ?B / 2 ^ 52"
  proof (cases "?z \<le> ?B")
    case True
    with round64_capped [of "?t + ?z" ?B] t0 z0 b(3) show ?thesis by (simp add: fadd_def)
  next
    case False
    have "0 \<le> ?B / 2 ^ 52" using b(3) by simp
    with False t0 show ?thesis by linarith
  qed
  moreover have "?B / 2 ^ 49 + ?B / 2 ^ 52 \<le> ?B / 2 ^ 48" using b(3) by simp
  ultimately have "min (fadd ?t ?z) ?B
    \<le> ?t + il_rate l * secs (current - bk_last b) + ?B / 2 ^ 48" using z by linarith
  moreover have "?t \<le> ?t + il_rate l * secs (current - bk_last b) + ?B / 2 ^ 48"
    using r0 B by linarith
  ultimately show ?thesis by (simp add: refill_def Let_def min_def split: if_splits)
qed

lemma fsub_one_upper:
  assumes "1 \<le> t" "t \<le> b"
  shows "fsub t 1 + 1 \<le> t + b / 2 ^ 52"
  using round64_upper [of "t - 1" b] assms by (simp add: fsub_def)

lemma served_upper:
  assumes "limiter_ok now l" "now \<le> current"
  shows "snd (served l key current) + (if fst (served l key current) then 1 else 0)
    \<le> budget l key current + slack l"
proof (cases "mget (il_entries l) key")
  case None
  have B: "1 \<le> il_burst l" using assms(1) by (simp add: limiter_ok_def)
  then have "il_burst l / 2 ^ 52 \<le> slack l" by (simp add: slack_def)
  with fsub_one_upper [OF B order_refl] None show ?thesis
    by (simp add: served_def budget_def)
next
  case (Some b)
  let ?t = "refill l current b"
  have B: "1 \<le> il_burst l" using assms(1) by (simp add: limiter_ok_def)
  have t: "?t \<le> il_burst l" using refill_bounds [OF assms(1) Some assms(2)] by simp
  have "snd (served l key current) + (if fst (served l key current) then 1 else 0)
      \<le> ?t + il_burst l / 2 ^ 52"
    using fsub_one_upper [of ?t "il_burst l"] t B Some by (simp add: served_def Let_def)
  moreover have "?t \<le> budget l key current + il_burst l / 2 ^ 48"
    using refill_upper [OF assms(1) Some assms(2)] t B by (simp add: budget_def Some min_def)
  moreover have "il_burst l / 2 ^ 48 + il_burst l / 2 ^ 52 \<le> slack l"
    using B by (simp add: slack_def)
  ultimately show ?thesis by linarith
qed

lemma budget_later:
  assumes "limiter_ok now l" "now \<le> current"
  shows "budget l key current \<le> budget l key now + il_rate l * secs (current - now)"
proof -
  have r: "0 \<le> il_rate l * secs (current - now)"
    using assms by (simp add: limiter_ok_def secs_def)
  show ?thesis
  proof (cases "mget (il_entries l) key")
    case (Some b)
    have "il_rate l * secs (current - bk_last b)
        = il_rate l * secs (current - now) + il_rate l * secs (now - bk_last b)"
      by (simp add: secs_add [of current "bk_last b" now] distrib_left)
    with r Some show ?thesis by (simp add: budget_def min_def)
  qed (use r in \<open>simp add: budget_def\<close>)
qed

text \<open>A sweep gives a key no more than it has earned, provided ten minutes fill the bucket.\<close>

lemma budget_other:
  assumes "limiter_ok now l" "now \<le> current" "key' \<noteq> key" "il_burst l \<le> 600 * il_rate l"
  shows "budget (snd (Allow key current l)) key' current \<le> budget l key' current"
proof -
  have wf: "mwf (il_entries l)" using assms(1) by (simp add: limiter_ok_def)
  show ?thesis
    using Allow_other [OF wf assms(3), of current]
  proof
    assume "mget (il_entries (snd (Allow key current l))) key' = mget (il_entries l) key'"
    then show ?thesis by (simp add: budget_def split: option.split)
  next
    assume "\<exists>b. mget (il_entries l) key' = Some b \<and> timeSub current (bk_lastSeen b) > limiterTTL
         \<and> mget (il_entries (snd (Allow key current l))) key' = None"
    then obtain b where b: "mget (il_entries l) key' = Some b"
      "timeSub current (bk_lastSeen b) > limiterTTL"
      "mget (il_entries (snd (Allow key current l))) key' = None" by blast
    from assms(1) b(1) have ok: "bk_lastSeen b = bk_last b" "0 \<le> bk_tokens b" "0 \<le> il_rate l"
      by (auto simp: limiter_ok_def bucket_ok_def is_float_nonneg)
    have "limiterTTL \<le> current - bk_last b"
      using b(2) ok(1)
      by (simp add: timeSub_def maxDuration_def limiterTTL_def nsPerMinute_def nsPerSecond_def)
    then have "secs limiterTTL \<le> secs (current - bk_last b)" by (rule secs_mono)
    then have "600 \<le> secs (current - bk_last b)"
      by (simp add: secs_def limiterTTL_def nsPerMinute_def nsPerSecond_def)
    from mult_left_mono [OF this ok(3)] assms(4) ok(2)
    have "il_burst l \<le> bk_tokens b + il_rate l * secs (current - bk_last b)" by simp
    with b show ?thesis by (simp add: budget_def)
  qed
qed

lemma budget_own:
  assumes "limiter_ok now l" "now \<le> current"
  shows "budget (snd (Allow key current l)) key current + (if fst (Allow key current l) then 1 else 0)
    \<le> budget l key current + slack l"
proof -
  have wf: "mwf (il_entries l)" using assms(1) by (simp add: limiter_ok_def)
  have "budget (snd (Allow key current l)) key current = snd (served l key current)"
    using Allow_own [OF wf, of key current] served_ok [OF assms, of key]
    by (simp add: budget_def min_def)
  with served_upper [OF assms, of key] show ?thesis by (simp add: Allow_served)
qed

fun after_all :: "time \<Rightarrow> (string \<times> time) list \<Rightarrow> bool" where
  "after_all now [] = True"
| "after_all now ((key, t) # cs) = (now \<le> t \<and> after_all t cs)"

definition endTime :: "time \<Rightarrow> (string \<times> time) list \<Rightarrow> time" where
  "endTime now cs = last (now # map snd cs)"

lemma run_budget:
  assumes "limiter_ok now l" "after_all now cs" "il_burst l \<le> 600 * il_rate l"
  shows "of_nat (admitted key cs (fst (runLimiter cs l)))
    \<le> budget l key now + il_rate l * secs (endTime now cs - now) + of_nat (length cs) * slack l"
  using assms
proof (induction cs arbitrary: now l)
  case Nil
  have "0 \<le> budget l key now"
    using limiter_okD(3,4) [OF Nil.prems(1)] limiter_ok_bucket(2,5) [OF Nil.prems(1), of key]
    by (auto simp: budget_def secs_def divide_nonneg_nonneg mult_nonneg_nonneg split: option.split)
  then show ?case by (simp add: endTime_def)
next
  case (Cons c cs)
  obtain k t where c: "c = (k, t)" by (cases c)
  let ?l1 = "snd (Allow k t l)" and ?a = "if k = key \<and> fst (Allow k t l) then 1 else 0 :: rat"
  from Cons.prems c have t: "now \<le> t" "after_all t cs" by simp_all
  note ok1 = Allow_keeps_ok [OF Cons.prems(1) t(1), of k]
  have sl: "0 \<le> slack l" using Cons.prems(1) by (simp add: slack_def limiter_ok_def)
  have "budget ?l1 key t + ?a \<le> budget l key t + slack l"
  proof (cases "k = key")
    case True
    with budget_own [OF Cons.prems(1) t(1), of key] show ?thesis by simp
  next
    case False
    with budget_other [OF Cons.prems(1) t(1) _ Cons.prems(3), of key k] sl show ?thesis by simp
  qed
  moreover have "slack ?l1 = slack l" by (simp add: slack_def)
  moreover have "of_nat (admitted key cs (fst (runLimiter cs ?l1)))
      \<le> budget ?l1 key t + il_rate l * secs (endTime t cs - t) + of_nat (length cs) * slack ?l1"
    using Cons.IH [OF ok1 t(2)] Cons.prems(3) by simp
  moreover have "of_nat (admitted key (c # cs) (fst (runLimiter (c # cs) l)))
      = ?a + of_nat (admitted key cs (fst (runLimiter cs ?l1)))"
    by (auto simp: c split_beta)
  moreover have "il_rate l * secs (endTime now (c # cs) - now)
      = il_rate l * secs (endTime t cs - t) + il_rate l * secs (t - now)"
  proof -
    have "endTime now (c # cs) = endTime t cs" by (simp add: endTime_def c)
    then show ?thesis by (simp only: secs_add [of "endTime t cs" now t] distrib_left)
  qed
  moreover note budget_later [OF Cons.prems(1) t(1), of key]
  ultimately show ?case by (simp add: distrib_right)
qed


section \<open>Properties\<close>

text \<open>
  C17. The limiter's rate: over any run of requests of any clients, in time order, the requests of
  one client that are let through number at most the burst plus the rate times the elapsed
  seconds, up to the rounding of the float arithmetic (one part in 2^47 of the burst per request);
  provided ten minutes refill a bucket, the sweep of idle buckets does not change that.
\<close>

theorem limiter_rate_bound:
  assumes "limiter_ok now l" and "after_all now cs" and "il_burst l \<le> 600 * il_rate l"
  shows "of_nat (admitted key cs (fst (runLimiter cs l)))
    \<le> il_burst l + il_rate l * secs (endTime now cs - now)
       + of_nat (length cs) * (il_burst l / 2 ^ 47)"
proof -
  have "budget l key now \<le> il_burst l" by (simp add: budget_def split: option.split)
  with run_budget [OF assms, of key] show ?thesis by (simp add: slack_def)
qed

theorem limiter_rate_bound_witness:
  "(of_nat (admitted ''10.0.0.1'' [(''10.0.0.1'', 5), (''10.0.0.2'', 6), (''10.0.0.1'', 3000000005)]
      (fst (runLimiter [(''10.0.0.1'', 5), (''10.0.0.2'', 6), (''10.0.0.1'', 3000000005)]
        (newIPLimiter 20 40)))) :: rat)
     \<le> 40 + 20 * 3 + 3 * (40 / 2 ^ 47)"
  using limiter_rate_bound [OF new_limiter_ok [of 40 20 5],
      of "[(''10.0.0.1'', 5), (''10.0.0.2'', 6), (''10.0.0.1'', 3000000005)]" "''10.0.0.1''"]
  by (simp add: newIPLimiter_def endTime_def secs_def)

text \<open>
  The limiter's burst: requests of a client without a bucket that arrive at one instant are
  let through exactly up to the burst and refused beyond it.
\<close>

theorem limiter_exact_burst:
  assumes "mwf (il_entries l)" "mget (il_entries l) key = None"
    and "il_burst l = of_int b" "1 \<le> b" "b \<le> 2 ^ 53"
  shows "fst (runLimiter (replicate n (key, now)) l) = map (\<lambda>i. int i < b) [0..<n]"
  by (rule fresh_key_burst [OF assms])

theorem limiter_exact_burst_witness:
  "fst (runLimiter (replicate 4 (''10.0.0.1'', 7)) (newIPLimiter 20 3)) = [True, True, True, False]"
  using limiter_exact_burst [of "newIPLimiter 20 3" "''10.0.0.1''" 3 4 7]
  by (simp add: newIPLimiter_def numeral_eq_Suc [of num.One] upt_rec)

end
