(* ===== verification/Gateway_Metrics.thy ===== *)
theory Gateway_Metrics
  imports Go_Maps Go_Float
begin

text \<open>
  The request metrics of the gateway (\<open>gatewayMetrics\<close> in \<open>internal/api/gateway/middleware.go\<close>):
  counters per status code and per kind of rejection, and a ring of sixty one-second buckets for
  the requests of the last minute.  The \<open>uint64\<close> counters count requests and are natural numbers
  here.  \<open>Record\<close> has no value where the code would panic: a time before 1970 gives Go's
  remainder a negative index into the ring.
\<close>

section \<open>The metrics\<close>

record metricBucket =
  mb_second :: int
  mb_count :: nat

record gatewayMetrics =
  gm_startedAt :: time
  gm_total :: nat
  gm_statusCode :: "(int \<times> nat) list"
  gm_rateLimitRejected :: nat
  gm_authRejected :: nat
  gm_validationRejected :: nat
  gm_perSecond :: "metricBucket list"

definition newGatewayMetrics :: "time \<Rightarrow> gatewayMetrics" where
  "newGatewayMetrics start =
     \<lparr>gm_startedAt = start, gm_total = 0, gm_statusCode = [], gm_rateLimitRejected = 0,
      gm_authRejected = 0, gm_validationRejected = 0,
      gm_perSecond = replicate 60 \<lparr>mb_second = 0, mb_count = 0\<rparr>\<rparr>"

definition goRem :: "int \<Rightarrow> int \<Rightarrow> int" where
  "goRem a b = sgn a * (\<bar>a\<bar> mod \<bar>b\<bar>)"

definition codeCount :: "(int \<times> nat) list \<Rightarrow> int \<Rightarrow> nat" where
  "codeCount m c = (case map_of m c of None \<Rightarrow> 0 | Some n \<Rightarrow> n)"

definition countOutcome :: "string \<Rightarrow> gatewayMetrics \<Rightarrow> gatewayMetrics" where
  "countOutcome outcome m =
     (if outcome = ''rejected_rate_limit''
      then m\<lparr>gm_rateLimitRejected := gm_rateLimitRejected m + 1\<rparr>
      else if outcome = ''rejected_auth'' then m\<lparr>gm_authRejected := gm_authRejected m + 1\<rparr>
      else if outcome = ''rejected_validation''
      then m\<lparr>gm_validationRejected := gm_validationRejected m + 1\<rparr>
      else m)"

definition countSecond :: "int \<Rightarrow> metricBucket \<Rightarrow> metricBucket" where
  "countSecond sec b =
     (let b1 = (if mb_second b \<noteq> sec then \<lparr>mb_second = sec, mb_count = 0\<rparr> else b)
      in b1\<lparr>mb_count := mb_count b1 + 1\<rparr>)"

definition Record :: "int \<Rightarrow> string \<Rightarrow> time \<Rightarrow> gatewayMetrics \<Rightarrow> gatewayMetrics option" where
  "Record status0 outcome now m =
     (let status = (if status0 = 0 then 200 else status0);
          m1 = m\<lparr>gm_total := gm_total m + 1,
                 gm_statusCode := AList.update status (codeCount (gm_statusCode m) status + 1)
                                    (gm_statusCode m)\<rparr>;
          m2 = countOutcome outcome m1;
          sec = unix_sec now;
          idx = goRem sec (int (length (gm_perSecond m2)))
      in if idx < 0 then None
         else Some (m2\<lparr>gm_perSecond :=
                (gm_perSecond m2)[nat idx := countSecond sec (gm_perSecond m2 ! nat idx)]\<rparr>))"

record GatewaySnapshot =
  gs_Timestamp :: string
  gs_UptimeSeconds :: float64
  gs_RequestsTotal :: nat
  gs_RequestsLast1m :: nat
  gs_QPSLast1m :: float64
  gs_AvgQPS :: float64
  gs_StatusCodeCount :: "nat gomap"
  gs_RateLimitRejected :: nat
  gs_AuthRejected :: nat
  gs_ValidationRejected :: nat

definition recentCount :: "int \<Rightarrow> metricBucket list \<Rightarrow> nat" where
  "recentCount nowSec bs =
     sum_list (map (\<lambda>b. if mb_second b = 0 then 0
                        else if nowSec - mb_second b < 60 then mb_count b else 0) bs)"

definition statusCopy :: "(int \<times> nat) list \<Rightarrow> nat gomap" where
  "statusCopy m = foldl (\<lambda>c (code, count). mput (dec_int code) count c) [] m"

definition Snapshot :: "time \<Rightarrow> gatewayMetrics \<Rightarrow> GatewaySnapshot" where
  "Snapshot now m =
     (let recent = recentCount (unix_sec now) (gm_perSecond m);
          up = Seconds (timeSub now (gm_startedAt m));
          uptime = (if up < 1 then 1 else up);
          window0 = min 60 uptime;
          window = (if window0 < 1 then 1 else window0)
      in \<lparr>gs_Timestamp = rfc3339nano now, gs_UptimeSeconds = up,
          gs_RequestsTotal = gm_total m, gs_RequestsLast1m = recent,
          gs_QPSLast1m = fdiv (fint (int recent)) window,
          gs_AvgQPS = fdiv (fint (int (gm_total m))) uptime,
          gs_StatusCodeCount = statusCopy (gm_statusCode m),
          gs_RateLimitRejected = gm_rateLimitRejected m,
          gs_AuthRejected = gm_authRejected m,
          gs_ValidationRejected = gm_validationRejected m\<rparr>)"


section \<open>The ring against the history\<close>

text \<open>The specification of the ring: what each bucket holds after a history of seconds.\<close>

definition ringBucket :: "int list \<Rightarrow> nat \<Rightarrow> metricBucket" where
  "ringBucket h i =
     (let ss = filter (\<lambda>s. s mod 60 = int i) h
      in if ss = [] then \<lparr>mb_second = 0, mb_count = 0\<rparr>
         else \<lparr>mb_second = last ss, mb_count = length (filter (\<lambda>s. s = last ss) h)\<rparr>)"

definition ringOf :: "int list \<Rightarrow> metricBucket list" where
  "ringOf h = map (ringBucket h) [0..<60]"

lemma sorted_last_le: "sorted xs \<Longrightarrow> x \<in> set xs \<Longrightarrow> x \<le> last xs"
  by (induction xs rule: rev_induct) (auto simp: sorted_append)

lemma sorted_sub: "sorted xs \<Longrightarrow> sorted (filter P xs)"
  by (rule sorted_wrt_filter)

lemma ringBucket_snoc:
  assumes "sorted (h @ [sec])" "0 < sec"
  shows "ringBucket (h @ [sec]) i =
    (if sec mod 60 = int i then countSecond sec (ringBucket h i) else ringBucket h i)"
proof -
  let ?ss = "filter (\<lambda>s. s mod 60 = int i) h"
  show ?thesis
  proof (cases "sec mod 60 = int i")
    case True
    have "sec \<notin> set h" if "?ss = [] \<or> last ?ss \<noteq> sec"
    proof
      assume "sec \<in> set h"
      with True have s: "sec \<in> set ?ss" by simp
      have "sorted ?ss" using assms(1) by (simp add: sorted_append sorted_sub)
      from sorted_last_le [OF this s] have "sec \<le> last ?ss" .
      moreover have "last ?ss \<in> set h" using s last_in_set [of ?ss] by fastforce
      with assms(1) have "last ?ss \<le> sec" by (simp add: sorted_append)
      ultimately show False using that s by fastforce
    qed
    then have "?ss = [] \<or> last ?ss \<noteq> sec \<Longrightarrow> filter (\<lambda>s. s = sec) h = []"
      by (metis (mono_tags, lifting) filter_False)
    with True assms(2) show ?thesis
      by (auto simp: ringBucket_def countSecond_def Let_def)
  next
    case False
    have "filter (\<lambda>s. s = last ?ss) (h @ [sec]) = filter (\<lambda>s. s = last ?ss) h" if "?ss \<noteq> []"
    proof -
      have "last ?ss \<in> set ?ss" using that by (rule last_in_set)
      with False show ?thesis by auto
    qed
    with False show ?thesis by (simp add: ringBucket_def Let_def)
  qed
qed

lemma ring_step:
  assumes "sorted (h @ [sec])" "0 < sec"
  shows "(ringOf h)[nat (sec mod 60) := countSecond sec (ringOf h ! nat (sec mod 60))]
    = ringOf (h @ [sec])"
proof (rule nth_equalityI)
  fix i
  assume "i < length ((ringOf h)[nat (sec mod 60) := countSecond sec (ringOf h ! nat (sec mod 60))])"
  then have i: "i < 60" by (simp add: ringOf_def)
  have "nat (sec mod 60) = i \<longleftrightarrow> sec mod 60 = int i" by auto
  with i ringBucket_snoc [OF assms, of i] show
    "(ringOf h)[nat (sec mod 60) := countSecond sec (ringOf h ! nat (sec mod 60))] ! i
      = ringOf (h @ [sec]) ! i"
    by (auto simp: ringOf_def nth_list_update)
qed (simp add: ringOf_def)

text \<open>One bucket contributes the requests of the last minute in its residue class.\<close>

lemma ringBucket_recent:
  assumes "\<And>s. s \<in> set h \<Longrightarrow> 0 < s \<and> s \<le> now" "sorted h"
  shows "(if mb_second (ringBucket h i) = 0 then 0
      else if now - mb_second (ringBucket h i) < 60 then mb_count (ringBucket h i) else 0)
    = length (filter (\<lambda>s. s mod 60 = int i \<and> now - s < 60) h)"
proof -
  let ?ss = "filter (\<lambda>s. s mod 60 = int i) h"
  show ?thesis
  proof (cases "?ss = []")
    case True
    then have "filter (\<lambda>s. s mod 60 = int i \<and> now - s < 60) h = []"
      by (simp add: filter_empty_conv)
    with True show ?thesis by (simp add: ringBucket_def)
  next
    case False
    then have l: "last ?ss \<in> set h" "last ?ss mod 60 = int i" using last_in_set [OF False] by auto
    have max: "s \<le> last ?ss" if "s \<in> set h" "s mod 60 = int i" for s
      using sorted_last_le [of ?ss s] that assms(2)
      by (simp add: sorted_sub)
    have eq: "s mod 60 = int i \<and> now - s < 60 \<longleftrightarrow> s = last ?ss \<and> now - last ?ss < 60"
      if s: "s \<in> set h" for s
    proof
      assume r: "s mod 60 = int i \<and> now - s < 60"
      with max s have "s \<le> last ?ss" by simp
      moreover from r l(2) have "(last ?ss - s) mod 60 = 0" by (simp add: mod_diff_eq [symmetric])
      moreover have "last ?ss \<le> now" using assms(1) l(1) by simp
      ultimately have "last ?ss - s = 0"
        using r zdvd_imp_le [of 60 "last ?ss - s"] by (cases "last ?ss - s > 0") auto
      with r show "s = last ?ss \<and> now - last ?ss < 60" by simp
    qed (use l in simp)
    have "filter (\<lambda>s. s mod 60 = int i \<and> now - s < 60) h
        = filter (\<lambda>s. s = last ?ss \<and> now - last ?ss < 60) h"
      using eq by (auto intro: filter_cong)
    moreover have "last ?ss \<noteq> 0" using assms(1) l(1) by force
    ultimately show ?thesis using False by (simp add: ringBucket_def Let_def)
  qed
qed

lemma residues_partition:
  "sum_list (map (\<lambda>i. length (filter (\<lambda>s. s mod 60 = int i \<and> P s) h)) [0..<60])
     = length (filter P (h :: int list))"
proof (induction h)
  case (Cons s h)
  have "sum_list (map (\<lambda>i. if s mod 60 = int i \<and> P s then 1 else 0) [0..<60])
      = (if P s then 1 else (0::nat))"
  proof -
    have "nat (s mod 60) < 60" by (simp add: nat_less_iff)
    then have "sum (\<lambda>i. if i = nat (s mod 60) then 1 else (0::nat)) {0..<60} = 1" by simp
    moreover have "(s mod 60 = int i) = (i = nat (s mod 60))" for i by auto
    ultimately show ?thesis by (simp add: interv_sum_list_conv_sum_set_nat)
  qed
  moreover have "(\<lambda>i. length (filter (\<lambda>s. s mod 60 = int i \<and> P s) (s # h)))
    = (\<lambda>i. (if s mod 60 = int i \<and> P s then 1 else 0)
        + length (filter (\<lambda>s. s mod 60 = int i \<and> P s) h))" by auto
  ultimately show ?case using Cons.IH by (simp add: sum_list_addf)
qed simp

lemma recent_ring:
  assumes "\<And>s. s \<in> set h \<Longrightarrow> 0 < s \<and> s \<le> now" "sorted h"
  shows "recentCount now (ringOf h) = length (filter (\<lambda>s. now - s < 60) h)"
  using residues_partition [of "\<lambda>s. now - s < 60" h] ringBucket_recent [OF assms]
  by (simp add: recentCount_def ringOf_def o_def)


section \<open>A history of requests\<close>

type_synonym served = "int \<times> string \<times> time"

fun recordAll :: "served list \<Rightarrow> gatewayMetrics \<Rightarrow> gatewayMetrics option" where
  "recordAll [] m = Some m"
| "recordAll ((status, outcome, t) # h) m = Option.bind (Record status outcome t m) (recordAll h)"

definition effStatus :: "served \<Rightarrow> int" where
  "effStatus e = (if fst e = 0 then 200 else fst e)"

definition evOutcome :: "served \<Rightarrow> string" where
  "evOutcome e = fst (snd e)"

definition evSec :: "served \<Rightarrow> int" where
  "evSec e = unix_sec (snd (snd e))"

lemma evSec_triple [simp]: "evSec (status, outcome, t) = unix_sec t"
  by (simp add: evSec_def)

text \<open>What the metrics hold after a history, component by component.\<close>

definition codes_reflect :: "served list \<Rightarrow> (int \<times> nat) list \<Rightarrow> bool" where
  "codes_reflect h m \<longleftrightarrow> distinct (map fst m)
     \<and> (\<forall>c. map_of m c
            = (let n = length (filter (\<lambda>e. effStatus e = c) h) in if n = 0 then None else Some n))"

definition reflects :: "served list \<Rightarrow> gatewayMetrics \<Rightarrow> bool" where
  "reflects h m \<longleftrightarrow> gm_total m = length h
     \<and> codes_reflect h (gm_statusCode m)
     \<and> gm_rateLimitRejected m = length (filter (\<lambda>e. evOutcome e = ''rejected_rate_limit'') h)
     \<and> gm_authRejected m = length (filter (\<lambda>e. evOutcome e = ''rejected_auth'') h)
     \<and> gm_validationRejected m = length (filter (\<lambda>e. evOutcome e = ''rejected_validation'') h)
     \<and> gm_perSecond m = ringOf (map evSec h)"

lemma reflects_new: "reflects [] (newGatewayMetrics start)"
proof -
  have "ringBucket [] = (\<lambda>i. \<lparr>mb_second = 0, mb_count = 0\<rparr>)"
    by (simp add: ringBucket_def fun_eq_iff)
  then show ?thesis
    by (simp add: reflects_def codes_reflect_def newGatewayMetrics_def ringOf_def
        map_replicate_const)
qed

lemma countOutcome_frame [simp]:
  "gm_total (countOutcome outcome m) = gm_total m"
  "gm_statusCode (countOutcome outcome m) = gm_statusCode m"
  "gm_perSecond (countOutcome outcome m) = gm_perSecond m"
  by (simp_all add: countOutcome_def)

lemma goRem_pos: "0 < a \<Longrightarrow> goRem a 60 = a mod 60"
  by (simp add: goRem_def)

lemma Record_reflects:
  assumes "reflects h m" "sorted (map evSec (h @ [(status, outcome, t)]))" "0 < unix_sec t"
  shows "\<exists>m'. Record status outcome t m = Some m' \<and> reflects (h @ [(status, outcome, t)]) m'"
proof -
  let ?e = "(status, outcome, t)" and ?sec = "unix_sec t"
  have ring: "(ringOf (map evSec h))[nat (?sec mod 60) :=
      countSecond ?sec (ringOf (map evSec h) ! nat (?sec mod 60))] = ringOf (map evSec (h @ [?e]))"
    using ring_step [of "map evSec h" ?sec] assms(2,3) by simp
  have per: "gm_perSecond m = ringOf (map evSec h)" using assms(1) by (simp add: reflects_def)
  have len: "length (ringOf (map evSec h)) = 60" by (simp add: ringOf_def)
  let ?st = "effStatus ?e"
  let ?codes = "AList.update ?st (codeCount (gm_statusCode m) ?st + 1) (gm_statusCode m)"
  have codes: "codes_reflect (h @ [?e]) ?codes"
    using assms(1) by (auto simp: reflects_def codes_reflect_def distinct_update update_conv'
        codeCount_def Let_def)
  have "Record status outcome t m = Some ((countOutcome outcome
      (m\<lparr>gm_total := gm_total m + 1, gm_statusCode := ?codes\<rparr>))
        \<lparr>gm_perSecond := ringOf (map evSec (h @ [?e]))\<rparr>)"
    using assms(3)
    by (simp add: Record_def Let_def effStatus_def per len goRem_pos not_less
        ring [unfolded map_append list.map evSec_triple])
  moreover have "reflects (h @ [?e]) ((countOutcome outcome
      (m\<lparr>gm_total := gm_total m + 1, gm_statusCode := ?codes\<rparr>))
        \<lparr>gm_perSecond := ringOf (map evSec (h @ [?e]))\<rparr>)"
    using assms(1) codes
    by (auto simp: reflects_def countOutcome_def evOutcome_def)
  ultimately show ?thesis by blast
qed

lemma recordAll_reflects:
  assumes "reflects h0 m" "sorted (map evSec (h0 @ h))" "\<And>e. e \<in> set h \<Longrightarrow> 0 < evSec e"
  shows "\<exists>m'. recordAll h m = Some m' \<and> reflects (h0 @ h) m'"
  using assms
proof (induction h arbitrary: h0 m)
  case (Cons e h)
  obtain status outcome t where e: "e = (status, outcome, t)" by (cases e)
  from Cons.prems(3) [of e] e have pos: "0 < unix_sec t" by (simp add: evSec_def)
  from Cons.prems(2) have "sorted (map evSec (h0 @ [e]))" by (simp add: sorted_append)
  from Record_reflects [OF Cons.prems(1) this [unfolded e] pos]
  obtain m1 where m1: "Record status outcome t m = Some m1" "reflects (h0 @ [e]) m1"
    using e by blast
  from Cons.IH [OF m1(2)] Cons.prems(2,3) obtain m2 where
    "recordAll h m1 = Some m2" "reflects ((h0 @ [e]) @ h) m2" by auto
  with m1(1) e show ?case by simp
qed simp

text \<open>The status codes of the snapshot are those of the metrics, as decimal text.\<close>

lemma dec_int_inject: "dec_int a = dec_int b \<Longrightarrow> a = b"
proof -
  have sign: "dec n \<noteq> CHR ''-'' # xs" for n xs
    using dec_digits [of n] by (auto simp: list_all_iff is_digit_def)
  assume "dec_int a = dec_int b"
  then show "a = b"
    using sign [THEN not_sym] sign by (auto simp: dec_int_def split: if_splits)
qed

lemma statusCopy_from:
  "distinct (map fst m) \<Longrightarrow> (\<And>c. c \<in> set (map fst m) \<Longrightarrow> mget acc (dec_int c) = None) \<Longrightarrow>
     mget (foldl (\<lambda>c (code, count). mput (dec_int code) count c) acc m) (dec_int c)
       = (case map_of m c of Some n \<Rightarrow> Some n | None \<Rightarrow> mget acc (dec_int c))"
proof (induction m arbitrary: acc)
  case (Cons x m)
  obtain k v where x: "x = (k, v)" by (cases x)
  have "mget (mput (dec_int k) v acc) (dec_int d) = None" if "d \<in> set (map fst m)" for d
    using Cons.prems that x by (auto dest: dec_int_inject)
  with Cons.IH [of "mput (dec_int k) v acc"] Cons.prems(1) x
  have "mget (foldl (\<lambda>c (code, count). mput (dec_int code) count c) acc (x # m)) (dec_int c)
      = (case map_of m c of Some n \<Rightarrow> Some n | None \<Rightarrow> mget (mput (dec_int k) v acc) (dec_int c))"
    by simp
  moreover have "map_of m k = None" using Cons.prems(1) x by (simp add: map_of_eq_None_iff)
  ultimately show ?case
    using x by (auto split: option.splits dest: dec_int_inject)
qed simp

lemma statusCopy_get:
  "distinct (map fst m) \<Longrightarrow> mget (statusCopy m) (dec_int c) = map_of m c"
  unfolding statusCopy_def by (subst statusCopy_from) (auto split: option.split)

lemma unix_sec_mono: "t \<le> u \<Longrightarrow> unix_sec t \<le> unix_sec u"
  by (simp add: unix_sec_def nsPerSecond_def zdiv_mono1)



end
