(* ===== verification/Gateway.thy ===== *)
theory Gateway
  imports Go_Http Gateway_Limiter Gateway_Metrics
begin

text \<open>
  The API gateway (\<open>internal/api/gateway/middleware.go\<close>): the middleware in front of the
  orchestrator, and the parsing of its command line (\<open>cmd/gateway/main.go\<close>).

  A request passes through request id, trace context, authentication with tenant scope, rate limit
  and validation, and then goes to the next handler or is answered with a problem.  The next
  handler is an argument: it gives what it writes and changes a state of its own.  The readings of
  the clock during one request are given in a record, one per call of \<open>Now\<close>.  SHA-256 and the JSON
  encoding of a problem are parameters.  The headers of a request are not changed by the next
  handler as far as the access log sees them (the reverse proxy works on a copy).
\<close>

section \<open>Configuration and state\<close>

record AuthBinding =
  ab_Token :: string
  ab_TenantID :: string
  ab_ProjectID :: string

record authPrincipal =
  ap_TenantID :: string
  ap_ProjectID :: string

record GwConfig =
  gc_AuthEnabled :: bool
  gc_AuthTokens :: "string list"
  gc_AuthBindings :: "AuthBinding list"
  gc_RateLimitEnabled :: bool
  gc_RatePerSecond :: float64
  gc_RateBurst :: int
  gc_MaxBodyBytes :: int
  gc_AccessLogEnabled :: bool

record AccessLogRecord =
  al_Timestamp :: string
  al_RequestID :: string
  al_Method :: string
  al_Path :: string
  al_Status :: int
  al_DurationMs :: int
  al_ClientIP :: string
  al_Outcome :: string
  al_BytesWritten :: int
  al_UserAgent :: string

text \<open>\<open>gw_accessLog\<close> holds what the access logger has been given.\<close>

record Middleware =
  gw_cfg :: GwConfig
  gw_authTokens :: "authPrincipal gomap"
  gw_limiter :: "ipLimiter option"
  gw_seq :: "64 word"
  gw_metrics :: gatewayMetrics
  gw_accessLog :: "AccessLogRecord list"

definition defaultMaxBodyBytes :: int where "defaultMaxBodyBytes = 2 ^ 20"
definition defaultRateRPS :: float64 where "defaultRateRPS = 20"
definition defaultRateBurst :: int where "defaultRateBurst = 40"

definition withDefaults :: "GwConfig \<Rightarrow> GwConfig" where
  "withDefaults cfg =
     cfg\<lparr>gc_MaxBodyBytes := (if gc_MaxBodyBytes cfg \<le> 0 then defaultMaxBodyBytes
                             else gc_MaxBodyBytes cfg),
         gc_RatePerSecond := (if gc_RatePerSecond cfg \<le> 0 then defaultRateRPS
                              else gc_RatePerSecond cfg),
         gc_RateBurst := (if gc_RateBurst cfg \<le> 0 then defaultRateBurst
                          else gc_RateBurst cfg)\<rparr>"

fun addTokens :: "string list \<Rightarrow> authPrincipal gomap \<Rightarrow> authPrincipal gomap" where
  "addTokens [] m = m"
| "addTokens (raw # rest) m =
     (let token = TrimSpace raw
      in if token = [] then addTokens rest m
         else addTokens rest (mput token \<lparr>ap_TenantID = [], ap_ProjectID = []\<rparr> m))"

fun addBindings ::
  "AuthBinding list \<Rightarrow> authPrincipal gomap \<Rightarrow> string + authPrincipal gomap" where
  "addBindings [] m = Inr m"
| "addBindings (item # rest) m =
     (let token = TrimSpace (ab_Token item)
      in if token = [] then addBindings rest m
         else (let tenantID = TrimSpace (ab_TenantID item);
                   projectID = TrimSpace (ab_ProjectID item)
               in if tenantID = [] \<or> projectID = []
                  then Inl ''auth binding requires token + tenant_id + project_id''
                  else addBindings rest
                    (mput token \<lparr>ap_TenantID = tenantID, ap_ProjectID = projectID\<rparr> m)))"

text \<open>\<open>NewHandler\<close>; \<open>nextGiven\<close> is whether the next handler is not nil.\<close>

definition NewHandler :: "bool \<Rightarrow> GwConfig \<Rightarrow> time \<Rightarrow> string + Middleware" where
  "NewHandler nextGiven cfg0 start =
     (if \<not> nextGiven then Inl ''next handler is required''
      else (let cfg = withDefaults cfg0
            in case addBindings (gc_AuthBindings cfg) (addTokens (gc_AuthTokens cfg) []) of
                 Inl e \<Rightarrow> Inl e
               | Inr authTokens \<Rightarrow>
                   if gc_AuthEnabled cfg \<and> length authTokens = 0
                   then Inl ''auth is enabled but no auth tokens configured''
                   else Inr \<lparr>gw_cfg = cfg, gw_authTokens = authTokens,
                     gw_limiter = (if gc_RateLimitEnabled cfg
                                   then Some (newIPLimiter (gc_RatePerSecond cfg) (gc_RateBurst cfg))
                                   else None),
                     gw_seq = 0, gw_metrics = newGatewayMetrics start, gw_accessLog = []\<rparr>))"


section \<open>Requests\<close>

text \<open>\<open>gr_BodyLimit\<close> is the limit of the reader \<open>http.MaxBytesReader\<close> puts around the body.\<close>

record GwRequest = Request +
  gr_ContentLength :: int
  gr_BodyLimit :: "int option"

definition getHeader :: "string \<Rightarrow> GwRequest \<Rightarrow> string" where
  "getHeader k r = hGet (rq_Header r) k"

definition setHeader :: "string \<Rightarrow> string \<Rightarrow> GwRequest \<Rightarrow> GwRequest" where
  "setHeader k v r = r\<lparr>rq_Header := hSet k v (rq_Header r)\<rparr>"

text \<open>The layout \<open>20060102T150405.000000000\<close>.\<close>

definition stamp_text :: "time \<Rightarrow> string" where
  "stamp_text t =
     (let (y, m, d) = civil (unix_sec t div 86400); s = unix_sec t mod 86400
      in year_text y @ pad_dec 2 (nat m) @ pad_dec 2 (nat d) @ ''T''
         @ pad_dec 2 (nat (s div 3600)) @ pad_dec 2 (nat (s mod 3600 div 60))
         @ pad_dec 2 (nat (s mod 60)) @ ''.'' @ pad_dec 9 (nat (t mod nsPerSecond)))"

definition injectRequestID :: "time \<Rightarrow> GwRequest \<Rightarrow> Middleware \<Rightarrow> GwRequest \<times> Middleware" where
  "injectRequestID now r m =
     (if TrimSpace (getHeader ''X-Request-Id'' r) \<noteq> [] then (r, m)
      else (let seq = gw_seq m + 1;
                id = ''gw_'' @ stamp_text now @ ''_'' @ dec (unat seq)
            in (setHeader ''X-Request-Id'' id r, m\<lparr>gw_seq := seq\<rparr>)))"

definition injectTraceparent :: "(string \<Rightarrow> string) \<Rightarrow> time \<Rightarrow> GwRequest \<Rightarrow> GwRequest" where
  "injectTraceparent sha256 now r =
     (if TrimSpace (getHeader ''traceparent'' r) \<noteq> [] then r
      else (let rid = TrimSpace (getHeader ''X-Request-Id'' r);
                requestID = (if rid = [] then ''req_'' @ dec_int now else rid);
                sum = sha256 requestID;
                traceID = hex_encode (take 16 sum);
                spanID = hex_encode (take 8 (drop 16 sum))
            in setHeader ''traceparent'' (''00-'' @ traceID @ ''-'' @ spanID @ ''-01'') r))"

definition checkAuth :: "Middleware \<Rightarrow> GwRequest \<Rightarrow> string + authPrincipal" where
  "checkAuth m r =
     (let raw = TrimSpace (getHeader ''Authorization'' r)
      in if raw = [] then Inl ''missing Authorization header''
         else (case Fields raw of
                 [scheme, token] \<Rightarrow>
                   if \<not> EqualFoldAscii scheme ''Bearer''
                   then Inl ''Authorization must use Bearer token''
                   else (case mget (gw_authTokens m) token of
                           None \<Rightarrow> Inl ''invalid bearer token''
                         | Some p \<Rightarrow> Inr p)
               | _ \<Rightarrow> Inl ''Authorization must use Bearer token''))"

definition injectTenantScope :: "authPrincipal \<Rightarrow> GwRequest \<Rightarrow> string + GwRequest" where
  "injectTenantScope p r =
     (if ap_TenantID p = [] \<and> ap_ProjectID p = [] then Inr r
      else (let reqTenant = TrimSpace (getHeader ''X-Tenant-Id'' r);
                reqProject = TrimSpace (getHeader ''X-Project-Id'' r)
            in if reqTenant \<noteq> [] \<and> reqTenant \<noteq> ap_TenantID p
               then Inl ''X-Tenant-Id does not match authenticated token scope''
               else if reqProject \<noteq> [] \<and> reqProject \<noteq> ap_ProjectID p
               then Inl ''X-Project-Id does not match authenticated token scope''
               else Inr (setHeader ''X-Project-Id'' (ap_ProjectID p)
                          (setHeader ''X-Tenant-Id'' (ap_TenantID p) r))))"

datatype gwError = ErrUnsupportedMediaType | ErrPayloadTooLarge | ErrInvalidHeader string

fun gwErrorText :: "gwError \<Rightarrow> string" where
  "gwErrorText ErrUnsupportedMediaType = ''content-type must be application/json''"
| "gwErrorText ErrPayloadTooLarge = ''request body exceeds gateway max size''"
| "gwErrorText (ErrInvalidHeader what) = ''invalid header value: '' @ what"

definition isJSONPost :: "GwRequest \<Rightarrow> bool" where
  "isJSONPost r \<longleftrightarrow> rq_Method r = ''POST''
     \<and> (rq_Path r = ''/v1/assistant/jobs'' \<or> rq_Path r = ''/v1/assistant/query'')"

definition validateRequest :: "GwConfig \<Rightarrow> GwRequest \<Rightarrow> gwError + GwRequest" where
  "validateRequest cfg r =
     (if 128 < length (getHeader ''X-Request-Id'' r)
      then Inl (ErrInvalidHeader ''X-Request-Id too long'')
      else if 256 < length (getHeader ''Idempotency-Key'' r)
      then Inl (ErrInvalidHeader ''Idempotency-Key too long'')
      else if isJSONPost r then
        (let contentType = ToLower (TrimSpace (getHeader ''Content-Type'' r))
         in if \<not> prefix ''application/json'' contentType then Inl ErrUnsupportedMediaType
            else if gc_MaxBodyBytes cfg < gr_ContentLength r then Inl ErrPayloadTooLarge
            else Inr (r\<lparr>gr_BodyLimit := Some (gc_MaxBodyBytes cfg)\<rparr>))
      else Inr r)"


section \<open>The client of a request\<close>

definition lastIndex :: "char \<Rightarrow> string \<Rightarrow> nat option" where
  "lastIndex c s = map_option (\<lambda>i. length s - Suc i) (IndexChar c (rev s))"

text \<open>The host of \<open>net.SplitHostPort\<close>; no value where it fails.\<close>

definition SplitHost :: "string \<Rightarrow> string option" where
  "SplitHost s =
     (case lastIndex (CHR '':'') s of
        None \<Rightarrow> None
      | Some i \<Rightarrow>
          if hd s = CHR ''['' then
            (case IndexChar (CHR '']'') s of
               None \<Rightarrow> None
             | Some e \<Rightarrow>
                 if Suc e \<noteq> i then None
                 else if CHR ''['' \<in> set (drop 1 s) \<or> CHR '']'' \<in> set (drop (Suc e) s) then None
                 else Some (take (e - 1) (drop 1 s)))
          else if CHR '':'' \<in> set (take i s) then None
          else if CHR ''['' \<in> set s \<or> CHR '']'' \<in> set s then None
          else Some (take i s))"

definition clientKey :: "GwRequest \<Rightarrow> string" where
  "clientKey r =
     (let xff = TrimSpace (getHeader ''X-Forwarded-For'' r);
          first = TrimSpace (hd (SplitChar (CHR '','') xff));
          remote = TrimSpace (rq_RemoteAddr r)
      in if xff \<noteq> [] \<and> first \<noteq> [] then first
         else (case SplitHost remote of
                 Some host \<Rightarrow> if host \<noteq> [] then host else remote
               | None \<Rightarrow> remote))"


section \<open>Responses\<close>

text \<open>What is done to a response writer, in order; a writer accepts all bytes it is given.\<close>

datatype wevent = WSetHeader string string | WStatus int | WBytes string

text \<open>\<open>responseRecorder\<close>, with the operations that reached the writer it wraps.\<close>

record responseRecorder =
  rr_status :: int
  rr_bytesWritten :: int
  rr_out :: "wevent list"

definition newRecorder :: responseRecorder where
  "newRecorder = \<lparr>rr_status = 0, rr_bytesWritten = 0, rr_out = []\<rparr>"

definition recorder_WriteHeader :: "int \<Rightarrow> responseRecorder \<Rightarrow> responseRecorder" where
  "recorder_WriteHeader code rr =
     (let rr1 = (if rr_status rr = 0 then rr\<lparr>rr_status := code\<rparr> else rr)
      in rr1\<lparr>rr_out := rr_out rr1 @ [WStatus code]\<rparr>)"

definition recorder_Write :: "string \<Rightarrow> responseRecorder \<Rightarrow> responseRecorder" where
  "recorder_Write p rr =
     (let rr1 = (if rr_status rr = 0 then rr\<lparr>rr_status := 200\<rparr> else rr)
      in rr1\<lparr>rr_out := rr_out rr1 @ [WBytes p],
             rr_bytesWritten := rr_bytesWritten rr1 + int (length p)\<rparr>)"

fun record_writes :: "wevent list \<Rightarrow> responseRecorder \<Rightarrow> responseRecorder" where
  "record_writes [] rr = rr"
| "record_writes (WSetHeader k v # ws) rr =
     record_writes ws (rr\<lparr>rr_out := rr_out rr @ [WSetHeader k v]\<rparr>)"
| "record_writes (WStatus code # ws) rr = record_writes ws (recorder_WriteHeader code rr)"
| "record_writes (WBytes p # ws) rr = record_writes ws (recorder_Write p rr)"

record gwProblem =
  gp_Type :: string
  gp_Title :: string
  gp_Status :: int
  gp_Detail :: "string option"
  gp_Instance :: "string option"
  gp_RequestID :: "string option"

definition gwWriteProblem ::
  "(gwProblem \<Rightarrow> string) \<Rightarrow> GwRequest \<Rightarrow> int \<Rightarrow> string \<Rightarrow> string \<Rightarrow> string \<Rightarrow> wevent list" where
  "gwWriteProblem encode r status code title detail =
     [WSetHeader ''Content-Type'' problemType,
      WStatus status,
      WBytes (encode
        \<lparr>gp_Type = ''https://api.cova.example.com/errors/'' @ code, gp_Title = title,
         gp_Status = status, gp_Detail = Some detail, gp_Instance = Some (rq_Path r),
         gp_RequestID = Some (TrimSpace (getHeader ''X-Request-Id'' r))\<rparr>)]"


section \<open>The middleware\<close>

record genv =
  ge_sha256 :: "string \<Rightarrow> string"
  ge_encode :: "gwProblem \<Rightarrow> string"

text \<open>The readings of the clock while one request is served.\<close>

record readings =
  rd_RequestID :: time
  rd_Trace :: time
  rd_Start :: time
  rd_Limit :: time
  rd_Finish :: time

record rejection =
  rj_outcome :: string
  rj_retryAfter :: bool
  rj_status :: int
  rj_code :: string
  rj_title :: string
  rj_detail :: string

definition rejectAuth :: "string \<Rightarrow> rejection" where
  "rejectAuth e = \<lparr>rj_outcome = ''rejected_auth'', rj_retryAfter = False, rj_status = 401,
     rj_code = ''unauthorized'', rj_title = ''Unauthorized'', rj_detail = e\<rparr>"

definition rejectRate :: rejection where
  "rejectRate = \<lparr>rj_outcome = ''rejected_rate_limit'', rj_retryAfter = True, rj_status = 429,
     rj_code = ''rate-limit-exceeded'', rj_title = ''Too Many Requests'',
     rj_detail = ''rate limit exceeded''\<rparr>"

definition rejectInvalid :: "gwError \<Rightarrow> rejection" where
  "rejectInvalid e =
     (case e of
        ErrUnsupportedMediaType \<Rightarrow>
          \<lparr>rj_outcome = ''rejected_validation'', rj_retryAfter = False, rj_status = 415,
           rj_code = ''invalid-content-type'', rj_title = ''Invalid content type'',
           rj_detail = gwErrorText e\<rparr>
      | ErrPayloadTooLarge \<Rightarrow>
          \<lparr>rj_outcome = ''rejected_validation'', rj_retryAfter = False, rj_status = 413,
           rj_code = ''payload-too-large'', rj_title = ''Payload too large'',
           rj_detail = gwErrorText e\<rparr>
      | ErrInvalidHeader what \<Rightarrow>
          \<lparr>rj_outcome = ''rejected_validation'', rj_retryAfter = False, rj_status = 400,
           rj_code = ''invalid-request'', rj_title = ''Invalid request'',
           rj_detail = gwErrorText e\<rparr>)"

text \<open>The three checks of \<open>ServeHTTP\<close>, in its order; each may change the request or the limiter.\<close>

definition authStage :: "GwRequest \<Rightarrow> Middleware \<Rightarrow> rejection + GwRequest" where
  "authStage r m =
     (if \<not> gc_AuthEnabled (gw_cfg m) then Inr r
      else (case checkAuth m r of
              Inl e \<Rightarrow> Inl (rejectAuth e)
            | Inr p \<Rightarrow>
                (case injectTenantScope p r of
                   Inl e \<Rightarrow> Inl (rejectAuth e)
                 | Inr r' \<Rightarrow> Inr r')))"

definition limitStage :: "time \<Rightarrow> string \<Rightarrow> Middleware \<Rightarrow> bool \<times> Middleware" where
  "limitStage now clientIP m =
     (if \<not> gc_RateLimitEnabled (gw_cfg m) then (True, m)
      else (case gw_limiter m of
              None \<Rightarrow> (True, m)
            | Some l \<Rightarrow> (let (allowed, l') = Allow clientIP now l
                          in (allowed, m\<lparr>gw_limiter := Some l'\<rparr>))))"

definition admit ::
  "time \<Rightarrow> string \<Rightarrow> GwRequest \<Rightarrow> Middleware \<Rightarrow> (rejection + GwRequest) \<times> Middleware" where
  "admit now clientIP r m =
     (case authStage r m of
        Inl rej \<Rightarrow> (Inl rej, m)
      | Inr r1 \<Rightarrow>
          (let (allowed, m1) = limitStage now clientIP m
           in if \<not> allowed then (Inl rejectRate, m1)
              else (case validateRequest (gw_cfg m1) r1 of
                      Inl e \<Rightarrow> (Inl (rejectInvalid e), m1)
                    | Inr r2 \<Rightarrow> (Inr r2, m1))))"

definition rejectWrites :: "genv \<Rightarrow> GwRequest \<Rightarrow> rejection \<Rightarrow> wevent list" where
  "rejectWrites env r rej =
     (if rj_retryAfter rej then [WSetHeader ''Retry-After'' ''1''] else [])
     @ gwWriteProblem (ge_encode env) r (rj_status rej) (rj_code rej) (rj_title rej) (rj_detail rej)"

definition durationMs :: "duration \<Rightarrow> int" where
  "durationMs d = sgn d * (\<bar>d\<bar> div 1000000)"

text \<open>The deferred part: metrics and access log.\<close>

definition finish ::
  "readings \<Rightarrow> GwRequest \<Rightarrow> string \<Rightarrow> string \<Rightarrow> responseRecorder \<Rightarrow> Middleware \<Rightarrow> Middleware option" where
  "finish t r clientIP outcome rr m =
     (let status = (if rr_status rr = 0 then 200 else rr_status rr);
          finishedAt = rd_Finish t;
          dur = timeSub finishedAt (rd_Start t)
      in case Record status outcome finishedAt (gw_metrics m) of
           None \<Rightarrow> None
         | Some gm \<Rightarrow>
             (let m1 = m\<lparr>gw_metrics := gm\<rparr>
              in Some (if \<not> gc_AccessLogEnabled (gw_cfg m1) then m1
                  else m1\<lparr>gw_accessLog := gw_accessLog m1 @
                    [\<lparr>al_Timestamp = rfc3339nano finishedAt,
                      al_RequestID = TrimSpace (getHeader ''X-Request-Id'' r),
                      al_Method = rq_Method r, al_Path = rq_Path r, al_Status = status,
                      al_DurationMs = durationMs dur, al_ClientIP = clientIP,
                      al_Outcome = outcome, al_BytesWritten = rr_bytesWritten rr,
                      al_UserAgent = getHeader ''User-Agent'' r\<rparr>]\<rparr>)))"

text \<open>\<open>ServeHTTP\<close>: what reached the response writer, the state of the next handler, the middleware.\<close>

definition ServeHTTP ::
  "genv \<Rightarrow> readings \<Rightarrow> (GwRequest \<Rightarrow> 's \<Rightarrow> wevent list \<times> 's) \<Rightarrow> GwRequest \<Rightarrow> 's \<Rightarrow> Middleware
     \<Rightarrow> (responseRecorder \<times> 's \<times> Middleware) option" where
  "ServeHTTP env t next r0 s m0 =
     (let (r1, m1) = injectRequestID (rd_RequestID t) r0 m0;
          r = injectTraceparent (ge_sha256 env) (rd_Trace t) r1;
          clientIP = clientKey r;
          (verdict, m) = admit (rd_Limit t) clientIP r m1;
          (outcome, writes, s') =
            (case verdict of
               Inl rej \<Rightarrow> (rj_outcome rej, rejectWrites env r rej, s)
             | Inr r' \<Rightarrow> (let (ws, s1) = next r' s in (''forwarded'', ws, s1)));
          rr = record_writes writes newRecorder
      in case finish t r clientIP outcome rr m of
           None \<Rightarrow> None
         | Some m' \<Rightarrow> Some (rr, s', m'))"

text \<open>\<open>MetricsHandler\<close>: the status, and the snapshot it encodes.\<close>

definition GwMetricsHandler :: "time \<Rightarrow> string \<Rightarrow> Middleware \<Rightarrow> int \<times> GatewaySnapshot option" where
  "GwMetricsHandler now method m =
     (if method \<noteq> ''GET'' then (405, None) else (200, Some (Snapshot now (gw_metrics m))))"


section \<open>The command line\<close>

definition splitCSV :: "string \<Rightarrow> string list" where
  "splitCSV raw0 =
     (let raw = TrimSpace raw0
      in if raw = [] then []
         else filter (\<lambda>p. p \<noteq> []) (map TrimSpace (SplitChar (CHR '','') raw)))"

definition normalizePath :: "string \<Rightarrow> string \<Rightarrow> string" where
  "normalizePath path0 fallback =
     (let path1 = TrimSpace path0;
          path = (if path1 = [] then fallback else path1)
      in if \<not> prefix ''/'' path then ''/'' @ path else path)"

definition parseAuthBinding :: "string \<Rightarrow> AuthBinding option" where
  "parseAuthBinding item0 =
     (let item = TrimSpace item0
      in if item = [] then None
         else (case SplitN2 (CHR ''='') item of
                 [k, v] \<Rightarrow>
                   (let token = TrimSpace k; scope = TrimSpace v
                    in case SplitN2 (CHR '':'') scope of
                         [a, b] \<Rightarrow>
                           (let tenantID = TrimSpace a; projectID = TrimSpace b
                            in if token = [] \<or> tenantID = [] \<or> projectID = [] then None
                               else Some \<lparr>ab_Token = token, ab_TenantID = tenantID,
                                          ab_ProjectID = projectID\<rparr>)
                       | _ \<Rightarrow> None)
               | _ \<Rightarrow> None))"

definition parseAuthBindings :: "string \<Rightarrow> AuthBinding list" where
  "parseAuthBindings raw0 =
     (let raw = TrimSpace raw0
      in if raw = [] then []
         else List.map_filter parseAuthBinding (SplitChar (CHR '','') raw))"

end
