(* ===== verification/Gateway_Properties.thy ===== *)
theory Gateway_Properties
  imports Gateway
begin

text \<open>
  What the gateway lets through and what it answers: properties of \<open>ServeHTTP\<close>, \<open>NewHandler\<close> and
  the parsers of the command line.  The next handler that appears in the statements appends the
  request it is given to a log, so that the log shows whether and with what it was called.
\<close>

section \<open>Headers\<close>

lemma getHeader_set_same [simp]: "getHeader k (setHeader k v r) = v"
  by (simp add: getHeader_def setHeader_def)

lemma getHeader_set_other [simp]:
  "canonicalKey k \<noteq> canonicalKey k' \<Longrightarrow> getHeader k (setHeader k' v r) = getHeader k r"
  by (simp add: getHeader_def setHeader_def)

lemma setHeader_frame [simp]:
  "rq_Method (setHeader k v r) = rq_Method r" "rq_Path (setHeader k v r) = rq_Path r"
  "rq_RemoteAddr (setHeader k v r) = rq_RemoteAddr r" "rq_Body (setHeader k v r) = rq_Body r"
  "gr_ContentLength (setHeader k v r) = gr_ContentLength r"
  "gr_BodyLimit (setHeader k v r) = gr_BodyLimit r"
  by (simp_all add: setHeader_def)

lemma canonical_keys [simp]:
  "canonicalKey ''X-Request-Id'' = ''X-Request-Id''"
  "canonicalKey ''traceparent'' = ''Traceparent''"
  "canonicalKey ''X-Tenant-Id'' = ''X-Tenant-Id''"
  "canonicalKey ''X-Project-Id'' = ''X-Project-Id''"
  "canonicalKey ''Authorization'' = ''Authorization''"
  "canonicalKey ''Idempotency-Key'' = ''Idempotency-Key''"
  "canonicalKey ''Content-Type'' = ''Content-Type''"
  by (simp_all add: canonical_eval char_of_def bit_0)

lemma injectRequestID_frame [simp]:
  "canonicalKey k \<noteq> ''X-Request-Id'' \<Longrightarrow> getHeader k (fst (injectRequestID now r m)) = getHeader k r"
  "rq_Method (fst (injectRequestID now r m)) = rq_Method r"
  "rq_Path (fst (injectRequestID now r m)) = rq_Path r"
  "gr_ContentLength (fst (injectRequestID now r m)) = gr_ContentLength r"
  "gw_cfg (snd (injectRequestID now r m)) = gw_cfg m"
  "gw_authTokens (snd (injectRequestID now r m)) = gw_authTokens m"
  "gw_limiter (snd (injectRequestID now r m)) = gw_limiter m"
  "gw_metrics (snd (injectRequestID now r m)) = gw_metrics m"
  "gw_accessLog (snd (injectRequestID now r m)) = gw_accessLog m"
  by (simp_all add: injectRequestID_def Let_def)

lemma injectTraceparent_frame [simp]:
  "canonicalKey k \<noteq> ''Traceparent'' \<Longrightarrow> getHeader k (injectTraceparent sha now r) = getHeader k r"
  "rq_Method (injectTraceparent sha now r) = rq_Method r"
  "rq_Path (injectTraceparent sha now r) = rq_Path r"
  "gr_ContentLength (injectTraceparent sha now r) = gr_ContentLength r"
  by (simp_all add: injectTraceparent_def Let_def)

lemma validateRequest_frame:
  assumes "validateRequest cfg r = Inr q"
  shows "getHeader k q = getHeader k r" "rq_Method q = rq_Method r" "rq_Path q = rq_Path r"
    "rq_Header q = rq_Header r" "rq_Body q = rq_Body r"
  using assms by (auto simp: validateRequest_def Let_def getHeader_def split: if_splits)

lemma limitStage_frame [simp]:
  "gw_cfg (snd (limitStage now key m)) = gw_cfg m"
  "gw_authTokens (snd (limitStage now key m)) = gw_authTokens m"
  "gw_metrics (snd (limitStage now key m)) = gw_metrics m"
  "gw_accessLog (snd (limitStage now key m)) = gw_accessLog m"
  by (simp_all add: limitStage_def split: option.split prod.split)


section \<open>The stages\<close>

text \<open>What the authentication stage has checked of a request it passes on.\<close>

definition authorised :: "authPrincipal gomap \<Rightarrow> GwRequest \<Rightarrow> GwRequest \<Rightarrow> bool" where
  "authorised tokens r q \<longleftrightarrow>
     (\<exists>scheme token p.
        Fields (TrimSpace (getHeader ''Authorization'' r)) = [scheme, token]
        \<and> EqualFoldAscii scheme ''Bearer'' \<and> mget tokens token = Some p
        \<and> (ap_TenantID p \<noteq> [] \<or> ap_ProjectID p \<noteq> [] \<longrightarrow>
             getHeader ''X-Tenant-Id'' q = ap_TenantID p
             \<and> getHeader ''X-Project-Id'' q = ap_ProjectID p
             \<and> TrimSpace (getHeader ''X-Tenant-Id'' r) \<in> {[], ap_TenantID p}
             \<and> TrimSpace (getHeader ''X-Project-Id'' r) \<in> {[], ap_ProjectID p}))"

lemma checkAuth_Inr:
  "checkAuth m r = Inr p \<longleftrightarrow>
     (\<exists>scheme token. Fields (TrimSpace (getHeader ''Authorization'' r)) = [scheme, token]
        \<and> TrimSpace (getHeader ''Authorization'' r) \<noteq> []
        \<and> EqualFoldAscii scheme ''Bearer'' \<and> mget (gw_authTokens m) token = Some p)"
  by (auto simp: checkAuth_def Let_def split: list.splits option.splits)

lemma injectTenantScope_Inr:
  assumes "injectTenantScope p r = Inr q"
  shows "(ap_TenantID p \<noteq> [] \<or> ap_ProjectID p \<noteq> [] \<longrightarrow>
       getHeader ''X-Tenant-Id'' q = ap_TenantID p
       \<and> getHeader ''X-Project-Id'' q = ap_ProjectID p
       \<and> TrimSpace (getHeader ''X-Tenant-Id'' r) \<in> {[], ap_TenantID p}
       \<and> TrimSpace (getHeader ''X-Project-Id'' r) \<in> {[], ap_ProjectID p})"
    and "canonicalKey k \<noteq> ''X-Tenant-Id'' \<Longrightarrow> canonicalKey k \<noteq> ''X-Project-Id'' \<Longrightarrow>
       getHeader k q = getHeader k r"
    and "rq_Method q = rq_Method r" and "rq_Path q = rq_Path r" and "rq_Body q = rq_Body r"
    and "gr_ContentLength q = gr_ContentLength r"
  using assms by (auto simp: injectTenantScope_def Let_def split: if_splits)

lemma authStage_Inr:
  assumes "authStage r m = Inr q"
  shows "gc_AuthEnabled (gw_cfg m) \<Longrightarrow> authorised (gw_authTokens m) r q"
    and "canonicalKey k \<noteq> ''X-Tenant-Id'' \<Longrightarrow> canonicalKey k \<noteq> ''X-Project-Id'' \<Longrightarrow>
       getHeader k q = getHeader k r"
    and "rq_Method q = rq_Method r" and "rq_Path q = rq_Path r" and "rq_Body q = rq_Body r"
    and "gr_ContentLength q = gr_ContentLength r"
proof -
  from assms have c: "q = r \<and> \<not> gc_AuthEnabled (gw_cfg m)
      \<or> (\<exists>p. checkAuth m r = Inr p \<and> injectTenantScope p r = Inr q)"
    by (auto simp: authStage_def split: if_splits sum.splits)
  then show "gc_AuthEnabled (gw_cfg m) \<Longrightarrow> authorised (gw_authTokens m) r q"
    unfolding authorised_def checkAuth_Inr using injectTenantScope_Inr(1) by blast
  from c show "canonicalKey k \<noteq> ''X-Tenant-Id'' \<Longrightarrow> canonicalKey k \<noteq> ''X-Project-Id'' \<Longrightarrow>
       getHeader k q = getHeader k r"
    and "rq_Method q = rq_Method r" and "rq_Path q = rq_Path r" and "rq_Body q = rq_Body r"
    and "gr_ContentLength q = gr_ContentLength r"
    using injectTenantScope_Inr(2-) by blast+
qed

lemma admit_Inr:
  assumes "fst (admit now key r m) = Inr q"
  obtains r1 where "authStage r m = Inr r1" "validateRequest (gw_cfg m) r1 = Inr q"
proof -
  obtain allowed m1 where l: "limitStage now key m = (allowed, m1)" by (cases "limitStage now key m")
  have "gw_cfg m1 = gw_cfg m" using limitStage_frame(1) [of now key m] l by simp
  with assms l that show ?thesis
    by (auto simp: admit_def split: sum.splits if_splits)
qed

lemma admit_state:
  "snd (admit now key r m) = m \<or> snd (admit now key r m) = snd (limitStage now key m)"
  by (simp add: admit_def case_prod_beta split: sum.split)

lemma admit_frame [simp]:
  "gw_cfg (snd (admit now key r m)) = gw_cfg m"
  "gw_authTokens (snd (admit now key r m)) = gw_authTokens m"
  "gw_metrics (snd (admit now key r m)) = gw_metrics m"
  "gw_accessLog (snd (admit now key r m)) = gw_accessLog m"
  using admit_state [of now key r m] by (metis limitStage_frame)+

text \<open>The request as the checks see it, and what a served request leaves behind.\<close>

definition injected :: "genv \<Rightarrow> readings \<Rightarrow> GwRequest \<Rightarrow> Middleware \<Rightarrow> GwRequest" where
  "injected env t r m =
     injectTraceparent (ge_sha256 env) (rd_Trace t) (fst (injectRequestID (rd_RequestID t) r m))"

definition verdict :: "genv \<Rightarrow> readings \<Rightarrow> GwRequest \<Rightarrow> Middleware
    \<Rightarrow> (rejection + GwRequest) \<times> Middleware" where
  "verdict env t r m =
     admit (rd_Limit t) (clientKey (injected env t r m)) (injected env t r m)
       (snd (injectRequestID (rd_RequestID t) r m))"

lemma ServeHTTP_verdict:
  "ServeHTTP env t next r s m =
    (let (outcome, writes, s') =
       (case fst (verdict env t r m) of
          Inl rej \<Rightarrow> (rj_outcome rej, rejectWrites env (injected env t r m) rej, s)
        | Inr q \<Rightarrow> (let (ws, s1) = next q s in (''forwarded'', ws, s1)));
       rr = record_writes writes newRecorder
     in case finish t (injected env t r m) (clientKey (injected env t r m)) outcome rr
               (snd (verdict env t r m)) of
          None \<Rightarrow> None
        | Some m' \<Rightarrow> Some (rr, s', m'))"
  unfolding ServeHTTP_def verdict_def injected_def
  by (cases "injectRequestID (rd_RequestID t) r m") (simp only: fst_conv snd_conv case_prod_beta Let_def)

lemma ServeHTTP_rejected:
  assumes "fst (verdict env t r m) = Inl rej"
  shows "ServeHTTP env t next r s m =
    (let rr = record_writes (rejectWrites env (injected env t r m) rej) newRecorder
     in map_option (\<lambda>m'. (rr, s, m'))
          (finish t (injected env t r m) (clientKey (injected env t r m)) (rj_outcome rej) rr
            (snd (verdict env t r m))))"
  by (simp add: ServeHTTP_verdict assms Let_def map_option_case split: option.split)

lemma ServeHTTP_forwarded:
  assumes "fst (verdict env t r m) = Inr q"
  shows "ServeHTTP env t next r s m =
    (let rr = record_writes (fst (next q s)) newRecorder
     in map_option (\<lambda>m'. (rr, snd (next q s), m'))
          (finish t (injected env t r m) (clientKey (injected env t r m)) ''forwarded'' rr
            (snd (verdict env t r m))))"
  by (simp add: ServeHTTP_verdict assms Let_def map_option_case case_prod_beta split: option.split)

abbreviation logging :: "(GwRequest \<Rightarrow> wevent list) \<Rightarrow> GwRequest \<Rightarrow> GwRequest list
    \<Rightarrow> wevent list \<times> GwRequest list" where
  "logging answer \<equiv> (\<lambda>q calls. (answer q, calls @ [q]))"

lemma ServeHTTP_log:
  assumes "ServeHTTP env t (logging answer) r calls0 m = Some (rr, calls, m')"
  shows "(\<exists>rej. fst (verdict env t r m) = Inl rej \<and> calls = calls0
            \<and> rr = record_writes (rejectWrites env (injected env t r m) rej) newRecorder
            \<and> finish t (injected env t r m) (clientKey (injected env t r m)) (rj_outcome rej) rr
                 (snd (verdict env t r m)) = Some m')
    \<or> (\<exists>q. fst (verdict env t r m) = Inr q \<and> calls = calls0 @ [q]
            \<and> rr = record_writes (answer q) newRecorder
            \<and> finish t (injected env t r m) (clientKey (injected env t r m)) ''forwarded'' rr
                 (snd (verdict env t r m)) = Some m')"
proof (cases "fst (verdict env t r m)")
  case (Inl rej)
  with assms show ?thesis by (auto simp: ServeHTTP_rejected Let_def)
next
  case (Inr q)
  with assms show ?thesis by (auto simp: ServeHTTP_forwarded Let_def)
qed

lemma injected_headers [simp]:
  "canonicalKey k \<noteq> ''X-Request-Id'' \<Longrightarrow> canonicalKey k \<noteq> ''Traceparent'' \<Longrightarrow>
     getHeader k (injected env t r m) = getHeader k r"
  "rq_Method (injected env t r m) = rq_Method r" "rq_Path (injected env t r m) = rq_Path r"
  "gr_ContentLength (injected env t r m) = gr_ContentLength r"
  by (simp_all add: injected_def)

lemma verdict_Inr:
  assumes "fst (verdict env t r m) = Inr q"
  obtains r1 where "authStage (injected env t r m) (snd (injectRequestID (rd_RequestID t) r m)) = Inr r1"
    "validateRequest (gw_cfg m) r1 = Inr q"
  using assms unfolding verdict_def by (auto elim: admit_Inr)

lemma verdict_authorised:
  assumes "fst (verdict env t r m) = Inr q" "gc_AuthEnabled (gw_cfg m)"
  shows "authorised (gw_authTokens m) r q"
proof -
  from assms(1) obtain r1 where
    r1: "authStage (injected env t r m) (snd (injectRequestID (rd_RequestID t) r m)) = Inr r1"
    "validateRequest (gw_cfg m) r1 = Inr q" by (rule verdict_Inr)
  have "authorised (gw_authTokens m) (injected env t r m) r1"
    using authStage_Inr(1) [OF r1(1)] assms(2) by simp
  then show ?thesis unfolding authorised_def validateRequest_frame [OF r1(2)] by simp
qed


section \<open>Request ids and validation\<close>

lemma length_dec: "n < 10 ^ k \<Longrightarrow> 0 < k \<Longrightarrow> length (dec n) \<le> k"
proof (induction n arbitrary: k rule: dec.induct)
  case (1 n)
  show ?case
  proof (cases "n < 10")
    case True
    with 1 show ?thesis by (simp add: dec.simps [of n])
  next
    case False
    then have "k \<noteq> 1" using 1(2) by auto
    then obtain j where j: "k = Suc j" "0 < j" using 1(3) by (cases k) auto
    with 1(2) have "n div 10 < 10 ^ j" by (simp add: less_mult_imp_div_less mult.commute)
    from 1(1) [OF False this j(2)] False j(1) show ?thesis by (simp add: dec.simps [of n])
  qed
qed

lemma pad_dec_visible: "list_all visible (pad_dec w n)"
  using dec_visible [of n] by (auto simp: pad_dec_def list_all_iff visible_def)

lemma length_pad_dec: "n < 10 ^ w \<Longrightarrow> 0 < w \<Longrightarrow> length (pad_dec w n) = w"
  using length_dec [of n w] by (simp add: pad_dec_def)

text \<open>The request id that is generated has visible characters only.\<close>

lemma stamp_visible: "list_all visible (stamp_text t)"
  using pad_dec_visible
  by (simp add: stamp_text_def Let_def year_text_def case_prod_beta visible_def)

lemma generated_id:
  "TrimSpace (''gw_'' @ stamp_text now @ ''_'' @ dec n) = ''gw_'' @ stamp_text now @ ''_'' @ dec n"
  using stamp_visible [of now] dec_visible [of n] by (intro TrimSpace_visible) (simp add: visible_def)

lemma injected_request_id:
  "TrimSpace (getHeader ''X-Request-Id'' (injected env t r m)) \<noteq> []"
  using generated_id [of "rd_RequestID t" "unat (gw_seq m + 1)"]
  by (auto simp: injected_def injectRequestID_def Let_def)

lemma injected_request_id_given:
  "TrimSpace (getHeader ''X-Request-Id'' r) \<noteq> [] \<Longrightarrow>
     getHeader ''X-Request-Id'' (injected env t r m) = getHeader ''X-Request-Id'' r"
  by (simp add: injected_def injectRequestID_def)

lemma injected_traceparent: "getHeader ''traceparent'' (injected env t r m) \<noteq> []"
  by (auto simp: injected_def injectTraceparent_def Let_def)

lemma validateRequest_Inr:
  "validateRequest cfg r = Inr q \<longleftrightarrow>
     length (getHeader ''X-Request-Id'' r) \<le> 128 \<and> length (getHeader ''Idempotency-Key'' r) \<le> 256
     \<and> (if isJSONPost r
        then prefix ''application/json'' (ToLower (TrimSpace (getHeader ''Content-Type'' r)))
             \<and> gr_ContentLength r \<le> gc_MaxBodyBytes cfg
             \<and> q = r\<lparr>gr_BodyLimit := Some (gc_MaxBodyBytes cfg)\<rparr>
        else q = r)"
  by (auto simp: validateRequest_def Let_def)

lemma validateRequest_fields:
  "validateRequest cfg r = Inr q \<Longrightarrow> gr_ContentLength q = gr_ContentLength r"
  by (auto simp: validateRequest_Inr split: if_splits)


section \<open>Rejections\<close>

lemma verdict_Inl:
  assumes "fst (verdict env t r m) = Inl rej"
  shows "(\<exists>e. rej = rejectAuth e) \<or> rej = rejectRate \<or> (\<exists>e. rej = rejectInvalid e)"
  using assms by (auto simp: verdict_def admit_def authStage_def case_prod_beta Let_def
      split: sum.splits if_splits)

text \<open>The statuses a rejection can have, each with its outcome and its Retry-After header.\<close>

definition rejection_ok :: "rejection \<Rightarrow> bool" where
  "rejection_ok rej \<longleftrightarrow>
     (rj_status rej, rj_outcome rej, rj_retryAfter rej) \<in>
       {(401, ''rejected_auth'', False), (429, ''rejected_rate_limit'', True),
        (415, ''rejected_validation'', False), (413, ''rejected_validation'', False),
        (400, ''rejected_validation'', False)}"

lemma verdict_rejection:
  assumes "fst (verdict env t r m) = Inl rej"
  shows "rejection_ok rej"
  using verdict_Inl [OF assms]
proof (elim disjE exE)
  fix e assume "rej = rejectInvalid e"
  then show ?thesis by (cases e) (simp_all add: rejectInvalid_def rejection_ok_def)
qed (simp_all add: rejectAuth_def rejectRate_def rejection_ok_def)

lemma record_rejection:
  "record_writes (rejectWrites env r rej) newRecorder =
    (let out = rejectWrites env r rej; body = (case last out of WBytes p \<Rightarrow> p)
     in \<lparr>rr_status = (if rj_status rej = 0 then 200 else rj_status rej),
         rr_bytesWritten = int (length body), rr_out = out\<rparr>)"
  by (simp add: rejectWrites_def gwWriteProblem_def newRecorder_def recorder_WriteHeader_def
      recorder_Write_def Let_def)

text \<open>The outcome that goes with the status of a rejection.\<close>

definition gwOutcome :: "int \<Rightarrow> string" where
  "gwOutcome status = (if status = 401 then ''rejected_auth'' else if status = 429
     then ''rejected_rate_limit'' else ''rejected_validation'')"

lemma rejected_status:
  assumes "fst (verdict env t r m) = Inl rej"
  shows "rr_status (record_writes (rejectWrites env r' rej) newRecorder) \<in> {401, 429, 415, 413, 400}"
  using verdict_rejection [OF assms] by (auto simp: record_rejection rejection_ok_def Let_def)

text \<open>What stays as it is: of a request that is forwarded, and of the middleware.\<close>

lemma verdict_frame:
  assumes "fst (verdict env t r m) = Inr q"
  shows "rq_Method q = rq_Method r" "rq_Path q = rq_Path r"
proof -
  from assms obtain r1 where
    r1: "authStage (injected env t r m) (snd (injectRequestID (rd_RequestID t) r m)) = Inr r1"
    "validateRequest (gw_cfg m) r1 = Inr q" by (rule verdict_Inr)
  show "rq_Method q = rq_Method r" "rq_Path q = rq_Path r"
    using validateRequest_frame(2,3) [OF r1(2)] authStage_Inr(3,4) [OF r1(1)] by simp_all
qed

lemma ServeHTTP_keeps:
  assumes "ServeHTTP env t next r s m = Some (rr, s', m')"
  shows "gw_cfg m' = gw_cfg m \<and> gw_authTokens m' = gw_authTokens m"
proof -
  have "finish t r' key outcome rr' m1 = Some m2 \<Longrightarrow>
      gw_cfg m2 = gw_cfg m1 \<and> gw_authTokens m2 = gw_authTokens m1" for r' key outcome rr' m1 m2
    by (auto simp: finish_def Let_def split: option.splits if_splits)
  moreover obtain outcome rr' where
    "finish t (injected env t r m) (clientKey (injected env t r m)) outcome rr'
       (snd (verdict env t r m)) = Some m'"
    using assms by (auto simp: ServeHTTP_verdict Let_def case_prod_beta split: option.splits)
  moreover have "gw_cfg (snd (verdict env t r m)) = gw_cfg m"
    "gw_authTokens (snd (verdict env t r m)) = gw_authTokens m" by (simp_all add: verdict_def)
  ultimately show ?thesis by metis
qed

text \<open>A request is always answered, as long as the clock is past 1970.\<close>

lemma goRem_nonneg: "0 \<le> a \<Longrightarrow> 0 \<le> b \<Longrightarrow> 0 \<le> goRem a b"
  by (cases "b = 0") (auto simp: goRem_def sgn_if)

lemma finish_total: "0 \<le> unix_sec (rd_Finish t) \<Longrightarrow> \<exists>m'. finish t r key outcome rr m = Some m'"
  using goRem_nonneg [of "unix_sec (rd_Finish t)"]
  by (simp add: finish_def Record_def Let_def not_less [symmetric])

lemma ServeHTTP_total:
  assumes "0 \<le> unix_sec (rd_Finish t)"
  shows "\<exists>rr s' m'. ServeHTTP env t next r s m = Some (rr, s', m')"
proof (cases "fst (verdict env t r m)")
  case (Inl rej)
  show ?thesis
    using finish_total [OF assms, of "injected env t r m" "clientKey (injected env t r m)" "rj_outcome rej"
      "record_writes (rejectWrites env (injected env t r m) rej) newRecorder"
      "snd (verdict env t r m)"]
    by (auto simp: ServeHTTP_rejected [OF Inl] Let_def)
next
  case (Inr q)
  show ?thesis
    using finish_total [OF assms, of "injected env t r m" "clientKey (injected env t r m)" "''forwarded''"
      "record_writes (fst (next q s)) newRecorder" "snd (verdict env t r m)"]
    by (auto simp: ServeHTTP_forwarded [OF Inr] Let_def)
qed

section \<open>A gateway for the examples\<close>

definition demoConfig :: GwConfig where
  "demoConfig = \<lparr>gc_AuthEnabled = True, gc_AuthTokens = [], gc_AuthBindings =
      [\<lparr>ab_Token = '' t1 '', ab_TenantID = ''acme'', ab_ProjectID = ''p1''\<rparr>],
      gc_RateLimitEnabled = False, gc_RatePerSecond = 20, gc_RateBurst = 40,
      gc_MaxBodyBytes = 1048576, gc_AccessLogEnabled = False\<rparr>"

definition demoGateway :: Middleware where
  "demoGateway = \<lparr>gw_cfg = demoConfig,
     gw_authTokens = [(''t1'', \<lparr>ap_TenantID = ''acme'', ap_ProjectID = ''p1''\<rparr>)],
     gw_limiter = None, gw_seq = 0, gw_metrics = newGatewayMetrics 0, gw_accessLog = []\<rparr>"

definition demoHeader :: Header where
  "demoHeader = [(''Authorization'', [''Bearer t1'']), (''X-Request-Id'', [''r1'']),
     (''Content-Type'', [''application/json'']), (''Traceparent'', [''tp''])]"

definition demoPost :: GwRequest where
  "demoPost = \<lparr>rq_Method = ''POST'', rq_Path = ''/v1/assistant/jobs'', rq_Header = demoHeader,
     rq_RemoteAddr = ''10.0.0.1:5000'', rq_Body = [], gr_ContentLength = 0, gr_BodyLimit = None\<rparr>"

definition demoScoped :: GwRequest where
  "demoScoped = (setHeader ''X-Project-Id'' ''p1'' (setHeader ''X-Tenant-Id'' ''acme'' demoPost))
     \<lparr>gr_BodyLimit := Some 1048576\<rparr>"

definition demoGenv :: genv where
  "demoGenv = \<lparr>ge_sha256 = (\<lambda>s. s), ge_encode = gp_Title\<rparr>"

definition demoReadings :: readings where
  "demoReadings = \<lparr>rd_RequestID = nsPerSecond, rd_Trace = nsPerSecond, rd_Start = nsPerSecond,
     rd_Limit = nsPerSecond, rd_Finish = nsPerSecond\<rparr>"

lemma demo_new: "NewHandler True demoConfig 0 = Inr demoGateway"
  by code_simp

lemma demo_run:
  "\<exists>rr m'. ServeHTTP demoGenv demoReadings (\<lambda>q calls. ([WStatus 202], calls @ [q])) demoPost []
     demoGateway = Some (rr, [demoScoped], m') \<and> rr_status rr = 202"
proof -
  have "map_option (\<lambda>(rr, calls, m'). (rr_status rr, calls))
      (ServeHTTP demoGenv demoReadings (\<lambda>q calls. ([WStatus 202], calls @ [q])) demoPost [] demoGateway)
    = Some (202, [demoScoped])" by code_simp
  then show ?thesis by auto
qed

section \<open>Properties of a served request\<close>

text \<open>
  The gateway forwards only what it has authenticated: with authentication on, a request that
  reaches the next handler carried a bearer token of the table, and where the token is bound to a
  tenant and project, the forwarded request names exactly these, and the client's own headers
  named no others.
\<close>

theorem gateway_forwards_authorised:
  assumes "gc_AuthEnabled (gw_cfg m)"
    and "ServeHTTP env t (\<lambda>q calls. (answer q, calls @ [q])) r [] m = Some (rr, calls, m')"
    and "q \<in> set calls"
  shows "\<exists>scheme token p.
    Fields (TrimSpace (getHeader ''Authorization'' r)) = [scheme, token]
    \<and> EqualFoldAscii scheme ''Bearer'' \<and> mget (gw_authTokens m) token = Some p
    \<and> (ap_TenantID p \<noteq> [] \<or> ap_ProjectID p \<noteq> [] \<longrightarrow>
         getHeader ''X-Tenant-Id'' q = ap_TenantID p
         \<and> getHeader ''X-Project-Id'' q = ap_ProjectID p
         \<and> TrimSpace (getHeader ''X-Tenant-Id'' r) \<in> {[], ap_TenantID p}
         \<and> TrimSpace (getHeader ''X-Project-Id'' r) \<in> {[], ap_ProjectID p})"
proof -
  from ServeHTTP_log [OF assms(2)] assms(3) have "fst (verdict env t r m) = Inr q" by auto
  from verdict_authorised [OF this assms(1)] show ?thesis unfolding authorised_def .
qed

theorem gateway_forwards_authorised_witness:
  "\<exists>scheme token p.
    Fields (TrimSpace (getHeader ''Authorization'' demoPost)) = [scheme, token]
    \<and> EqualFoldAscii scheme ''Bearer'' \<and> mget (gw_authTokens demoGateway) token = Some p
    \<and> (ap_TenantID p \<noteq> [] \<or> ap_ProjectID p \<noteq> [] \<longrightarrow>
         getHeader ''X-Tenant-Id'' demoScoped = ap_TenantID p
         \<and> getHeader ''X-Project-Id'' demoScoped = ap_ProjectID p
         \<and> TrimSpace (getHeader ''X-Tenant-Id'' demoPost) \<in> {[], ap_TenantID p}
         \<and> TrimSpace (getHeader ''X-Project-Id'' demoPost) \<in> {[], ap_ProjectID p})"
proof -
  have "gc_AuthEnabled (gw_cfg demoGateway)" by (simp add: demoGateway_def demoConfig_def)
  with demo_run show ?thesis by (elim exE conjE) (rule gateway_forwards_authorised, auto)
qed

text \<open>
  What the gateway forwards is within its limits: the request has a request id of at most 128
  bytes that is not blank, a trace context, and an idempotency key of at most 256 bytes; a JSON post
  has a JSON content type, declares no more than the maximal body size and is read through that
  limit.
\<close>

theorem forwarded_request_valid:
  assumes "ServeHTTP env t (\<lambda>q calls. (answer q, calls @ [q])) r [] m = Some (rr, calls, m')"
    and "q \<in> set calls"
  shows "TrimSpace (getHeader ''X-Request-Id'' q) \<noteq> [] \<and> length (getHeader ''X-Request-Id'' q) \<le> 128
    \<and> getHeader ''traceparent'' q \<noteq> [] \<and> length (getHeader ''Idempotency-Key'' q) \<le> 256
    \<and> (isJSONPost r \<longrightarrow>
         prefix ''application/json'' (ToLower (TrimSpace (getHeader ''Content-Type'' q)))
         \<and> gr_ContentLength q \<le> gc_MaxBodyBytes (gw_cfg m)
         \<and> gr_BodyLimit q = Some (gc_MaxBodyBytes (gw_cfg m)))"
proof -
  from ServeHTTP_log [OF assms(1)] assms(2) have "fst (verdict env t r m) = Inr q" by auto
  then obtain r1 where
    r1: "authStage (injected env t r m) (snd (injectRequestID (rd_RequestID t) r m)) = Inr r1"
    "validateRequest (gw_cfg m) r1 = Inr q" by (rule verdict_Inr)
  note same = authStage_Inr(2) [OF r1(1)]
  have "isJSONPost r1 = isJSONPost r"
    using authStage_Inr(3,4) [OF r1(1)] by (simp add: isJSONPost_def)
  with r1(2) injected_request_id [of env t r m] injected_traceparent [of env t r m] show ?thesis
    unfolding validateRequest_frame(1) [OF r1(2)] validateRequest_fields [OF r1(2)]
    by (simp add: validateRequest_Inr same split: if_splits)
qed

theorem forwarded_request_valid_witness:
  "isJSONPost demoPost \<and> gr_BodyLimit demoScoped = Some 1048576
   \<and> gr_ContentLength demoScoped \<le> 1048576"
proof -
  obtain rr m' where run: "ServeHTTP demoGenv demoReadings (\<lambda>q calls. ([WStatus 202], calls @ [q]))
      demoPost [] demoGateway = Some (rr, [demoScoped], m')" using demo_run by blast
  have "isJSONPost demoPost" by (simp add: isJSONPost_def demoPost_def)
  with forwarded_request_valid [OF run, of demoScoped] show ?thesis
    by (simp add: demoGateway_def demoConfig_def)
qed

text \<open>
  The gateway answers every request in one of two ways: it calls the next handler exactly once
  and passes on what it wrote, or it does not call it and answers with a problem: 401 when
  authentication refused, 429 with a Retry-After header when the rate limit did, 415, 413 or 400
  when the validation did; and it counts the request under its outcome.
\<close>

theorem gateway_answers:
  assumes "ServeHTTP env t (\<lambda>q calls. (answer q, calls @ [q])) r [] m = Some (rr, calls, m')"
  shows "(\<exists>q. calls = [q] \<and> rr = record_writes (answer q) newRecorder
        \<and> Record (rr_status rr) ''forwarded'' (rd_Finish t) (gw_metrics m) = Some (gw_metrics m'))
    \<or> (calls = [] \<and> rr_status rr \<in> {401, 429, 415, 413, 400}
        \<and> WSetHeader ''Content-Type'' problemType \<in> set (rr_out rr)
        \<and> WStatus (rr_status rr) \<in> set (rr_out rr)
        \<and> (rr_status rr = 429 \<longleftrightarrow> WSetHeader ''Retry-After'' ''1'' \<in> set (rr_out rr))
        \<and> Record (rr_status rr) (gwOutcome (rr_status rr)) (rd_Finish t) (gw_metrics m)
            = Some (gw_metrics m'))"
proof -
  have fin: "finish t r' key outcome rr' m1 = Some m2 \<Longrightarrow>
      Record (rr_status rr') outcome (rd_Finish t) (gw_metrics m1) = Some (gw_metrics m2)"
    for r' key outcome rr' m1 m2
    by (auto simp: finish_def Let_def Record_def split: option.splits if_splits)
  have met: "gw_metrics (snd (verdict env t r m)) = gw_metrics m" by (simp add: verdict_def)
  from ServeHTTP_log [OF assms] consider
    (forward) q where "calls = [q]" "rr = record_writes (answer q) newRecorder"
      "finish t (injected env t r m) (clientKey (injected env t r m)) ''forwarded'' rr
         (snd (verdict env t r m)) = Some m'"
  | (reject) rej where "fst (verdict env t r m) = Inl rej" "calls = []"
      "rr = record_writes (rejectWrites env (injected env t r m) rej) newRecorder"
      "finish t (injected env t r m) (clientKey (injected env t r m)) (rj_outcome rej) rr
         (snd (verdict env t r m)) = Some m'" by auto
  then show ?thesis
  proof cases
    case forward
    with fin [OF forward(3)] met show ?thesis by simp
  next
    case reject
    have rej: "rejection_ok rej" using reject(1) by (rule verdict_rejection)
    then have "rj_status rej \<noteq> 0" by (auto simp: rejection_ok_def)
    then have rr: "rr_status rr = rj_status rej"
      "rr_out rr = rejectWrites env (injected env t r m) rej"
      by (simp_all add: reject(3) record_rejection Let_def)
    have "Record (rr_status rr) (rj_outcome rej) (rd_Finish t) (gw_metrics m)
        = Some (gw_metrics m')"
      using fin [OF reject(4)] met by simp
    moreover have "rj_status rej \<in> {401, 429, 415, 413, 400}"
      "rj_outcome rej = gwOutcome (rj_status rej)" "rj_status rej = 429 \<longleftrightarrow> rj_retryAfter rej"
      using rej by (auto simp: rejection_ok_def gwOutcome_def)
    ultimately show ?thesis using reject(2)
      unfolding rr by (intro disjI2) (simp add: rejectWrites_def gwWriteProblem_def)
  qed
qed

theorem gateway_answers_witness:
  "\<exists>(rr :: responseRecorder) (m' :: Middleware). rr_status rr = 202
     \<and> Record 202 ''forwarded'' nsPerSecond (newGatewayMetrics 0) = Some (gw_metrics m')"
proof -
  obtain rr m' where run: "ServeHTTP demoGenv demoReadings (\<lambda>q calls. ([WStatus 202], calls @ [q]))
      demoPost [] demoGateway = Some (rr, [demoScoped], m')" "rr_status rr = 202"
    using demo_run by blast
  with gateway_answers [OF run(1)]
  have "Record 202 ''forwarded'' nsPerSecond (newGatewayMetrics 0) = Some (gw_metrics m')"
    by (simp add: demoReadings_def demoGateway_def)
  with run(2) show ?thesis by blast
qed


section \<open>The table of tokens\<close>

definition bindingEntry :: "AuthBinding \<Rightarrow> string \<times> authPrincipal" where
  "bindingEntry b = (TrimSpace (ab_Token b),
     \<lparr>ap_TenantID = TrimSpace (ab_TenantID b), ap_ProjectID = TrimSpace (ab_ProjectID b)\<rparr>)"

lemma mget_addTokens:
  "mget (addTokens ts m) token =
    (if token \<noteq> [] \<and> token \<in> TrimSpace ` set ts
     then Some \<lparr>ap_TenantID = [], ap_ProjectID = []\<rparr> else mget m token)"
  by (induction ts arbitrary: m) (auto simp: Let_def)

lemma mget_addBindings:
  "addBindings bs m = Inr m' \<Longrightarrow>
     mget m' token = (case (if token = [] then None else map_of (rev (map bindingEntry bs)) token) of
                        Some p \<Rightarrow> Some p | None \<Rightarrow> mget m token)"
proof (induction bs arbitrary: m)
  case (Cons b bs)
  have e: "bindingEntry b = (TrimSpace (ab_Token b),
      \<lparr>ap_TenantID = TrimSpace (ab_TenantID b), ap_ProjectID = TrimSpace (ab_ProjectID b)\<rparr>)"
    by (rule bindingEntry_def)
  from Cons show ?case
    by (auto simp: Let_def e map_add_def split: if_splits option.splits)
qed simp

lemma addBindings_scopes:
  "addBindings bs m = Inr m' \<Longrightarrow> b \<in> set bs \<Longrightarrow> TrimSpace (ab_Token b) \<noteq> [] \<Longrightarrow>
     TrimSpace (ab_TenantID b) \<noteq> [] \<and> TrimSpace (ab_ProjectID b) \<noteq> []"
  by (induction bs arbitrary: m) (auto simp: Let_def split: if_splits)

lemma NewHandler_Inr:
  assumes "NewHandler g cfg start = Inr m"
  shows "addBindings (gc_AuthBindings cfg) (addTokens (gc_AuthTokens cfg) []) = Inr (gw_authTokens m)"
    and "gw_cfg m = withDefaults cfg"
    and "gw_limiter m = (if gc_RateLimitEnabled cfg
           then Some (newIPLimiter (gc_RatePerSecond (withDefaults cfg)) (gc_RateBurst (withDefaults cfg)))
           else None)"
  using assms by (auto simp: NewHandler_def withDefaults_def Let_def split: if_splits sum.splits)

text \<open>The scope of a bound token.\<close>

lemma bound_scope:
  assumes "addBindings bs m = Inr m'" "map_of (rev (map bindingEntry bs)) token = Some p" "token \<noteq> []"
  shows "ap_TenantID p \<noteq> [] \<and> ap_ProjectID p \<noteq> []
    \<and> TrimSpace (ap_TenantID p) = ap_TenantID p \<and> TrimSpace (ap_ProjectID p) = ap_ProjectID p"
proof -
  from assms(2) obtain b where "b \<in> set bs" "bindingEntry b = (token, p)"
    by (fastforce dest: map_of_SomeD)
  with addBindings_scopes [OF assms(1), of b] assms(3) show ?thesis by (auto simp: bindingEntry_def)
qed

text \<open>
  The table of bearer tokens: a middleware that was built accepts a token exactly when it is
  listed, trimmed and not blank; a binding wins over a plain listing and a later binding over an
  earlier one, a bound token carries its trimmed and non-blank tenant and project, a plain one
  no scope; and the rate limiter starts in a consistent state, whatever the configured numbers.
\<close>

theorem auth_table:
  assumes "NewHandler True cfg start = Inr m"
  shows "mget (gw_authTokens m) token =
      (if token = [] then None
       else (case map_of (rev (map bindingEntry (gc_AuthBindings cfg))) token of
               Some p \<Rightarrow> Some p
             | None \<Rightarrow> if token \<in> TrimSpace ` set (gc_AuthTokens cfg)
                       then Some \<lparr>ap_TenantID = [], ap_ProjectID = []\<rparr> else None))
    \<and> (\<forall>p. map_of (rev (map bindingEntry (gc_AuthBindings cfg))) token = Some p \<longrightarrow> token \<noteq> [] \<longrightarrow>
         ap_TenantID p \<noteq> [] \<and> ap_ProjectID p \<noteq> []
         \<and> TrimSpace (ap_TenantID p) = ap_TenantID p \<and> TrimSpace (ap_ProjectID p) = ap_ProjectID p)
    \<and> (\<forall>l. gw_limiter m = Some l \<longrightarrow> limiter_ok now l)"
proof (intro conjI)
  note new = NewHandler_Inr [OF assms]
  show "mget (gw_authTokens m) token =
      (if token = [] then None
       else (case map_of (rev (map bindingEntry (gc_AuthBindings cfg))) token of
               Some p \<Rightarrow> Some p
             | None \<Rightarrow> if token \<in> TrimSpace ` set (gc_AuthTokens cfg)
                       then Some \<lparr>ap_TenantID = [], ap_ProjectID = []\<rparr> else None))"
    using mget_addBindings [OF new(1), of token]
    by (auto simp: mget_addTokens split: option.splits)
  show "\<forall>p. map_of (rev (map bindingEntry (gc_AuthBindings cfg))) token = Some p \<longrightarrow> token \<noteq> [] \<longrightarrow>
         ap_TenantID p \<noteq> [] \<and> ap_ProjectID p \<noteq> []
         \<and> TrimSpace (ap_TenantID p) = ap_TenantID p \<and> TrimSpace (ap_ProjectID p) = ap_ProjectID p"
    using bound_scope [OF new(1)] by blast
  show "\<forall>l. gw_limiter m = Some l \<longrightarrow> limiter_ok now l"
    unfolding new(3) by (auto intro!: new_limiter_ok simp: withDefaults_def defaultRateBurst_def
        defaultRateRPS_def)
qed

theorem auth_table_witness:
  "mget (gw_authTokens demoGateway) ''t1'' = Some \<lparr>ap_TenantID = ''acme'', ap_ProjectID = ''p1''\<rparr>"
proof -
  have "bindingEntry \<lparr>ab_Token = '' t1 '', ab_TenantID = ''acme'', ab_ProjectID = ''p1''\<rparr>
    = (''t1'', \<lparr>ap_TenantID = ''acme'', ap_ProjectID = ''p1''\<rparr>)" by code_simp
  then show ?thesis
    using auth_table [OF demo_new, of "''t1''" 0] by (simp add: demoConfig_def)
qed


section \<open>The command line\<close>

definition bindingText :: "AuthBinding \<Rightarrow> string" where
  "bindingText b = ab_Token b @ ''='' @ ab_TenantID b @ '':'' @ ab_ProjectID b"

text \<open>Fields that can be written on the command line.\<close>

definition plain_binding :: "AuthBinding \<Rightarrow> bool" where
  "plain_binding b \<longleftrightarrow>
     ab_Token b \<noteq> [] \<and> ab_TenantID b \<noteq> [] \<and> ab_ProjectID b \<noteq> []
     \<and> list_all visible (ab_Token b @ ab_TenantID b @ ab_ProjectID b)
     \<and> CHR '','' \<notin> set (ab_Token b @ ab_TenantID b @ ab_ProjectID b)
     \<and> CHR ''='' \<notin> set (ab_Token b) \<and> CHR '':'' \<notin> set (ab_TenantID b)"

lemma SplitN2_at: "c \<notin> set a \<Longrightarrow> SplitN2 c (a @ c # b) = [a, b]"
proof -
  assume "c \<notin> set a"
  then have "takeWhile (\<lambda>x. x \<noteq> c) (a @ c # b) = a" "dropWhile (\<lambda>x. x \<noteq> c) (a @ c # b) = c # b"
    by (induction a) auto
  then show ?thesis by (simp add: SplitN2_def)
qed

lemma plain_binding_text:
  assumes "plain_binding b"
  shows "list_all visible (bindingText b)" "bindingText b \<noteq> []" "CHR '','' \<notin> set (bindingText b)"
    "parseAuthBinding (bindingText b) = Some b"
proof -
  from assms show v: "list_all visible (bindingText b)" and n: "bindingText b \<noteq> []"
    and "CHR '','' \<notin> set (bindingText b)"
    by (auto simp: plain_binding_def bindingText_def visible_def)
  let ?scope = "ab_TenantID b @ CHR '':'' # ab_ProjectID b"
  have t: "TrimSpace (bindingText b) = bindingText b" using v by (rule TrimSpace_visible)
  have s: "TrimSpace ?scope = ?scope" "TrimSpace (ab_Token b) = ab_Token b"
    "TrimSpace (ab_TenantID b) = ab_TenantID b" "TrimSpace (ab_ProjectID b) = ab_ProjectID b"
    using assms by (auto intro!: TrimSpace_visible simp: plain_binding_def visible_def)
  have "SplitN2 (CHR ''='') (bindingText b) = [ab_Token b, ?scope]"
    using assms SplitN2_at [of "CHR ''=''" "ab_Token b" ?scope]
    by (simp add: plain_binding_def bindingText_def)
  moreover have "SplitN2 (CHR '':'') ?scope = [ab_TenantID b, ab_ProjectID b]"
    using assms by (intro SplitN2_at) (simp add: plain_binding_def)
  ultimately show "parseAuthBinding (bindingText b) = Some b"
    using assms n by (simp add: parseAuthBinding_def t s Let_def plain_binding_def)
qed

lemma parseAuthBinding_fields:
  "parseAuthBinding item = Some b \<Longrightarrow>
     ab_Token b \<noteq> [] \<and> TrimSpace (ab_TenantID b) \<noteq> [] \<and> TrimSpace (ab_ProjectID b) \<noteq> []"
  by (auto simp: parseAuthBinding_def Let_def split: if_splits list.splits)

lemma addBindings_total:
  "(\<And>b. b \<in> set bs \<Longrightarrow> TrimSpace (ab_TenantID b) \<noteq> [] \<and> TrimSpace (ab_ProjectID b) \<noteq> []) \<Longrightarrow>
     \<exists>m'. addBindings bs m = Inr m'"
  by (induction bs arbitrary: m) (auto simp: Let_def)

lemma Join_visible:
  "(\<And>w. w \<in> set ws \<Longrightarrow> list_all visible w) \<Longrightarrow> list_all visible (Join ws '','')"
  by (induction ws "'',''" rule: Join.induct) (simp_all add: visible_def)

lemma map_filter_Some: "(\<And>b. b \<in> set bs \<Longrightarrow> f (g b) = Some b) \<Longrightarrow> List.map_filter f (map g bs) = bs"
  by (induction bs) (simp_all add: List.map_filter_simps)

text \<open>
  Bindings on the command line: printing token bindings as a comma-separated list of
  token=tenant:project and parsing it gives them back, for visible text without commas, equals
  signs in tokens and colons in tenants; and whatever the text, the bindings that come out of it
  are accepted when the table is built, so the flag can never make the start fail.
\<close>

theorem bindings_roundtrip:
  assumes "\<And>b. b \<in> set bs \<Longrightarrow> plain_binding b"
  shows "parseAuthBindings (Join (map bindingText bs) '','') = bs
    \<and> (\<exists>m'. addBindings (parseAuthBindings raw) m = Inr m')"
proof
  note printed = plain_binding_text [OF assms]
  have vis: "TrimSpace (Join (map bindingText bs) '','') = Join (map bindingText bs) '',''"
    using printed(1) by (intro TrimSpace_visible Join_visible) auto
  have "Join (map bindingText bs) '','' \<noteq> []" if "bs \<noteq> []"
    using that printed(2) by (cases bs; cases "tl bs") auto
  moreover have "SplitChar (CHR '','') (Join (map bindingText bs) '','') = map bindingText bs"
    if "bs \<noteq> []"
    using that printed(3) by (intro SplitChar_Join) auto
  moreover have "List.map_filter parseAuthBinding (map bindingText bs) = bs"
    using printed(4) by (rule map_filter_Some)
  ultimately show "parseAuthBindings (Join (map bindingText bs) '','') = bs"
    by (cases "bs = []") (simp_all add: parseAuthBindings_def vis)
  have "TrimSpace (ab_TenantID b) \<noteq> [] \<and> TrimSpace (ab_ProjectID b) \<noteq> []"
    if "b \<in> set (parseAuthBindings raw)" for b
    using that parseAuthBinding_fields
    by (auto simp: parseAuthBindings_def Let_def List.map_filter_def split: if_splits)
  then show "\<exists>m'. addBindings (parseAuthBindings raw) m = Inr m'" by (rule addBindings_total)
qed

theorem bindings_roundtrip_witness:
  "parseAuthBindings ''t1=acme:p1,t2=b:c:d'' =
     [\<lparr>ab_Token = ''t1'', ab_TenantID = ''acme'', ab_ProjectID = ''p1''\<rparr>,
      \<lparr>ab_Token = ''t2'', ab_TenantID = ''b'', ab_ProjectID = ''c:d''\<rparr>]"
proof -
  let ?bs = "[\<lparr>ab_Token = ''t1'', ab_TenantID = ''acme'', ab_ProjectID = ''p1''\<rparr>,
      \<lparr>ab_Token = ''t2'', ab_TenantID = ''b'', ab_ProjectID = ''c:d''\<rparr>]"
  have "plain_binding b" if "b \<in> set ?bs" for b
    using that by (auto simp: plain_binding_def visible_def)
  from bindings_roundtrip [of ?bs, OF this] show ?thesis by (simp add: bindingText_def)
qed

end
