(* ===== verification/Orch_Handlers.thy ===== *)
theory Orch_Handlers
  imports Orch_Demo
begin

text \<open>
  What the API handlers of the orchestrator guarantee to a caller: idempotent submission, fresh
  jobs, isolation of tenants, and answers whose status and body agree.
\<close>

section \<open>Submitting\<close>

definition submitKey :: "SubmitBriefJobParams \<Rightarrow> string" where
  "submitKey params = scopedIdempotencyKey (TrimSpace (sp_XTenantId params))
     (TrimSpace (sp_XProjectId params)) (sp_IdempotencyKey params)"

lemma submit_locked_cases:
  "SubmitBriefJob_locked d now params rid req expert h s =
     (case mget (sv_idem s) (submitKey params) of
        Some rec \<Rightarrow>
          if submitKey params = []
          then (let (j, s') = submit_create d now params req expert [] h s
                in (((StatusAccepted, BSubmit (submitResponse rid j)), Some (jb_ID j)), s'))
          else if ir_PayloadHash rec \<noteq> h
          then (((StatusConflict, BProblem (problem ''/v1/assistant/jobs'' rid
                   ''idempotency-mismatch'' ''Idempotency mismatch''
                   ''same Idempotency-Key with different payload'')), None), s)
          else (case getJob s (ir_JobID rec) of
                  None \<Rightarrow> (((StatusInternalServerError, BProblem (problem ''/v1/assistant/jobs'' rid
                     ''internal-error'' ''Internal error''
                     ''idempotency record exists without job'')), None), s)
                | Some j \<Rightarrow> (((StatusAccepted, BSubmit (submitResponse rid j)), None), s))
      | None \<Rightarrow>
          (let (j, s') = submit_create d now params req expert (submitKey params) h s
           in (((StatusAccepted, BSubmit (submitResponse rid j)), Some (jb_ID j)), s')))"
  by (auto simp: SubmitBriefJob_locked_def submitKey_def Let_def split: option.splits prod.splits)

lemma submit_new:
  assumes "SubmitBriefJob_locked d now params rid req expert h s = ((reply, Some i), s')"
  shows "i = job_id_text (sv_nextID s + 1)
    \<and> getJob s' = (getJob s)(i \<mapsto> newJob s params req expert now i)
    \<and> (submitKey params \<noteq> [] \<longrightarrow>
        mget (sv_idem s') (submitKey params) = Some \<lparr>ir_PayloadHash = h, ir_JobID = i\<rparr>)"
proof -
  from assms obtain j key where create: "submit_create d now params req expert key h s = (j, s')"
      "i = jb_ID j" "key = submitKey params"
    by (auto simp: submit_locked_cases Let_def split: option.splits if_splits prod.splits)
  with getJob_submit_create [OF create(1)] show ?thesis by (simp add: newJob_def)
qed

text \<open>
  C3. A submission is idempotent: once a request with an idempotency key has created a job, then in
  every later state the same key in the same scope with the same payload gives that job back and
  changes nothing, and with another payload is refused with 409 and changes nothing.
\<close>

theorem submit_idempotent:
  assumes "SubmitBriefJob_locked d now params rid req expert h (sy_server S) = ((reply, Some i), s1)"
    and "submitKey params \<noteq> []" and "submitKey params' = submitKey params"
    and "sy_server S1 = s1" and "orch_reach d deq S1 S2" and "server_ok s1"
    and "unat (sv_nextID s1) + (sy_submits S2 - sy_submits S1) < 2 ^ 64"
  shows "(\<exists>j. getJob (sy_server S2) i = Some j \<and> jb_ID j = i
       \<and> SubmitBriefJob_locked d now' params' rid' req' expert' h (sy_server S2)
           = (((StatusAccepted, BSubmit (submitResponse rid' j)), None), sy_server S2))
    \<and> (h' \<noteq> h \<longrightarrow> (\<exists>p. SubmitBriefJob_locked d now' params' rid' req' expert' h' (sy_server S2)
           = (((StatusConflict, BProblem p), None), sy_server S2)))"
proof -
  note new = submit_new [OF assms(1)]
  have ev: "server_ok (sy_server S2) \<and> evolves s1 (sy_server S2)"
    using reach_evolves [OF assms(5)] assms(4,6,7) by simp
  with new assms(2) have idem: "mget (sv_idem (sy_server S2)) (submitKey params)
      = Some \<lparr>ir_PayloadHash = h, ir_JobID = i\<rparr>"
    by (simp add: evolves_def)
  from new have "getJob s1 i = Some (newJob (sy_server S) params req expert now i)" by simp
  with ev obtain j where "getJob (sy_server S2) i = Some j" unfolding evolves_def by blast
  moreover from this ev have "jb_ID j = i" by (auto dest: server_ok_job simp: job_ok_def)
  ultimately show ?thesis
    using idem assms(2,3) by (auto simp: submit_locked_cases)
qed

lemma demo_submitKey: "submitKey demoParams = ''t::p::k''"
  by (simp add: submitKey_def demoParams_def)

theorem submit_idempotent_witness:
  "SubmitBriefJob_locked demoDeps 9 demoParams ''r2'' demoReq demoExpert (hex_encode ''2024-01-01'')
      demoState = (((StatusAccepted, BSubmit (submitResponse ''r2'' demoJob)), None), demoState)
   \<and> (\<exists>p. SubmitBriefJob_locked demoDeps 9 demoParams ''r2'' demoReq demoExpert
        (hex_encode ''2024-01-02'') demoState = (((StatusConflict, BProblem p), None), demoState))"
proof -
  have sub: "SubmitBriefJob_locked demoDeps 0 demoParams ''r'' demoReq demoExpert
      (hex_encode ''2024-01-01'') (sy_server demoSystem)
    = (((StatusAccepted, BSubmit (submitResponse ''r'' demoJob)), Some ''job_1''), demoState)"
    by (simp add: demoSystem_def demo_locked)
  have "hex_encode ''2024-01-02'' \<noteq> hex_encode ''2024-01-01''"
    by (simp add: hex_encode_def hex_digit_def)
  moreover have "orch_reach demoDeps tryDequeue demoSubmitted demoSubmitted" by (rule orch_reach.refl)
  ultimately show ?thesis
    using submit_idempotent [OF sub, of demoParams demoSubmitted tryDequeue demoSubmitted 9 "''r2''"
        demoReq demoExpert "hex_encode ''2024-01-02''"]
    by (simp add: demo_submitKey demoSubmitted_def)
qed




section \<open>Tenants\<close>

lemma with_scope_out:
  assumes "TrimSpace (jp_XTenantId params) \<noteq> []" "TrimSpace (jp_XProjectId params) \<noteq> []"
  shows "with_scope d reqNow now rest params k s =
    k (job_instance (jp_JobID params) rest) (normalizeRequestID reqNow (jp_XRequestId params))
      (TrimSpace (jp_XTenantId params)) (TrimSpace (jp_XProjectId params))
      (expireJobIfNeeded d now (jp_JobID params) s)"
  using assms by (simp add: with_scope_def scope_missing_def Let_def)

lemma expire_scope:
  "scopedJob (expireJobIfNeeded d now i s) i t p = None \<longleftrightarrow> scopedJob s i t p = None"
  by (auto simp: expireJobIfNeeded_def scopedJob_def jobInScope_def split: option.splits)

text \<open>What the five job operations do for a job that is not in the scope of the request.\<close>

lemma foreign_job:
  assumes "TrimSpace (jp_XTenantId params) \<noteq> []" "TrimSpace (jp_XProjectId params) \<noteq> []"
    and "\<And>j. getJob s (jp_JobID params) = Some j \<Longrightarrow> \<not> jobInScope j
           (TrimSpace (jp_XTenantId params)) (TrimSpace (jp_XProjectId params))"
  shows "GetJobStatus d rn now params s =
      (job_not_found (job_instance (jp_JobID params) []) (normalizeRequestID rn (jp_XRequestId params)),
       expireJobIfNeeded d now (jp_JobID params) s)
    \<and> GetJobResult d rn now params s =
      (job_not_found (job_instance (jp_JobID params) ''/result'')
         (normalizeRequestID rn (jp_XRequestId params)), expireJobIfNeeded d now (jp_JobID params) s)
    \<and> GetJobDeliveries d rn now params s =
      (job_not_found (job_instance (jp_JobID params) ''/deliveries'')
         (normalizeRequestID rn (jp_XRequestId params)), expireJobIfNeeded d now (jp_JobID params) s)
    \<and> CancelJob d rn now now2 params s =
      (job_not_found (job_instance (jp_JobID params) ''/cancel'')
         (normalizeRequestID rn (jp_XRequestId params)), expireJobIfNeeded d now (jp_JobID params) s)
    \<and> ReplayJob d rn now now2 params s =
      (job_not_found (job_instance (jp_JobID params) ''/replay'')
         (normalizeRequestID rn (jp_XRequestId params)), expireJobIfNeeded d now (jp_JobID params) s)"
proof -
  have "scopedJob s (jp_JobID params) (TrimSpace (jp_XTenantId params))
      (TrimSpace (jp_XProjectId params)) = None"
    using assms(3) by (auto simp: scopedJob_def split: option.splits)
  then have "scopedJob (expireJobIfNeeded d now (jp_JobID params) s) (jp_JobID params)
      (TrimSpace (jp_XTenantId params)) (TrimSpace (jp_XProjectId params)) = None"
    by (simp add: expire_scope)
  then show ?thesis
    by (simp add: GetJobStatus_def GetJobResult_def GetJobDeliveries_def CancelJob_def ReplayJob_def
        with_scope_out assms(1,2) CancelJob_locked_def ReplayJob_locked_def)
qed

text \<open>
  C7. Tenants are isolated: a request about a job outside its tenant and project gets, from each
  of the five job operations, exactly the answer a job that does not exist gets, and changes
  nothing beyond the expiry that is due anyway.
\<close>

theorem tenant_isolation:
  assumes "TrimSpace (jp_XTenantId params) \<noteq> []" "TrimSpace (jp_XProjectId params) \<noteq> []"
    and "\<And>j. getJob s (jp_JobID params) = Some j \<Longrightarrow> \<not> jobInScope j
           (TrimSpace (jp_XTenantId params)) (TrimSpace (jp_XProjectId params))"
  shows "GetJobStatus d rn now params s =
      (job_not_found (job_instance (jp_JobID params) []) (normalizeRequestID rn (jp_XRequestId params)),
       expireJobIfNeeded d now (jp_JobID params) s)
    \<and> GetJobResult d rn now params s =
      (job_not_found (job_instance (jp_JobID params) ''/result'')
         (normalizeRequestID rn (jp_XRequestId params)), expireJobIfNeeded d now (jp_JobID params) s)
    \<and> GetJobDeliveries d rn now params s =
      (job_not_found (job_instance (jp_JobID params) ''/deliveries'')
         (normalizeRequestID rn (jp_XRequestId params)), expireJobIfNeeded d now (jp_JobID params) s)
    \<and> CancelJob d rn now now2 params s =
      (job_not_found (job_instance (jp_JobID params) ''/cancel'')
         (normalizeRequestID rn (jp_XRequestId params)), expireJobIfNeeded d now (jp_JobID params) s)
    \<and> ReplayJob d rn now now2 params s =
      (job_not_found (job_instance (jp_JobID params) ''/replay'')
         (normalizeRequestID rn (jp_XRequestId params)), expireJobIfNeeded d now (jp_JobID params) s)"
  using foreign_job [OF assms] .

definition foreignParams :: JobParams where
  "foreignParams = \<lparr>jp_XRequestId = ''r'', jp_JobID = ''job_1'', jp_XTenantId = ''k'',
     jp_XProjectId = ''p''\<rparr>"

theorem tenant_isolation_witness:
  "getJob demoState ''job_1'' = Some demoJob
   \<and> fst (CancelJob demoDeps 0 0 0 foreignParams demoState)
      = job_not_found ''/v1/assistant/jobs/job_1/cancel'' ''r''"
proof -
  have "\<not> jobInScope demoJob ''k'' ''p''" by (simp add: jobInScope_def demoJob_def)
  then show ?thesis
    using tenant_isolation [of foreignParams demoState demoDeps 0 0 0]
    by (simp add: foreignParams_def job_instance_def normalizeRequestID_def)
qed


section \<open>Status codes\<close>

definition consistent_reply :: "Reply \<Rightarrow> bool" where
  "consistent_reply r \<longleftrightarrow> (case snd r of BProblem p \<Rightarrow> pb_Status p = fst r \<and> 400 \<le> fst r
     | _ \<Rightarrow> fst r = StatusOK \<or> fst r = StatusAccepted)"

lemma consistent_simps [simp]:
  "consistent_reply (bad_request inst rid detail)" "consistent_reply (job_not_found inst rid)"
  "consistent_reply (invalid_transition inst rid detail)"
  "consistent_reply (StatusAccepted, BSubmit x1)" "consistent_reply (StatusOK, BStatus x2)"
  "consistent_reply (StatusAccepted, BStatus x2)" "consistent_reply (StatusOK, BResult x3)"
  "consistent_reply (StatusOK, BDeliveries x4)" "consistent_reply (StatusOK, BQuery x5)"
  "consistent_reply (StatusOK, BExperts x6)"
  "consistent_reply (StatusConflict, BProblem (problem inst rid ''idempotency-mismatch'' tt dd))"
  "consistent_reply (StatusConflict, BProblem (problem inst rid ''result-not-ready'' tt dd))"
  "consistent_reply (StatusInternalServerError, BProblem (problem inst rid ''internal-error'' tt dd))"
  by (simp_all add: consistent_reply_def bad_request_def job_not_found_def invalid_transition_def
      problem_def inferStatus_def http_status_defs)

lemma consistent_with_scope:
  assumes "\<And>inst rid t p s'. consistent_reply (fst (k inst rid t p s'))"
  shows "consistent_reply (fst (with_scope d rn now rest params k s))"
  using assms by (simp add: with_scope_def Let_def)

lemma consistent_submit_check:
  "submit_check s params rid req = Inl reply \<Longrightarrow> consistent_reply reply"
  by (auto simp: submit_check_def Let_def split: if_splits option.splits)

lemma consistent_query_check:
  "query_check s params rid req = Inl reply \<Longrightarrow> consistent_reply reply"
  by (auto simp: query_check_def Let_def split: if_splits option.splits)

lemma consistent_submit_locked:
  "SubmitBriefJob_locked d now params rid req expert h s = ((reply, f), s') \<Longrightarrow> consistent_reply reply"
  by (auto simp: submit_locked_cases Let_def split: if_splits option.splits prod.splits)

text \<open>
  C15. Every answer of the API is consistent: a problem carries in its body the HTTP status it is
  sent with, an error status, and every other body goes with 200 or 202.
\<close>

theorem replies_consistent:
  "consistent_reply (fst (SubmitBriefJob d rn now sparams sreq s))
   \<and> consistent_reply (fst (GetJobStatus d rn now params s))
   \<and> consistent_reply (fst (GetJobResult d rn now params s))
   \<and> consistent_reply (fst (GetJobDeliveries d rn now params s))
   \<and> consistent_reply (fst (CancelJob d rn now now2 params s))
   \<and> consistent_reply (fst (ReplayJob d rn now now2 params s))
   \<and> consistent_reply (QueryExpert rn now cparams qreq s)
   \<and> consistent_reply (GetExpertCapabilities rn cparams s)"
proof (intro conjI)
  show "consistent_reply (fst (SubmitBriefJob d rn now sparams sreq s))"
    by (auto simp: SubmitBriefJob_def Let_def consistent_submit_check
        split: sum.splits option.splits prod.splits dest: consistent_submit_locked)
  show "consistent_reply (fst (GetJobStatus d rn now params s))"
    unfolding GetJobStatus_def by (rule consistent_with_scope) (simp split: option.split)
  show "consistent_reply (fst (GetJobResult d rn now params s))"
    unfolding GetJobResult_def
    by (rule consistent_with_scope) (simp split: option.split bool.split)
  show "consistent_reply (fst (GetJobDeliveries d rn now params s))"
    unfolding GetJobDeliveries_def
    by (rule consistent_with_scope) (simp split: option.split sum.split)
  show "consistent_reply (fst (CancelJob d rn now now2 params s))"
    unfolding CancelJob_def
    by (rule consistent_with_scope) (simp add: CancelJob_locked_def Let_def split: option.split)
  show "consistent_reply (fst (ReplayJob d rn now now2 params s))"
    unfolding ReplayJob_def
    by (rule consistent_with_scope)
      (auto simp: ReplayJob_locked_def Let_def split: option.split)
  show "consistent_reply (QueryExpert rn now cparams qreq s)"
    by (auto simp: QueryExpert_def Let_def consistent_query_check split: sum.splits)
  show "consistent_reply (GetExpertCapabilities rn cparams s)"
    by (simp add: GetExpertCapabilities_def Let_def)
qed



section \<open>The scope of an idempotency key\<close>

lemma colon_split:
  assumes "CHR '':'' \<notin> set a" "CHR '':'' \<notin> set b" "a @ '':'' @ x = b @ '':'' @ y"
  shows "a = b \<and> x = y"
proof -
  have "takeWhile (\<lambda>c. c \<noteq> CHR '':'') (a @ '':'' @ x) = a"
    and "takeWhile (\<lambda>c. c \<noteq> CHR '':'') (b @ '':'' @ y) = b"
    using assms(1,2) by (auto simp: takeWhile_append takeWhile_eq_all_conv)
  with assms(3) show ?thesis by (metis append_same_eq same_append_eq append_eq_append_conv)
qed

text \<open>
  Idempotency keys of different scopes do not collide when neither tenants nor projects contain
  a colon: the stored key then determines the tenant, the project and the trimmed key.
\<close>

theorem scoped_key_injective:
  assumes "CHR '':'' \<notin> set t" "CHR '':'' \<notin> set t'" "CHR '':'' \<notin> set p" "CHR '':'' \<notin> set p'"
    and "TrimSpace k \<noteq> []" and "scopedIdempotencyKey t p k = scopedIdempotencyKey t' p' k'"
  shows "t = t' \<and> p = p' \<and> TrimSpace k = TrimSpace k'"
proof -
  from assms(5,6) have "t @ '':'' @ ('':'' @ p @ '':'' @ '':'' @ TrimSpace k)
      = t' @ '':'' @ ('':'' @ p' @ '':'' @ '':'' @ TrimSpace k')"
    by (auto simp: scopedIdempotencyKey_def Let_def split: if_splits)
  from colon_split [OF assms(1,2) this] have "t = t'"
    and "p @ '':'' @ ('':'' @ TrimSpace k) = p' @ '':'' @ ('':'' @ TrimSpace k')" by simp_all
  with colon_split [OF assms(3,4) this(2)] show ?thesis by simp
qed

theorem scoped_key_injective_witness:
  "scopedIdempotencyKey ''t'' ''p'' ''k'' \<noteq> scopedIdempotencyKey ''p'' ''t'' ''k''"
  using scoped_key_injective [of "''t''" "''p''" "''p''" "''t''" "''k''" "''k''"] by auto

definition scopedParams :: "string \<Rightarrow> string \<Rightarrow> SubmitBriefJobParams" where
  "scopedParams t p = \<lparr>sp_XRequestId = ''r'', sp_IdempotencyKey = ''k'', sp_XTenantId = t,
     sp_XProjectId = p\<rparr>"

lemma scoped_words [simp]:
  "TrimSpace ''a'' = ''a''" "TrimSpace ''a::b'' = ''a::b''" "TrimSpace ''b::c'' = ''b::c''"
  "TrimSpace ''c'' = ''c''"
  by (simp_all add: TrimSpace_visible visible_def)

text \<open>
  With colons they do collide, and the lookup does not check the scope of the job it finds:
  after tenant \<open>a\<close> has submitted a request in project \<open>b::c\<close>, the same request of tenant \<open>a::b\<close> in
  project \<open>c\<close> with the same key is answered with the job of tenant \<open>a\<close>.
\<close>

theorem idempotency_crosses_tenants:
  "\<exists>s1 resp resp'.
     SubmitBriefJob demoDeps 0 0 (scopedParams ''a'' ''b::c'') demoReq demoServer
       = ((StatusAccepted, BSubmit resp), s1)
     \<and> SubmitBriefJob demoDeps 0 0 (scopedParams ''a::b'' ''c'') demoReq s1
       = ((StatusAccepted, BSubmit resp'), s1)
     \<and> sresp_TenantId resp' = ''a'' \<and> sresp_ProjectId resp' = ''b::c''
     \<and> sresp_JobId resp' = sresp_JobId resp"
proof -
  have check: "submit_check s (scopedParams t p) rid demoReq = Inr demoExpert"
    if "sv_experts s = [(''e1'', demoExpert)]" "TrimSpace t \<noteq> []" "TrimSpace p \<noteq> []" for s t p rid
    using that by (simp add: submit_check_def scopedParams_def demoReq_def scope_mismatch_def
        lookupExpert_def mget_def expertSupports_def Let_def) (simp add: demoExpert_def)
  have keys: "submitKey (scopedParams ''a'' ''b::c'') = ''a::b::c::k''"
    "submitKey (scopedParams ''a::b'' ''c'') = ''a::b::c::k''"
    by (simp_all add: submitKey_def scopedParams_def scopedIdempotencyKey_def)
  have rid: "normalizeRequestID 0 (sp_XRequestId (scopedParams t p)) = ''r''" for t p
    by (simp add: scopedParams_def normalizeRequestID_def)
  obtain j s' where create: "submit_create demoDeps 0 (scopedParams ''a'' ''b::c'') demoReq demoExpert
      ''a::b::c::k'' (hex_encode ''2024-01-01'') demoServer = (j, s')"
    by (cases "submit_create demoDeps 0 (scopedParams ''a'' ''b::c'') demoReq demoExpert
      ''a::b::c::k'' (hex_encode ''2024-01-01'') demoServer")
  note new = getJob_submit_create [OF create]
  have j: "jb_TenantID j = ''a''" "jb_ProjectID j = ''b::c''" "jb_ID j = ''job_1''"
    using new by (simp_all add: newJob_def scopedParams_def job_id_text_1)
  have date: "sreq_Date demoReq = ''2024-01-01''" by (simp add: demoReq_def)
  have first: "SubmitBriefJob demoDeps 0 0 (scopedParams ''a'' ''b::c'') demoReq demoServer
      = ((StatusAccepted, BSubmit (submitResponse ''r'' j)), enqueue demoDeps s' (jb_ID j))"
    by (simp add: SubmitBriefJob_def check submit_locked_cases keys rid date create)
  have second: "SubmitBriefJob demoDeps 0 0 (scopedParams ''a::b'' ''c'') demoReq
        (enqueue demoDeps s' (jb_ID j))
      = ((StatusAccepted, BSubmit (submitResponse ''r'' j)), enqueue demoDeps s' (jb_ID j))"
    using new j(3) by (simp add: SubmitBriefJob_def check submit_locked_cases keys rid date job_id_text_1)
  from first second j show ?thesis
    by (intro exI [of _ "enqueue demoDeps s' (jb_ID j)"] exI [of _ "submitResponse ''r'' j"])
      (simp add: submitResponse_def)
qed

end
