(* ===== verification/Orch_Http.thy ===== *)
theory Orch_Http
  imports Orch_Handlers
begin

text \<open>
  The orchestrator behind its HTTP layer: \<open>NewServer\<close> hands the server to \<open>openapi.NewHandler\<close>, and
  \<open>Server.ServeHTTP\<close> passes every request to that handler.  Here the handlers become a
  \<open>ServerInterface\<close> on the server's state; none of them returns a Go error.
\<close>

text \<open>The readings of the clock during one request.\<close>

record clocks =
  ck_request :: time
  ck_first :: time
  ck_second :: time

definition answered :: "Reply \<times> 's \<Rightarrow> impl_result \<times> 's" where
  "answered a = (case a of ((status, body), s) \<Rightarrow> (Inr (status, Some body), s))"

definition orchestratorInterface ::
  "('q, 'st) deps \<Rightarrow> clocks \<Rightarrow> ('q, 'st) Server ServerInterface" where
  "orchestratorInterface d t =
     \<lparr>si_SubmitBriefJob = (\<lambda>params req s.
        answered (SubmitBriefJob d (ck_request t) (ck_first t) params req s)),
      si_GetJobStatus = (\<lambda>params s.
        answered (GetJobStatus d (ck_request t) (ck_first t) params s)),
      si_GetJobResult = (\<lambda>params s.
        answered (GetJobResult d (ck_request t) (ck_first t) params s)),
      si_GetJobDeliveries = (\<lambda>params s.
        answered (GetJobDeliveries d (ck_request t) (ck_first t) params s)),
      si_CancelJob = (\<lambda>params s.
        answered (CancelJob d (ck_request t) (ck_first t) (ck_second t) params s)),
      si_ReplayJob = (\<lambda>params s.
        answered (ReplayJob d (ck_request t) (ck_first t) (ck_second t) params s)),
      si_QueryExpert = (\<lambda>params req s.
        answered (QueryExpert (ck_request t) (ck_first t) params req s, s)),
      si_GetExpertCapabilities = (\<lambda>params s.
        answered (GetExpertCapabilities (ck_request t) params s, s))\<rparr>"

definition Server_ServeHTTP ::
  "('q, 'st) deps \<Rightarrow> clocks \<Rightarrow> decoders \<Rightarrow> Request \<Rightarrow> ('q, 'st) Server \<Rightarrow> Response \<times> ('q, 'st) Server"
where
  "Server_ServeHTTP d t dc r s = Handler_ServeHTTP (orchestratorInterface d t) dc r s"

text \<open>The resources of a job, with the methods that reach them.\<close>

definition jobResources :: "(string \<times> string) list" where
  "jobResources = [(''GET'', ''''), (''GET'', ''/result''), (''GET'', ''/deliveries''),
     (''POST'', ''/cancel''), (''POST'', ''/replay'')]"

lemma jobParams_simps [simp]:
  "jp_JobID (jobParams r [(''job_id'', job)]) = job"
  "jp_XRequestId (jobParams r ps) = header_trim r ''X-Request-Id''"
  "jp_XTenantId (jobParams r ps) = header_trim r ''X-Tenant-Id''"
  "jp_XProjectId (jobParams r ps) = header_trim r ''X-Project-Id''"
  by (simp_all add: jobParams_def paramOf_def mget_def)

lemma header_trim_idem [simp]: "TrimSpace (header_trim r k) = header_trim r k"
  by (simp add: header_trim_def)

text \<open>Over HTTP, too, a job of another scope looks like a job that does not exist.\<close>

lemma foreign_job_http:
  assumes "(rq_Method r, rest) \<in> set jobResources" and "rq_Path r = ''/v1/assistant/jobs/'' @ job @ rest"
    and "job \<noteq> []" "CHR ''/'' \<notin> set job"
    and "header_trim r ''X-Tenant-Id'' \<noteq> []" "header_trim r ''X-Project-Id'' \<noteq> []"
    and "\<And>j. getJob s job = Some j \<Longrightarrow>
      \<not> jobInScope j (header_trim r ''X-Tenant-Id'') (header_trim r ''X-Project-Id'')"
  shows "Server_ServeHTTP d t dc r s =
    (let reply = job_not_found (job_instance job rest)
                   (normalizeRequestID (ck_request t) (header_trim r ''X-Request-Id''))
     in (writeResponse (fst reply) (Some (snd reply)), expireJobIfNeeded d (ck_first t) job s))"
proof -
  let ?p = "jobParams r [(''job_id'', job)]"
  have f: "GetJobStatus d rn n1 ?p s = (job_not_found (job_instance job [])
        (normalizeRequestID rn (header_trim r ''X-Request-Id'')), expireJobIfNeeded d n1 job s)"
      "GetJobResult d rn n1 ?p s = (job_not_found (job_instance job ''/result'')
        (normalizeRequestID rn (header_trim r ''X-Request-Id'')), expireJobIfNeeded d n1 job s)"
      "GetJobDeliveries d rn n1 ?p s = (job_not_found (job_instance job ''/deliveries'')
        (normalizeRequestID rn (header_trim r ''X-Request-Id'')), expireJobIfNeeded d n1 job s)"
      "CancelJob d rn n1 n2 ?p s = (job_not_found (job_instance job ''/cancel'')
        (normalizeRequestID rn (header_trim r ''X-Request-Id'')), expireJobIfNeeded d n1 job s)"
      "ReplayJob d rn n1 n2 ?p s = (job_not_found (job_instance job ''/replay'')
        (normalizeRequestID rn (header_trim r ''X-Request-Id'')), expireJobIfNeeded d n1 job s)"
    for rn n1 n2
    using foreign_job [of ?p s d rn n1 n2] assms(5-7) by simp_all
  note routes = find_route_parts [OF assms(3,4), simplified]
  show ?thesis
    using assms(1,2)
    by (auto simp: jobResources_def Server_ServeHTTP_def Handler_ServeHTTP_def routes dispatch_def dispatch_branches
        orchestratorInterface_def f answered_def respond_def Let_def split: prod.splits)
qed

end
