(* ===== verification/Gateway_Backend.thy ===== *)
theory Gateway_Backend
  imports Gateway_Properties Orch_Http
begin

text \<open>
  The orchestrator behind the gateway: what the command of the gateway (\<open>cmd/gateway/main.go\<close>) puts
  behind the middleware, and what is documented of the reverse proxy it uses.
\<close>

text \<open>
  The next handler of the gateway is the reverse proxy to the orchestrator
  (\<open>cmd/gateway/main.go\<close>): \<open>proxy\<close> is the request the proxy sends, \<open>writes\<close> what it writes for the
  response that comes back.
\<close>

definition gatewayBackend ::
  "(GwRequest \<Rightarrow> Request) \<Rightarrow> (Response \<Rightarrow> wevent list) \<Rightarrow> ('q, 'st) deps \<Rightarrow> clocks \<Rightarrow> decoders \<Rightarrow>
   GwRequest \<Rightarrow> ('q, 'st) Server \<Rightarrow> wevent list \<times> ('q, 'st) Server" where
  "gatewayBackend proxy writes d ck dc q s =
     (let (resp, s') = Server_ServeHTTP d ck dc (proxy q) s in (writes resp, s'))"

text \<open>What is documented of \<open>httputil.ReverseProxy\<close>: method, path and end-to-end headers are kept.\<close>

definition faithful_proxy :: "(GwRequest \<Rightarrow> Request) \<Rightarrow> bool" where
  "faithful_proxy proxy \<longleftrightarrow>
     (\<forall>q. rq_Method (proxy q) = rq_Method q \<and> rq_Path (proxy q) = rq_Path q
        \<and> hGet (rq_Header (proxy q)) ''X-Tenant-Id'' = getHeader ''X-Tenant-Id'' q
        \<and> hGet (rq_Header (proxy q)) ''X-Project-Id'' = getHeader ''X-Project-Id'' q)"

text \<open>The parts of a request the orchestrator reads, all of which the proxy passes on.\<close>

definition transparent_proxy :: "(GwRequest \<Rightarrow> Request) \<Rightarrow> bool" where
  "transparent_proxy proxy \<longleftrightarrow> faithful_proxy proxy
     \<and> (\<forall>q. rq_Body (proxy q) = rq_Body q
        \<and> hGet (rq_Header (proxy q)) ''X-Request-Id'' = getHeader ''X-Request-Id'' q
        \<and> hGet (rq_Header (proxy q)) ''Idempotency-Key'' = getHeader ''Idempotency-Key'' q)"

text \<open>The response as the proxy copies it, \<open>enc\<close> the bytes of its body.\<close>

definition copyResponse :: "(payload \<Rightarrow> string) \<Rightarrow> Response \<Rightarrow> wevent list" where
  "copyResponse enc resp =
     (case rs_ContentType resp of None \<Rightarrow> [] | Some t \<Rightarrow> [WSetHeader ''Content-Type'' t])
     @ [WStatus (rs_Status resp), WBytes (enc (rs_Payload resp))]"

text \<open>The bytes that reached the writer.\<close>

definition written :: "wevent list \<Rightarrow> string" where
  "written ws = concat (map (\<lambda>w. case w of WBytes p \<Rightarrow> p | _ \<Rightarrow> []) ws)"

lemma record_copyResponse:
  "rs_Status resp \<noteq> 0 \<Longrightarrow> rr_status (record_writes (copyResponse enc resp) newRecorder) = rs_Status resp"
  "written (rr_out (record_writes (copyResponse enc resp) newRecorder)) = enc (rs_Payload resp)"
  by (simp_all add: copyResponse_def newRecorder_def recorder_WriteHeader_def recorder_Write_def
      written_def Let_def split: option.split)

lemma transparent_truncate: "transparent_proxy Request.truncate"
  by (simp add: transparent_proxy_def faithful_proxy_def Request.truncate_def getHeader_def)

end
