(* ===== verification/Go_Path.thy ===== *)
theory Go_Path
  imports Go_Strings
begin

text \<open>
  The part of Go's \<open>path/filepath\<close> package (on Unix) that resolves the paths named in the
  registries: \<open>IsAbs\<close>, \<open>Clean\<close>, \<open>Dir\<close> and \<open>Join\<close>, with the shape of a cleaned path.
\<close>

abbreviation (input) slash :: char where "slash \<equiv> CHR ''/''"

definition IsAbs :: "string \<Rightarrow> bool" where
  "IsAbs p = prefix [slash] p"

text \<open>
  \<open>Clean\<close> goes through the elements of a path; the elements kept so far are on a stack, the last
  on top.
\<close>

definition clean_step :: "bool \<Rightarrow> string list \<Rightarrow> string \<Rightarrow> string list" where
  "clean_step rooted acc e =
     (if e = [] \<or> e = ''.'' then acc
      else if e = ''..'' then
        (case acc of
           [] \<Rightarrow> (if rooted then [] else [''..''])
         | d # ds \<Rightarrow> if d = ''..'' then ''..'' # acc else ds)
      else e # acc)"

definition clean_elems :: "string \<Rightarrow> string list" where
  "clean_elems p = rev (foldl (clean_step (IsAbs p)) [] (SplitChar slash p))"

definition path_text :: "bool \<Rightarrow> string list \<Rightarrow> string" where
  "path_text rooted es =
     (if rooted then slash # Join es [slash] else if es = [] then ''.'' else Join es [slash])"

definition Clean :: "string \<Rightarrow> string" where
  "Clean p = path_text (IsAbs p) (clean_elems p)"

text \<open>\<open>Dir\<close>: the path up to its last slash; \<open>Join\<close> of two elements.\<close>

definition Dir :: "string \<Rightarrow> string" where
  "Dir p = Clean (rev (dropWhile (\<lambda>c. c \<noteq> slash) (rev p)))"

definition JoinPath :: "string \<Rightarrow> string \<Rightarrow> string" where
  "JoinPath a b = (if a \<noteq> [] then Clean (a @ [slash] @ b) else if b \<noteq> [] then Clean b else [])"


section \<open>The shape of a cleaned path\<close>

text \<open>
  The elements of a cleaned path: none is empty, a dot or has a slash, and the dot-dots are at the
  front, none if the path is absolute.
\<close>

definition proper_elem :: "string \<Rightarrow> bool" where
  "proper_elem e \<longleftrightarrow> e \<noteq> [] \<and> e \<noteq> ''.'' \<and> e \<noteq> ''..'' \<and> slash \<notin> set e"

fun clean_shape :: "bool \<Rightarrow> string list \<Rightarrow> bool" where
  "clean_shape rooted [] = True"
| "clean_shape rooted (e # es) =
     (if e = ''..'' then \<not> rooted \<and> clean_shape rooted es
      else proper_elem e \<and> list_all proper_elem es)"

lemma clean_shape_proper: "list_all proper_elem es \<Longrightarrow> clean_shape rooted es"
  by (cases es) (auto simp: proper_elem_def)

lemma clean_shape_snoc:
  "clean_shape rooted es \<Longrightarrow> proper_elem e \<Longrightarrow> clean_shape rooted (es @ [e])"
  by (induction es) (auto simp: proper_elem_def)

lemma clean_shape_snoc_up:
  "clean_shape False (es @ [''..'']) \<Longrightarrow> clean_shape False (es @ [''..'', ''..''])"
  by (induction es) (auto simp: proper_elem_def split: if_splits)

lemma clean_shape_butlast: "clean_shape rooted (es @ [e]) \<Longrightarrow> clean_shape rooted es"
  by (induction es) (auto split: if_splits)

lemma clean_shape_up_not_rooted:
  "clean_shape rooted es \<Longrightarrow> ''..'' \<in> set es \<Longrightarrow> \<not> rooted"
  by (induction es) (auto simp: proper_elem_def list_all_iff split: if_splits)

lemma clean_step_shape:
  assumes "clean_shape rooted (rev acc)" and "slash \<notin> set e"
  shows "clean_shape rooted (rev (clean_step rooted acc e))"
proof (cases acc)
  case Nil
  with assms show ?thesis by (auto simp: clean_step_def proper_elem_def)
next
  case (Cons d ds)
  then have "d = ''..'' \<Longrightarrow> \<not> rooted"
    using clean_shape_up_not_rooted [OF assms(1)] by simp
  with assms Cons clean_shape_snoc_up [of "rev ds"] clean_shape_butlast [of rooted "rev ds" d]
    clean_shape_snoc [of rooted "rev ds @ [d]" e]
  show ?thesis by (auto simp: clean_step_def proper_elem_def)
qed

lemma clean_fold_shape:
  "clean_shape rooted (rev acc) \<Longrightarrow> \<forall>e\<in>set es. slash \<notin> set e \<Longrightarrow>
     clean_shape rooted (rev (foldl (clean_step rooted) acc es))"
  by (induction es arbitrary: acc) (simp_all add: clean_step_shape)

lemma clean_elems_shape: "clean_shape (IsAbs p) (clean_elems p)"
  unfolding clean_elems_def
  by (rule clean_fold_shape) (auto dest: SplitChar_parts)

text \<open>Folding over elements that have this shape keeps them.\<close>

lemma clean_shape_elem:
  "clean_shape rooted es \<Longrightarrow> e \<in> set es \<Longrightarrow> e \<noteq> [] \<and> e \<noteq> ''.'' \<and> slash \<notin> set e"
  by (induction es) (auto simp: proper_elem_def list_all_iff split: if_splits)

lemma clean_shape_before_up:
  "clean_shape rooted (es @ [''..'']) \<Longrightarrow> d \<in> set es \<Longrightarrow> d = ''..''"
  by (induction es) (auto simp: proper_elem_def split: if_splits)

lemma clean_step_keeps:
  assumes shape: "clean_shape rooted (rev acc @ [e])"
  shows "clean_step rooted acc e = e # acc"
proof (cases "e = ''..''")
  case up: True
  with clean_shape_up_not_rooted [OF shape] have "\<not> rooted" by simp
  moreover have "acc = d # ds \<Longrightarrow> d = ''..''" for d ds
    using shape up clean_shape_before_up [of rooted "rev acc" d] by simp
  ultimately show ?thesis using up by (cases acc) (simp_all add: clean_step_def)
next
  case False
  with clean_shape_elem [OF shape, of e] show ?thesis by (simp add: clean_step_def)
qed

lemma clean_fold_keeps:
  "clean_shape rooted (rev acc @ es) \<Longrightarrow> foldl (clean_step rooted) acc es = rev es @ acc"
proof (induction es arbitrary: acc)
  case (Cons e es)
  have prefix: "clean_shape rooted (xs @ ys) \<Longrightarrow> clean_shape rooted xs" for xs ys
    by (induction xs) (auto split: if_splits)
  from Cons.prems prefix [of "rev acc @ [e]" es] have "clean_step rooted acc e = e # acc"
    by (intro clean_step_keeps) simp
  with Cons.IH [of "e # acc"] Cons.prems show ?case by simp
qed simp

lemma Join_hd:
  "es \<noteq> [] \<Longrightarrow> hd es \<noteq> [] \<Longrightarrow> hd (Join es sep) = hd (hd es)"
  by (cases "(es, sep)" rule: Join.cases) auto

lemma IsAbs_path_text: "clean_shape rooted es \<Longrightarrow> IsAbs (path_text rooted es) = rooted"
proof (cases "rooted \<or> es = []")
  case False
  assume "clean_shape rooted es"
  with False have e: "hd es \<noteq> []" "slash \<notin> set (hd es)"
    using clean_shape_elem [of rooted es "hd es"] by auto
  then have "hd (hd es) \<noteq> slash" by (cases "hd es") auto
  with False e Join_hd [of es "[slash]"] show ?thesis
    by (cases "Join es [slash]") (auto simp: IsAbs_def path_text_def)
qed (auto simp: IsAbs_def path_text_def)

lemma clean_elems_path_text:
  assumes "clean_shape rooted es"
  shows "clean_elems (path_text rooted es) = es"
proof -
  have split: "es \<noteq> [] \<Longrightarrow> SplitChar slash (Join es [slash]) = es"
    using clean_shape_elem [OF assms] by (intro SplitChar_Join) auto
  have dot: "SplitChar slash ''.'' = [''.'']" by simp
  have fold: "foldl (clean_step rooted) [] es = rev es"
    using clean_fold_keeps [of rooted "[]" es] assms by simp
  have skip: "clean_step rooted [] [] = []" "clean_step rooted [] ''.'' = []"
    by (simp_all add: clean_step_def)
  show ?thesis
  proof (cases "es = []")
    case True
    with IsAbs_path_text [OF assms] skip show ?thesis
      by (auto simp: clean_elems_def path_text_def dot)
  next
    case False
    with IsAbs_path_text [OF assms] split fold skip show ?thesis
      by (auto simp: clean_elems_def path_text_def)
  qed
qed

lemma Clean_idem [simp]: "Clean (Clean p) = Clean p"
  using IsAbs_path_text [OF clean_elems_shape [of p]] clean_elems_path_text [OF clean_elems_shape [of p]]
  by (simp add: Clean_def)

lemma IsAbs_Clean [simp]: "IsAbs (Clean p) = IsAbs p"
  by (simp add: Clean_def IsAbs_path_text clean_elems_shape)

lemma clean_elems_Clean [simp]: "clean_elems (Clean p) = clean_elems p"
  by (simp add: Clean_def clean_elems_path_text clean_elems_shape)

lemma Clean_nonempty [simp]: "Clean p \<noteq> []"
proof -
  have "es \<noteq> [] \<Longrightarrow> hd es \<noteq> [] \<Longrightarrow> Join es [slash] \<noteq> []" for es
    by (cases "(es, [slash])" rule: Join.cases) auto
  with clean_shape_elem [OF clean_elems_shape [of p], of "hd (clean_elems p)"] show ?thesis
    by (auto simp: Clean_def path_text_def)
qed

lemma Dir_nonempty [simp]: "Dir p \<noteq> []"
  by (simp add: Dir_def)

lemmas path_eval = Clean_def Dir_def JoinPath_def IsAbs_def path_text_def clean_elems_def clean_step_def

end
