(* ===== verification/Expert_Registry.thy ===== *)
theory Expert_Registry
  imports Go_Path Go_Maps
begin

text \<open>
  The expert registry (\<open>internal/registry\<close>): the registry file and the definition files of the
  experts, the line parsers of the two (a subset of YAML), the validation of what they give, and
  \<open>LoadSnapshot\<close>, which loads the registry with the definitions of its enabled experts.

  Reading a file is a parameter: a function from a path to an error or the file's bytes.  An error
  is a value that holds what the code formats into its message; a validation error is the list of
  the violations in the order in which the code reports them.
\<close>

section \<open>Data\<close>

record RegistryRef =
  xr_ExpertID :: string
  xr_ConfigPath :: string
  xr_Enabled :: bool

record Registry =
  xg_APIVersion :: string
  xg_Kind :: string
  xg_Experts :: "RegistryRef list"

definition EnabledExperts :: "Registry \<Rightarrow> RegistryRef list" where
  "EnabledExperts r = filter xr_Enabled (xg_Experts r)"

record ExpertMetadata =
  xm_ExpertID :: string
  xm_ExpertName :: string
  xm_ExpertType :: string
  xm_Version :: string
  xm_Owner :: string
  xm_Description :: string

record ExpertRouting =
  xo_Priority :: int
  xo_Tags :: "string list"

record ExpertRuntime =
  xt_Mode :: string
  xt_Entrypoint :: string
  xt_TimeoutSeconds :: int
  xt_MaxConcurrency :: int

record ExpertInputs =
  xi_Accepts :: "string list"

record ExpertOutputs =
  xu_ResultSchema :: string
  xu_EvidenceMode :: string

record ExpertSpec =
  xs_Enabled :: bool
  xs_Capabilities :: "string list"
  xs_Routing :: ExpertRouting
  xs_Runtime :: ExpertRuntime
  xs_Inputs :: ExpertInputs
  xs_Outputs :: ExpertOutputs

record ExpertDefinition =
  xd_APIVersion :: string
  xd_Kind :: string
  xd_Metadata :: ExpertMetadata
  xd_Spec :: ExpertSpec

record LoadedExpert =
  le_Ref :: RegistryRef
  le_ConfigPath :: string
  le_Definition :: ExpertDefinition

record RegistrySnapshot =
  sn_Registry :: Registry
  sn_Experts :: "LoadedExpert list"

text \<open>The zero values of the structs.\<close>

definition noRef :: RegistryRef where
  "noRef = \<lparr>xr_ExpertID = [], xr_ConfigPath = [], xr_Enabled = False\<rparr>"

definition noRegistry :: Registry where
  "noRegistry = \<lparr>xg_APIVersion = [], xg_Kind = [], xg_Experts = []\<rparr>"

definition noDefinition :: ExpertDefinition where
  "noDefinition = \<lparr>xd_APIVersion = [], xd_Kind = [],
     xd_Metadata = \<lparr>xm_ExpertID = [], xm_ExpertName = [], xm_ExpertType = [], xm_Version = [],
       xm_Owner = [], xm_Description = []\<rparr>,
     xd_Spec = \<lparr>xs_Enabled = False, xs_Capabilities = [],
       xs_Routing = \<lparr>xo_Priority = 0, xo_Tags = []\<rparr>,
       xs_Runtime = \<lparr>xt_Mode = [], xt_Entrypoint = [], xt_TimeoutSeconds = 0, xt_MaxConcurrency = 0\<rparr>,
       xs_Inputs = \<lparr>xi_Accepts = []\<rparr>,
       xs_Outputs = \<lparr>xu_ResultSchema = [], xu_EvidenceMode = []\<rparr>\<rparr>\<rparr>"

text \<open>Errors: of a line, of validation, of loading.\<close>

datatype line_error = NotASequence | FieldBeforeItem | InvalidField string | InvalidEnabled string

datatype violation =
    BadAPIVersion | BadKind | NoExperts | IDRequired nat | IDDuplicated nat string
  | PathRequired nat | FieldRequired string | BadVersion | NoCapabilities | EmptyCapability nat
  | UnsupportedCapability nat string | BadTimeout | BadConcurrency | NoAccepts | BadEvidenceMode

datatype 'e registry_error =
    ReadRegistry string 'e
  | DecodeRegistry string nat line_error
  | ReadDefinition string 'e
  | Invalid "violation list"
  | InExpert nat string "'e registry_error"
  | IDMismatch nat string string

fun IsValidationError :: "'e registry_error \<Rightarrow> bool" where
  "IsValidationError (Invalid vs) = True"
| "IsValidationError (InExpert i x e) = IsValidationError e"
| "IsValidationError _ = False"


section \<open>Lines\<close>

text \<open>Inside single quotes, inside double quotes.\<close>

fun strip_from :: "bool \<Rightarrow> bool \<Rightarrow> string \<Rightarrow> string" where
  "strip_from inSingle inDouble [] = []"
| "strip_from inSingle inDouble (c # cs) =
     (if c = CHR 0x27 then c # strip_from (if inDouble then inSingle else \<not> inSingle) inDouble cs
      else if c = CHR 0x22 then c # strip_from inSingle (if inSingle then inDouble else \<not> inDouble) cs
      else if c = CHR ''#'' \<and> \<not> inSingle \<and> \<not> inDouble then []
      else c # strip_from inSingle inDouble cs)"

definition stripInlineComment :: "string \<Rightarrow> string" where
  "stripInlineComment line = strip_from False False line"

definition leadingSpaces :: "string \<Rightarrow> nat" where
  "leadingSpaces line = length (takeWhile (\<lambda>c. c = CHR '' '') line)"

definition unquoteYAMLScalar :: "string \<Rightarrow> string" where
  "unquoteYAMLScalar value =
     (let v = TrimSpace value
      in if 2 \<le> length v \<and>
            (hd v = CHR 0x22 \<and> last v = CHR 0x22 \<or> hd v = CHR 0x27 \<and> last v = CHR 0x27)
         then butlast (tl v) else v)"

definition splitYAMLKeyValue :: "string \<Rightarrow> (string \<times> string) option" where
  "splitYAMLKeyValue line =
     (case IndexChar (CHR '':'') line of
        None \<Rightarrow> None
      | Some colon \<Rightarrow>
          if colon = 0 then None
          else (let key = TrimSpace (take colon line); value = TrimSpace (drop (colon + 1) line)
                in if key = [] then None else Some (key, unquoteYAMLScalar value)))"


section \<open>The registry file\<close>

definition applyRegistryItemField :: "RegistryRef \<Rightarrow> string \<Rightarrow> line_error + RegistryRef" where
  "applyRegistryItemField item line =
     (case splitYAMLKeyValue line of
        None \<Rightarrow> Inl (InvalidField line)
      | Some (key, value) \<Rightarrow>
          if key = ''expert_id'' then Inr (item\<lparr>xr_ExpertID := value\<rparr>)
          else if key = ''config_path'' then Inr (item\<lparr>xr_ConfigPath := value\<rparr>)
          else if key = ''enabled'' then
            (case ParseBool (ToLower value) of
               None \<Rightarrow> Inl (InvalidEnabled value)
             | Some b \<Rightarrow> Inr (item\<lparr>xr_Enabled := b\<rparr>))
          else Inr item)"

text \<open>The variables of the parse loop: \<open>out\<close>, \<open>inExperts\<close> and \<open>current\<close>.\<close>

record registry_scan =
  xp_out :: Registry
  xp_inExperts :: bool
  xp_current :: "RegistryRef option"

definition flushCurrent :: "registry_scan \<Rightarrow> Registry" where
  "flushCurrent st =
     (case xp_current st of
        None \<Rightarrow> xp_out st
      | Some item \<Rightarrow> (xp_out st)\<lparr>xg_Experts := xg_Experts (xp_out st) @ [item]\<rparr>)"

definition registryTopLine :: "string \<Rightarrow> registry_scan \<Rightarrow> line_error + registry_scan" where
  "registryTopLine trimmed st =
     (let st1 = st\<lparr>xp_inExperts := False\<rparr>; out = xp_out st
      in case splitYAMLKeyValue trimmed of
           None \<Rightarrow> Inr st1
         | Some (key, value) \<Rightarrow>
             if key = ''api_version'' then Inr (st1\<lparr>xp_out := out\<lparr>xg_APIVersion := value\<rparr>\<rparr>)
             else if key = ''kind'' then Inr (st1\<lparr>xp_out := out\<lparr>xg_Kind := value\<rparr>\<rparr>)
             else if key = ''experts'' then
               (if value \<noteq> [] then Inl NotASequence else Inr (st1\<lparr>xp_inExperts := True\<rparr>))
             else Inr st1)"

definition registryItemLine :: "string \<Rightarrow> registry_scan \<Rightarrow> line_error + registry_scan" where
  "registryItemLine trimmed st =
     (if prefix ''- '' trimmed then
        (let st1 = st\<lparr>xp_out := flushCurrent st, xp_current := Some noRef\<rparr>;
             rest = TrimSpace (TrimPrefix trimmed ''- '')
         in if rest = [] then Inr st1
            else map_sum id (\<lambda>item. st1\<lparr>xp_current := Some item\<rparr>)
                   (applyRegistryItemField noRef rest))
      else (case xp_current st of
              None \<Rightarrow> Inl FieldBeforeItem
            | Some item \<Rightarrow> map_sum id (\<lambda>item'. st\<lparr>xp_current := Some item'\<rparr>)
                             (applyRegistryItemField item trimmed)))"

definition registryLine :: "string \<Rightarrow> registry_scan \<Rightarrow> line_error + registry_scan" where
  "registryLine line st =
     (let trimmed = TrimSpace (stripInlineComment line)
      in if trimmed = [] then Inr st
         else if leadingSpaces line = 0 then registryTopLine trimmed st
         else if \<not> xp_inExperts st then Inr st
         else registryItemLine trimmed st)"

text \<open>An error has the number of its line.\<close>

fun registryLines :: "nat \<Rightarrow> string list \<Rightarrow> registry_scan \<Rightarrow> nat \<times> line_error + registry_scan" where
  "registryLines lineNo [] st = Inr st"
| "registryLines lineNo (line # rest) st =
     (case registryLine line st of
        Inl e \<Rightarrow> Inl (lineNo + 1, e)
      | Inr st' \<Rightarrow> registryLines (lineNo + 1) rest st')"

definition newline :: char where "newline = CHR 0x0A"

definition parseRegistry :: "string \<Rightarrow> nat \<times> line_error + Registry" where
  "parseRegistry raw =
     map_sum id flushCurrent (registryLines 0 (SplitChar newline raw)
       \<lparr>xp_out = noRegistry, xp_inExperts = False, xp_current = None\<rparr>)"


section \<open>The definition file\<close>

text \<open>
  The keys above a line are on a stack with their indentation; here the innermost is the last.
\<close>

record definition_scan =
  xq_out :: ExpertDefinition
  xq_stack :: "(nat \<times> string) list"

definition popStack :: "nat \<Rightarrow> (nat \<times> string) list \<Rightarrow> (nat \<times> string) list" where
  "popStack indent stack = rev (dropWhile (\<lambda>(i, k). indent \<le> i) (rev stack))"

definition appendItem :: "string \<Rightarrow> string \<Rightarrow> ExpertDefinition \<Rightarrow> ExpertDefinition" where
  "appendItem parentPath value d =
     (let sp = xd_Spec d
      in if parentPath = ''spec.capabilities''
         then d\<lparr>xd_Spec := sp\<lparr>xs_Capabilities := xs_Capabilities sp @ [value]\<rparr>\<rparr>
         else if parentPath = ''spec.routing.tags''
         then d\<lparr>xd_Spec := sp\<lparr>xs_Routing := (xs_Routing sp)\<lparr>xo_Tags := xo_Tags (xs_Routing sp) @ [value]\<rparr>\<rparr>\<rparr>
         else if parentPath = ''spec.inputs.accepts''
         then d\<lparr>xd_Spec := sp\<lparr>xs_Inputs := (xs_Inputs sp)\<lparr>xi_Accepts := xi_Accepts (xs_Inputs sp) @ [value]\<rparr>\<rparr>\<rparr>
         else d)"

definition setField :: "string \<Rightarrow> string \<Rightarrow> ExpertDefinition \<Rightarrow> ExpertDefinition" where
  "setField path value d =
     (let m = xd_Metadata d; sp = xd_Spec d; rt = xs_Runtime sp
      in if path = ''api_version'' then d\<lparr>xd_APIVersion := value\<rparr>
         else if path = ''kind'' then d\<lparr>xd_Kind := value\<rparr>
         else if path = ''metadata.expert_id'' then d\<lparr>xd_Metadata := m\<lparr>xm_ExpertID := value\<rparr>\<rparr>
         else if path = ''metadata.expert_name'' then d\<lparr>xd_Metadata := m\<lparr>xm_ExpertName := value\<rparr>\<rparr>
         else if path = ''metadata.expert_type'' then d\<lparr>xd_Metadata := m\<lparr>xm_ExpertType := value\<rparr>\<rparr>
         else if path = ''metadata.version'' then d\<lparr>xd_Metadata := m\<lparr>xm_Version := value\<rparr>\<rparr>
         else if path = ''metadata.owner'' then d\<lparr>xd_Metadata := m\<lparr>xm_Owner := value\<rparr>\<rparr>
         else if path = ''metadata.description'' then d\<lparr>xd_Metadata := m\<lparr>xm_Description := value\<rparr>\<rparr>
         else if path = ''spec.enabled'' then
           (case ParseBool (ToLower value) of None \<Rightarrow> d | Some b \<Rightarrow> d\<lparr>xd_Spec := sp\<lparr>xs_Enabled := b\<rparr>\<rparr>)
         else if path = ''spec.routing.priority'' then
           (case Atoi value of None \<Rightarrow> d
            | Some n \<Rightarrow> d\<lparr>xd_Spec := sp\<lparr>xs_Routing := (xs_Routing sp)\<lparr>xo_Priority := n\<rparr>\<rparr>\<rparr>)
         else if path = ''spec.runtime.mode'' then d\<lparr>xd_Spec := sp\<lparr>xs_Runtime := rt\<lparr>xt_Mode := value\<rparr>\<rparr>\<rparr>
         else if path = ''spec.runtime.entrypoint''
         then d\<lparr>xd_Spec := sp\<lparr>xs_Runtime := rt\<lparr>xt_Entrypoint := value\<rparr>\<rparr>\<rparr>
         else if path = ''spec.runtime.timeout_seconds'' then
           (case Atoi value of None \<Rightarrow> d
            | Some n \<Rightarrow> d\<lparr>xd_Spec := sp\<lparr>xs_Runtime := rt\<lparr>xt_TimeoutSeconds := n\<rparr>\<rparr>\<rparr>)
         else if path = ''spec.runtime.max_concurrency'' then
           (case Atoi value of None \<Rightarrow> d
            | Some n \<Rightarrow> d\<lparr>xd_Spec := sp\<lparr>xs_Runtime := rt\<lparr>xt_MaxConcurrency := n\<rparr>\<rparr>\<rparr>)
         else if path = ''spec.outputs.result_schema''
         then d\<lparr>xd_Spec := sp\<lparr>xs_Outputs := (xs_Outputs sp)\<lparr>xu_ResultSchema := value\<rparr>\<rparr>\<rparr>
         else if path = ''spec.outputs.evidence_mode''
         then d\<lparr>xd_Spec := sp\<lparr>xs_Outputs := (xs_Outputs sp)\<lparr>xu_EvidenceMode := value\<rparr>\<rparr>\<rparr>
         else d)"

definition definitionLine :: "definition_scan \<Rightarrow> string \<Rightarrow> definition_scan" where
  "definitionLine st line =
     (let trimmed = TrimSpace (stripInlineComment line); indent = leadingSpaces line
      in if trimmed = [] then st
         else (let stack = popStack indent (xq_stack st); st1 = st\<lparr>xq_stack := stack\<rparr>
               in if prefix ''- '' trimmed then
                    (let item = TrimSpace (TrimPrefix trimmed ''- '')
                     in if item = [] then st1
                        else st1\<lparr>xq_out := appendItem (Join (map snd stack) ''.'')
                                             (unquoteYAMLScalar item) (xq_out st)\<rparr>)
                  else (case splitYAMLKeyValue trimmed of
                          None \<Rightarrow> st1
                        | Some (key, value) \<Rightarrow>
                            if value = [] then st1\<lparr>xq_stack := stack @ [(indent, key)]\<rparr>
                            else st1\<lparr>xq_out := setField (Join (map snd stack @ [key]) ''.'') value
                                                 (xq_out st)\<rparr>)))"

definition parseExpertDefinition :: "string \<Rightarrow> ExpertDefinition" where
  "parseExpertDefinition raw =
     xq_out (foldl definitionLine \<lparr>xq_out = noDefinition, xq_stack = []\<rparr> (SplitChar newline raw))"


section \<open>Validation\<close>

definition apiVersionV1 :: string where "apiVersionV1 = ''cova/v1''"
definition registryKindV1 :: string where "registryKindV1 = ''ExpertRegistry''"
definition expertDefinitionKind :: string where "expertDefinitionKind = ''ExpertDefinition''"

text \<open>The loop over the entries, with the ids seen so far.\<close>

fun checkEntries :: "nat \<Rightarrow> string set \<Rightarrow> RegistryRef list \<Rightarrow> violation list" where
  "checkEntries idx seen [] = []"
| "checkEntries idx seen (ref # rest) =
     (let expertID = TrimSpace (xr_ExpertID ref); configPath = TrimSpace (xr_ConfigPath ref)
      in (if expertID = [] then [IDRequired idx]
          else if expertID \<in> seen then [IDDuplicated idx expertID] else []) @
         (if configPath = [] then [PathRequired idx] else []) @
         checkEntries (idx + 1) (if expertID = [] then seen else insert expertID seen) rest)"

definition ValidateRegistry :: "Registry \<Rightarrow> violation list" where
  "ValidateRegistry r =
     (if TrimSpace (xg_APIVersion r) \<noteq> apiVersionV1 then [BadAPIVersion] else []) @
     (if TrimSpace (xg_Kind r) \<noteq> registryKindV1 then [BadKind] else []) @
     (if xg_Experts r = [] then [NoExperts] else []) @
     checkEntries 0 {} (xg_Experts r)"

text \<open>\<open>^\d+\.\d+\.\d+$\<close>.\<close>

definition isSemver :: "string \<Rightarrow> bool" where
  "isSemver v =
     (let parts = SplitChar (CHR ''.'') v
      in length parts = 3 \<and> list_all (\<lambda>w. w \<noteq> [] \<and> list_all is_digit w) parts)"

definition allowedCapabilities :: "string list" where
  "allowedCapabilities = [''daily_brief'', ''query'']"

fun checkCapabilities :: "nat \<Rightarrow> string list \<Rightarrow> violation list" where
  "checkCapabilities idx [] = []"
| "checkCapabilities idx (c # cs) =
     (let capability = TrimSpace c
      in (if capability = [] then [EmptyCapability idx]
          else if capability \<notin> set allowedCapabilities then [UnsupportedCapability idx capability]
          else []) @ checkCapabilities (idx + 1) cs)"

definition required :: "string \<Rightarrow> string \<Rightarrow> violation list" where
  "required field value = (if TrimSpace value = [] then [FieldRequired field] else [])"

definition ValidateExpertDefinition :: "ExpertDefinition \<Rightarrow> violation list" where
  "ValidateExpertDefinition d =
     (let m = xd_Metadata d; sp = xd_Spec d; rt = xs_Runtime sp; outs = xs_Outputs sp
      in (if TrimSpace (xd_APIVersion d) \<noteq> apiVersionV1 then [BadAPIVersion] else []) @
         (if TrimSpace (xd_Kind d) \<noteq> expertDefinitionKind then [BadKind] else []) @
         required ''metadata.expert_id'' (xm_ExpertID m) @
         required ''metadata.expert_name'' (xm_ExpertName m) @
         required ''metadata.expert_type'' (xm_ExpertType m) @
         (if TrimSpace (xm_Version m) = [] then [FieldRequired ''metadata.version'']
          else if \<not> isSemver (TrimSpace (xm_Version m)) then [BadVersion] else []) @
         (if xs_Capabilities sp = [] then [NoCapabilities]
          else checkCapabilities 0 (xs_Capabilities sp)) @
         required ''spec.runtime.mode'' (xt_Mode rt) @
         (if xt_TimeoutSeconds rt \<le> 0 then [BadTimeout] else []) @
         (if xt_MaxConcurrency rt \<le> 0 then [BadConcurrency] else []) @
         (if xi_Accepts (xs_Inputs sp) = [] then [NoAccepts] else []) @
         required ''spec.outputs.result_schema'' (xu_ResultSchema outs) @
         (if TrimSpace (xu_EvidenceMode outs) = [] then [FieldRequired ''spec.outputs.evidence_mode'']
          else if xu_EvidenceMode outs \<noteq> ''references'' \<and> xu_EvidenceMode outs \<noteq> ''citations''
          then [BadEvidenceMode] else []))"


section \<open>Loading\<close>

type_synonym 'e file_system = "string \<Rightarrow> 'e + string"

definition ResolveConfigPath :: "string \<Rightarrow> string \<Rightarrow> string" where
  "ResolveConfigPath registryPath configPath =
     (if IsAbs configPath then Clean configPath
      else Clean (JoinPath (Dir registryPath) configPath))"

definition LoadRegistry :: "'e file_system \<Rightarrow> string \<Rightarrow> 'e registry_error + Registry" where
  "LoadRegistry ReadFile registryPath =
     (case ReadFile registryPath of
        Inl e \<Rightarrow> Inl (ReadRegistry registryPath e)
      | Inr raw \<Rightarrow>
          (case parseRegistry raw of
             Inl (lineNo, e) \<Rightarrow> Inl (DecodeRegistry registryPath lineNo e)
           | Inr r \<Rightarrow> (case ValidateRegistry r of [] \<Rightarrow> Inr r | vs \<Rightarrow> Inl (Invalid vs))))"

definition LoadExpertDefinition :: "'e file_system \<Rightarrow> string \<Rightarrow> 'e registry_error + ExpertDefinition" where
  "LoadExpertDefinition ReadFile configPath =
     (case ReadFile configPath of
        Inl e \<Rightarrow> Inl (ReadDefinition configPath e)
      | Inr raw \<Rightarrow>
          (let def = parseExpertDefinition raw
           in case ValidateExpertDefinition def of [] \<Rightarrow> Inr def | vs \<Rightarrow> Inl (Invalid vs)))"

fun loadExperts ::
  "'e file_system \<Rightarrow> string \<Rightarrow> nat \<Rightarrow> RegistryRef list \<Rightarrow> 'e registry_error + LoadedExpert list" where
  "loadExperts ReadFile registryPath idx [] = Inr []"
| "loadExperts ReadFile registryPath idx (ref # rest) =
     (if \<not> xr_Enabled ref then loadExperts ReadFile registryPath (idx + 1) rest
      else (let resolvedPath = ResolveConfigPath registryPath (xr_ConfigPath ref)
            in case LoadExpertDefinition ReadFile resolvedPath of
                 Inl e \<Rightarrow> Inl (InExpert idx (xr_ExpertID ref) e)
               | Inr def \<Rightarrow>
                   if xm_ExpertID (xd_Metadata def) \<noteq> xr_ExpertID ref
                   then Inl (IDMismatch idx (xr_ExpertID ref) (xm_ExpertID (xd_Metadata def)))
                   else map_sum id (\<lambda>es. \<lparr>le_Ref = ref, le_ConfigPath = resolvedPath,
                                         le_Definition = def\<rparr> # es)
                          (loadExperts ReadFile registryPath (idx + 1) rest)))"

definition LoadSnapshot :: "'e file_system \<Rightarrow> string \<Rightarrow> 'e registry_error + RegistrySnapshot" where
  "LoadSnapshot ReadFile registryPath =
     (let path = Clean registryPath
      in case LoadRegistry ReadFile path of
           Inl e \<Rightarrow> Inl e
         | Inr r \<Rightarrow> map_sum id (\<lambda>es. \<lparr>sn_Registry = r, sn_Experts = es\<rparr>)
                       (loadExperts ReadFile path 0 (xg_Experts r)))"

end
