(* ===== verification/Registry_Format.thy ===== *)
theory Registry_Format
  imports Expert_Registry
begin

text \<open>
  The layout of the two configuration files of the expert registry as a printer, and the proof
  that the parsers of \<open>internal/registry/loader.go\<close> read back what is printed.  The printer follows
  the files under \<open>configs/experts\<close> and \<open>experts\<close>: two blanks per level, one key or item per line,
  optional fields left out when they are empty.
\<close>

section \<open>Lines\<close>

text \<open>Text that stands for itself as a scalar: it needs no quotes and holds no comment.\<close>

definition scalar :: "string \<Rightarrow> bool" where
  "scalar v \<longleftrightarrow> v \<noteq> [] \<and> visible (hd v) \<and> visible (last v) \<and> hd v \<noteq> CHR 0x22 \<and> hd v \<noteq> CHR 0x27 \<and>
     CHR ''#'' \<notin> set v \<and> newline \<notin> set v"

definition key_text :: "string \<Rightarrow> bool" where
  "key_text k \<longleftrightarrow> k \<noteq> [] \<and> list_all visible k \<and> hd k \<noteq> CHR ''-'' \<and>
     CHR ''#'' \<notin> set k \<and> CHR '':'' \<notin> set k \<and> newline \<notin> set k"

abbreviation blanks :: "nat \<Rightarrow> string" where
  "blanks n \<equiv> replicate n (CHR '' '')"

definition yaml_entry :: "string \<Rightarrow> string \<Rightarrow> string" where
  "yaml_entry k v = k @ '': '' @ v"

definition yaml_field :: "nat \<Rightarrow> string \<Rightarrow> string \<Rightarrow> string" where
  "yaml_field n k v = blanks n @ yaml_entry k v"

definition yaml_header :: "nat \<Rightarrow> string \<Rightarrow> string" where
  "yaml_header n k = blanks n @ k @ '':''"

definition list_item :: "nat \<Rightarrow> string \<Rightarrow> string" where
  "list_item n v = blanks n @ ''- '' @ v"

lemma visible_facts: "visible (CHR '':'')" "visible (CHR ''-'')" "\<not> visible (CHR '' '')"
  by (simp_all add: visible_def)

lemma strip_no_hash: "CHR ''#'' \<notin> set s \<Longrightarrow> strip_from a b s = s"
  by (induction s arbitrary: a b) auto

lemma leadingSpaces_blanks:
  "s \<noteq> [] \<Longrightarrow> visible (hd s) \<Longrightarrow> leadingSpaces (blanks n @ s) = n"
  using visible_facts(3) by (induction n) (cases s; auto simp: leadingSpaces_def)+

lemma IndexChar_append: "c \<notin> set k \<Longrightarrow> IndexChar c (k @ c # s) = Some (length k)"
  by (induction k) auto

lemma scalar_trim: "scalar v \<Longrightarrow> TrimSpace v = v"
  by (simp add: scalar_def TrimSpace_ends)

lemma scalar_unquote: "scalar v \<Longrightarrow> unquoteYAMLScalar v = v"
  by (simp add: unquoteYAMLScalar_def scalar_trim Let_def) (simp add: scalar_def)

lemma unquote_Nil: "unquoteYAMLScalar [] = []"
  by (simp add: unquoteYAMLScalar_def)

lemma key_trim: "key_text k \<Longrightarrow> TrimSpace k = k"
  by (simp add: key_text_def TrimSpace_visible)

lemma key_hd: "key_text k \<Longrightarrow> k \<noteq> [] \<and> visible (hd k)"
  by (cases k) (auto simp: key_text_def)

lemma split_entry:
  assumes "key_text k" "scalar v"
  shows "splitYAMLKeyValue (yaml_entry k v) = Some (k, v)"
proof -
  have "IndexChar (CHR '':'') (yaml_entry k v) = Some (length k)"
    using assms(1) by (simp add: yaml_entry_def key_text_def IndexChar_append)
  with key_hd [OF assms(1)] show ?thesis
    by (simp add: splitYAMLKeyValue_def Let_def)
      (simp add: yaml_entry_def key_trim [OF assms(1)] scalar_trim [OF assms(2)] scalar_unquote [OF assms(2)])
qed

lemma split_header:
  assumes "key_text k"
  shows "splitYAMLKeyValue (k @ '':'') = Some (k, [])"
proof -
  have "IndexChar (CHR '':'') (k @ '':'') = Some (length k)"
    using assms by (simp add: key_text_def IndexChar_append)
  with key_hd [OF assms] show ?thesis
    by (simp add: splitYAMLKeyValue_def key_trim [OF assms] unquote_Nil Let_def)
qed

lemma entry_ends:
  assumes "key_text k" "scalar v"
  shows "yaml_entry k v \<noteq> []" "visible (hd (yaml_entry k v))" "visible (last (yaml_entry k v))"
    "CHR ''#'' \<notin> set (yaml_entry k v)" "newline \<notin> set (yaml_entry k v)" "\<not> prefix ''- '' (yaml_entry k v)"
  using assms key_hd [OF assms(1)]
  by (auto simp: yaml_entry_def scalar_def key_text_def newline_def) (cases k; auto)

lemma entry_trim: "key_text k \<Longrightarrow> scalar v \<Longrightarrow> TrimSpace (yaml_entry k v) = yaml_entry k v"
  using entry_ends [of k v] by (simp add: TrimSpace_ends)

lemma field_trim:
  assumes "key_text k" "scalar v"
  shows "TrimSpace (stripInlineComment (yaml_field n k v)) = yaml_entry k v"
    and "leadingSpaces (yaml_field n k v) = n"
  using entry_ends [OF assms]
  by (simp_all add: yaml_field_def stripInlineComment_def strip_no_hash TrimSpace_ends leadingSpaces_blanks)

lemma header_trim:
  assumes "key_text k"
  shows "TrimSpace (stripInlineComment (yaml_header n k)) = k @ '':''"
    and "leadingSpaces (yaml_header n k) = n"
  using assms key_hd [OF assms] visible_facts
  by (auto simp: yaml_header_def stripInlineComment_def strip_no_hash key_text_def
      intro!: TrimSpace_ends leadingSpaces_blanks)

lemma header_not_item: "key_text k \<Longrightarrow> \<not> prefix ''- '' (k @ s)"
  by (cases k) (auto simp: key_text_def)

definition item_text :: "string \<Rightarrow> string" where
  "item_text v = ''- '' @ v"

lemma item_trim:
  assumes "v \<noteq> []" "visible (last v)" "CHR ''#'' \<notin> set v"
  shows "TrimSpace (stripInlineComment (list_item n v)) = item_text v"
    and "leadingSpaces (list_item n v) = n"
  using assms visible_facts leadingSpaces_blanks [of "''- '' @ v" n]
  by (auto simp: list_item_def item_text_def stripInlineComment_def strip_no_hash intro!: TrimSpace_ends)

lemma item_text_simps:
  "prefix ''- '' (item_text v)" "TrimPrefix (item_text v) ''- '' = v" "item_text v \<noteq> []"
  by (simp_all add: item_text_def TrimPrefix_def)


section \<open>The registry file\<close>

definition bool_text :: "bool \<Rightarrow> string" where
  "bool_text b = (if b then ''true'' else ''false'')"

definition printRef :: "RegistryRef \<Rightarrow> string list" where
  "printRef ref =
     [list_item 2 (yaml_entry ''expert_id'' (xr_ExpertID ref)),
      yaml_field 4 ''config_path'' (xr_ConfigPath ref),
      yaml_field 4 ''enabled'' (bool_text (xr_Enabled ref))]"

definition printRegistry :: "Registry \<Rightarrow> string" where
  "printRegistry r = Join
     (yaml_field 0 ''api_version'' (xg_APIVersion r) # yaml_field 0 ''kind'' (xg_Kind r) # yaml_header 0 ''experts'' #
      concat (map printRef (xg_Experts r))) [newline]"

definition printable_registry :: "Registry \<Rightarrow> bool" where
  "printable_registry r \<longleftrightarrow> scalar (xg_APIVersion r) \<and> scalar (xg_Kind r) \<and>
     list_all (\<lambda>ref. scalar (xr_ExpertID ref) \<and> scalar (xr_ConfigPath ref)) (xg_Experts r)"

lemma keys:
  "key_text ''api_version''" "key_text ''kind''" "key_text ''experts''" "key_text ''expert_id''"
  "key_text ''config_path''" "key_text ''enabled''" "key_text ''metadata''" "key_text ''expert_name''"
  "key_text ''expert_type''" "key_text ''version''" "key_text ''owner''" "key_text ''description''"
  "key_text ''spec''" "key_text ''capabilities''" "key_text ''routing''" "key_text ''priority''"
  "key_text ''tags''" "key_text ''runtime''" "key_text ''mode''" "key_text ''entrypoint''"
  "key_text ''timeout_seconds''" "key_text ''max_concurrency''" "key_text ''inputs''"
  "key_text ''accepts''" "key_text ''outputs''" "key_text ''result_schema''" "key_text ''evidence_mode''"
  by (simp_all add: key_text_def visible_def newline_def)

lemma scalar_bool: "scalar (bool_text b)"
  by (simp add: bool_text_def scalar_def visible_def newline_def)

lemma ParseBool_literals:
  "ParseBool (ToLower (bool_text True)) = Some True"
  "ParseBool (ToLower (bool_text False)) = Some False"
  by code_simp+

lemma ParseBool_bool_text: "ParseBool (ToLower (bool_text b)) = Some b"
  using ParseBool_literals by (cases b) simp_all

text \<open>The three lines of an entry.\<close>

lemma registryLines_append:
  "registryLines n ls st = Inr st' \<Longrightarrow>
     registryLines n (ls @ rest) st = registryLines (n + length ls) rest st'"
  by (induction ls arbitrary: n st) (auto split: sum.splits)

lemma apply_entry:
  "key_text k \<Longrightarrow> scalar v \<Longrightarrow> applyRegistryItemField item (yaml_entry k v) =
     (if k = ''expert_id'' then Inr (item\<lparr>xr_ExpertID := v\<rparr>)
      else if k = ''config_path'' then Inr (item\<lparr>xr_ConfigPath := v\<rparr>)
      else if k = ''enabled'' then
        (case ParseBool (ToLower v) of
           None \<Rightarrow> Inl (InvalidEnabled v)
         | Some b \<Rightarrow> Inr (item\<lparr>xr_Enabled := b\<rparr>))
      else Inr item)"
  by (simp add: applyRegistryItemField_def split_entry)

lemma registry_field_line:
  "key_text k \<Longrightarrow> scalar v \<Longrightarrow> 0 < n \<Longrightarrow> xp_inExperts st \<Longrightarrow> xp_current st = Some item \<Longrightarrow>
     registryLine (yaml_field n k v) st
       = map_sum id (\<lambda>i. st\<lparr>xp_current := Some i\<rparr>) (applyRegistryItemField item (yaml_entry k v))"
  by (simp add: registryLine_def field_trim entry_ends registryItemLine_def Let_def)

lemma registry_item_line:
  "key_text k \<Longrightarrow> scalar v \<Longrightarrow> 0 < n \<Longrightarrow> xp_inExperts st \<Longrightarrow>
     registryLine (list_item n (yaml_entry k v)) st
       = map_sum id (\<lambda>i. st\<lparr>xp_out := flushCurrent st, xp_current := Some i\<rparr>)
           (applyRegistryItemField noRef (yaml_entry k v))"
  by (simp add: registryLine_def item_trim entry_ends registryItemLine_def item_text_simps
      entry_trim Let_def)

lemma registry_ref_lines:
  assumes "xp_inExperts st" "scalar (xr_ExpertID ref)" "scalar (xr_ConfigPath ref)"
  shows "registryLines n (printRef ref) st
    = Inr (st\<lparr>xp_out := flushCurrent st, xp_current := Some ref\<rparr>)"
  using assms scalar_bool
  by (simp add: printRef_def registry_item_line registry_field_line apply_entry keys
      ParseBool_bool_text noRef_def)

lemma registry_refs_lines:
  assumes "xp_inExperts st" "list_all (\<lambda>ref. scalar (xr_ExpertID ref) \<and> scalar (xr_ConfigPath ref)) refs"
  shows "\<exists>st'. registryLines n (concat (map printRef refs)) st = Inr st' \<and>
    flushCurrent st' = (flushCurrent st)\<lparr>xg_Experts := xg_Experts (flushCurrent st) @ refs\<rparr>"
  using assms
proof (induction refs arbitrary: n st)
  case (Cons ref refs)
  let ?st = "st\<lparr>xp_out := flushCurrent st, xp_current := Some ref\<rparr>"
  from Cons.prems registry_ref_lines [of st ref n]
  have l: "registryLines n (printRef ref) st = Inr ?st" by simp
  from Cons.IH [of ?st "n + length (printRef ref)"] Cons.prems obtain st' where
    "registryLines (n + length (printRef ref)) (concat (map printRef refs)) ?st = Inr st'"
    "flushCurrent st' = (flushCurrent ?st)\<lparr>xg_Experts := xg_Experts (flushCurrent ?st) @ refs\<rparr>"
    by auto
  moreover have "flushCurrent ?st = (flushCurrent st)\<lparr>xg_Experts := xg_Experts (flushCurrent st) @ [ref]\<rparr>"
    by (simp add: flushCurrent_def)
  ultimately show ?case by (simp add: registryLines_append [OF l])
qed simp

lemma registry_top_field:
  "key_text k \<Longrightarrow> scalar v \<Longrightarrow> registryLine (yaml_field 0 k v) st = registryTopLine (yaml_entry k v) st"
  by (simp add: registryLine_def field_trim entry_ends Let_def)

lemma registry_top_header:
  "key_text k \<Longrightarrow> registryLine (yaml_header 0 k) st = registryTopLine (k @ '':'') st"
  by (simp add: registryLine_def header_trim Let_def)

lemma no_newline:
  "key_text k \<Longrightarrow> scalar v \<Longrightarrow> newline \<notin> set (yaml_field n k v)"
  "key_text k \<Longrightarrow> newline \<notin> set (yaml_header n k)"
  "newline \<notin> set v \<Longrightarrow> newline \<notin> set (list_item n v)"
  using entry_ends(5) [of k v]
  by (auto simp: yaml_field_def yaml_header_def list_item_def key_text_def newline_def)

lemma parse_print_registry:
  assumes "printable_registry r"
  shows "parseRegistry (printRegistry r) = Inr r"
proof -
  let ?ls = "yaml_field 0 ''api_version'' (xg_APIVersion r) # yaml_field 0 ''kind'' (xg_Kind r) #
    yaml_header 0 ''experts'' # concat (map printRef (xg_Experts r))"
  from assms have p: "scalar (xg_APIVersion r)" "scalar (xg_Kind r)"
    "list_all (\<lambda>ref. scalar (xr_ExpertID ref) \<and> scalar (xr_ConfigPath ref)) (xg_Experts r)"
    by (simp_all add: printable_registry_def)
  have "newline \<notin> set l" if "l \<in> set ?ls" for l
    using that p keys by (auto simp: printRef_def list_all_iff no_newline entry_ends scalar_bool)
  then have split: "SplitChar newline (printRegistry r) = ?ls"
    unfolding printRegistry_def by (intro SplitChar_Join) auto
  let ?st = "\<lparr>xp_out = noRegistry\<lparr>xg_APIVersion := xg_APIVersion r, xg_Kind := xg_Kind r\<rparr>,
    xp_inExperts = True, xp_current = None\<rparr>"
  obtain st' where "registryLines 3 (concat (map printRef (xg_Experts r))) ?st = Inr st'"
    "flushCurrent st' = (flushCurrent ?st)\<lparr>xg_Experts := xg_Experts (flushCurrent ?st) @ xg_Experts r\<rparr>"
    using registry_refs_lines [of ?st "xg_Experts r" 3] p(3) by auto
  moreover have "registryLines 0 ?ls \<lparr>xp_out = noRegistry, xp_inExperts = False, xp_current = None\<rparr>
      = registryLines 3 (concat (map printRef (xg_Experts r))) ?st"
    using p(1,2)
    by (simp add: registry_top_field registry_top_header keys registryTopLine_def split_entry
        split_header [OF keys(3), simplified] numeral_3_eq_3)
  ultimately show ?thesis
    by (simp add: parseRegistry_def split flushCurrent_def noRegistry_def)
qed


section \<open>The definition file\<close>

text \<open>A field that is left out when it is empty.\<close>

definition opt_field :: "nat \<Rightarrow> string \<Rightarrow> string \<Rightarrow> string list" where
  "opt_field n k v = (if v = [] then [] else [yaml_field n k v])"

definition definition_text :: "ExpertDefinition \<Rightarrow> string list" where
  "definition_text d =
     (let m = xd_Metadata d; sp = xd_Spec d; rt = xs_Runtime sp; outs = xs_Outputs sp
      in opt_field 0 ''api_version'' (xd_APIVersion d) @ opt_field 0 ''kind'' (xd_Kind d) @
         [yaml_header 0 ''metadata''] @
         opt_field 2 ''expert_id'' (xm_ExpertID m) @ opt_field 2 ''expert_name'' (xm_ExpertName m) @
         opt_field 2 ''expert_type'' (xm_ExpertType m) @ opt_field 2 ''version'' (xm_Version m) @
         opt_field 2 ''owner'' (xm_Owner m) @ opt_field 2 ''description'' (xm_Description m) @
         [yaml_header 0 ''spec'', yaml_field 2 ''enabled'' (bool_text (xs_Enabled sp)), yaml_header 2 ''capabilities''] @
         map (list_item 4) (xs_Capabilities sp) @
         [yaml_header 2 ''routing'', yaml_field 4 ''priority'' (dec_int (xo_Priority (xs_Routing sp))),
          yaml_header 4 ''tags''] @
         map (list_item 6) (xo_Tags (xs_Routing sp)) @
         [yaml_header 2 ''runtime''] @
         opt_field 4 ''mode'' (xt_Mode rt) @ opt_field 4 ''entrypoint'' (xt_Entrypoint rt) @
         [yaml_field 4 ''timeout_seconds'' (dec_int (xt_TimeoutSeconds rt)),
          yaml_field 4 ''max_concurrency'' (dec_int (xt_MaxConcurrency rt)),
          yaml_header 2 ''inputs'', yaml_header 4 ''accepts''] @
         map (list_item 6) (xi_Accepts (xs_Inputs sp)) @
         [yaml_header 2 ''outputs''] @
         opt_field 4 ''result_schema'' (xu_ResultSchema outs) @
         opt_field 4 ''evidence_mode'' (xu_EvidenceMode outs))"

definition printDefinition :: "ExpertDefinition \<Rightarrow> string" where
  "printDefinition d = Join (definition_text d) [newline]"

definition int64 :: "int \<Rightarrow> bool" where
  "int64 i \<longleftrightarrow> - (2 ^ 63) \<le> i \<and> i < 2 ^ 63"

definition printable_definition :: "ExpertDefinition \<Rightarrow> bool" where
  "printable_definition d \<longleftrightarrow>
     (let m = xd_Metadata d; sp = xd_Spec d; rt = xs_Runtime sp; outs = xs_Outputs sp
      in list_all (\<lambda>v. v = [] \<or> scalar v)
           [xd_APIVersion d, xd_Kind d, xm_ExpertID m, xm_ExpertName m, xm_ExpertType m, xm_Version m,
            xm_Owner m, xm_Description m, xt_Mode rt, xt_Entrypoint rt, xu_ResultSchema outs,
            xu_EvidenceMode outs] \<and>
         list_all scalar (xs_Capabilities sp @ xo_Tags (xs_Routing sp) @ xi_Accepts (xs_Inputs sp)) \<and>
         list_all int64 [xo_Priority (xs_Routing sp), xt_TimeoutSeconds rt, xt_MaxConcurrency rt])"

lemma scalar_dec_int: "scalar (dec_int i)"
proof -
  have ends: "dec_int i \<noteq> []" by (simp add: dec_int_def)
  have "is_digit c \<or> c = CHR ''-''" if "c \<in> set (dec_int i)" for c
    using that dec_digits by (auto simp: dec_int_def list_all_iff split: if_splits)
  moreover have "visible c \<and> c \<noteq> CHR 0x22 \<and> c \<noteq> CHR 0x27 \<and> c \<noteq> CHR ''#'' \<and> c \<noteq> newline"
    if "is_digit c \<or> c = CHR ''-''" for c
    using that by (auto simp: is_digit_def visible_def newline_def Let_def)
  ultimately show ?thesis
    using ends hd_in_set [OF ends] last_in_set [OF ends] unfolding scalar_def by blast
qed

lemma Atoi_dec_int: "int64 i \<Longrightarrow> Atoi (dec_int i) = Some i"
  by (simp add: Atoi_def int64_def ParseInt64_dec_int)

text \<open>The stack of keys, and the lines that change it or that store a value.\<close>

lemma popStack_Nil [simp]: "popStack n [] = []"
  by (simp add: popStack_def)

lemma popStack_levels [simp]:
  "popStack n [(i, k)] = (if n \<le> i then [] else [(i, k)])"
  "popStack n [(i, k), (i', k')] = (if n \<le> i' then popStack n [(i, k)] else [(i, k), (i', k')])"
  "popStack n [(i, k), (i', k'), (i'', k'')] =
     (if n \<le> i'' then popStack n [(i, k), (i', k')] else [(i, k), (i', k'), (i'', k'')])"
  by (simp_all add: popStack_def)

lemma definition_field_line:
  assumes "key_text k" "scalar v"
  shows "definitionLine st (yaml_field n k v) =
    st\<lparr>xq_stack := popStack n (xq_stack st),
       xq_out := setField (Join (map snd (popStack n (xq_stack st)) @ [k]) ''.'') v (xq_out st)\<rparr>"
  using assms(2) entry_ends [OF assms] split_entry [OF assms]
  by (simp add: definitionLine_def field_trim assms Let_def scalar_def)

lemma definition_header_line:
  assumes "key_text k"
  shows "definitionLine st (yaml_header n k) =
    st\<lparr>xq_stack := popStack n (xq_stack st) @ [(n, k)]\<rparr>"
  using header_not_item [OF assms, of "'':''"] split_header [OF assms]
  by (simp add: definitionLine_def header_trim assms Let_def)

lemma definition_item_line:
  assumes "scalar v"
  shows "definitionLine st (list_item n v) =
    st\<lparr>xq_stack := popStack n (xq_stack st),
       xq_out := appendItem (Join (map snd (popStack n (xq_stack st))) ''.'') v (xq_out st)\<rparr>"
  using assms scalar_trim [OF assms] scalar_unquote [OF assms]
  by (simp add: definitionLine_def item_trim scalar_def item_text_simps Let_def)

text \<open>Lines that belong under the key on top of the stack leave the stack as it is.\<close>

definition setOpt :: "string \<Rightarrow> string \<Rightarrow> ExpertDefinition \<Rightarrow> ExpertDefinition" where
  "setOpt path v d = (if v = [] then d else setField path v d)"

lemma definition_opt_field:
  assumes "key_text k" "v = [] \<or> scalar v" "popStack n (xq_stack st) = xq_stack st"
  shows "foldl definitionLine st (opt_field n k v) =
    st\<lparr>xq_out := setOpt (Join (map snd (xq_stack st) @ [k]) ''.'') v (xq_out st)\<rparr>"
  using assms definition_field_line [of k v st n] by (auto simp: opt_field_def setOpt_def scalar_def)

lemma definition_items:
  assumes "list_all scalar vs" "popStack n (xq_stack st) = xq_stack st"
  shows "foldl definitionLine st (map (list_item n) vs) =
    st\<lparr>xq_out := foldl (\<lambda>d v. appendItem (Join (map snd (xq_stack st)) ''.'') v d) (xq_out st) vs\<rparr>"
  using assms by (induction vs arbitrary: st) (simp_all add: definition_item_line)

lemma setOpt_eval:
  "xd_APIVersion d = [] \<Longrightarrow> setOpt ''api_version'' v d = d\<lparr>xd_APIVersion := v\<rparr>"
  "xd_Kind d = [] \<Longrightarrow> setOpt ''kind'' v d = d\<lparr>xd_Kind := v\<rparr>"
  "xm_ExpertID (xd_Metadata d) = [] \<Longrightarrow> setOpt ''metadata.expert_id'' v d =
     d\<lparr>xd_Metadata := (xd_Metadata d)\<lparr>xm_ExpertID := v\<rparr>\<rparr>"
  "xm_ExpertName (xd_Metadata d) = [] \<Longrightarrow> setOpt ''metadata.expert_name'' v d =
     d\<lparr>xd_Metadata := (xd_Metadata d)\<lparr>xm_ExpertName := v\<rparr>\<rparr>"
  "xm_ExpertType (xd_Metadata d) = [] \<Longrightarrow> setOpt ''metadata.expert_type'' v d =
     d\<lparr>xd_Metadata := (xd_Metadata d)\<lparr>xm_ExpertType := v\<rparr>\<rparr>"
  "xm_Version (xd_Metadata d) = [] \<Longrightarrow> setOpt ''metadata.version'' v d =
     d\<lparr>xd_Metadata := (xd_Metadata d)\<lparr>xm_Version := v\<rparr>\<rparr>"
  "xm_Owner (xd_Metadata d) = [] \<Longrightarrow> setOpt ''metadata.owner'' v d =
     d\<lparr>xd_Metadata := (xd_Metadata d)\<lparr>xm_Owner := v\<rparr>\<rparr>"
  "xm_Description (xd_Metadata d) = [] \<Longrightarrow> setOpt ''metadata.description'' v d =
     d\<lparr>xd_Metadata := (xd_Metadata d)\<lparr>xm_Description := v\<rparr>\<rparr>"
  "xt_Mode (xs_Runtime (xd_Spec d)) = [] \<Longrightarrow> setOpt ''spec.runtime.mode'' v d =
     d\<lparr>xd_Spec := (xd_Spec d)\<lparr>xs_Runtime := (xs_Runtime (xd_Spec d))\<lparr>xt_Mode := v\<rparr>\<rparr>\<rparr>"
  "xt_Entrypoint (xs_Runtime (xd_Spec d)) = [] \<Longrightarrow> setOpt ''spec.runtime.entrypoint'' v d =
     d\<lparr>xd_Spec := (xd_Spec d)\<lparr>xs_Runtime := (xs_Runtime (xd_Spec d))\<lparr>xt_Entrypoint := v\<rparr>\<rparr>\<rparr>"
  "xu_ResultSchema (xs_Outputs (xd_Spec d)) = [] \<Longrightarrow> setOpt ''spec.outputs.result_schema'' v d =
     d\<lparr>xd_Spec := (xd_Spec d)\<lparr>xs_Outputs := (xs_Outputs (xd_Spec d))\<lparr>xu_ResultSchema := v\<rparr>\<rparr>\<rparr>"
  "xu_EvidenceMode (xs_Outputs (xd_Spec d)) = [] \<Longrightarrow> setOpt ''spec.outputs.evidence_mode'' v d =
     d\<lparr>xd_Spec := (xd_Spec d)\<lparr>xs_Outputs := (xs_Outputs (xd_Spec d))\<lparr>xu_EvidenceMode := v\<rparr>\<rparr>\<rparr>"
  by (auto simp: setOpt_def setField_def Let_def)

lemma setField_eval:
  "setField ''spec.enabled'' (bool_text b) d = d\<lparr>xd_Spec := (xd_Spec d)\<lparr>xs_Enabled := b\<rparr>\<rparr>"
  "int64 i \<Longrightarrow> setField ''spec.routing.priority'' (dec_int i) d =
     d\<lparr>xd_Spec := (xd_Spec d)\<lparr>xs_Routing := (xs_Routing (xd_Spec d))\<lparr>xo_Priority := i\<rparr>\<rparr>\<rparr>"
  "int64 i \<Longrightarrow> setField ''spec.runtime.timeout_seconds'' (dec_int i) d =
     d\<lparr>xd_Spec := (xd_Spec d)\<lparr>xs_Runtime := (xs_Runtime (xd_Spec d))\<lparr>xt_TimeoutSeconds := i\<rparr>\<rparr>\<rparr>"
  "int64 i \<Longrightarrow> setField ''spec.runtime.max_concurrency'' (dec_int i) d =
     d\<lparr>xd_Spec := (xd_Spec d)\<lparr>xs_Runtime := (xs_Runtime (xd_Spec d))\<lparr>xt_MaxConcurrency := i\<rparr>\<rparr>\<rparr>"
  by (simp_all add: setField_def Let_def ParseBool_bool_text Atoi_dec_int)

lemma appendItem_eval:
  "foldl (\<lambda>d v. appendItem ''spec.capabilities'' v d) d vs =
     d\<lparr>xd_Spec := (xd_Spec d)\<lparr>xs_Capabilities := xs_Capabilities (xd_Spec d) @ vs\<rparr>\<rparr>"
  "foldl (\<lambda>d v. appendItem ''spec.routing.tags'' v d) d vs =
     d\<lparr>xd_Spec := (xd_Spec d)\<lparr>xs_Routing := (xs_Routing (xd_Spec d))
        \<lparr>xo_Tags := xo_Tags (xs_Routing (xd_Spec d)) @ vs\<rparr>\<rparr>\<rparr>"
  "foldl (\<lambda>d v. appendItem ''spec.inputs.accepts'' v d) d vs =
     d\<lparr>xd_Spec := (xd_Spec d)\<lparr>xs_Inputs := (xs_Inputs (xd_Spec d))
        \<lparr>xi_Accepts := xi_Accepts (xs_Inputs (xd_Spec d)) @ vs\<rparr>\<rparr>\<rparr>"
  by (induction vs arbitrary: d) (simp_all add: appendItem_def Let_def)

lemmas definition_lines = definition_field_line definition_header_line definition_opt_field
  definition_items keys scalar_bool scalar_dec_int

definition one_line :: "string \<Rightarrow> bool" where
  "one_line l \<longleftrightarrow> newline \<notin> set l"

lemma one_line_lines:
  "key_text k \<Longrightarrow> scalar v \<Longrightarrow> one_line (yaml_field n k v)"
  "key_text k \<Longrightarrow> one_line (yaml_header n k)"
  "key_text k \<Longrightarrow> v = [] \<or> scalar v \<Longrightarrow> list_all one_line (opt_field n k v)"
  "list_all scalar vs \<Longrightarrow> list_all one_line (map (list_item n) vs)"
  by (auto simp: one_line_def no_newline opt_field_def list_all_iff scalar_def)

lemma definition_text_lines:
  "printable_definition d \<Longrightarrow> list_all one_line (definition_text d) \<and> definition_text d \<noteq> []"
  by (simp add: definition_text_def printable_definition_def Let_def one_line_lines keys scalar_bool
      scalar_dec_int)

lemma definition_text_read:
  assumes "printable_definition d"
  shows "xq_out (foldl definitionLine \<lparr>xq_out = noDefinition, xq_stack = []\<rparr> (definition_text d)) = d"
proof -
  obtain av kd m sp where d: "d = \<lparr>xd_APIVersion = av, xd_Kind = kd, xd_Metadata = m, xd_Spec = sp\<rparr>"
    by (cases d)
  obtain i n t v ow ds where m: "m = \<lparr>xm_ExpertID = i, xm_ExpertName = n, xm_ExpertType = t,
      xm_Version = v, xm_Owner = ow, xm_Description = ds\<rparr>"
    by (cases m)
  obtain en cs pr tg mo ep ts mc ac rs em where sp: "sp = \<lparr>xs_Enabled = en, xs_Capabilities = cs,
      xs_Routing = \<lparr>xo_Priority = pr, xo_Tags = tg\<rparr>,
      xs_Runtime = \<lparr>xt_Mode = mo, xt_Entrypoint = ep, xt_TimeoutSeconds = ts, xt_MaxConcurrency = mc\<rparr>,
      xs_Inputs = \<lparr>xi_Accepts = ac\<rparr>, xs_Outputs = \<lparr>xu_ResultSchema = rs, xu_EvidenceMode = em\<rparr>\<rparr>"
    by (metis ExpertSpec.cases ExpertRouting.cases ExpertRuntime.cases ExpertInputs.cases ExpertOutputs.cases)
  from assms show ?thesis
    by (simp add: d m sp definition_text_def printable_definition_def definition_lines setOpt_eval
        setField_eval appendItem_eval noDefinition_def)
qed

lemma parse_print_definition:
  assumes "printable_definition d"
  shows "parseExpertDefinition (printDefinition d) = d"
proof -
  have "SplitChar newline (printDefinition d) = definition_text d"
    using definition_text_lines [OF assms] unfolding printDefinition_def
    by (intro SplitChar_Join) (auto simp: list_all_iff one_line_def)
  then show ?thesis
    by (simp add: parseExpertDefinition_def definition_text_read [OF assms])
qed

end
