(* ===== verification/Registry_Properties.thy ===== *)
theory Registry_Properties
  imports Registry_Format
begin

text \<open>
  What the expert registry promises: which violations are reported, what a snapshot holds, which
  entry's error is returned, and that the parsers read back the layout of the configuration files.
\<close>

section \<open>Validation\<close>

abbreviation trimmedID :: "RegistryRef \<Rightarrow> string" where
  "trimmedID ref \<equiv> TrimSpace (xr_ExpertID ref)"

text \<open>Each violation the loop over the entries can report, at the index where it reports it.\<close>

lemma IDRequired_iff:
  "IDRequired n \<in> set (checkEntries idx seen refs) \<longleftrightarrow>
     (\<exists>i<length refs. n = idx + i \<and> trimmedID (refs ! i) = [])"
  by (induction refs arbitrary: idx seen) (auto simp: Let_def Ex_less_Suc2)

lemma PathRequired_iff:
  "PathRequired n \<in> set (checkEntries idx seen refs) \<longleftrightarrow>
     (\<exists>i<length refs. n = idx + i \<and> TrimSpace (xr_ConfigPath (refs ! i)) = [])"
  by (induction refs arbitrary: idx seen) (auto simp: Let_def Ex_less_Suc2)

lemma IDDuplicated_iff:
  "IDDuplicated n x \<in> set (checkEntries idx seen refs) \<longleftrightarrow>
     (\<exists>i<length refs. n = idx + i \<and> trimmedID (refs ! i) = x \<and> x \<noteq> [] \<and>
        (x \<in> seen \<or> (\<exists>j<i. trimmedID (refs ! j) = x)))"
proof (induction refs arbitrary: idx seen)
  case (Cons ref refs)
  then show ?case
    by (cases "trimmedID ref = []"; cases "trimmedID ref = x")
      (auto simp: Let_def Ex_less_Suc2 cong: conj_cong)
qed simp

lemma checkEntries_kinds:
  "v \<in> set (checkEntries idx seen refs) \<Longrightarrow>
     (\<exists>n x. v = IDRequired n \<or> v = PathRequired n \<or> v = IDDuplicated n x)"
  by (induction refs arbitrary: idx seen) (auto simp: Let_def split: if_splits)

lemma checkEntries_Nil_iff:
  "checkEntries idx seen refs = [] \<longleftrightarrow>
     (\<forall>ref\<in>set refs. trimmedID ref \<noteq> [] \<and> TrimSpace (xr_ConfigPath ref) \<noteq> []) \<and>
     distinct (map trimmedID refs) \<and> trimmedID ` set refs \<inter> seen = {}"
  by (induction refs arbitrary: idx seen) (auto simp: Let_def)

definition valid_registry :: "Registry \<Rightarrow> bool" where
  "valid_registry r \<longleftrightarrow>
     TrimSpace (xg_APIVersion r) = apiVersionV1 \<and> TrimSpace (xg_Kind r) = registryKindV1 \<and>
     xg_Experts r \<noteq> [] \<and>
     (\<forall>ref\<in>set (xg_Experts r). trimmedID ref \<noteq> [] \<and> TrimSpace (xr_ConfigPath ref) \<noteq> []) \<and>
     distinct (map trimmedID (xg_Experts r))"

lemma ValidateRegistry_Nil_iff: "ValidateRegistry r = [] \<longleftrightarrow> valid_registry r"
  by (auto simp: ValidateRegistry_def checkEntries_Nil_iff valid_registry_def)

lemma checkCapabilities_Nil_iff:
  "checkCapabilities idx cs = [] \<longleftrightarrow> TrimSpace ` set cs \<subseteq> set allowedCapabilities"
  by (induction cs arbitrary: idx) (auto simp: Let_def allowedCapabilities_def)

definition valid_definition :: "ExpertDefinition \<Rightarrow> bool" where
  "valid_definition d \<longleftrightarrow>
     (let m = xd_Metadata d; sp = xd_Spec d
      in TrimSpace (xd_APIVersion d) = apiVersionV1 \<and> TrimSpace (xd_Kind d) = expertDefinitionKind \<and>
         (\<forall>s\<in>{xm_ExpertID m, xm_ExpertName m, xm_ExpertType m, xt_Mode (xs_Runtime sp),
               xu_ResultSchema (xs_Outputs sp)}. TrimSpace s \<noteq> []) \<and>
         isSemver (TrimSpace (xm_Version m)) \<and>
         xs_Capabilities sp \<noteq> [] \<and> TrimSpace ` set (xs_Capabilities sp) \<subseteq> set allowedCapabilities \<and>
         0 < xt_TimeoutSeconds (xs_Runtime sp) \<and> 0 < xt_MaxConcurrency (xs_Runtime sp) \<and>
         xi_Accepts (xs_Inputs sp) \<noteq> [] \<and>
         xu_EvidenceMode (xs_Outputs sp) \<in> {''references'', ''citations''})"

lemma required_Nil_iff: "required f v = [] \<longleftrightarrow> TrimSpace v \<noteq> []"
  by (simp add: required_def)

lemma evidence_modes_trimmed:
  "TrimSpace ''references'' = ''references''" "TrimSpace ''citations'' = ''citations''"
  by (simp_all add: TrimSpace_visible visible_def)

lemma isSemver_Nil: "\<not> isSemver []"
  by (simp add: isSemver_def)

lemma ValidateExpertDefinition_Nil_iff:
  "ValidateExpertDefinition d = [] \<longleftrightarrow> valid_definition d"
  using evidence_modes_trimmed isSemver_Nil
  by (auto simp: ValidateExpertDefinition_def valid_definition_def Let_def required_Nil_iff
      checkCapabilities_Nil_iff)


section \<open>Loading a snapshot\<close>

text \<open>What loading an enabled entry must give.\<close>

definition loads :: "'e file_system \<Rightarrow> string \<Rightarrow> RegistryRef \<Rightarrow> LoadedExpert \<Rightarrow> bool" where
  "loads ReadFile path ref e \<longleftrightarrow>
     le_Ref e = ref \<and> le_ConfigPath e = ResolveConfigPath path (xr_ConfigPath ref) \<and>
     LoadExpertDefinition ReadFile (le_ConfigPath e) = Inr (le_Definition e) \<and>
     xm_ExpertID (xd_Metadata (le_Definition e)) = xr_ExpertID ref"

lemma loadExperts_enabled:
  "xr_Enabled ref \<Longrightarrow> loadExperts ReadFile path idx (ref # refs) = Inr es \<longleftrightarrow>
     (\<exists>e es'. es = e # es' \<and> loads ReadFile path ref e \<and>
        loadExperts ReadFile path (idx + 1) refs = Inr es')"
  by (cases "loadExperts ReadFile path (Suc idx) refs")
    (auto simp: Let_def loads_def split: sum.splits intro!: LoadedExpert.equality)

lemma loadExperts_Inr_iff:
  "loadExperts ReadFile path idx refs = Inr es \<longleftrightarrow>
     list_all2 (loads ReadFile path) (filter xr_Enabled refs) es"
proof (induction refs arbitrary: idx es)
  case (Cons ref refs)
  show ?case
  proof (cases "xr_Enabled ref")
    case True
    then show ?thesis
      by (simp only: loadExperts_enabled [OF True] Cons.IH filter.simps if_True list_all2_Cons1)
  qed (simp add: Cons.IH)
qed auto

text \<open>The error is that of the first enabled entry that does not load.\<close>

definition entry_error :: "'e file_system \<Rightarrow> string \<Rightarrow> nat \<Rightarrow> RegistryRef \<Rightarrow> 'e registry_error option" where
  "entry_error ReadFile path i ref =
     (case LoadExpertDefinition ReadFile (ResolveConfigPath path (xr_ConfigPath ref)) of
        Inl e \<Rightarrow> Some (InExpert i (xr_ExpertID ref) e)
      | Inr d \<Rightarrow> if xm_ExpertID (xd_Metadata d) = xr_ExpertID ref then None
                 else Some (IDMismatch i (xr_ExpertID ref) (xm_ExpertID (xd_Metadata d))))"

lemma entry_error_None_iff: "entry_error ReadFile path i ref = None \<longleftrightarrow> (\<exists>e. loads ReadFile path ref e)"
  by (auto simp: entry_error_def loads_def split: sum.splits
      intro: exI [of _ "\<lparr>le_Ref = ref, le_ConfigPath = _, le_Definition = _\<rparr>"])

lemma loadExperts_Inl_iff:
  "loadExperts ReadFile path idx refs = Inl e \<longleftrightarrow>
     (\<exists>i<length refs. xr_Enabled (refs ! i) \<and> entry_error ReadFile path (idx + i) (refs ! i) = Some e \<and>
        (\<forall>j<i. xr_Enabled (refs ! j) \<longrightarrow> entry_error ReadFile path (idx + j) (refs ! j) = None))"
proof (induction refs arbitrary: idx)
  case (Cons ref refs)
  show ?case
  proof (cases "xr_Enabled ref")
    case True
    show ?thesis
      by (cases "entry_error ReadFile path idx ref")
        (auto simp: True Ex_less_Suc2 All_less_Suc2 Cons.IH Let_def entry_error_def split: sum.splits if_splits)
  next
    case False
    then show ?thesis by (simp add: Ex_less_Suc2 All_less_Suc2 Cons.IH)
  qed
qed simp

lemma loads_Ref: "list_all2 (loads ReadFile path) refs es \<Longrightarrow> map le_Ref es = refs"
  by (induction rule: list_all2_induct) (simp_all add: loads_def)

lemma LoadExpertDefinition_valid:
  "LoadExpertDefinition ReadFile p = Inr d \<Longrightarrow> valid_definition d"
  by (auto simp: LoadExpertDefinition_def Let_def ValidateExpertDefinition_Nil_iff [symmetric]
      split: sum.splits list.splits)

lemma LoadRegistry_valid: "LoadRegistry ReadFile p = Inr r \<Longrightarrow> valid_registry r"
  by (auto simp: LoadRegistry_def ValidateRegistry_Nil_iff [symmetric]
      split: sum.splits list.splits)

text \<open>Ids that differ after trimming differ.\<close>

lemma distinct_ids: "valid_registry r \<Longrightarrow> distinct (map xr_ExpertID (xg_Experts r))"
  by (auto simp: valid_registry_def distinct_map inj_on_def)


section \<open>A configuration\<close>

text \<open>Two experts, one of them switched off, in the layout of \<open>configs/experts/registry.yaml\<close>.\<close>

definition unlines :: "string list \<Rightarrow> string" where
  "unlines ls = Join ls [newline]"

definition demoRegistryFile :: string where
  "demoRegistryFile = unlines
     [''api_version: cova/v1  # version'',
      ''kind: ExpertRegistry'',
      ''experts:'',
      ''  - expert_id: fi'',
      ''    config_path: ../../experts/fi/expert.yaml'',
      ''    enabled: true'',
      ''  - expert_id: macro'',
      ''    config_path: ../../experts/macro/expert.yaml'',
      ''    enabled: false'']"

definition demoDefinitionFile :: string where
  "demoDefinitionFile = unlines
     [''api_version: cova/v1'',
      ''kind: ExpertDefinition'',
      ''metadata:'',
      ''  expert_id: fi'',
      ''  expert_name: Fixed income'',
      ''  expert_type: fixed_income'',
      ''  version: 1.0.0'',
      ''spec:'',
      ''  capabilities:'',
      ''    - daily_brief'',
      ''    - query'',
      ''  runtime:'',
      ''    mode: local'',
      ''    entrypoint: ./main'',
      ''    timeout_seconds: 300'',
      ''    max_concurrency: 4'',
      ''  inputs:'',
      ''    accepts:'',
      ''      - text'',
      ''  outputs:'',
      ''    result_schema: ./schemas/result.schema.json'',
      ''    evidence_mode: references'']"

definition demoFiles :: "string file_system" where
  "demoFiles p =
     (if p = ''configs/experts/registry.yaml'' then Inr demoRegistryFile
      else if p = ''experts/fi/expert.yaml'' then Inr demoDefinitionFile
      else Inl ''no such file'')"

definition demoRegistry :: Registry where
  "demoRegistry = \<lparr>xg_APIVersion = ''cova/v1'', xg_Kind = ''ExpertRegistry'',
     xg_Experts = [\<lparr>xr_ExpertID = ''fi'', xr_ConfigPath = ''../../experts/fi/expert.yaml'',
                     xr_Enabled = True\<rparr>,
                   \<lparr>xr_ExpertID = ''macro'', xr_ConfigPath = ''../../experts/macro/expert.yaml'',
                     xr_Enabled = False\<rparr>]\<rparr>"

definition demoDefinition :: ExpertDefinition where
  "demoDefinition = \<lparr>xd_APIVersion = ''cova/v1'', xd_Kind = ''ExpertDefinition'',
     xd_Metadata = \<lparr>xm_ExpertID = ''fi'', xm_ExpertName = ''Fixed income'',
       xm_ExpertType = ''fixed_income'', xm_Version = ''1.0.0'', xm_Owner = [], xm_Description = []\<rparr>,
     xd_Spec = \<lparr>xs_Enabled = False, xs_Capabilities = [''daily_brief'', ''query''],
       xs_Routing = \<lparr>xo_Priority = 0, xo_Tags = []\<rparr>,
       xs_Runtime = \<lparr>xt_Mode = ''local'', xt_Entrypoint = ''./main'', xt_TimeoutSeconds = 300,
         xt_MaxConcurrency = 4\<rparr>,
       xs_Inputs = \<lparr>xi_Accepts = [''text'']\<rparr>,
       xs_Outputs = \<lparr>xu_ResultSchema = ''./schemas/result.schema.json'',
         xu_EvidenceMode = ''references''\<rparr>\<rparr>\<rparr>"

definition demoSnapshot :: RegistrySnapshot where
  "demoSnapshot = \<lparr>sn_Registry = demoRegistry,
     sn_Experts = [\<lparr>le_Ref = hd (xg_Experts demoRegistry), le_ConfigPath = ''experts/fi/expert.yaml'',
                     le_Definition = demoDefinition\<rparr>]\<rparr>"

lemma demo_parse: "parseRegistry demoRegistryFile = Inr demoRegistry"
  by code_simp

lemma demo_parse_definition: "parseExpertDefinition demoDefinitionFile = demoDefinition"
  by code_simp

lemma demo_path: "Clean ''configs/experts/registry.yaml'' = ''configs/experts/registry.yaml''"
    "ResolveConfigPath ''configs/experts/registry.yaml'' ''../../experts/fi/expert.yaml''
       = ''experts/fi/expert.yaml''"
  by code_simp+

lemma demo_valid: "ValidateRegistry demoRegistry = []" "ValidateExpertDefinition demoDefinition = []"
  by code_simp+

lemma demo_fields:
  "xg_Experts demoRegistry = [\<lparr>xr_ExpertID = ''fi'', xr_ConfigPath = ''../../experts/fi/expert.yaml'',
       xr_Enabled = True\<rparr>, \<lparr>xr_ExpertID = ''macro'', xr_ConfigPath = ''../../experts/macro/expert.yaml'',
       xr_Enabled = False\<rparr>]"
  "xm_ExpertID (xd_Metadata demoDefinition) = ''fi''"
  by (simp_all add: demoRegistry_def demoDefinition_def)

lemma demo_loads: "LoadSnapshot demoFiles ''configs/experts/registry.yaml'' = Inr demoSnapshot"
  using demo_parse demo_parse_definition demo_path demo_valid
  by (simp add: LoadSnapshot_def LoadRegistry_def demoFiles_def LoadExpertDefinition_def demoSnapshot_def
      Let_def demo_fields)


section \<open>The properties\<close>

text \<open>
  \<open>ValidateRegistry\<close> reports exactly the violations there are: a duplicate at the entries whose
  trimmed id is that of an earlier entry, a missing id or path at the entries that lack it, and
  nothing exactly for the registries that meet every condition.
\<close>

theorem registry_violations_exact:
  "(IDDuplicated n x \<in> set (ValidateRegistry r) \<longleftrightarrow>
      (\<exists>j<n. n < length (xg_Experts r) \<and> x \<noteq> [] \<and> trimmedID (xg_Experts r ! n) = x \<and>
         trimmedID (xg_Experts r ! j) = x)) \<and>
   (IDRequired n \<in> set (ValidateRegistry r) \<longleftrightarrow>
      n < length (xg_Experts r) \<and> trimmedID (xg_Experts r ! n) = []) \<and>
   (PathRequired n \<in> set (ValidateRegistry r) \<longleftrightarrow>
      n < length (xg_Experts r) \<and> TrimSpace (xr_ConfigPath (xg_Experts r ! n)) = []) \<and>
   (ValidateRegistry r = [] \<longleftrightarrow> valid_registry r)"
  by (auto simp: ValidateRegistry_def IDDuplicated_iff IDRequired_iff PathRequired_iff
      simp flip: ValidateRegistry_Nil_iff)

lemma snapshot_loads:
  assumes "LoadSnapshot ReadFile registryPath = Inr sn"
  shows "LoadRegistry ReadFile (Clean registryPath) = Inr (sn_Registry sn)"
    "list_all2 (loads ReadFile (Clean registryPath)) (EnabledExperts (sn_Registry sn)) (sn_Experts sn)"
  using assms
  by (auto simp: LoadSnapshot_def EnabledExperts_def Let_def loadExperts_Inr_iff map_sum_eq_Inr split: sum.splits)

lemma snapshot_experts:
  assumes "LoadSnapshot ReadFile registryPath = Inr sn"
  shows "map le_Ref (sn_Experts sn) = EnabledExperts (sn_Registry sn)"
    "distinct (map xr_ExpertID (EnabledExperts (sn_Registry sn)))"
  using loads_Ref [OF snapshot_loads(2) [OF assms]]
    distinct_map_filter [OF distinct_ids [OF LoadRegistry_valid [OF snapshot_loads(1) [OF assms]]]]
  by (simp_all add: EnabledExperts_def)

text \<open>
  C31. A snapshot is well-formed: its experts are the enabled entries of a valid registry in their
  order, each with the valid definition read from its resolved path and with the id of its entry,
  and no two have the same id.
\<close>

theorem snapshot_well_formed:
  assumes "LoadSnapshot ReadFile registryPath = Inr sn"
  shows "valid_registry (sn_Registry sn) \<and>
    map le_Ref (sn_Experts sn) = EnabledExperts (sn_Registry sn) \<and>
    map (\<lambda>e. xm_ExpertID (xd_Metadata (le_Definition e))) (sn_Experts sn)
      = map xr_ExpertID (EnabledExperts (sn_Registry sn)) \<and>
    distinct (map (\<lambda>e. xm_ExpertID (xd_Metadata (le_Definition e))) (sn_Experts sn)) \<and>
    list_all (\<lambda>e. valid_definition (le_Definition e) \<and>
        LoadExpertDefinition ReadFile (le_ConfigPath e) = Inr (le_Definition e) \<and>
        le_ConfigPath e = ResolveConfigPath (Clean registryPath) (xr_ConfigPath (le_Ref e)) \<and>
        Clean (le_ConfigPath e) = le_ConfigPath e)
      (sn_Experts sn)"
proof -
  note es = snapshot_loads [OF assms]
  have ids: "map (\<lambda>e. xm_ExpertID (xd_Metadata (le_Definition e))) (sn_Experts sn)
      = map xr_ExpertID (EnabledExperts (sn_Registry sn))"
    using es(2) by (induction rule: list_all2_induct) (simp_all add: loads_def)
  have each: "list_all (\<lambda>e. valid_definition (le_Definition e) \<and>
        LoadExpertDefinition ReadFile (le_ConfigPath e) = Inr (le_Definition e) \<and>
        le_ConfigPath e = ResolveConfigPath (Clean registryPath) (xr_ConfigPath (le_Ref e)) \<and>
        Clean (le_ConfigPath e) = le_ConfigPath e) (sn_Experts sn)"
    using es(2) by (induction rule: list_all2_induct)
      (auto simp: loads_def ResolveConfigPath_def intro: LoadExpertDefinition_valid)
  with ids snapshot_experts [OF assms] LoadRegistry_valid [OF es(1)] show ?thesis by simp
qed

theorem snapshot_well_formed_witness:
  "map le_Ref (sn_Experts demoSnapshot) = EnabledExperts demoRegistry"
  using snapshot_well_formed [OF demo_loads] by (simp add: demoSnapshot_def)

text \<open>
  Loading fails with the error of the first enabled entry that cannot be loaded or whose
  definition names another id; entries that are switched off are never read.
\<close>

theorem snapshot_first_error:
  assumes "LoadRegistry ReadFile (Clean registryPath) = Inr r"
  shows "LoadSnapshot ReadFile registryPath = Inl e \<longleftrightarrow>
    (\<exists>i<length (xg_Experts r). xr_Enabled (xg_Experts r ! i) \<and>
       entry_error ReadFile (Clean registryPath) i (xg_Experts r ! i) = Some e \<and>
       (\<forall>j<i. xr_Enabled (xg_Experts r ! j) \<longrightarrow>
          (\<exists>x. loads ReadFile (Clean registryPath) (xg_Experts r ! j) x)))"
using assms loadExperts_Inl_iff [of ReadFile "Clean registryPath" 0 "xg_Experts r" e]
  by (simp add: LoadSnapshot_def Let_def entry_error_None_iff)

text \<open>The registry names a second expert whose file is missing.\<close>

definition demoFiles2 :: "string file_system" where
  "demoFiles2 p = (if p = ''experts/fi/expert.yaml'' then Inl ''no such file'' else demoFiles p)"

theorem snapshot_first_error_witness:
  "LoadSnapshot demoFiles2 ''configs/experts/registry.yaml''
     = Inl (InExpert 0 ''fi'' (ReadDefinition ''experts/fi/expert.yaml'' ''no such file''))"
proof -
  have reg: "LoadRegistry demoFiles2 (Clean ''configs/experts/registry.yaml'') = Inr demoRegistry"
    using demo_parse demo_valid
    by (simp add: demo_path LoadRegistry_def demoFiles2_def demoFiles_def)
  show ?thesis
    by (simp add: snapshot_first_error [OF reg] demo_fields demo_path Ex_less_Suc2 entry_error_def
        LoadExpertDefinition_def demoFiles2_def)
qed

text \<open>
  C34. What is printed loads: if the files hold a valid registry and, for each enabled entry, a valid
  definition with the entry's id, all in the layout of the repository's configuration files, the
  snapshot is exactly that registry with those definitions.
\<close>

theorem printed_configuration_loads:
  assumes "printable_registry r" and "valid_registry r"
    and "ReadFile (Clean registryPath) = Inr (printRegistry r)"
    and "list_all2 (\<lambda>ref d. printable_definition d \<and> valid_definition d \<and>
           xm_ExpertID (xd_Metadata d) = xr_ExpertID ref \<and>
           ReadFile (ResolveConfigPath (Clean registryPath) (xr_ConfigPath ref)) = Inr (printDefinition d))
         (EnabledExperts r) ds"
  shows "LoadSnapshot ReadFile registryPath = Inr \<lparr>sn_Registry = r,
    sn_Experts = map2 (\<lambda>ref d. \<lparr>le_Ref = ref,
      le_ConfigPath = ResolveConfigPath (Clean registryPath) (xr_ConfigPath ref),
      le_Definition = d\<rparr>) (EnabledExperts r) ds\<rparr>"
proof -
  have reg: "LoadRegistry ReadFile (Clean registryPath) = Inr r"
    using assms(1-3)
    by (simp add: LoadRegistry_def parse_print_registry ValidateRegistry_Nil_iff [THEN iffD2])
  have "list_all2 (loads ReadFile (Clean registryPath)) (EnabledExperts r)
    (map2 (\<lambda>ref d. \<lparr>le_Ref = ref,
      le_ConfigPath = ResolveConfigPath (Clean registryPath) (xr_ConfigPath ref),
      le_Definition = d\<rparr>) (EnabledExperts r) ds)"
    using assms(4)
    by (induction rule: list_all2_induct)
      (simp_all add: loads_def LoadExpertDefinition_def parse_print_definition
        ValidateExpertDefinition_Nil_iff [THEN iffD2])
  with reg show ?thesis
    by (simp add: LoadSnapshot_def Let_def loadExperts_Inr_iff [THEN iffD2] EnabledExperts_def)
qed

text \<open>The demonstration configuration as the printer writes it.\<close>

definition printedFiles :: "string file_system" where
  "printedFiles p =
     (if p = ''configs/experts/registry.yaml'' then Inr (printRegistry demoRegistry)
      else if p = ''experts/fi/expert.yaml'' then Inr (printDefinition demoDefinition)
      else Inl ''no such file'')"

theorem printed_configuration_loads_witness:
  "LoadSnapshot printedFiles ''configs/experts/registry.yaml'' = Inr demoSnapshot"
proof -
  have enabled: "EnabledExperts demoRegistry = [hd (xg_Experts demoRegistry)]"
    by (simp add: EnabledExperts_def demo_fields)
  have p: "printable_registry demoRegistry" "printable_definition demoDefinition"
    by (simp_all add: printable_registry_def printable_definition_def demoRegistry_def demoDefinition_def
        scalar_def visible_def newline_def int64_def Let_def)
  have v: "valid_registry demoRegistry" "valid_definition demoDefinition"
    using demo_valid by (simp_all add: ValidateRegistry_Nil_iff ValidateExpertDefinition_Nil_iff)
  have "LoadSnapshot printedFiles ''configs/experts/registry.yaml'' = Inr \<lparr>sn_Registry = demoRegistry,
    sn_Experts = map2 (\<lambda>ref d. \<lparr>le_Ref = ref,
      le_ConfigPath = ResolveConfigPath (Clean ''configs/experts/registry.yaml'') (xr_ConfigPath ref),
      le_Definition = d\<rparr>) (EnabledExperts demoRegistry) [demoDefinition]\<rparr>"
    by (rule printed_configuration_loads)
      (use p v in \<open>simp_all add: demo_path printedFiles_def enabled demo_fields\<close>)
  then show ?thesis
    by (simp add: enabled demoSnapshot_def demo_fields demo_path)
qed


end
