(* ===== verification/Agent_Registry.thy ===== *)
theory Agent_Registry
  imports Expert_Registry Go_Time
begin

text \<open>
  The agent registry (\<open>internal/agent/registry.go\<close>, \<open>types.go\<close>): the agents of a workspace, read
  from a file in the same subset of YAML as the expert registry but with parser functions of its
  own.  They are translated as they are written; the lemmas at the end relate them to those of
  \<open>internal/registry\<close>.  Reading a file is a parameter.
\<close>

section \<open>Data\<close>

record AgentRef =
  aref_AgentID :: string
  aref_Name :: string
  aref_Role :: string
  aref_AgentMD :: string
  aref_Enabled :: bool

record AgentRegistry =
  areg_APIVersion :: string
  areg_Kind :: string
  areg_Workspace :: string
  areg_Agents :: "AgentRef list"

definition EnabledAgents :: "AgentRegistry \<Rightarrow> AgentRef list" where
  "EnabledAgents r = filter aref_Enabled (areg_Agents r)"

record Info =
  ai_ID :: string
  ai_Name :: string
  ai_Role :: string
  ai_Description :: string
  ai_AgentMDPath :: string
  ai_Enabled :: bool
  ai_Tools :: "string list"

definition noAgentRef :: AgentRef where
  "noAgentRef = \<lparr>aref_AgentID = [], aref_Name = [], aref_Role = [], aref_AgentMD = [],
     aref_Enabled = False\<rparr>"

definition noAgentRegistry :: AgentRegistry where
  "noAgentRegistry = \<lparr>areg_APIVersion = [], areg_Kind = [], areg_Workspace = [], areg_Agents = []\<rparr>"

datatype agent_line_error = AgentsNotASequence | AgentFieldBeforeItem

datatype agent_violation = AgBadAPIVersion | AgBadKind | AgIDRequired nat | AgIDDuplicated nat string
  | AgNameRequired nat | AgRoleRequired nat

datatype 'e agent_error = AgRead string 'e | AgParse string nat agent_line_error
  | AgInvalid "agent_violation list" | AgReadMD string string 'e


section \<open>Lines\<close>

fun stripComment_from :: "bool \<Rightarrow> string \<Rightarrow> string" where
  "stripComment_from inQ [] = []"
| "stripComment_from inQ (c # cs) =
     (let inQ' = (if c = CHR 0x22 \<or> c = CHR 0x27 then \<not> inQ else inQ)
      in if c = CHR ''#'' \<and> \<not> inQ' then [] else c # stripComment_from inQ' cs)"

definition stripComment :: "string \<Rightarrow> string" where
  "stripComment line = stripComment_from False line"

fun countLeadingSpaces :: "string \<Rightarrow> nat" where
  "countLeadingSpaces [] = 0"
| "countLeadingSpaces (c # cs) = (if c = CHR '' '' then Suc (countLeadingSpaces cs) else 0)"

definition unquote :: "string \<Rightarrow> string" where
  "unquote s0 =
     (let s = TrimSpace s0
      in if 2 \<le> length s \<and>
            (hd s = CHR 0x22 \<and> last s = CHR 0x22 \<or> hd s = CHR 0x27 \<and> last s = CHR 0x27)
         then take (length s - 2) (drop 1 s) else s)"

definition splitKV :: "string \<Rightarrow> (string \<times> string) option" where
  "splitKV line =
     (case IndexChar (CHR '':'') line of
        None \<Rightarrow> None
      | Some colon \<Rightarrow>
          if colon = 0 then None
          else (let key = TrimSpace (take colon line); value = TrimSpace (drop (colon + 1) line)
                in if key = [] then None else Some (key, unquote value)))"


section \<open>Parsing\<close>

definition applyAgentField :: "AgentRef \<Rightarrow> string \<Rightarrow> AgentRef" where
  "applyAgentField item line =
     (case splitKV line of
        None \<Rightarrow> item
      | Some (key, value) \<Rightarrow>
          if key = ''agent_id'' then item\<lparr>aref_AgentID := value\<rparr>
          else if key = ''name'' then item\<lparr>aref_Name := value\<rparr>
          else if key = ''role'' then item\<lparr>aref_Role := value\<rparr>
          else if key = ''agent_md'' then item\<lparr>aref_AgentMD := value\<rparr>
          else if key = ''enabled'' then item\<lparr>aref_Enabled := EqualFoldAscii value ''true''\<rparr>
          else item)"

record agent_scan =
  asc_out :: AgentRegistry
  asc_inAgents :: bool
  asc_current :: "AgentRef option"

definition flushAgent :: "agent_scan \<Rightarrow> AgentRegistry" where
  "flushAgent st =
     (case asc_current st of
        None \<Rightarrow> asc_out st
      | Some item \<Rightarrow> (asc_out st)\<lparr>areg_Agents := areg_Agents (asc_out st) @ [item]\<rparr>)"

definition agentTopLine :: "string \<Rightarrow> agent_scan \<Rightarrow> agent_line_error + agent_scan" where
  "agentTopLine trimmed st =
     (let st1 = st\<lparr>asc_inAgents := False\<rparr>; out = asc_out st
      in case splitKV trimmed of
           None \<Rightarrow> Inr st1
         | Some (key, value) \<Rightarrow>
             if key = ''api_version'' then Inr (st1\<lparr>asc_out := out\<lparr>areg_APIVersion := value\<rparr>\<rparr>)
             else if key = ''kind'' then Inr (st1\<lparr>asc_out := out\<lparr>areg_Kind := value\<rparr>\<rparr>)
             else if key = ''workspace'' then Inr (st1\<lparr>asc_out := out\<lparr>areg_Workspace := value\<rparr>\<rparr>)
             else if key = ''agents'' then
               (if value \<noteq> [] then Inl AgentsNotASequence else Inr (st1\<lparr>asc_inAgents := True\<rparr>))
             else Inr st1)"

definition agentItemLine :: "string \<Rightarrow> agent_scan \<Rightarrow> agent_line_error + agent_scan" where
  "agentItemLine trimmed st =
     (if prefix ''- '' trimmed then
        (let st1 = st\<lparr>asc_out := flushAgent st, asc_current := Some noAgentRef\<rparr>;
             rest = TrimSpace (TrimPrefix trimmed ''- '')
         in if rest = [] then Inr st1
            else Inr (st1\<lparr>asc_current := Some (applyAgentField noAgentRef rest)\<rparr>))
      else (case asc_current st of
              None \<Rightarrow> Inl AgentFieldBeforeItem
            | Some item \<Rightarrow> Inr (st\<lparr>asc_current := Some (applyAgentField item trimmed)\<rparr>)))"

definition agentLine :: "string \<Rightarrow> agent_scan \<Rightarrow> agent_line_error + agent_scan" where
  "agentLine line st =
     (let trimmed = TrimSpace (stripComment line)
      in if trimmed = [] then Inr st
         else if countLeadingSpaces line = 0 then agentTopLine trimmed st
         else if \<not> asc_inAgents st then Inr st
         else agentItemLine trimmed st)"

fun agentLines :: "nat \<Rightarrow> string list \<Rightarrow> agent_scan \<Rightarrow> nat \<times> agent_line_error + agent_scan" where
  "agentLines lineNo [] st = Inr st"
| "agentLines lineNo (line # rest) st =
     (case agentLine line st of
        Inl e \<Rightarrow> Inl (lineNo + 1, e)
      | Inr st' \<Rightarrow> agentLines (lineNo + 1) rest st')"

definition parseAgentRegistry :: "string \<Rightarrow> nat \<times> agent_line_error + AgentRegistry" where
  "parseAgentRegistry raw =
     map_sum id flushAgent (agentLines 0 (SplitChar newline raw)
       \<lparr>asc_out = noAgentRegistry, asc_inAgents = False, asc_current = None\<rparr>)"


section \<open>Validation and loading\<close>

definition agentRegistryKindV1 :: string where "agentRegistryKindV1 = ''AgentRegistry''"

fun checkAgents :: "nat \<Rightarrow> string set \<Rightarrow> AgentRef list \<Rightarrow> agent_violation list" where
  "checkAgents idx seen [] = []"
| "checkAgents idx seen (ref # rest) =
     (let i = TrimSpace (aref_AgentID ref)
      in (if i = [] then [AgIDRequired idx] else if i \<in> seen then [AgIDDuplicated idx i] else []) @
         (if TrimSpace (aref_Name ref) = [] then [AgNameRequired idx] else []) @
         (if TrimSpace (aref_Role ref) = [] then [AgRoleRequired idx] else []) @
         checkAgents (idx + 1) (if i = [] \<or> i \<in> seen then seen else insert i seen) rest)"

definition validateRegistry :: "AgentRegistry \<Rightarrow> agent_violation list" where
  "validateRegistry r =
     (if TrimSpace (areg_APIVersion r) \<noteq> apiVersionV1 then [AgBadAPIVersion] else []) @
     (if TrimSpace (areg_Kind r) \<noteq> agentRegistryKindV1 then [AgBadKind] else []) @
     checkAgents 0 {} (areg_Agents r)"

definition LoadAgentRegistry :: "'e file_system \<Rightarrow> string \<Rightarrow> 'e agent_error + AgentRegistry" where
  "LoadAgentRegistry ReadFile registryPath =
     (case ReadFile registryPath of
        Inl e \<Rightarrow> Inl (AgRead registryPath e)
      | Inr raw \<Rightarrow>
          (case parseAgentRegistry raw of
             Inl (lineNo, e) \<Rightarrow> Inl (AgParse registryPath lineNo e)
           | Inr r \<Rightarrow> (case validateRegistry r of [] \<Rightarrow> Inr r | vs \<Rightarrow> Inl (AgInvalid vs))))"

definition LoadAgentMD :: "'e file_system \<Rightarrow> string \<Rightarrow> AgentRef \<Rightarrow> 'e agent_error + string" where
  "LoadAgentMD ReadFile registryPath ref =
     (if aref_AgentMD ref = [] then Inr []
      else (let mdPath = (if IsAbs (aref_AgentMD ref) then aref_AgentMD ref
                          else Clean (JoinPath (Dir registryPath) (aref_AgentMD ref)))
            in case ReadFile mdPath of
                 Inl e \<Rightarrow> Inl (AgReadMD (aref_AgentID ref) mdPath e)
               | Inr raw \<Rightarrow> Inr raw))"

definition agentInfo :: "AgentRef \<Rightarrow> Info" where
  "agentInfo ref = \<lparr>ai_ID = aref_AgentID ref, ai_Name = aref_Name ref, ai_Role = aref_Role ref,
     ai_Description = [], ai_AgentMDPath = aref_AgentMD ref, ai_Enabled = aref_Enabled ref,
     ai_Tools = []\<rparr>"

definition LoadRegistryWithAgents ::
  "'e file_system \<Rightarrow> string \<Rightarrow> 'e agent_error + AgentRegistry \<times> Info list" where
  "LoadRegistryWithAgents ReadFile registryPath =
     map_sum id (\<lambda>r. (r, map agentInfo (EnabledAgents r))) (LoadAgentRegistry ReadFile registryPath)"


section \<open>The two parsers\<close>

text \<open>
  The helpers of the two registries agree, but for comments: a quote of the other kind inside a
  quoted text ends the quotation for the agents' parser and not for the experts'.
\<close>

lemma countLeadingSpaces_eq: "countLeadingSpaces = leadingSpaces"
proof
  show "countLeadingSpaces s = leadingSpaces s" for s
    by (induction s) (simp_all add: leadingSpaces_def)
qed

lemma unquote_eq: "unquote s = unquoteYAMLScalar s"
proof -
  have "take (length s - 2) (drop 1 s) = butlast (tl s)" for s :: string
    by (cases s) (simp_all add: butlast_conv_take)
  then show ?thesis
    unfolding unquote_def unquoteYAMLScalar_def Let_def by auto
qed

lemma splitKV_eq: "splitKV = splitYAMLKeyValue"
  unfolding splitKV_def [abs_def] splitYAMLKeyValue_def [abs_def] unquote_eq ..

lemma strip_only_single: "CHR 0x22 \<notin> set s \<Longrightarrow> stripComment_from q s = strip_from q False s"
  by (induction s arbitrary: q) (auto simp: Let_def)

lemma strip_only_double: "CHR 0x27 \<notin> set s \<Longrightarrow> stripComment_from q s = strip_from False q s"
  by (induction s arbitrary: q) (auto simp: Let_def)

lemma stripComment_eq:
  "CHR 0x22 \<notin> set s \<or> CHR 0x27 \<notin> set s \<Longrightarrow> stripComment s = stripInlineComment s"
  using strip_only_single [of s False] strip_only_double [of s False]
  by (auto simp: stripComment_def stripInlineComment_def)

text \<open>A name with an apostrophe in double quotes, and a hash after it.\<close>

lemma stripComment_differs:
  "stripComment [CHR 0x22, CHR 0x27, CHR 0x22, CHR ''#''] \<noteq> stripInlineComment [CHR 0x22, CHR 0x27, CHR 0x22, CHR ''#'']"
  by (simp add: stripComment_def stripInlineComment_def)

text \<open>The set of agents a registry with no violations gives.\<close>

lemma checkAgents_Nil_iff:
  "checkAgents idx seen refs = [] \<longleftrightarrow>
     (\<forall>ref\<in>set refs. TrimSpace (aref_AgentID ref) \<noteq> [] \<and> TrimSpace (aref_Name ref) \<noteq> [] \<and>
        TrimSpace (aref_Role ref) \<noteq> []) \<and>
     distinct (map (\<lambda>ref. TrimSpace (aref_AgentID ref)) refs) \<and>
     (\<lambda>ref. TrimSpace (aref_AgentID ref)) ` set refs \<inter> seen = {}"
  by (induction refs arbitrary: idx seen) (auto simp: Let_def)

end
