(* ===== verification/Agent_Pool.thy ===== *)
theory Agent_Pool
  imports Agent_Registry
begin

text \<open>
  The pool of agent connections (\<open>internal/agent/connection.go\<close>, \<open>types.go\<close>).

  Connections are pointers in the code: the pool's map, the read loop and the ping loop of a
  connection share its \<open>closed\<close> flag.  They are in a list here, and a connection is its index.
  A WebSocket is outside: what is read from it and whether a write succeeds is given to each step.

  \<open>HandleWebSocket\<close> and the loops run in goroutines; their critical sections (under the pool's
  mutex or the write mutex of the connection) are the steps of \<open>pool_step\<close>, in any order the
  program text allows.  The ping loop changes nothing that is modelled.
\<close>

section \<open>Data\<close>

definition StatusOffline :: string where "StatusOffline = ''offline''"
definition StatusOnline :: string where "StatusOnline = ''online''"
definition StatusBusy :: string where "StatusBusy = ''busy''"
definition StatusIdle :: string where "StatusIdle = ''idle''"
definition StatusArchived :: string where "StatusArchived = ''archived''"

lemma agent_status_distinct [simp]: "StatusOffline \<noteq> StatusOnline"
  by (simp add: StatusOffline_def StatusOnline_def)

record AgentState =
  as_Info :: Info
  as_Status :: string
  as_ConnectedAt :: time
  as_LastSeenAt :: time
  as_SessionID :: string
  as_RemoteAddr :: string

record AuthRequest =
  aq_Type :: string
  aq_AgentID :: string
  aq_Token :: string
  aq_ClientVersion :: string
  aq_Role :: string

record AuthResponse =
  au_Type :: string
  au_Success :: bool
  au_SessionID :: string
  au_Workspace :: string
  au_Error :: string
  au_Tools :: "string list"

record RoutedMessage =
  rm_Type :: string
  rm_ID :: string
  rm_Platform :: string
  rm_ChannelID :: string
  rm_UserID :: string
  rm_Username :: string
  rm_Text :: string
  rm_ThreadID :: string
  rm_Metadata :: "(string \<times> string) list"

record AgentResponse =
  ag_Type :: string
  ag_MessageID :: string
  ag_Platform :: string
  ag_ChannelID :: string
  ag_Text :: string

text \<open>Of the response handler only whether there is one is kept.\<close>

record Conn =
  cn_agentID :: string
  cn_sessionID :: string
  cn_closed :: bool

record Pool =
  pl_conns :: "nat gomap"
  pl_agents :: "Info gomap"
  pl_states :: "AgentState gomap"
  pl_authToken :: string
  pl_workspace :: string
  pl_onResponse :: bool
  pl_heap :: "Conn list"

definition NewPool :: "string \<Rightarrow> string \<Rightarrow> bool \<Rightarrow> Pool" where
  "NewPool authToken workspace onResponse = \<lparr>pl_conns = [], pl_agents = [], pl_states = [],
     pl_authToken = authToken, pl_workspace = workspace, pl_onResponse = onResponse,
     pl_heap = []\<rparr>"

datatype send_error = NotConnected string | ConnectionClosed string | WriteFailed


section \<open>A connection\<close>

text \<open>\<open>Send\<close>: whether the write succeeds is given.\<close>

definition Conn_Send :: "Pool \<Rightarrow> nat \<Rightarrow> bool \<Rightarrow> send_error + unit" where
  "Conn_Send p c written =
     (if cn_closed (pl_heap p ! c) then Inl (ConnectionClosed (cn_agentID (pl_heap p ! c)))
      else if written then Inr () else Inl WriteFailed)"

definition Conn_Close :: "nat \<Rightarrow> Pool \<Rightarrow> Pool" where
  "Conn_Close c p =
     (if cn_closed (pl_heap p ! c) then p
      else p\<lparr>pl_heap := (pl_heap p)[c := (pl_heap p ! c)\<lparr>cn_closed := True\<rparr>]\<rparr>)"


section \<open>The pool\<close>

definition RegisterAgent :: "Info \<Rightarrow> Pool \<Rightarrow> Pool" where
  "RegisterAgent info p =
     p\<lparr>pl_agents := mput (ai_ID info) info (pl_agents p),
       pl_states := mput (ai_ID info)
         \<lparr>as_Info = info, as_Status = StatusOffline, as_ConnectedAt = zeroTime,
          as_LastSeenAt = zeroTime, as_SessionID = [], as_RemoteAddr = []\<rparr> (pl_states p)\<rparr>"

definition authFailure :: "string \<Rightarrow> AuthResponse" where
  "authFailure e = \<lparr>au_Type = ''auth_result'', au_Success = False, au_SessionID = [],
     au_Workspace = [], au_Error = e, au_Tools = []\<rparr>"

text \<open>
  The first part of \<open>HandleWebSocket\<close>: the message read from the socket, if one could be read, is
  refused with a reply or names a registered agent.
\<close>

definition authenticate :: "Pool \<Rightarrow> AuthRequest option \<Rightarrow> AuthResponse + AuthRequest \<times> Info" where
  "authenticate p message =
     (case message of
        None \<Rightarrow> Inl (authFailure ''invalid auth message'')
      | Some req \<Rightarrow>
          if aq_Type req \<noteq> ''auth'' then Inl (authFailure ''expected auth message'')
          else if pl_authToken p \<noteq> [] \<and> aq_Token req \<noteq> pl_authToken p
          then Inl (authFailure ''invalid token'')
          else (case mget (pl_agents p) (aq_AgentID req) of
                  None \<Rightarrow> Inl (authFailure (''unknown agent_id: '' @ aq_AgentID req))
                | Some info \<Rightarrow> Inr (req, info)))"

definition sessionID :: "string \<Rightarrow> time \<Rightarrow> string" where
  "sessionID agentID now = ''sess_'' @ agentID @ ''_'' @ dec_int (now div 1000000)"

text \<open>
  The critical section: an existing connection of the agent is closed and replaced.  The clock is
  read for the session id, for \<open>ConnectedAt\<close> and for \<open>LastSeenAt\<close>.
\<close>

definition install :: "AuthRequest \<Rightarrow> Info \<Rightarrow> string \<Rightarrow> time \<times> time \<times> time \<Rightarrow> Pool \<Rightarrow> Pool" where
  "install req info remoteAddr clock p =
     (let (t1, t2, t3) = clock;
          a = aq_AgentID req;
          session = sessionID a t1;
          p1 = (case mget (pl_conns p) a of None \<Rightarrow> p | Some old \<Rightarrow> Conn_Close old p)
      in p1\<lparr>pl_heap := pl_heap p1 @ [\<lparr>cn_agentID = a, cn_sessionID = session, cn_closed = False\<rparr>],
            pl_conns := mput a (length (pl_heap p1)) (pl_conns p1),
            pl_states := mput a
              \<lparr>as_Info = info, as_Status = StatusOnline, as_ConnectedAt = t2, as_LastSeenAt = t3,
               as_SessionID = session, as_RemoteAddr = remoteAddr\<rparr> (pl_states p1)\<rparr>)"

definition greeting :: "Pool \<Rightarrow> Conn \<Rightarrow> Info \<Rightarrow> AuthResponse" where
  "greeting p conn info = \<lparr>au_Type = ''auth_result'', au_Success = True,
     au_SessionID = cn_sessionID conn, au_Workspace = pl_workspace p, au_Error = [],
     au_Tools = ai_Tools info\<rparr>"

text \<open>The greeting: the loops start only if it could be sent.\<close>

definition greet :: "nat \<Rightarrow> bool \<Rightarrow> Pool \<Rightarrow> bool \<times> Pool" where
  "greet c written p =
     (case Conn_Send p c written of Inl e \<Rightarrow> (False, Conn_Close c p) | Inr u \<Rightarrow> (True, p))"

text \<open>The result of a send holds the connection that it was written to.\<close>

definition SendToAgent :: "Pool \<Rightarrow> string \<Rightarrow> bool \<Rightarrow> send_error + nat" where
  "SendToAgent p agentID written =
     (case mget (pl_conns p) agentID of
        None \<Rightarrow> Inl (NotConnected agentID)
      | Some c \<Rightarrow> map_sum id (\<lambda>u. c) (Conn_Send p c written))"

definition GetState :: "Pool \<Rightarrow> string \<Rightarrow> AgentState option" where
  "GetState p agentID = mget (pl_states p) agentID"

definition ListAgents :: "Pool \<Rightarrow> AgentState list" where
  "ListAgents p = map snd (pl_states p)"

definition IsOnline :: "Pool \<Rightarrow> string \<Rightarrow> bool" where
  "IsOnline p agentID =
     (case mget (pl_states p) agentID of None \<Rightarrow> False | Some s \<Rightarrow> as_Status s = StatusOnline)"

text \<open>
  The pong handler, and what a frame from the agent hands to the response handler: a response or
  nothing.
\<close>

definition pong :: "nat \<Rightarrow> time \<Rightarrow> Pool \<Rightarrow> Pool" where
  "pong c now p =
     (let a = cn_agentID (pl_heap p ! c)
      in case mget (pl_states p) a of
           None \<Rightarrow> p
         | Some s \<Rightarrow> p\<lparr>pl_states := mput a (s\<lparr>as_LastSeenAt := now\<rparr>) (pl_states p)\<rparr>)"

definition readMessage ::
  "(string \<Rightarrow> string option) \<Rightarrow> (string \<Rightarrow> AgentResponse option) \<Rightarrow> Pool \<Rightarrow> string \<Rightarrow>
   AgentResponse option" where
  "readMessage envelopeType unmarshal p raw =
     (case envelopeType raw of
        None \<Rightarrow> None
      | Some t \<Rightarrow>
          if t = ''response''
          then (case unmarshal raw of
                  None \<Rightarrow> None
                | Some resp \<Rightarrow> if pl_onResponse p then Some resp else None)
          else None)"

definition disconnectAgent :: "string \<Rightarrow> Pool \<Rightarrow> Pool" where
  "disconnectAgent agentID p =
     (let p1 = (case mget (pl_conns p) agentID of
                  None \<Rightarrow> p
                | Some c \<Rightarrow> (Conn_Close c p)\<lparr>pl_conns := mdel agentID (pl_conns (Conn_Close c p))\<rparr>)
      in case mget (pl_states p1) agentID of
           None \<Rightarrow> p1
         | Some s \<Rightarrow> p1\<lparr>pl_states := mput agentID (s\<lparr>as_Status := StatusOffline\<rparr>) (pl_states p1)\<rparr>)"


section \<open>The goroutines\<close>

text \<open>
  Handshakes that passed the checks and are not installed yet, connections that are installed and
  not greeted yet, and connections with a read loop.  \<open>py_auth\<close> is a ghost: the request that each
  connection was authenticated with.
\<close>

record pool_sys =
  py_pool :: Pool
  py_handshakes :: "(AuthRequest \<times> Info) multiset"
  py_greeting :: "nat set"
  py_readers :: "nat set"
  py_auth :: "AuthRequest list"

datatype pool_event =
    EvRegister Info
  | EvAuth "AuthRequest option"
  | EvInstall AuthRequest Info
  | EvGreet nat bool
  | EvPong nat time
  | EvResponse nat AgentResponse
  | EvReadEnd nat

inductive pool_step :: "pool_sys \<Rightarrow> pool_event \<Rightarrow> pool_sys \<Rightarrow> bool" where
  register: "pool_step s (EvRegister info) (s\<lparr>py_pool := RegisterAgent info (py_pool s)\<rparr>)"
| refuse: "authenticate (py_pool s) message = Inl reply \<Longrightarrow> pool_step s (EvAuth message) s"
| accept: "authenticate (py_pool s) message = Inr h \<Longrightarrow>
    pool_step s (EvAuth message) (s\<lparr>py_handshakes := add_mset h (py_handshakes s)\<rparr>)"
| installed: "(req, info) \<in># py_handshakes s \<Longrightarrow>
    pool_step s (EvInstall req info)
      (s\<lparr>py_pool := install req info remote clock (py_pool s),
         py_handshakes := py_handshakes s - {#(req, info)#},
         py_greeting := insert (length (pl_heap (py_pool s))) (py_greeting s),
         py_auth := py_auth s @ [req]\<rparr>)"
| greeted: "c \<in> py_greeting s \<Longrightarrow> greet c written (py_pool s) = (ok, p') \<Longrightarrow>
    pool_step s (EvGreet c written)
      (s\<lparr>py_pool := p', py_greeting := py_greeting s - {c},
         py_readers := (if ok then insert c (py_readers s) else py_readers s)\<rparr>)"
| ponged: "c \<in> py_readers s \<Longrightarrow>
    pool_step s (EvPong c now) (s\<lparr>py_pool := pong c now (py_pool s)\<rparr>)"
| response: "c \<in> py_readers s \<Longrightarrow> readMessage envelopeType unmarshal (py_pool s) raw = Some resp \<Longrightarrow>
    pool_step s (EvResponse c resp) s"
| read_end: "c \<in> py_readers s \<Longrightarrow>
    pool_step s (EvReadEnd c)
      (s\<lparr>py_pool := disconnectAgent (cn_agentID (pl_heap (py_pool s) ! c)) (py_pool s),
         py_readers := py_readers s - {c}\<rparr>)"

inductive_cases read_endE: "pool_step s (EvReadEnd c) s'"
inductive_cases responseE: "pool_step s (EvResponse c resp) s'"

definition pool_start :: "string \<Rightarrow> string \<Rightarrow> pool_sys" where
  "pool_start authToken workspace = \<lparr>py_pool = NewPool authToken workspace True, py_handshakes = {#},
     py_greeting = {}, py_readers = {}, py_auth = []\<rparr>"

inductive pool_reach :: "string \<Rightarrow> string \<Rightarrow> pool_sys \<Rightarrow> bool" for token ws where
  start: "pool_reach token ws (pool_start token ws)"
| step: "pool_reach token ws s \<Longrightarrow> pool_step s e s' \<Longrightarrow> pool_reach token ws s'"

end
