(* ===== verification/Agent_Pool_Properties.thy ===== *)
theory Agent_Pool_Properties
  imports Agent_Pool
begin

text \<open>
  The invariants of the pool of agent connections, over every interleaving of its goroutines, and
  what they mean for messages; two runs in which the pool's bookkeeping and its sockets part.
\<close>

section \<open>Invariants of the pool\<close>

text \<open>
  The map of connections points to connections of its agents, and a connection that is open is the
  one in the map.
\<close>

definition conns_ok :: "Pool \<Rightarrow> bool" where
  "conns_ok p \<longleftrightarrow>
     (\<forall>a c. mget (pl_conns p) a = Some c \<longrightarrow>
        c < length (pl_heap p) \<and> cn_agentID (pl_heap p ! c) = a) \<and>
     (\<forall>c < length (pl_heap p). \<not> cn_closed (pl_heap p ! c) \<longrightarrow>
        mget (pl_conns p) (cn_agentID (pl_heap p ! c)) = Some c)"

definition states_ok :: "Pool \<Rightarrow> bool" where
  "states_ok p \<longleftrightarrow> mwf (pl_states p) \<and>
     (\<forall>a st. mget (pl_states p) a = Some st \<longrightarrow> ai_ID (as_Info st) = a \<and>
        (as_Status st = StatusOnline \<longrightarrow> mget (pl_conns p) a \<noteq> None)) \<and>
     (\<forall>a info. mget (pl_agents p) a = Some info \<longrightarrow> ai_ID info = a)"

text \<open>A request that the checks of \<open>HandleWebSocket\<close> let pass.\<close>

definition authentic :: "Pool \<Rightarrow> AuthRequest \<Rightarrow> bool" where
  "authentic p req \<longleftrightarrow> aq_Type req = ''auth'' \<and>
     (pl_authToken p = [] \<or> aq_Token req = pl_authToken p) \<and>
     mget (pl_agents p) (aq_AgentID req) \<noteq> None"

fun genuine :: "Pool \<Rightarrow> AuthRequest \<times> Info \<Rightarrow> bool" where
  "genuine p (req, info) \<longleftrightarrow> authentic p req \<and> ai_ID info = aq_AgentID req"

lemma Conn_Close_simps [simp]:
  "length (pl_heap (Conn_Close c p)) = length (pl_heap p)"
  "pl_conns (Conn_Close c p) = pl_conns p"
  "pl_states (Conn_Close c p) = pl_states p"
  "pl_agents (Conn_Close c p) = pl_agents p"
  "pl_authToken (Conn_Close c p) = pl_authToken p"
  by (simp_all add: Conn_Close_def)

lemma Conn_Close_heap:
  "c' < length (pl_heap p) \<Longrightarrow> pl_heap (Conn_Close c p) ! c' =
     (if c' = c then (pl_heap p ! c)\<lparr>cn_closed := True\<rparr> else pl_heap p ! c')"
  by (auto simp: Conn_Close_def nth_list_update intro: Conn.equality)

lemma Conn_Close_agent:
  "c' < length (pl_heap p) \<Longrightarrow> cn_agentID (pl_heap (Conn_Close c p) ! c') = cn_agentID (pl_heap p ! c')"
  by (auto simp: Conn_Close_heap)

lemma Conn_Close_states_ok: "states_ok (Conn_Close c p) = states_ok p"
  by (simp add: states_ok_def)

lemma Conn_Close_conns_ok: "conns_ok p \<Longrightarrow> conns_ok (Conn_Close c p)"
  by (auto simp: conns_ok_def Conn_Close_heap)

lemma RegisterAgent_simps [simp]:
  "pl_heap (RegisterAgent i p) = pl_heap p"
  "pl_conns (RegisterAgent i p) = pl_conns p"
  "pl_authToken (RegisterAgent i p) = pl_authToken p"
  "mget (pl_agents (RegisterAgent i p)) = (mget (pl_agents p))(ai_ID i \<mapsto> i)"
  by (simp_all add: RegisterAgent_def)

lemma RegisterAgent_ok:
  "conns_ok p \<Longrightarrow> conns_ok (RegisterAgent i p)"
  "states_ok p \<Longrightarrow> states_ok (RegisterAgent i p)"
  by (auto simp: conns_ok_def states_ok_def RegisterAgent_def)

lemma pong_simps [simp]:
  "pl_heap (pong c now p) = pl_heap p"
  "pl_conns (pong c now p) = pl_conns p"
  "pl_agents (pong c now p) = pl_agents p"
  "pl_authToken (pong c now p) = pl_authToken p"
  by (simp_all add: pong_def Let_def split: option.split)

lemma pong_ok:
  "conns_ok p \<Longrightarrow> conns_ok (pong c now p)"
  "states_ok p \<Longrightarrow> states_ok (pong c now p)"
  by (simp add: conns_ok_def) (auto simp: states_ok_def pong_def Let_def split: option.split)

text \<open>Installing a connection: the old one, if there is one, is closed.\<close>

definition evict :: "string \<Rightarrow> Pool \<Rightarrow> Pool" where
  "evict a p = (case mget (pl_conns p) a of None \<Rightarrow> p | Some old \<Rightarrow> Conn_Close old p)"

lemma evict_simps [simp]:
  "length (pl_heap (evict a p)) = length (pl_heap p)"
  "pl_conns (evict a p) = pl_conns p"
  "pl_states (evict a p) = pl_states p"
  "pl_agents (evict a p) = pl_agents p"
  "pl_authToken (evict a p) = pl_authToken p"
  by (simp_all add: evict_def split: option.split)

lemma evict_heap:
  "c < length (pl_heap p) \<Longrightarrow> pl_heap (evict a p) ! c =
     (if mget (pl_conns p) a = Some c then (pl_heap p ! c)\<lparr>cn_closed := True\<rparr> else pl_heap p ! c)"
  by (auto simp: evict_def Conn_Close_heap split: option.split)

lemma evict_agent:
  "c < length (pl_heap p) \<Longrightarrow> cn_agentID (pl_heap (evict a p) ! c) = cn_agentID (pl_heap p ! c)"
  by (simp add: evict_heap)

lemma install_eq:
  "install req info remote (t1, t2, t3) p =
     (let a = aq_AgentID req
      in (evict a p)\<lparr>pl_heap := pl_heap (evict a p) @
            [\<lparr>cn_agentID = a, cn_sessionID = sessionID a t1, cn_closed = False\<rparr>],
          pl_conns := mput a (length (pl_heap p)) (pl_conns p),
          pl_states := mput a \<lparr>as_Info = info, as_Status = StatusOnline, as_ConnectedAt = t2,
             as_LastSeenAt = t3, as_SessionID = sessionID a t1, as_RemoteAddr = remote\<rparr> (pl_states p)\<rparr>)"
  by (simp add: install_def evict_def Let_def split: option.split)

lemma install_simps [simp]:
  "length (pl_heap (install req info remote clock p)) = Suc (length (pl_heap p))"
  "pl_agents (install req info remote clock p) = pl_agents p"
  "pl_authToken (install req info remote clock p) = pl_authToken p"
  "mget (pl_conns (install req info remote clock p)) =
     (mget (pl_conns p))(aq_AgentID req \<mapsto> length (pl_heap p))"
  by (cases clock; simp add: install_eq Let_def)+

lemma install_heap:
  "c < length (pl_heap p) \<Longrightarrow> pl_heap (install req info remote clock p) ! c =
     (if mget (pl_conns p) (aq_AgentID req) = Some c
      then (pl_heap p ! c)\<lparr>cn_closed := True\<rparr> else pl_heap p ! c)"
  "cn_agentID (pl_heap (install req info remote clock p) ! length (pl_heap p)) = aq_AgentID req"
  "\<not> cn_closed (pl_heap (install req info remote clock p) ! length (pl_heap p))"
  by (cases clock; simp add: install_eq Let_def nth_append evict_heap)+

lemma conns_okD:
  "conns_ok p \<Longrightarrow> mget (pl_conns p) a = Some c \<Longrightarrow> c < length (pl_heap p)"
  "conns_ok p \<Longrightarrow> mget (pl_conns p) a = Some c \<Longrightarrow> cn_agentID (pl_heap p ! c) = a"
  "conns_ok p \<Longrightarrow> c < length (pl_heap p) \<Longrightarrow> \<not> cn_closed (pl_heap p ! c) \<Longrightarrow>
     mget (pl_conns p) (cn_agentID (pl_heap p ! c)) = Some c"
  by (auto simp: conns_ok_def)

lemma install_agent:
  "c < length (pl_heap p) \<Longrightarrow>
     cn_agentID (pl_heap (install req info remote clock p) ! c) = cn_agentID (pl_heap p ! c)"
  by (simp add: install_heap)

lemma install_conns_ok:
  assumes ok: "conns_ok p"
  shows "conns_ok (install req info remote clock p)"
proof -
  let ?p = "install req info remote clock p" and ?n = "length (pl_heap p)" and ?a = "aq_AgentID req"
  have "c < length (pl_heap ?p) \<and> cn_agentID (pl_heap ?p ! c) = a"
    if "mget (pl_conns ?p) a = Some c" for a c
    using that conns_okD(1,2) [OF ok, of a c] install_heap(2) [of req info remote clock p]
      install_agent [of c p req info remote clock]
    by (cases "a = ?a") auto
  moreover have "mget (pl_conns ?p) (cn_agentID (pl_heap ?p ! c)) = Some c"
    if c: "c < length (pl_heap ?p)" "\<not> cn_closed (pl_heap ?p ! c)" for c
  proof (cases "c = ?n")
    case True
    then show ?thesis by (simp add: install_heap(2))
  next
    case False
    with c have old: "c < ?n" by simp
    with c(2) have "mget (pl_conns p) ?a \<noteq> Some c" "\<not> cn_closed (pl_heap p ! c)"
      by (auto simp: install_heap(1) split: if_splits)
    with conns_okD(3) [OF ok old] old show ?thesis by (auto simp: install_agent)
  qed
  ultimately show ?thesis by (simp add: conns_ok_def)
qed

lemma install_states_ok:
  "states_ok p \<Longrightarrow> ai_ID info = aq_AgentID req \<Longrightarrow> states_ok (install req info remote clock p)"
  by (cases clock) (auto simp: states_ok_def install_eq Let_def)

lemma disconnect_simps [simp]:
  "length (pl_heap (disconnectAgent a p)) = length (pl_heap p)"
  "mget (pl_conns (disconnectAgent a p)) = (mget (pl_conns p))(a := None)"
  "pl_agents (disconnectAgent a p) = pl_agents p"
  "pl_authToken (disconnectAgent a p) = pl_authToken p"
  by (auto simp: disconnectAgent_def Let_def split: option.split)

lemma disconnect_heap:
  "c < length (pl_heap p) \<Longrightarrow> pl_heap (disconnectAgent a p) ! c =
     (if mget (pl_conns p) a = Some c then (pl_heap p ! c)\<lparr>cn_closed := True\<rparr> else pl_heap p ! c)"
  by (auto simp: disconnectAgent_def Let_def Conn_Close_heap split: option.split)

lemma disconnect_agent:
  "c < length (pl_heap p) \<Longrightarrow>
     cn_agentID (pl_heap (disconnectAgent a p) ! c) = cn_agentID (pl_heap p ! c)"
  by (simp add: disconnect_heap)

lemma disconnect_conns_ok: "conns_ok p \<Longrightarrow> conns_ok (disconnectAgent a p)"
  by (auto simp: conns_ok_def disconnect_heap split: if_splits)

lemma disconnect_state:
  "mget (pl_states (disconnectAgent a p)) =
     (case mget (pl_states p) a of None \<Rightarrow> mget (pl_states p)
      | Some st \<Rightarrow> (mget (pl_states p))(a \<mapsto> st\<lparr>as_Status := StatusOffline\<rparr>))"
  by (auto simp: disconnectAgent_def Let_def split: option.split)

lemma disconnect_states_ok: "states_ok p \<Longrightarrow> states_ok (disconnectAgent a p)"
proof -
  assume "states_ok p"
  moreover have "mwf (pl_states p) \<Longrightarrow> mwf (pl_states (disconnectAgent a p))"
    by (auto simp: disconnectAgent_def Let_def split: option.split)
  ultimately show ?thesis
    by (auto simp: states_ok_def disconnect_state split: option.split if_splits)
qed

lemma greet_cases:
  "greet c written p = (ok, p') \<Longrightarrow>
     ok \<and> p' = p \<and> \<not> cn_closed (pl_heap p ! c) \<and> written \<or> \<not> ok \<and> p' = Conn_Close c p"
  by (auto simp: greet_def Conn_Send_def split: if_splits)


section \<open>Reachable states\<close>

definition pool_inv :: "string \<Rightarrow> pool_sys \<Rightarrow> bool" where
  "pool_inv token s \<longleftrightarrow>
     (let p = py_pool s
      in conns_ok p \<and> states_ok p \<and> pl_authToken p = token \<and>
         length (py_auth s) = length (pl_heap p) \<and>
         (\<forall>c < length (pl_heap p). authentic p (py_auth s ! c) \<and>
            aq_AgentID (py_auth s ! c) = cn_agentID (pl_heap p ! c)) \<and>
         (\<forall>h \<in># py_handshakes s. genuine p h) \<and>
         (\<forall>c \<in> py_greeting s \<union> py_readers s. c < length (pl_heap p)))"

lemma authentic_mono:
  "authentic p req \<Longrightarrow> pl_authToken p' = pl_authToken p \<Longrightarrow>
     dom (mget (pl_agents p)) \<subseteq> dom (mget (pl_agents p')) \<Longrightarrow> authentic p' req"
  by (auto simp: authentic_def)

lemma genuine_mono:
  "genuine p h \<Longrightarrow> pl_authToken p' = pl_authToken p \<Longrightarrow>
     dom (mget (pl_agents p)) \<subseteq> dom (mget (pl_agents p')) \<Longrightarrow> genuine p' h"
  by (cases h) (auto intro: authentic_mono)

lemma authenticate_authentic:
  "authenticate p message = Inr (req, info) \<Longrightarrow> states_ok p \<Longrightarrow>
     genuine p (req, info)"
  by (auto simp: authenticate_def authentic_def states_ok_def split: option.splits if_splits)

text \<open>
  A step that keeps the token and forgets no agent, and whose heap keeps the agents of its
  connections, keeps the parts about authentication.
\<close>

lemma pool_inv_frame:
  assumes "pool_inv token s" "conns_ok p'" "states_ok p'"
    and "pl_authToken p' = pl_authToken (py_pool s)"
    and "dom (mget (pl_agents (py_pool s))) \<subseteq> dom (mget (pl_agents p'))"
    and "length (pl_heap p') = length (pl_heap (py_pool s))"
    and "\<And>c. c < length (pl_heap p') \<Longrightarrow>
      cn_agentID (pl_heap p' ! c) = cn_agentID (pl_heap (py_pool s) ! c)"
    and "set_mset hs \<subseteq> set_mset (py_handshakes s)" "gr \<union> re \<subseteq> py_greeting s \<union> py_readers s"
  shows "pool_inv token (s\<lparr>py_pool := p', py_handshakes := hs, py_greeting := gr, py_readers := re\<rparr>)"
  using assms authentic_mono [OF _ assms(4,5)] genuine_mono [OF _ assms(4,5)]
  by (auto simp: pool_inv_def Let_def simp del: genuine.simps)

lemma pool_inv_step:
  assumes "pool_step s e s'" and "pool_inv token s"
  shows "pool_inv token s'"
  using assms
proof (induction rule: pool_step.induct)
  case (register s info)
  from register pool_inv_frame [of token s "RegisterAgent info (py_pool s)" "py_handshakes s"
      "py_greeting s" "py_readers s"] show ?case
    by (auto simp: pool_inv_def Let_def RegisterAgent_ok simp del: genuine.simps)
next
  case (refuse s message reply)
  then show ?case by simp
next
  case (accept s message h)
  then show ?case
    using authenticate_authentic [of "py_pool s" message] by (cases h) (auto simp: pool_inv_def Let_def simp del: genuine.simps)
next
  case (installed req info s remote clock)
  let ?p = "install req info remote clock (py_pool s)"
  from installed have h: "authentic (py_pool s) req" "ai_ID info = aq_AgentID req"
    by (auto simp: pool_inv_def Let_def)
  have auth: "authentic ?p r = authentic (py_pool s) r" "genuine ?p h = genuine (py_pool s) h" for r h
    by (cases h; simp add: authentic_def)+
  have conn: "c < length (pl_heap (py_pool s)) \<Longrightarrow>
      cn_agentID (pl_heap ?p ! c) = cn_agentID (pl_heap (py_pool s) ! c)" for c
    by (simp add: install_agent)
  from installed h show ?case
    by (auto simp: pool_inv_def Let_def auth conn less_Suc_eq nth_append install_heap(2)
        install_conns_ok install_states_ok simp del: genuine.simps dest!: in_diffD)
next
  case (greeted c s written ok p')
  have "pool_inv token (s\<lparr>py_pool := p', py_handshakes := py_handshakes s,
      py_greeting := py_greeting s - {c},
      py_readers := (if ok then insert c (py_readers s) else py_readers s)\<rparr>)"
    by (rule pool_inv_frame [OF greeted(3)])
      (use greet_cases [OF greeted(2)] greeted(1,3) in
        \<open>auto simp: pool_inv_def Let_def Conn_Close_conns_ok Conn_Close_agent Conn_Close_states_ok\<close>)
  then show ?case by simp
next
  case (ponged c s now)
  from ponged pool_inv_frame [of token s "pong c now (py_pool s)" "py_handshakes s"
      "py_greeting s" "py_readers s"] show ?case
    by (simp add: pool_inv_def Let_def pong_ok)
next
  case (response c s _ _ _ resp)
  then show ?case by simp
next
  case (read_end c s)
  let ?a = "cn_agentID (pl_heap (py_pool s) ! c)"
  from read_end pool_inv_frame [of token s "disconnectAgent ?a (py_pool s)" "py_handshakes s"
      "py_greeting s" "py_readers s - {c}"] show ?case
    by (auto simp: pool_inv_def Let_def disconnect_conns_ok disconnect_states_ok disconnect_agent
        simp del: genuine.simps)
qed

lemma pool_inv_reach: "pool_reach token ws s \<Longrightarrow> pool_inv token s"
proof (induction rule: pool_reach.induct)
  case start
  then show ?case
    by (simp add: pool_inv_def pool_start_def NewPool_def conns_ok_def states_ok_def)
next
  case (step s e s')
  then show ?case by (blast intro: pool_inv_step)
qed


section \<open>A run\<close>

text \<open>The PM of a workspace connects, and connects again before the first read loop has ended.\<close>

definition demoAgent :: Info where
  "demoAgent = \<lparr>ai_ID = ''pm'', ai_Name = ''Wang'', ai_Role = ''PM'', ai_Description = [],
     ai_AgentMDPath = [], ai_Enabled = True, ai_Tools = []\<rparr>"

definition demoAuth :: AuthRequest where
  "demoAuth = \<lparr>aq_Type = ''auth'', aq_AgentID = ''pm'', aq_Token = ''secret'', aq_ClientVersion = [],
     aq_Role = []\<rparr>"

definition sysRegister :: "Info \<Rightarrow> pool_sys \<Rightarrow> pool_sys" where
  "sysRegister info s = s\<lparr>py_pool := RegisterAgent info (py_pool s)\<rparr>"

definition sysInstall :: "AuthRequest \<Rightarrow> Info \<Rightarrow> pool_sys \<Rightarrow> pool_sys" where
  "sysInstall req info s =
     s\<lparr>py_pool := install req info ''10.0.0.1:5000'' (0, 0, 0) (py_pool s),
       py_greeting := insert (length (pl_heap (py_pool s))) (py_greeting s),
       py_auth := py_auth s @ [req]\<rparr>"

definition sysGreeted :: "nat \<Rightarrow> pool_sys \<Rightarrow> pool_sys" where
  "sysGreeted c s = s\<lparr>py_greeting := py_greeting s - {c}, py_readers := insert c (py_readers s)\<rparr>"

lemma reach_register: "pool_reach token ws s \<Longrightarrow> pool_reach token ws (sysRegister info s)"
  unfolding sysRegister_def by (rule pool_reach.step [OF _ pool_step.register])

lemma reach_install:
  assumes "pool_reach token ws s" and "authenticate (py_pool s) (Some req) = Inr (req, info)"
  shows "pool_reach token ws (sysInstall req info s)"
proof -
  let ?s = "s\<lparr>py_handshakes := add_mset (req, info) (py_handshakes s)\<rparr>"
  have "pool_reach token ws ?s"
    by (rule pool_reach.step [OF assms(1) pool_step.accept [OF assms(2)]])
  from pool_reach.step [OF this pool_step.installed [of req info ?s "''10.0.0.1:5000''" "(0, 0, 0)"]]
  show ?thesis by (simp add: sysInstall_def)
qed

lemma reach_greeted:
  assumes "pool_reach token ws s" and "c \<in> py_greeting s" and "\<not> cn_closed (pl_heap (py_pool s) ! c)"
  shows "pool_reach token ws (sysGreeted c s)"
proof -
  have "greet c True (py_pool s) = (True, py_pool s)"
    using assms(3) by (simp add: greet_def Conn_Send_def)
  from pool_reach.step [OF assms(1) pool_step.greeted [OF assms(2) this]] show ?thesis
    by (simp add: sysGreeted_def)
qed

definition demoSys1 :: pool_sys where
  "demoSys1 = sysInstall demoAuth demoAgent (sysRegister demoAgent (pool_start ''secret'' ''ws''))"

definition demoSys2 :: pool_sys where
  "demoSys2 = sysInstall demoAuth demoAgent (sysGreeted 0 demoSys1)"

lemmas demo_sys_defs = demoSys1_def demoSys2_def sysInstall_def sysRegister_def sysGreeted_def
  pool_start_def NewPool_def RegisterAgent_def install_def Conn_Close_def authenticate_def
  demoAuth_def demoAgent_def Let_def map_eval

lemma demo_reach1: "pool_reach ''secret'' ''ws'' demoSys1"
  unfolding demoSys1_def
  by (intro reach_install reach_register pool_reach.start) (simp add: demo_sys_defs)

lemma demo_reach2: "pool_reach ''secret'' ''ws'' demoSys2"
  unfolding demoSys2_def
  by (intro reach_install reach_greeted demo_reach1) (simp_all add: demo_sys_defs)


section \<open>The properties\<close>

text \<open>
  C35. In every state the pool can reach: an agent has at most one open connection, the one in the
  pool's map; every connection was opened with the shared token, if there is one, by the
  registered agent it belongs to; and an agent that is reported online has an entry in the map.
\<close>

theorem pool_connections_sound:
  assumes "pool_reach token ws s"
  shows "(\<forall>c < length (pl_heap (py_pool s)). \<not> cn_closed (pl_heap (py_pool s) ! c) \<longrightarrow>
      mget (pl_conns (py_pool s)) (cn_agentID (pl_heap (py_pool s) ! c)) = Some c) \<and>
    (\<forall>c < length (pl_heap (py_pool s)). \<exists>req. py_auth s ! c = req \<and> aq_Type req = ''auth'' \<and>
      aq_AgentID req = cn_agentID (pl_heap (py_pool s) ! c) \<and>
      (token = [] \<or> aq_Token req = token) \<and> mget (pl_agents (py_pool s)) (aq_AgentID req) \<noteq> None) \<and>
    (\<forall>a. IsOnline (py_pool s) a \<longrightarrow> (\<exists>c < length (pl_heap (py_pool s)).
      mget (pl_conns (py_pool s)) a = Some c \<and> cn_agentID (pl_heap (py_pool s) ! c) = a))"
  using pool_inv_reach [OF assms]
  by (auto simp: pool_inv_def Let_def conns_ok_def authentic_def states_ok_def IsOnline_def
      split: option.splits) metis

theorem pool_connections_sound_witness:
  "mget (pl_conns (py_pool demoSys2)) ''pm'' = Some 1 \<and> cn_closed (pl_heap (py_pool demoSys2) ! 0) \<and>
   aq_Token (py_auth demoSys2 ! 1) = ''secret''"
proof -
  have len: "length (pl_heap (py_pool demoSys2)) = 2"
    and open1: "\<not> cn_closed (pl_heap (py_pool demoSys2) ! 1)"
    and ids: "cn_agentID (pl_heap (py_pool demoSys2) ! 1) = ''pm''"
      "cn_closed (pl_heap (py_pool demoSys2) ! 0)"
    by (simp_all add: demo_sys_defs)
  from pool_connections_sound [OF demo_reach2]
  have "mget (pl_conns (py_pool demoSys2)) (cn_agentID (pl_heap (py_pool demoSys2) ! 1)) = Some 1"
    and "\<exists>req. py_auth demoSys2 ! 1 = req \<and> aq_Token req = ''secret''"
    using len open1 by auto
  with ids show ?thesis by auto
qed

text \<open>
  C36. A message sent to an agent is written to the one open connection of that agent, which was
  authenticated as it.
\<close>

theorem messages_reach_their_agent:
  assumes "pool_reach token ws s" and "SendToAgent (py_pool s) a written = Inr c"
  shows "c < length (pl_heap (py_pool s)) \<and> cn_agentID (pl_heap (py_pool s) ! c) = a \<and>
    \<not> cn_closed (pl_heap (py_pool s) ! c) \<and> aq_AgentID (py_auth s ! c) = a \<and>
    (token = [] \<or> aq_Token (py_auth s ! c) = token) \<and>
    {c'. c' < length (pl_heap (py_pool s)) \<and> cn_agentID (pl_heap (py_pool s) ! c') = a \<and>
         \<not> cn_closed (pl_heap (py_pool s) ! c')} = {c}"
proof -
  from assms(2) have c: "mget (pl_conns (py_pool s)) a = Some c" "\<not> cn_closed (pl_heap (py_pool s) ! c)"
    by (auto simp: SendToAgent_def map_sum_eq_Inr Conn_Send_def split: option.splits if_splits)
  with pool_inv_reach [OF assms(1)] show ?thesis
    by (auto simp: pool_inv_def Let_def authentic_def dest: conns_okD)
qed

theorem messages_reach_their_agent_witness:
  "aq_AgentID (py_auth demoSys2 ! 1) = ''pm''"
proof -
  have "SendToAgent (py_pool demoSys2) ''pm'' True = Inr 1"
    by (simp add: SendToAgent_def Conn_Send_def demo_sys_defs)
  from messages_reach_their_agent [OF demo_reach2 this] show ?thesis by blast
qed

text \<open>
  The read loop of a connection that was replaced closes and forgets the connection that
  replaced it: \<open>disconnectAgent\<close> goes by the agent's id.  The agent is then offline although its
  new connection was never at fault.
\<close>

theorem stale_read_loop_disconnects:
  assumes "pool_reach token ws s" and "pool_step s (EvReadEnd c) s'"
    and "mget (pl_conns (py_pool s)) (cn_agentID (pl_heap (py_pool s) ! c)) = Some c'"
  shows "cn_closed (pl_heap (py_pool s') ! c') \<and>
    (\<not> IsOnline (py_pool s') (cn_agentID (pl_heap (py_pool s) ! c))) \<and>
    SendToAgent (py_pool s') (cn_agentID (pl_heap (py_pool s) ! c)) written
      = Inl (NotConnected (cn_agentID (pl_heap (py_pool s) ! c)))"
proof -
  let ?a = "cn_agentID (pl_heap (py_pool s) ! c)"
  from assms(2) have s': "py_pool s' = disconnectAgent ?a (py_pool s)"
    by (auto elim: read_endE)
  from pool_inv_reach [OF assms(1)] have "c' < length (pl_heap (py_pool s))"
    using assms(3) by (auto simp: pool_inv_def Let_def dest: conns_okD)
  with assms(3) show ?thesis
    by (simp add: s' disconnect_heap SendToAgent_def IsOnline_def disconnect_state split: option.split)
qed

text \<open>The new connection of the run above is open before and closed after.\<close>

theorem stale_read_loop_disconnects_witness:
  "\<exists>s'. pool_step demoSys2 (EvReadEnd 0) s' \<and> \<not> cn_closed (pl_heap (py_pool demoSys2) ! 1) \<and>
     cn_closed (pl_heap (py_pool s') ! 1)"
proof -
  have r: "0 \<in> py_readers demoSys2" by (simp add: demo_sys_defs)
  have m: "mget (pl_conns (py_pool demoSys2)) (cn_agentID (pl_heap (py_pool demoSys2) ! 0)) = Some 1"
    and o: "\<not> cn_closed (pl_heap (py_pool demoSys2) ! 1)"
    by (simp_all add: demo_sys_defs)
  from pool_step.read_end [OF r] stale_read_loop_disconnects [OF demo_reach2 pool_step.read_end [OF r] m] o
  show ?thesis by blast
qed

text \<open>
  When the greeting cannot be sent, the connection is closed but stays in the map and no read
  loop is started that would remove it: whether the agent is reported online does not change, and
  every message to it fails on the closed connection.
\<close>

theorem failed_greeting_stays_online:
  assumes "pool_reach token ws s" and "pool_step s (EvGreet c False) s'"
    and "mget (pl_conns (py_pool s)) a = Some c"
  shows "IsOnline (py_pool s') a = IsOnline (py_pool s) a \<and> mget (pl_conns (py_pool s')) a = Some c \<and>
    py_readers s' = py_readers s \<and>
    SendToAgent (py_pool s') a written = Inl (ConnectionClosed a)"
proof -
  from assms(2) have s': "py_pool s' = Conn_Close c (py_pool s)" "py_readers s' = py_readers s"
    by (auto elim!: pool_step.cases dest!: greet_cases)
  from pool_inv_reach [OF assms(1)] have "c < length (pl_heap (py_pool s))"
    "cn_agentID (pl_heap (py_pool s) ! c) = a"
    using assms(3) by (auto simp: pool_inv_def Let_def dest: conns_okD)
  with assms(3) show ?thesis
    by (simp add: s' IsOnline_def SendToAgent_def Conn_Send_def Conn_Close_heap)
qed

theorem failed_greeting_stays_online_witness:
  "\<exists>s'. pool_step demoSys1 (EvGreet 0 False) s' \<and> IsOnline (py_pool s') ''pm'' \<and>
     SendToAgent (py_pool s') ''pm'' True = Inl (ConnectionClosed ''pm'')"
proof -
  have g: "0 \<in> py_greeting demoSys1" and m: "mget (pl_conns (py_pool demoSys1)) ''pm'' = Some 0"
    and online: "IsOnline (py_pool demoSys1) ''pm''"
    by (simp_all add: demo_sys_defs IsOnline_def)
  obtain ok p' where "greet 0 False (py_pool demoSys1) = (ok, p')" by fastforce
  note step = pool_step.greeted [OF g this]
  from step failed_greeting_stays_online [OF demo_reach1 step m] online show ?thesis by blast
qed

end
