(* ===== verification/Message_Router.thy ===== *)
theory Message_Router
  imports Agent_Pool_Properties Go_Http
begin

text \<open>
  The message router (\<open>internal/routing/router.go\<close>) and the messages of the channels
  (\<open>internal/channel/types.go\<close>): which agents a message is for, what happens at each of them, and
  the way back of an agent's response.

  The router asks the pool through a handful of operations; the locale \<open>agent_directory\<close> is the
  contract of the ones that look agents up.  Between two calls other goroutines may change the
  pool, so the pool that each call sees is an argument.  A channel is a value of its own type; what
  the router sends is a list of actions in order.
\<close>

section \<open>Messages\<close>

record IncomingMessage =
  im_ID :: string
  im_Platform :: string
  im_ChannelID :: string
  im_UserID :: string
  im_Username :: string
  im_Text :: string
  im_ThreadID :: string
  im_Mentions :: "string list"
  im_ChatType :: string
  im_Metadata :: "(string \<times> string) list"

record OutgoingMessage =
  om_Platform :: string
  om_ChannelID :: string
  om_Text :: string
  om_ReplyToID :: string
  om_AgentID :: string
  om_AgentName :: string

text \<open>A message written to a connection of the pool, or sent through a channel.\<close>

datatype 'ch router_action = ToAgent nat RoutedMessage | ToChannel 'ch OutgoingMessage


section \<open>Looking agents up\<close>

text \<open>
  The contract of the lookups: the list holds the state of each known agent, and an agent is
  online when its state says so.
\<close>

locale agent_directory =
  fixes listAgents :: "'p \<Rightarrow> AgentState list"
    and getState :: "'p \<Rightarrow> string \<Rightarrow> AgentState option"
    and isOnline :: "'p \<Rightarrow> string \<Rightarrow> bool"
    and invar :: "'p \<Rightarrow> bool"
  assumes getState_list: "invar p \<Longrightarrow>
      getState p a = Some s \<longleftrightarrow> s \<in> set (listAgents p) \<and> ai_ID (as_Info s) = a"
    and isOnline_state: "isOnline p a \<longleftrightarrow>
      (case getState p a of None \<Rightarrow> False | Some s \<Rightarrow> as_Status s = StatusOnline)"
begin

lemma listed_state: "invar p \<Longrightarrow> s \<in> set (listAgents p) \<Longrightarrow> getState p (ai_ID (as_Info s)) = Some s"
  by (simp add: getState_list)

lemma found_state:
  "invar p \<Longrightarrow> find P (listAgents p) = Some s \<Longrightarrow> getState p (ai_ID (as_Info s)) = Some s \<and> P s"
  by (auto simp: find_Some_iff listed_state)

lemma not_found:
  "invar p \<Longrightarrow> find P (listAgents p) = None \<Longrightarrow> getState p a = Some s \<Longrightarrow> \<not> P s"
  by (auto simp: find_None_iff getState_list)

lemma online_iff:
  "isOnline p a \<longleftrightarrow> (\<exists>s. getState p a = Some s \<and> as_Status s = StatusOnline)"
  by (simp add: isOnline_state split: option.split)

lemma no_agents: "invar p \<Longrightarrow> listAgents p = [] \<longleftrightarrow> (\<forall>a. getState p a = None)"
  using getState_list [of p] by (cases "listAgents p") force+

end

text \<open>The pool provides it.\<close>

interpretation directory: agent_directory ListAgents GetState IsOnline states_ok
proof
  fix p :: Pool and a s
  assume ok: "states_ok p"
  then have "mget (pl_states p) a = Some s \<longleftrightarrow> (a, s) \<in> set (pl_states p)"
    by (intro mget_iff) (simp add: states_ok_def)
  moreover have "ai_ID (as_Info s) = b" if "(b, s) \<in> set (pl_states p)" for b
    using ok that by (auto simp: states_ok_def dest: mget_SomeI)
  ultimately show "GetState p a = Some s \<longleftrightarrow> s \<in> set (ListAgents p) \<and> ai_ID (as_Info s) = a"
    by (force simp: GetState_def ListAgents_def)
next
  show "IsOnline p a =
      (case GetState p a of None \<Rightarrow> False | Some s \<Rightarrow> as_Status s = StatusOnline)" for p a
    by (simp add: IsOnline_def GetState_def)
qed


section \<open>The router\<close>

definition RegisterChannel :: "string \<Rightarrow> 'ch \<Rightarrow> 'ch gomap \<Rightarrow> 'ch gomap" where
  "RegisterChannel name ch channels = mput name ch channels"

definition agentName :: "Pool \<Rightarrow> string \<Rightarrow> string" where
  "agentName p agentID =
     (case GetState p agentID of None \<Rightarrow> agentID | Some s \<Rightarrow> ai_Name (as_Info s))"

definition HandleAgentResponse ::
  "'ch gomap \<Rightarrow> Pool \<Rightarrow> string \<Rightarrow> AgentResponse \<Rightarrow> 'ch router_action list" where
  "HandleAgentResponse channels p agentID resp =
     (case mget channels (ag_Platform resp) of
        None \<Rightarrow> []
      | Some ch \<Rightarrow>
          [ToChannel ch \<lparr>om_Platform = ag_Platform resp, om_ChannelID = ag_ChannelID resp,
             om_Text = ag_Text resp, om_ReplyToID = [], om_AgentID = agentID,
             om_AgentName = agentName p agentID\<rparr>])"

definition rolePM :: string where "rolePM = ''PM''"

text \<open>The order of the list is that of a range over a map.\<close>

definition findDefaultAgent :: "Pool \<Rightarrow> string list" where
  "findDefaultAgent p =
     (let agents = ListAgents p; chosen = (\<lambda>s. [ai_ID (as_Info s)])
      in case find (\<lambda>s. ai_Role (as_Info s) = rolePM \<and> as_Status s = StatusOnline) agents of
           Some s \<Rightarrow> chosen s
         | None \<Rightarrow>
         case find (\<lambda>s. as_Status s = StatusOnline) agents of
           Some s \<Rightarrow> chosen s
         | None \<Rightarrow>
         case find (\<lambda>s. ai_Role (as_Info s) = rolePM) agents of
           Some s \<Rightarrow> chosen s
         | None \<Rightarrow> (case agents of [] \<Rightarrow> [] | s # _ \<Rightarrow> chosen s))"

definition resolveTargets :: "Pool \<Rightarrow> IncomingMessage \<Rightarrow> string list" where
  "resolveTargets p msg =
     (if im_Mentions msg \<noteq> [] then im_Mentions msg
      else if im_ChatType msg = ''p2p'' then findDefaultAgent p
      else [])"

definition routedMessage :: "IncomingMessage \<Rightarrow> RoutedMessage" where
  "routedMessage msg = \<lparr>rm_Type = ''message'', rm_ID = im_ID msg, rm_Platform = im_Platform msg,
     rm_ChannelID = im_ChannelID msg, rm_UserID = im_UserID msg, rm_Username = im_Username msg,
     rm_Text = im_Text msg, rm_ThreadID = im_ThreadID msg, rm_Metadata = im_Metadata msg\<rparr>"

text \<open>
  The notice that an agent is not online and that the message will be delivered once it is; the
  Chinese text is given by its bytes.
\<close>

definition offlineText :: "string \<Rightarrow> string" where
  "offlineText name = ''[workspace] '' @ name @
     [CHR 0x20, CHR 0xE5, CHR 0xBD, CHR 0x93, CHR 0xE5, CHR 0x89, CHR 0x8D, CHR 0xE4, CHR
      0xB8, CHR 0x8D, CHR 0xE5, CHR 0x9C, CHR 0xA8, CHR 0xE7, CHR 0xBA, CHR 0xBF, CHR 0xEF,
      CHR 0xBC, CHR 0x8C, CHR 0xE6, CHR 0xB6, CHR 0x88, CHR 0xE6, CHR 0x81, CHR 0xAF, CHR
      0xE5, CHR 0xB0, CHR 0x86, CHR 0xE5, CHR 0x9C, CHR 0xA8, CHR 0xE5, CHR 0x85, CHR 0xB6,
      CHR 0xE4, CHR 0xB8, CHR 0x8A, CHR 0xE7, CHR 0xBA, CHR 0xBF, CHR 0xE5, CHR 0x90, CHR
      0x8E, CHR 0xE6, CHR 0x8A, CHR 0x95, CHR 0xE9, CHR 0x80, CHR 0x92, CHR 0xE3, CHR 0x80,
      CHR 0x82]"

definition sendOfflineNotice ::
  "'ch gomap \<Rightarrow> Pool \<Rightarrow> IncomingMessage \<Rightarrow> string \<Rightarrow> 'ch router_action list" where
  "sendOfflineNotice channels p msg agentID =
     (case mget channels (im_Platform msg) of
        None \<Rightarrow> []
      | Some ch \<Rightarrow>
          [ToChannel ch \<lparr>om_Platform = im_Platform msg, om_ChannelID = im_ChannelID msg,
             om_Text = offlineText (agentName p agentID), om_ReplyToID = [], om_AgentID = [],
             om_AgentName = []\<rparr>])"

text \<open>
  One target: the pool at the call of \<open>IsOnline\<close>, the pool at the call after it, and whether a
  write would succeed.
\<close>

definition routeTarget ::
  "'ch gomap \<Rightarrow> IncomingMessage \<Rightarrow> Pool \<times> Pool \<times> bool \<Rightarrow> string \<Rightarrow> 'ch router_action list" where
  "routeTarget channels msg view targetID =
     (let (p1, p2, written) = view
      in if \<not> IsOnline p1 targetID then sendOfflineNotice channels p2 msg targetID
         else (case SendToAgent p2 targetID written of
                 Inl e \<Rightarrow> []
               | Inr c \<Rightarrow> [ToAgent c (routedMessage msg)]))"

definition routeIncoming ::
  "'ch gomap \<Rightarrow> Pool \<Rightarrow> (nat \<Rightarrow> Pool \<times> Pool \<times> bool) \<Rightarrow> IncomingMessage \<Rightarrow> 'ch router_action list" where
  "routeIncoming channels p view msg =
     concat (map (\<lambda>(i, t). routeTarget channels msg (view i) t)
       (enumerate 0 (resolveTargets p msg)))"


section \<open>The properties\<close>

text \<open>The order of preference that the comment of \<open>findDefaultAgent\<close> gives.\<close>

definition preference :: "AgentState \<Rightarrow> nat" where
  "preference s =
     (if ai_Role (as_Info s) = rolePM \<and> as_Status s = StatusOnline then 0
      else if as_Status s = StatusOnline then 1
      else if ai_Role (as_Info s) = rolePM then 2 else 3)"

lemma default_agent_best:
  assumes "states_ok p"
  shows "(\<exists>st. findDefaultAgent p = [ai_ID (as_Info st)] \<and> GetState p (ai_ID (as_Info st)) = Some st \<and>
      (\<forall>b sb. GetState p b = Some sb \<longrightarrow> preference st \<le> preference sb)) \<or>
    findDefaultAgent p = [] \<and> (\<forall>a. GetState p a = None)"
proof -
  let ?L = "ListAgents p"
  let ?A = "\<lambda>s. ai_Role (as_Info s) = rolePM \<and> as_Status s = StatusOnline"
    and ?B = "\<lambda>s. as_Status s = StatusOnline" and ?C = "\<lambda>s. ai_Role (as_Info s) = rolePM"
  note found = directory.found_state [OF assms] and none = directory.not_found [OF assms]
  consider (a) s where "find ?A ?L = Some s"
    | (b) s where "find ?A ?L = None" "find ?B ?L = Some s"
    | (c) s where "find ?A ?L = None" "find ?B ?L = None" "find ?C ?L = Some s"
    | (d) "find ?A ?L = None" "find ?B ?L = None" "find ?C ?L = None"
    by (cases "find ?A ?L"; cases "find ?B ?L"; cases "find ?C ?L"; blast)
  moreover have pick: ?thesis if "findDefaultAgent p = [ai_ID (as_Info s)]"
      "GetState p (ai_ID (as_Info s)) = Some s"
      "\<And>b sb. GetState p b = Some sb \<Longrightarrow> preference s \<le> preference sb" for s
    using that by blast
  ultimately show ?thesis
  proof cases
    case a
    show ?thesis
      by (rule pick [of s]) (use a found [OF a] in \<open>simp_all add: findDefaultAgent_def Let_def preference_def\<close>)
  next
    case b
    show ?thesis
      by (rule pick [of s]) (use b found [OF b(2)] none [OF b(1)] in
        \<open>auto simp: findDefaultAgent_def Let_def preference_def\<close>)
  next
    case c
    show ?thesis
      by (rule pick [of s]) (use c found [OF c(3)] none [OF c(2)] in
        \<open>auto simp: findDefaultAgent_def Let_def preference_def\<close>)
  next
    case d
    show ?thesis
    proof (cases ?L)
      case Nil
      with d directory.no_agents [OF assms] show ?thesis by (simp add: findDefaultAgent_def Let_def)
    next
      case (Cons s l)
      show ?thesis
        by (rule pick [of s])
          (use d Cons directory.listed_state [OF assms, of s] none [OF d(2)] none [OF d(3)] in
            \<open>auto simp: findDefaultAgent_def Let_def preference_def\<close>)
    qed
  qed
qed

text \<open>
  The default agent of a direct message is a registered agent that none is preferred to: an
  online PM if there is one, else an agent that is online, else a PM, else any agent.  Only if no
  agent is registered there is none.  This holds in whatever order the range over the map visits
  the agents.
\<close>

theorem default_agent_choice:
  assumes "pool_reach token ws s" and "im_Mentions msg = []" and "im_ChatType msg = ''p2p''"
  shows "(\<exists>st. resolveTargets (py_pool s) msg = [ai_ID (as_Info st)] \<and>
      GetState (py_pool s) (ai_ID (as_Info st)) = Some st \<and>
      (\<forall>b sb. GetState (py_pool s) b = Some sb \<longrightarrow> preference st \<le> preference sb)) \<or>
    resolveTargets (py_pool s) msg = [] \<and> (\<forall>a. GetState (py_pool s) a = None)"
proof -
  have "states_ok (py_pool s)"
    using pool_inv_reach [OF assms(1)] by (simp add: pool_inv_def Let_def)
  from default_agent_best [OF this] assms(2,3) show ?thesis by (simp add: resolveTargets_def)
qed

definition demoMessage :: IncomingMessage where
  "demoMessage = \<lparr>im_ID = ''om_1'', im_Platform = ''feishu'', im_ChannelID = ''oc_7'',
     im_UserID = ''ou_3'', im_Username = ''Li'', im_Text = ''hello'', im_ThreadID = [],
     im_Mentions = [], im_ChatType = ''p2p'', im_Metadata = []\<rparr>"

theorem default_agent_choice_witness:
  "\<exists>st :: AgentState. resolveTargets (py_pool demoSys2) demoMessage = [ai_ID (as_Info st)]"
proof -
  have m: "im_Mentions demoMessage = []" "im_ChatType demoMessage = ''p2p''"
    by (simp_all add: demoMessage_def)
  have known: "GetState (py_pool demoSys2) ''pm'' \<noteq> None"
    by (simp add: GetState_def demo_sys_defs)
  from default_agent_choice [OF demo_reach2 m] show ?thesis
  proof (elim disjE exE conjE)
    fix st :: AgentState
    assume "resolveTargets (py_pool demoSys2) demoMessage = [ai_ID (as_Info st)]"
    then show ?thesis by (rule exI)
  next
    assume "\<forall>a. GetState (py_pool demoSys2) a = None"
    with known show ?thesis by simp
  qed
qed



end
