(* ===== verification/Workspace.thy ===== *)
theory Workspace
  imports Message_Router
begin

text \<open>
  The workspace server (\<open>cmd/workspace/main.go\<close>): start-up from the agent registry, the HTTP
  handlers around pool and router, and the state of the running process.  Flag parsing, the
  listener and shutdown are left out; the channels are those registered with the router, the JSON
  decoder is a parameter.
\<close>

section \<open>Start-up\<close>

text \<open>
  \<open>main\<close> makes two pools with the same agents: the router keeps the first one, the second one, with
  the response handler, is the one that accepts connections.
\<close>

record 'ch Workspace =
  wk_routerPool :: Pool
  wk_sys :: pool_sys
  wk_channels :: "'ch gomap"
  wk_workspace :: string

definition registerAll :: "Info list \<Rightarrow> Pool \<Rightarrow> Pool" where
  "registerAll agents p = foldl (\<lambda>p a. RegisterAgent a p) p agents"

definition startWorkspace :: "string \<Rightarrow> AgentRegistry \<Rightarrow> Info list \<Rightarrow> 'ch gomap \<Rightarrow> 'ch Workspace" where
  "startWorkspace authToken reg agents channels =
     (let pool1 = registerAll agents (NewPool authToken (areg_Workspace reg) False);
          pool2 = registerAll agents (NewPool authToken (areg_Workspace reg) True)
      in \<lparr>wk_routerPool = pool1,
          wk_sys = (pool_start authToken (areg_Workspace reg))\<lparr>py_pool := pool2\<rparr>,
          wk_channels = channels, wk_workspace = areg_Workspace reg\<rparr>)"

text \<open>\<open>parseBotMapping\<close>.\<close>

definition botPair :: "string \<Rightarrow> (string \<times> string) option" where
  "botPair pair =
     (case SplitN2 (CHR ''='') (TrimSpace pair) of
        [name, i] \<Rightarrow> (if TrimSpace name \<noteq> [] \<and> TrimSpace i \<noteq> []
                     then Some (TrimSpace name, TrimSpace i) else None)
      | _ \<Rightarrow> None)"

definition parseBotMapping :: "string \<Rightarrow> string gomap" where
  "parseBotMapping raw0 =
     (let raw = TrimSpace raw0
      in if raw = [] then []
         else foldl (\<lambda>m pair. case botPair pair of None \<Rightarrow> m | Some (name, i) \<Rightarrow> mput name i m) []
                (SplitChar (CHR '','') raw))"


section \<open>The HTTP handlers\<close>

definition plainError :: "string \<Rightarrow> int \<Rightarrow> Response" where
  "plainError message status = \<lparr>rs_Status = status,
     rs_ContentType = Some ''text/plain; charset=utf-8'', rs_Payload = PText message\<rparr>"

definition healthz :: "'ch Workspace \<Rightarrow> Response" where
  "healthz w = \<lparr>rs_Status = StatusOK, rs_ContentType = Some jsonType,
     rs_Payload = PJson (JObj [(''status'', JStr ''ok''), (''workspace'', JStr (wk_workspace w))])\<rparr>"

definition stateJson :: "AgentState \<Rightarrow> json" where
  "stateJson s =
     (let i = as_Info s
      in JObj
        ([(''info'', JObj
            ([(''agent_id'', JStr (ai_ID i)), (''name'', JStr (ai_Name i)), (''role'', JStr (ai_Role i)),
              (''description'', JStr (ai_Description i))] @
             (if ai_AgentMDPath i = [] then [] else [(''agent_md'', JStr (ai_AgentMDPath i))]) @
             [(''enabled'', JBool (ai_Enabled i))] @
             (if ai_Tools i = [] then [] else [(''tools'', JArr (map JStr (ai_Tools i)))]))),
          (''status'', JStr (as_Status s)),
          (''connected_at'', JStr (rfc3339nano (as_ConnectedAt s))),
          (''last_seen_at'', JStr (rfc3339nano (as_LastSeenAt s)))] @
         (if as_SessionID s = [] then [] else [(''session_id'', JStr (as_SessionID s))]) @
         (if as_RemoteAddr s = [] then [] else [(''remote_addr'', JStr (as_RemoteAddr s))])))"

definition listAgentsHandler :: "'ch Workspace \<Rightarrow> Request \<Rightarrow> Response" where
  "listAgentsHandler w r =
     (if rq_Method r \<noteq> ''GET'' then plainError ''method not allowed'' StatusMethodNotAllowed
      else \<lparr>rs_Status = StatusOK, rs_ContentType = Some jsonType,
            rs_Payload = PJson (JObj [(''workspace'', JStr (wk_workspace w)),
              (''agents'', JArr (map stateJson (ListAgents (py_pool (wk_sys w)))))])\<rparr>)"

definition webhookHandler ::
  "(string \<Rightarrow> AgentResponse option) \<Rightarrow> 'ch Workspace \<Rightarrow> Request \<Rightarrow> Response \<times> 'ch router_action list" where
  "webhookHandler decode w r =
     (if rq_Method r \<noteq> ''POST'' then (plainError ''method not allowed'' StatusMethodNotAllowed, [])
      else (case decode (rq_Body r) of
              None \<Rightarrow> (plainError ''invalid request body'' StatusBadRequest, [])
            | Some resp \<Rightarrow>
                (let agentID = hGet (rq_Header r) ''X-Agent-Id''
                 in if agentID = [] then (plainError ''missing X-Agent-Id header'' StatusBadRequest, [])
                    else (\<lparr>rs_Status = StatusAccepted, rs_ContentType = None, rs_Payload = PEmpty\<rparr>,
                          HandleAgentResponse (wk_channels w) (wk_routerPool w) agentID resp))))"


section \<open>The running process\<close>

text \<open>
  The process moves by the steps of the pool that accepts connections; agents are registered at
  start-up only.  A message of a channel is routed by the router's pool, and so is a response that
  a read loop hands to the router.
\<close>

inductive workspace_step :: "'ch Workspace \<Rightarrow> pool_event \<Rightarrow> 'ch Workspace \<Rightarrow> bool" where
  pool: "pool_step (wk_sys w) e s \<Longrightarrow> (\<And>info. e \<noteq> EvRegister info) \<Longrightarrow>
    workspace_step w e (w\<lparr>wk_sys := s\<rparr>)"

inductive workspace_reach :: "'ch Workspace \<Rightarrow> 'ch Workspace \<Rightarrow> bool" for w0 where
  start: "workspace_reach w0 w0"
| step: "workspace_reach w0 w \<Longrightarrow> workspace_step w e w' \<Longrightarrow> workspace_reach w0 w'"

text \<open>The router's pool is the same at every call, so each view of a message is of it.\<close>

definition workspaceIncoming ::
  "'ch Workspace \<Rightarrow> (nat \<Rightarrow> bool) \<Rightarrow> IncomingMessage \<Rightarrow> 'ch router_action list" where
  "workspaceIncoming w written msg =
     routeIncoming (wk_channels w) (wk_routerPool w)
       (\<lambda>i. (wk_routerPool w, wk_routerPool w, written i)) msg"

definition workspaceResponse :: "'ch Workspace \<Rightarrow> nat \<Rightarrow> AgentResponse \<Rightarrow> 'ch router_action list" where
  "workspaceResponse w c resp =
     HandleAgentResponse (wk_channels w) (wk_routerPool w)
       (cn_agentID (pl_heap (py_pool (wk_sys w)) ! c)) resp"


section \<open>The properties\<close>

lemma registerAll_conns: "pl_conns (registerAll agents p) = pl_conns p"
  unfolding registerAll_def by (induction agents arbitrary: p) simp_all

lemma registerAll_offline:
  "\<forall>a. \<not> IsOnline p a \<Longrightarrow> \<not> IsOnline (registerAll agents p) a"
  unfolding registerAll_def
  by (induction agents arbitrary: p a) (simp_all add: IsOnline_def RegisterAgent_def split: option.split)

lemma concat_enumerate: "concat (map (\<lambda>(i, t). [f t]) (enumerate n xs)) = map f xs"
  by (induction xs arbitrary: n) simp_all

lemma router_pool_constant:
  "workspace_reach w0 w \<Longrightarrow> wk_routerPool w = wk_routerPool w0 \<and> wk_channels w = wk_channels w0"
  by (induction rule: workspace_reach.induct) (auto elim: workspace_step.cases)

text \<open>
  The router of a running workspace asks a pool that no agent ever connects to: whatever
  agents are connected, no message of a channel is written to an agent, and every agent it is for
  is reported to the chat as not online.
\<close>

theorem workspace_never_delivers:
  assumes "workspace_reach (startWorkspace token reg agents channels) w"
    and "mget channels (im_Platform msg) = Some ch"
  shows "workspaceIncoming w written msg =
    map (\<lambda>a. ToChannel ch \<lparr>om_Platform = im_Platform msg, om_ChannelID = im_ChannelID msg,
      om_Text = offlineText (agentName (wk_routerPool w) a), om_ReplyToID = [], om_AgentID = [],
      om_AgentName = []\<rparr>) (resolveTargets (wk_routerPool w) msg)"
proof -
  let ?w0 = "startWorkspace token reg agents channels"
  from router_pool_constant [OF assms(1)] have w: "wk_routerPool w = wk_routerPool ?w0" "wk_channels w = channels"
    by (simp_all add: startWorkspace_def Let_def)
  have offline: "\<not> IsOnline (wk_routerPool w) a" for a
  proof -
    have "\<forall>a. \<not> IsOnline (NewPool token (areg_Workspace reg) False) a"
      by (simp add: IsOnline_def NewPool_def)
    then show ?thesis
      unfolding w by (simp add: startWorkspace_def Let_def registerAll_offline)
  qed
  show ?thesis
    using assms(2)
    by (simp add: workspaceIncoming_def routeIncoming_def routeTarget_def offline sendOfflineNotice_def w(2)
        concat_enumerate)
qed

text \<open>The PM of the run above is connected and online; a direct message is answered with the notice.\<close>

definition demoWorkspace :: "unit Workspace" where
  "demoWorkspace = startWorkspace ''secret'' (noAgentRegistry\<lparr>areg_Workspace := ''ws''\<rparr>) [demoAgent]
     [(''feishu'', ())]"

lemma workspace_install:
  assumes "workspace_reach w0 w" and "authenticate (py_pool (wk_sys w)) (Some req) = Inr (req, info)"
  shows "workspace_reach w0 (w\<lparr>wk_sys := sysInstall req info (wk_sys w)\<rparr>)"
proof -
  let ?s = "(wk_sys w)\<lparr>py_handshakes := add_mset (req, info) (py_handshakes (wk_sys w))\<rparr>"
  have "workspace_reach w0 (w\<lparr>wk_sys := ?s\<rparr>)"
    by (rule workspace_reach.step [OF assms(1) workspace_step.pool [OF pool_step.accept [OF assms(2)]]]) simp
  from workspace_reach.step [OF this workspace_step.pool, of "EvInstall req info" "sysInstall req info (wk_sys w)"]
    pool_step.installed [of req info ?s "''10.0.0.1:5000''" "(0, 0, 0)"]
  show ?thesis by (simp add: sysInstall_def)
qed

theorem workspace_never_delivers_witness:
  "IsOnline (py_pool demoSys1) ''pm'' \<and>
   (\<exists>w out. workspace_reach demoWorkspace w \<and> wk_sys w = demoSys1 \<and>
      workspaceIncoming w (\<lambda>i. True) demoMessage = [ToChannel () out])"
proof -
  have s: "wk_sys demoWorkspace = sysRegister demoAgent (pool_start ''secret'' ''ws'')"
    by (simp add: demoWorkspace_def startWorkspace_def registerAll_def sysRegister_def pool_start_def
        noAgentRegistry_def Let_def)
  let ?w = "demoWorkspace\<lparr>wk_sys := sysInstall demoAuth demoAgent (wk_sys demoWorkspace)\<rparr>"
  have reach: "workspace_reach demoWorkspace ?w"
    by (rule workspace_install [OF workspace_reach.start]) (simp add: s, simp add: demo_sys_defs)
  then have r: "workspace_reach (startWorkspace ''secret'' (noAgentRegistry\<lparr>areg_Workspace := ''ws''\<rparr>)
      [demoAgent] [(''feishu'', ())]) ?w"
    by (simp only: demoWorkspace_def)
  have ch: "mget [(''feishu'', ())] (im_Platform demoMessage) = Some ()"
    by (simp add: demoMessage_def map_eval)
  have "resolveTargets (wk_routerPool ?w) demoMessage = [''pm'']"
    by (simp add: resolveTargets_def demoMessage_def findDefaultAgent_def ListAgents_def demoWorkspace_def
        startWorkspace_def registerAll_def RegisterAgent_def NewPool_def demoAgent_def map_eval Let_def)
  with workspace_never_delivers [OF r ch, of "\<lambda>i. True"]
  have "\<exists>out. workspaceIncoming ?w (\<lambda>i. True) demoMessage = [ToChannel () out]" by simp
  moreover have "wk_sys ?w = demoSys1" by (simp add: s demoSys1_def)
  moreover have "IsOnline (py_pool demoSys1) ''pm''" by (simp add: demo_sys_defs IsOnline_def)
  ultimately show ?thesis using reach by blast
qed

text \<open>The pools of a workspace know exactly the agents of the registry.\<close>

lemma registerAll_agents:
  "mget (pl_agents (registerAll agents p)) a = Some info \<Longrightarrow> mget (pl_agents p) a = None \<Longrightarrow>
     info \<in> set agents \<and> ai_ID info = a"
  unfolding registerAll_def
  by (induction agents rule: rev_induct) (auto split: if_splits)

lemma registerAll_states:
  "map_option as_Info (mget (pl_states (registerAll agents p)) a) =
     (if a \<in> ai_ID ` set agents then mget (pl_agents (registerAll agents p)) a
      else map_option as_Info (mget (pl_states p) a))"
  unfolding registerAll_def
  by (induction agents rule: rev_induct) (auto simp: RegisterAgent_def)

lemma registerAll_known:
  "mget (pl_agents p) a = None \<Longrightarrow>
     mget (pl_agents (registerAll agents p)) a \<noteq> None \<longleftrightarrow> a \<in> ai_ID ` set agents"
  unfolding registerAll_def
  by (induction agents rule: rev_induct) auto

lemma registerAll_ok:
  "conns_ok p \<Longrightarrow> conns_ok (registerAll agents p)"
  "states_ok p \<Longrightarrow> states_ok (registerAll agents p)"
  "pl_authToken (registerAll agents p) = pl_authToken p"
  "pl_heap (registerAll agents p) = pl_heap p"
  unfolding registerAll_def by (induction agents arbitrary: p) (simp_all add: RegisterAgent_ok)

lemma NewPool_ok:
  "conns_ok (NewPool token ws h)" "states_ok (NewPool token ws h)" "pl_heap (NewPool token ws h) = []"
  "pl_authToken (NewPool token ws h) = token" "mget (pl_agents (NewPool token ws h)) a = None"
  by (simp_all add: NewPool_def conns_ok_def states_ok_def)

lemma registered_pool_inv:
  "pool_inv token ((pool_start token ws)\<lparr>py_pool := registerAll agents (NewPool token ws h)\<rparr>)"
  by (simp add: pool_inv_def pool_start_def Let_def registerAll_ok NewPool_ok)

lemma agents_kept:
  "pool_step s e s' \<Longrightarrow> (\<And>info. e \<noteq> EvRegister info) \<Longrightarrow>
     pl_agents (py_pool s') = pl_agents (py_pool s)"
  by (induction rule: pool_step.induct) (auto dest!: greet_cases)

lemma workspace_inv:
  "workspace_reach (startWorkspace token reg agents channels) w \<Longrightarrow>
     pool_inv token (wk_sys w) \<and>
     pl_agents (py_pool (wk_sys w)) = pl_agents (registerAll agents (NewPool token (areg_Workspace reg) True))"
proof (induction rule: workspace_reach.induct)
  case start
  then show ?case by (simp add: startWorkspace_def Let_def registered_pool_inv)
next
  case (step w e w')
  from step(2) obtain s where "pool_step (wk_sys w) e s" "w' = w\<lparr>wk_sys := s\<rparr>"
    "\<And>info. e \<noteq> EvRegister info"
    by (cases rule: workspace_step.cases) auto
  with step(3) pool_inv_step agents_kept show ?case by simp
qed


definition demoResponse :: AgentResponse where
  "demoResponse = \<lparr>ag_Type = ''response'', ag_MessageID = ''om_1'', ag_Platform = ''feishu'',
     ag_ChannelID = ''oc_7'', ag_Text = ''done''\<rparr>"


end
