(* ===== verification/Feishu_Channel.thy ===== *)
theory Feishu_Channel
  imports Message_Router
begin

text \<open>
  The Feishu channel (\<open>internal/channel/feishu/feishu.go\<close>): the conversion of an event of the
  platform into a message for the router, and what it sends.  The SDK is outside: an event is a
  record of the fields the code reads, each of them a pointer that may be nil; decoding the JSON of
  a text and looking a user's name up are parameters, and sending gives the chat and the text.
\<close>

section \<open>Data\<close>

record FeishuConfig =
  fc_AppID :: string
  fc_AppSecret :: string
  fc_BotNameToAgentID :: "string gomap"

text \<open>The mentions of a message are given by their names.\<close>

record EventMessage =
  fe_MessageId :: "string option"
  fe_ChatId :: "string option"
  fe_ChatType :: "string option"
  fe_Content :: "string option"
  fe_Mentions :: "string option list"

text \<open>A sender may lack the id, and the id its open id.\<close>

record FeishuEvent =
  fv_Message :: "EventMessage option"
  fv_Sender :: "string option option option"

text \<open>\<open>fs_ctx\<close> is the context of a started channel: whether it is canceled.\<close>

record FeishuChannel =
  fs_cfg :: FeishuConfig
  fs_ctx :: "bool option"
  fs_botOpenID :: string
  fs_hasHandler :: bool
  fs_usernames :: "string gomap"

definition FeishuNew :: "FeishuConfig \<Rightarrow> string + FeishuChannel" where
  "FeishuNew cfg =
     (if fc_AppID cfg = [] \<or> fc_AppSecret cfg = []
      then Inl ''feishu: AppID and AppSecret are required''
      else Inr \<lparr>fs_cfg = cfg, fs_ctx = None, fs_botOpenID = [], fs_hasHandler = False, fs_usernames = []\<rparr>)"

definition SetMessageHandler :: "FeishuChannel \<Rightarrow> FeishuChannel" where
  "SetMessageHandler ch = ch\<lparr>fs_hasHandler := True\<rparr>"

text \<open>\<open>Start\<close> returns no error: one of the SDK's client, which runs in its goroutine, is logged.\<close>

definition FeishuStart :: "FeishuChannel \<Rightarrow> string option \<times> FeishuChannel" where
  "FeishuStart ch = (None, ch\<lparr>fs_ctx := Some False\<rparr>)"

definition FeishuStop :: "FeishuChannel \<Rightarrow> string option \<times> FeishuChannel" where
  "FeishuStop ch = (None, if fs_ctx ch \<noteq> None then ch\<lparr>fs_ctx := Some True\<rparr> else ch)"


section \<open>Text\<close>

text \<open>\<open>strings.Index\<close>.\<close>

fun IndexStr :: "string \<Rightarrow> string \<Rightarrow> nat option" where
  "IndexStr p [] = (if p = [] then Some 0 else None)"
| "IndexStr p (c # cs) = (if prefix p (c # cs) then Some 0 else map_option Suc (IndexStr p cs))"

lemma IndexStr_None: "IndexStr p s = None \<longleftrightarrow> \<not> sublist p s"
  by (induction s) (auto simp: sublist_Cons_right)

lemma IndexStr_bound: "IndexStr p s = Some i \<Longrightarrow> i + length p \<le> length s"
  by (induction s arbitrary: i) (auto split: if_splits dest: prefix_length_le)

definition mentionMark :: string where "mentionMark = ''@_user_''"

lemma removed_shorter:
  assumes "IndexStr mentionMark s = Some i"
  shows "length (take i s @ dropWhile is_digit (drop (i + 7) s)) < length s"
proof -
  from IndexStr_bound [OF assms] have "i + 7 \<le> length s" by (simp add: mentionMark_def)
  moreover have "length (dropWhile is_digit (drop (i + 7) s)) \<le> length s - (i + 7)"
    using length_dropWhile_le [of is_digit "drop (i + 7) s"] by simp
  ultimately show ?thesis by simp
qed

text \<open>The loop of \<open>cleanMention\<close>: each round takes one placeholder with its number away.\<close>

function removeMentions :: "string \<Rightarrow> string" where
  "removeMentions s =
     (case IndexStr mentionMark s of
        None \<Rightarrow> s
      | Some start \<Rightarrow> removeMentions (take start s @ dropWhile is_digit (drop (start + 7) s)))"
  by pat_completeness auto

termination
  by (relation "measure length") (use removed_shorter in auto)

declare removeMentions.simps [simp del]

definition cleanMention :: "string \<Rightarrow> string" where
  "cleanMention text = TrimSpace (removeMentions text)"

lemma removeMentions_none: "\<not> sublist mentionMark (removeMentions s)"
proof (induction s rule: removeMentions.induct)
  case (1 s)
  then show ?case
    by (cases "IndexStr mentionMark s") (auto simp: removeMentions.simps [of s] IndexStr_None [symmetric])
qed

lemma removeMentions_id: "\<not> sublist mentionMark s \<Longrightarrow> removeMentions s = s"
  by (simp add: removeMentions.simps [of s] IndexStr_None [symmetric])

lemma sublist_TrimSpace: "sublist (TrimSpace s) s"
  unfolding TrimSpace_def
  using prefix_trim_right [of "trim_left_space s"] suffix_strip_seqs [of unicode_spaces s]
  by (metis trim_left_space_def prefix_imp_sublist suffix_imp_sublist sublist_order.order.trans)

lemma cleanMention_none: "\<not> sublist mentionMark (cleanMention s)"
  unfolding cleanMention_def
  using removeMentions_none [of s] sublist_TrimSpace sublist_order.order.trans by blast


section \<open>Incoming messages\<close>

definition extractText :: "(string \<Rightarrow> string option) \<Rightarrow> EventMessage \<Rightarrow> string" where
  "extractText decodeText msg =
     (case fe_Content msg of
        None \<Rightarrow> []
      | Some raw \<Rightarrow> (case decodeText raw of None \<Rightarrow> [] | Some t \<Rightarrow> t))"

definition isMentioned :: "EventMessage \<Rightarrow> bool" where
  "isMentioned msg = (fe_Mentions msg \<noteq> [])"

definition resolveMentions :: "FeishuChannel \<Rightarrow> EventMessage \<Rightarrow> string list" where
  "resolveMentions ch msg =
     List.map_filter (\<lambda>name. Option.bind name (mget (fc_BotNameToAgentID (fs_cfg ch)))) (fe_Mentions msg)"

definition getUsername ::
  "(string \<Rightarrow> string option) \<Rightarrow> string \<Rightarrow> FeishuChannel \<Rightarrow> string \<times> FeishuChannel" where
  "getUsername lookupUser openID ch =
     (case mget (fs_usernames ch) openID of
        Some name \<Rightarrow> (name, ch)
      | None \<Rightarrow>
          (case lookupUser openID of
             None \<Rightarrow> (openID, ch)
           | Some name \<Rightarrow> (name, ch\<lparr>fs_usernames := mput openID name (fs_usernames ch)\<rparr>)))"

text \<open>A nil open id is dereferenced: the handler panics.\<close>

datatype handled = FPanic | FIgnored | FHandled IncomingMessage

definition strValue :: "string option \<Rightarrow> string" where
  "strValue p = (case p of None \<Rightarrow> [] | Some v \<Rightarrow> v)"

definition feishuMessage ::
  "FeishuChannel \<Rightarrow> EventMessage \<Rightarrow> string \<Rightarrow> string \<Rightarrow> string \<Rightarrow> IncomingMessage" where
  "feishuMessage ch msg userID username txt =
     (let chatType = strValue (fe_ChatType msg)
      in \<lparr>im_ID = strValue (fe_MessageId msg), im_Platform = ''feishu'',
          im_ChannelID = strValue (fe_ChatId msg), im_UserID = userID, im_Username = username,
          im_Text = txt, im_ThreadID = [], im_Mentions = resolveMentions ch msg,
          im_ChatType = chatType, im_Metadata = [(''chat_type'', chatType)]\<rparr>)"

definition handleMessage ::
  "(string \<Rightarrow> string option) \<Rightarrow> (string \<Rightarrow> string option) \<Rightarrow> FeishuEvent option \<Rightarrow> FeishuChannel \<Rightarrow>
   handled \<times> FeishuChannel" where
  "handleMessage decodeText lookupUser event ch =
     (case event of
        None \<Rightarrow> (FIgnored, ch)
      | Some ev \<Rightarrow>
     (case fv_Message ev of
        None \<Rightarrow> (FIgnored, ch)
      | Some msg \<Rightarrow>
          (let senderID = (case fv_Sender ev of None \<Rightarrow> None | Some i \<Rightarrow> i);
               own = (fs_botOpenID ch \<noteq> [])
           in if own \<and> senderID = Some None then (FPanic, ch)
              else if own \<and> senderID = Some (Some (fs_botOpenID ch)) then (FIgnored, ch)
              else (let txt = cleanMention (extractText decodeText msg);
                        chatType = strValue (fe_ChatType msg)
                    in if txt = [] then (FIgnored, ch)
                       else if chatType = ''group'' \<and> \<not> isMentioned msg then (FIgnored, ch)
                       else (case senderID of
                               Some None \<Rightarrow> (FPanic, ch)
                             | Some (Some userID) \<Rightarrow>
                                 (let (username, ch1) = getUsername lookupUser userID ch
                                  in (if fs_hasHandler ch1
                                      then FHandled (feishuMessage ch1 msg userID username txt)
                                      else FIgnored, ch1))
                             | None \<Rightarrow>
                                 (if fs_hasHandler ch then FHandled (feishuMessage ch msg [] [] txt)
                                  else FIgnored, ch))))))"


section \<open>Outgoing messages\<close>

text \<open>The chat and the text that are sent.\<close>

definition feishuSend :: "OutgoingMessage \<Rightarrow> string \<times> string" where
  "feishuSend msg =
     (let text1 = om_Text msg;
          text2 = (if om_AgentName msg \<noteq> [] \<and> \<not> prefix (om_AgentName msg) text1
                   then om_Text msg else text1)
      in (om_ChannelID msg, text2))"


section \<open>The properties\<close>

text \<open>
  A message that the channel hands to the router is well-formed: it comes from this platform,
  its text is not empty, has no white space around it and no mention placeholder left in it, the
  agents it mentions are agents of the bot mapping, and a message of a group had a mention.
\<close>

theorem feishu_message_wellformed:
  assumes "handleMessage decodeText lookupUser (Some ev) ch = (FHandled m, ch')"
  shows "im_Platform m = ''feishu'' \<and> im_Text m \<noteq> [] \<and> TrimSpace (im_Text m) = im_Text m \<and>
    \<not> sublist mentionMark (im_Text m) \<and>
    set (im_Mentions m) \<subseteq> ran (mget (fc_BotNameToAgentID (fs_cfg ch))) \<and>
    (\<exists>msg. fv_Message ev = Some msg \<and> (im_ChatType m = ''group'' \<longrightarrow> fe_Mentions msg \<noteq> []))"
proof -
  obtain msg where msg: "fv_Message ev = Some msg"
    using assms by (auto simp: handleMessage_def split: option.splits)
  let ?txt = "cleanMention (extractText decodeText msg)"
  have keep: "fs_cfg (snd (getUsername lookupUser u ch)) = fs_cfg ch" for u
    by (auto simp: getUsername_def split: option.split)
  have "\<exists>ch1 u n. m = feishuMessage ch1 msg u n ?txt \<and> fs_cfg ch1 = fs_cfg ch"
    and "?txt \<noteq> []" and "strValue (fe_ChatType msg) = ''group'' \<longrightarrow> fe_Mentions msg \<noteq> []"
    using assms msg keep
    by (auto simp: handleMessage_def Let_def isMentioned_def split: option.splits if_splits prod.splits)
      (metis snd_conv)+
  then obtain ch1 u n where m: "m = feishuMessage ch1 msg u n ?txt" "fs_cfg ch1 = fs_cfg ch"
    and "?txt \<noteq> []" "strValue (fe_ChatType msg) = ''group'' \<longrightarrow> fe_Mentions msg \<noteq> []"
    by blast
  moreover have "set (resolveMentions ch1 msg) \<subseteq> ran (mget (fc_BotNameToAgentID (fs_cfg ch)))"
    using m(2) by (auto simp: resolveMentions_def List.map_filter_def ran_def split: Option.bind_splits)
  moreover have "TrimSpace ?txt = ?txt" by (simp add: cleanMention_def)
  ultimately show ?thesis
    using cleanMention_none msg by (auto simp: feishuMessage_def Let_def)
qed

text \<open>A greeting in a group that mentions the bot of the PM.\<close>

definition demoChannel :: FeishuChannel where
  "demoChannel = \<lparr>fs_cfg = \<lparr>fc_AppID = ''cli_1'', fc_AppSecret = ''s'',
     fc_BotNameToAgentID = [(''Wang'', ''pm'')]\<rparr>, fs_ctx = Some False, fs_botOpenID = [], fs_hasHandler = True, fs_usernames = []\<rparr>"

definition demoFeishuEvent :: FeishuEvent where
  "demoFeishuEvent = \<lparr>fv_Message = Some \<lparr>fe_MessageId = Some ''om_1'', fe_ChatId = Some ''oc_7'',
     fe_ChatType = Some ''group'', fe_Content = Some ''@_user_1 hello'', fe_Mentions = [Some ''Wang'', None]\<rparr>,
     fv_Sender = Some (Some (Some ''ou_3''))\<rparr>"

definition demoIncoming :: IncomingMessage where
  "demoIncoming = \<lparr>im_ID = ''om_1'', im_Platform = ''feishu'', im_ChannelID = ''oc_7'',
     im_UserID = ''ou_3'', im_Username = ''Li'', im_Text = ''hello'', im_ThreadID = [],
     im_Mentions = [''pm''], im_ChatType = ''group'', im_Metadata = [(''chat_type'', ''group'')]\<rparr>"

lemma demo_handled:
  "handleMessage Some (\<lambda>u. Some ''Li'') (Some demoFeishuEvent) demoChannel =
     (FHandled demoIncoming, demoChannel\<lparr>fs_usernames := [(''ou_3'', ''Li'')]\<rparr>)"
  by code_simp

theorem feishu_message_wellformed_witness:
  "set (im_Mentions demoIncoming) \<subseteq> ran [''Wang'' \<mapsto> ''pm''] \<and> \<not> sublist mentionMark (im_Text demoIncoming)"
  using feishu_message_wellformed [OF demo_handled]
  by (simp add: demoChannel_def mget_def fun_upd_def)

text \<open>
  A reply is sent as it is: the branch that looks at the agent's name stores the same text again.
\<close>

lemma feishu_sends_text: "feishuSend msg = (om_ChannelID msg, om_Text msg)"
  by (simp add: feishuSend_def)

text \<open>
  The channel never learns its own open id, so the test for its own messages never applies.
\<close>

lemma feishu_own_id_unknown:
  "FeishuNew cfg = Inr ch \<Longrightarrow> fs_botOpenID ch = []"
  "fs_botOpenID (snd (handleMessage decodeText lookupUser ev ch)) = fs_botOpenID ch"
  by (auto simp: FeishuNew_def handleMessage_def getUsername_def Let_def split: option.splits if_splits)

end
