(* ===== verification/Expert_Runtime.thy ===== *)
theory Expert_Runtime
  imports Expert_Registry Executor Webhook_Verify
begin

text \<open>
  The expert runtime (\<open>internal/expert/runtime/server.go\<close>, \<open>events.go\<close>): the server that runs the
  tasks of the orchestrator, at once or in the background, and tells it when a background task has
  succeeded.

  The executor is given by its outcomes, the JSON decoder, SHA and the HTTP client of the event
  sink are parameters.  A context is a number; cancelling it is in the state of \<open>Runtime_System\<close>.
  Each handler is cut where other goroutines may run in between: a task is created, its execution
  ends, its goroutine cleans up.
\<close>

section \<open>Data\<close>

record capability =
  xc_ExpertID :: string
  xc_Version :: string
  xc_Supports :: "string list"
  xc_TimeoutSeconds :: int
  xc_MaxConcurrency :: int

record TaskConstraints =
  tk_TimeoutSeconds :: int
  tk_MaxCostUSD :: rat

record TaskRequest =
  tq_TaskID :: string
  tq_JobID :: string
  tq_TenantID :: string
  tq_ProjectID :: string
  tq_TaskType :: string
  tq_Input :: string
  tq_Constraints :: TaskConstraints
  tq_TraceID :: string

record taskMetrics =
  tms_total :: "64 word"
  tms_succeeded :: "64 word"
  tms_accepted :: "64 word"
  tms_canceled :: "64 word"
  tms_failed :: "64 word"

text \<open>The server; \<open>pending\<close> maps a task id to the context of its task.\<close>

record 'sink RtServer =
  xv_eventSink :: "'sink option"
  xv_authEnabled :: bool
  xv_authToken :: string
  xv_defaultAsync :: bool
  xv_defaultTimeout :: duration
  xv_capability :: capability
  xv_pending :: "nat gomap"
  xv_seq :: "64 word"
  xv_metrics :: taskMetrics

definition WithEventSink :: "'sink option \<Rightarrow> 'sink RtServer \<Rightarrow> 'sink RtServer" where
  "WithEventSink sink s = (case sink of None \<Rightarrow> s | Some k \<Rightarrow> s\<lparr>xv_eventSink := Some k\<rparr>)"

definition WithAuthToken :: "string \<Rightarrow> 'sink RtServer \<Rightarrow> 'sink RtServer" where
  "WithAuthToken token s =
     (let t = TrimSpace token
      in if t = [] then s else s\<lparr>xv_authEnabled := True, xv_authToken := t\<rparr>)"

definition WithAuthDisabled :: "'sink RtServer \<Rightarrow> 'sink RtServer" where
  "WithAuthDisabled s = s\<lparr>xv_authEnabled := False, xv_authToken := []\<rparr>"

definition WithDefaultAsync :: "bool \<Rightarrow> 'sink RtServer \<Rightarrow> 'sink RtServer" where
  "WithDefaultAsync v s = s\<lparr>xv_defaultAsync := v\<rparr>"

definition WithDefaultTimeout :: "duration \<Rightarrow> 'sink RtServer \<Rightarrow> 'sink RtServer" where
  "WithDefaultTimeout v s = (if 0 < v then s\<lparr>xv_defaultTimeout := v\<rparr> else s)"

text \<open>The capability is that of the first expert of the snapshot.\<close>

definition serverCapability :: "RegistrySnapshot option \<Rightarrow> capability" where
  "serverCapability snapshot =
     (let c0 = \<lparr>xc_ExpertID = ''unknown_expert'', xc_Version = ''1.0.0'',
                xc_Supports = [''daily_brief'', ''query''], xc_TimeoutSeconds = 180,
                xc_MaxConcurrency = 4\<rparr>
      in case snapshot of
           None \<Rightarrow> c0
         | Some sn \<Rightarrow>
             (case sn_Experts sn of
                [] \<Rightarrow> c0
              | first # _ \<Rightarrow>
                  (let version = xm_Version (xd_Metadata (le_Definition first));
                       supports = xs_Capabilities (xd_Spec (le_Definition first));
                       c1 = c0\<lparr>xc_ExpertID := xr_ExpertID (le_Ref first)\<rparr>;
                       c2 = (if TrimSpace version \<noteq> [] then c1\<lparr>xc_Version := version\<rparr> else c1)
                   in if supports \<noteq> [] then c2\<lparr>xc_Supports := supports\<rparr> else c2)))"

definition NewRtServer ::
  "RegistrySnapshot option \<Rightarrow> ('sink RtServer \<Rightarrow> 'sink RtServer) list \<Rightarrow> 'sink RtServer" where
  "NewRtServer snapshot opts = fold (\<lambda>opt s. opt s) opts
     \<lparr>xv_eventSink = None, xv_authEnabled = False, xv_authToken = [], xv_defaultAsync = False,
      xv_defaultTimeout = 180 * nsPerSecond, xv_capability = serverCapability snapshot,
      xv_pending = [], xv_seq = 0,
      xv_metrics = \<lparr>tms_total = 0, tms_succeeded = 0, tms_accepted = 0, tms_canceled = 0,
                    tms_failed = 0\<rparr>\<rparr>"


section \<open>Replies\<close>

definition rtJSON :: "int \<Rightarrow> json \<Rightarrow> Response" where
  "rtJSON status body = \<lparr>rs_Status = status, rs_ContentType = Some jsonType, rs_Payload = PJson body\<rparr>"

definition rtProblem :: "string \<Rightarrow> string \<Rightarrow> int \<Rightarrow> string \<Rightarrow> Response" where
  "rtProblem code title status detail =
     rtJSON status (JObj [(''type'', JStr (''https://api.cova.example.com/errors/'' @ code)),
       (''title'', JStr title), (''status'', JNum (of_int status)), (''detail'', JStr detail)])"

definition runtimeCheckAuth :: "'sink RtServer \<Rightarrow> Header \<Rightarrow> string option" where
  "runtimeCheckAuth s h =
     (let raw = TrimSpace (hGet h ''Authorization'')
      in if raw = [] then Some ''missing Authorization header''
         else (case Fields raw of
                 [scheme, token] \<Rightarrow>
                   if \<not> EqualFold scheme ''Bearer'' then Some ''Authorization must use Bearer token''
                   else if token \<noteq> xv_authToken s then Some ''invalid bearer token''
                   else None
               | _ \<Rightarrow> Some ''Authorization must use Bearer token''))"

definition fieldRequired :: "string \<Rightarrow> string" where
  "fieldRequired f = ''field `'' @ f @ ''` is required''"

definition validateTaskRequest :: "TaskRequest \<Rightarrow> string option" where
  "validateTaskRequest req =
     (if TrimSpace (tq_TaskID req) = [] then Some (fieldRequired ''task_id'')
      else if TrimSpace (tq_JobID req) = [] then Some (fieldRequired ''job_id'')
      else if TrimSpace (tq_TenantID req) = [] then Some (fieldRequired ''tenant_id'')
      else if TrimSpace (tq_ProjectID req) = [] then Some (fieldRequired ''project_id'')
      else if TrimSpace (tq_TaskType req) = [] then Some (fieldRequired ''task_type'')
      else None)"

definition rtMetricsSnapshot :: "time \<Rightarrow> 'sink RtServer \<Rightarrow> json" where
  "rtMetricsSnapshot now s =
     (let m = xv_metrics s; num = (\<lambda>w. JNum (of_nat (unat w)))
      in JObj [(''timestamp_utc'', JStr (rfc3339nano now)), (''total'', num (tms_total m)),
           (''succeeded'', num (tms_succeeded m)), (''accepted'', num (tms_accepted m)),
           (''canceled'', num (tms_canceled m)), (''failed'', num (tms_failed m))])"

definition handleHealthz :: "'sink RtServer \<Rightarrow> Response" where
  "handleHealthz s = rtJSON StatusOK
     (JObj [(''status'', JStr ''ok''), (''version'', JStr (xc_Version (xv_capability s)))])"

definition handleCapabilities :: "'sink RtServer \<Rightarrow> Response" where
  "handleCapabilities s =
     (let c = xv_capability s
      in rtJSON StatusOK (JObj [(''expert_id'', JStr (xc_ExpertID c)), (''version'', JStr (xc_Version c)),
           (''supports'', JArr (map JStr (xc_Supports c))),
           (''limits'', JObj [(''timeout_seconds'', JNum (of_int (xc_TimeoutSeconds c))),
              (''max_concurrency'', JNum (of_int (xc_MaxConcurrency c)))])]))"


section \<open>Tasks\<close>

abbreviation bump :: "(taskMetrics \<Rightarrow> taskMetrics) \<Rightarrow> 'sink RtServer \<Rightarrow> 'sink RtServer" where
  "bump f s \<equiv> s\<lparr>xv_metrics := f (xv_metrics s)\<rparr>"

definition countTotal :: "taskMetrics \<Rightarrow> taskMetrics" where
  "countTotal m = m\<lparr>tms_total := tms_total m + 1\<rparr>"
definition countSucceeded :: "taskMetrics \<Rightarrow> taskMetrics" where
  "countSucceeded m = m\<lparr>tms_succeeded := tms_succeeded m + 1\<rparr>"
definition countAccepted :: "taskMetrics \<Rightarrow> taskMetrics" where
  "countAccepted m = m\<lparr>tms_accepted := tms_accepted m + 1\<rparr>"
definition countCanceled :: "taskMetrics \<Rightarrow> taskMetrics" where
  "countCanceled m = m\<lparr>tms_canceled := tms_canceled m + 1\<rparr>"
definition countFailed :: "taskMetrics \<Rightarrow> taskMetrics" where
  "countFailed m = m\<lparr>tms_failed := tms_failed m + 1\<rparr>"

text \<open>\<open>time.Duration(seconds) * time.Second\<close> in 64 bits.\<close>

definition taskTimeout :: "'sink RtServer \<Rightarrow> TaskRequest \<Rightarrow> duration" where
  "taskTimeout s req =
     (if 0 < tk_TimeoutSeconds (tq_Constraints req)
      then wrap64 (tk_TimeoutSeconds (tq_Constraints req) * nsPerSecond)
      else xv_defaultTimeout s)"

text \<open>What the executor is given, and its error or result.\<close>

definition executeInput :: "'sink RtServer \<Rightarrow> TaskRequest \<Rightarrow> string \<Rightarrow> BriefInput" where
  "executeInput s req date =
     \<lparr>bi_JobID = tq_JobID req, bi_TenantID = [], bi_ProjectID = [],
      bi_ExpertID = xc_ExpertID (xv_capability s), bi_ExpertName = xc_ExpertID (xv_capability s),
      bi_ExpertType = ''fixed_income'', bi_Date = date, bi_TraceID = []\<rparr>"

definition execResult :: "exec_outcome \<Rightarrow> string + ExpertResult" where
  "execResult x =
     (case x of ExecOk r \<Rightarrow> Inr r | ExecErr e \<Rightarrow> Inl e
      | ExecAsync \<Rightarrow> Inl ''runtime task accepted for async processing'')"

definition newExpertTaskID :: "time \<Rightarrow> 'sink RtServer \<Rightarrow> string \<times> 'sink RtServer" where
  "newExpertTaskID now s =
     (let seq = xv_seq s + 1
      in (''exp_t_'' @ dec_int now @ ''_'' @ dec (unat seq), s\<lparr>xv_seq := seq\<rparr>))"

text \<open>
  The first part of \<open>handleCreateTask\<close>: refused, started in the background with a context (and
  answered), or to be executed by the handler.
\<close>

datatype created = Replied Response | Started Response nat TaskRequest BriefInput
  | Execute TaskRequest BriefInput duration

record taskDecoders =
  xe_request :: "string \<Rightarrow> TaskRequest option"
  xe_date :: "string \<Rightarrow> string"

definition taskDate :: "taskDecoders \<Rightarrow> time \<Rightarrow> TaskRequest \<Rightarrow> string" where
  "taskDate d now req =
     (let date = (if tq_Input req = [] then [] else xe_date d (tq_Input req))
      in if TrimSpace date = [] then date_text now else date)"

definition asyncRequested :: "'sink RtServer \<Rightarrow> Header \<Rightarrow> bool" where
  "asyncRequested s h \<longleftrightarrow> xv_defaultAsync s \<or>
     EqualFold (TrimSpace (hGet h ''X-COVA-Execution-Mode'')) ''async''"

definition handleCreateTask ::
  "taskDecoders \<Rightarrow> time \<Rightarrow> time \<Rightarrow> nat \<Rightarrow> Request \<Rightarrow> 'sink RtServer \<Rightarrow> created \<times> 'sink RtServer" where
  "handleCreateTask d now1 now2 ctx r s =
     (case xe_request d (rq_Body r) of
        None \<Rightarrow> (Replied (rtProblem ''invalid-input'' ''Invalid input'' StatusBadRequest
                  ''request body must be valid JSON''), s)
      | Some req \<Rightarrow>
     (case validateTaskRequest req of
        Some e \<Rightarrow> (Replied (rtProblem ''invalid-input'' ''Invalid input'' StatusBadRequest e), s)
      | None \<Rightarrow>
          (let s1 = bump countTotal s; inp = executeInput s1 req (taskDate d now1 req)
           in if asyncRequested s1 (rq_Header r)
              then (let (expertTaskID, s2) = newExpertTaskID now2 s1;
                        s3 = s2\<lparr>xv_pending := mput (tq_TaskID req) ctx (xv_pending s2)\<rparr>
                    in (Started (rtJSON StatusAccepted (JObj [(''status'', JStr ''accepted''),
                          (''expert_task_id'', JStr expertTaskID)])) ctx req inp,
                        bump countAccepted s3))
              else (Execute req inp (taskTimeout s1 req), s1))))"

text \<open>The rest of a task that the handler executes itself.\<close>

definition finishSync :: "(ExpertResult \<Rightarrow> json) \<Rightarrow> exec_outcome \<Rightarrow> 'sink RtServer \<Rightarrow> Response \<times> 'sink RtServer" where
  "finishSync encode outcome s =
     (case execResult outcome of
        Inl e \<Rightarrow> (rtProblem ''dependency-unavailable'' ''Dependency unavailable'' StatusBadGateway e,
                  bump countFailed s)
      | Inr r \<Rightarrow> (rtJSON StatusOK (JObj [(''status'', JStr ''succeeded''), (''result'', encode r)]),
                  bump countSucceeded s))"

text \<open>The reply, and the context to cancel.\<close>

definition handleCancelTask :: "string \<Rightarrow> 'sink RtServer \<Rightarrow> Response \<times> nat option \<times> 'sink RtServer" where
  "handleCancelTask taskID0 s =
     (let taskID = TrimSpace taskID0
      in if taskID = []
         then (rtProblem ''invalid-input'' ''Invalid input'' StatusBadRequest ''task_id is required'', None, s)
         else (case mget (xv_pending s) taskID of
                 None \<Rightarrow> (rtProblem ''not-found'' ''Not found'' StatusNotFound ''task not found'', None, s)
               | Some ctx \<Rightarrow>
                   (rtJSON StatusAccepted (JObj [(''status'', JStr ''canceling'')]), Some ctx,
                    bump countCanceled (s\<lparr>xv_pending := mdel taskID (xv_pending s)\<rparr>))))"


section \<open>Background tasks and events\<close>

record TaskCompletedData =
  td_TaskID :: string
  td_JobID :: string
  td_TraceID :: string
  td_Status :: string
  td_Result :: ExpertResult

record TaskCompletedEvent =
  tc_SpecVersion :: string
  tc_ID :: string
  tc_Type :: string
  tc_Source :: string
  tc_Time :: string
  tc_DataContentType :: string
  tc_Data :: TaskCompletedData

definition completedEvent ::
  "time \<Rightarrow> time \<Rightarrow> 'sink RtServer \<Rightarrow> TaskRequest \<Rightarrow> ExpertResult \<Rightarrow> TaskCompletedEvent" where
  "completedEvent now1 now2 s req r =
     \<lparr>tc_SpecVersion = ''1.0'', tc_ID = ''evt_'' @ dec_int now1,
      tc_Type = ''com.cova.expert.task.completed'',
      tc_Source = ''expert://'' @ xc_ExpertID (xv_capability s), tc_Time = rfc3339 now2,
      tc_DataContentType = ''application/json'',
      tc_Data = \<lparr>td_TaskID = tq_TaskID req, td_JobID = tq_JobID req, td_TraceID = tq_TraceID req,
                 td_Status = ''succeeded'', td_Result = r\<rparr>\<rparr>"

text \<open>The end of an execution in the background: the event to send, if it succeeded.\<close>

definition finishAsyncTask ::
  "exec_outcome \<Rightarrow> time \<Rightarrow> time \<Rightarrow> TaskRequest \<Rightarrow> 'sink RtServer \<Rightarrow>
   TaskCompletedEvent option \<times> 'sink RtServer" where
  "finishAsyncTask outcome now1 now2 req s =
     (case execResult outcome of
        Inl e \<Rightarrow> (None, bump countFailed s)
      | Inr r \<Rightarrow> (Some (completedEvent now1 now2 s req r), bump countSucceeded s))"

text \<open>The deferred function.\<close>

definition cleanupTask :: "TaskRequest \<Rightarrow> 'sink RtServer \<Rightarrow> 'sink RtServer" where
  "cleanupTask req s = s\<lparr>xv_pending := mdel (tq_TaskID req) (xv_pending s)\<rparr>"

record HTTPEventSink =
  hs_url :: string
  hs_secret :: string
  hs_timeout :: duration

definition NewHTTPEventSink :: "string \<Rightarrow> string \<Rightarrow> duration \<Rightarrow> HTTPEventSink" where
  "NewHTTPEventSink url secret timeout =
     \<lparr>hs_url = TrimSpace url, hs_secret = TrimSpace secret,
      hs_timeout = (if timeout \<le> 0 then 5 * nsPerSecond else timeout)\<rparr>"

definition signPayload :: "(string \<Rightarrow> string \<Rightarrow> string) \<Rightarrow> string \<Rightarrow> string \<Rightarrow> string \<Rightarrow> string" where
  "signPayload hmac secret timestamp body = hex_encode (hmac secret (timestamp @ ''.'' @ body))"

record sinkEnv =
  xn_marshal :: "TaskCompletedEvent \<Rightarrow> string + string"
  xn_build :: "string \<Rightarrow> string option"
  xn_do :: "string \<Rightarrow> Header \<Rightarrow> string \<Rightarrow> string + int"
  xn_hmac :: "string \<Rightarrow> string \<Rightarrow> string"

definition sinkHeaders :: "sinkEnv \<Rightarrow> HTTPEventSink \<Rightarrow> time \<Rightarrow> string \<Rightarrow> Header" where
  "sinkHeaders e k now raw =
     (let h1 = hSet ''Content-Type'' ''application/json'' [];
          ts = dec_int (unix_sec now)
      in if hs_secret k \<noteq> []
         then hSet ''X-COVA-Signature'' (''sha256='' @ signPayload (xn_hmac e) (hs_secret k) ts raw)
                (hSet ''X-COVA-Timestamp'' ts h1)
         else h1)"

text \<open>The error, if there is one; the client sees the request.\<close>

definition SendTaskCompleted :: "sinkEnv \<Rightarrow> HTTPEventSink \<Rightarrow> time \<Rightarrow> TaskCompletedEvent \<Rightarrow> string option" where
  "SendTaskCompleted e k now event =
     (if TrimSpace (hs_url k) = [] then None
      else (case xn_marshal e event of
              Inl err \<Rightarrow> Some (''marshal event: '' @ err)
            | Inr raw \<Rightarrow>
           (case xn_build e (hs_url k) of
              Some err \<Rightarrow> Some (''build request: '' @ err)
            | None \<Rightarrow>
           (case xn_do e (hs_url k) (sinkHeaders e k now raw) raw of
              Inl err \<Rightarrow> Some (''post event: '' @ err)
            | Inr status \<Rightarrow>
                if status < 200 \<or> 300 \<le> status
                then Some (''event endpoint status='' @ dec_int status) else None))))"


section \<open>Routing\<close>

text \<open>What a request is for.\<close>

datatype rt_route = RtUnauthorized string | RtHealthz | RtCapabilities | RtCreate | RtCancel string
  | RtMetrics | RtHealth | RtNotFound

definition rtRoute :: "'sink RtServer \<Rightarrow> Request \<Rightarrow> rt_route" where
  "rtRoute s r =
     (let get = (rq_Method r = ''GET''); post = (rq_Method r = ''POST''); p = rq_Path r
      in case (if xv_authEnabled s then runtimeCheckAuth s (rq_Header r) else None) of
           Some e \<Rightarrow> RtUnauthorized e
         | None \<Rightarrow>
             if get \<and> p = ''/runtime/v1/healthz'' then RtHealthz
             else if get \<and> p = ''/runtime/v1/capabilities'' then RtCapabilities
             else if post \<and> p = ''/runtime/v1/tasks'' then RtCreate
             else if post \<and> prefix ''/runtime/v1/tasks/'' p \<and> suffix ''/cancel'' p
             then RtCancel (TrimChar (CHR ''/'')
                    (TrimSuffix (TrimPrefix p ''/runtime/v1/tasks/'') ''/cancel''))
             else if get \<and> p = ''/metrics'' then RtMetrics
             else if get \<and> p = ''/healthz'' then RtHealth
             else RtNotFound)"

text \<open>
  One request up to the point where the handler answers or calls the executor: the reply or the
  task, and the context to cancel.
\<close>

definition rtServeHTTP ::
  "taskDecoders \<Rightarrow> time \<Rightarrow> time \<Rightarrow> nat \<Rightarrow> Request \<Rightarrow> 'sink RtServer \<Rightarrow> created \<times> nat option \<times> 'sink RtServer" where
  "rtServeHTTP d now1 now2 ctx r s =
     (case rtRoute s r of
        RtUnauthorized e \<Rightarrow> (Replied (rtProblem ''unauthorized'' ''Unauthorized'' StatusUnauthorized e), None, s)
      | RtHealthz \<Rightarrow> (Replied (handleHealthz s), None, s)
      | RtCapabilities \<Rightarrow> (Replied (handleCapabilities s), None, s)
      | RtCreate \<Rightarrow> (case handleCreateTask d now1 now2 ctx r s of (c, s') \<Rightarrow> (c, None, s'))
      | RtCancel taskID \<Rightarrow>
          (case handleCancelTask taskID s of (reply, c, s') \<Rightarrow> (Replied reply, c, s'))
      | RtMetrics \<Rightarrow> (Replied (rtJSON StatusOK (rtMetricsSnapshot now1 s)), None, s)
      | RtHealth \<Rightarrow> (Replied (rtJSON StatusOK
            (JObj [(''status'', JStr ''ok''), (''time'', JStr (rfc3339nano now1))])), None, s)
      | RtNotFound \<Rightarrow> (Replied notFound, None, s))"

end
