(* ===== verification/Runtime_System.thy ===== *)
theory Runtime_System
  imports Expert_Runtime
begin

text \<open>
  The expert runtime as a transition system: requests, and the goroutines of the tasks, in any
  order.  The tasks that were started in the background are numbered by their contexts; a ghost
  log says how each of them ended.  The counters of one handler are taken together.
\<close>

section \<open>Steps\<close>

record 'sink rt_sys =
  ry_srv :: "'sink RtServer"
  ry_sync :: "TaskRequest multiset"
  ry_started :: "TaskRequest list"
  ry_tasks :: "nat set"
  ry_cleanup :: "nat set"
  ry_canceled :: "nat set"
  ry_ended :: "(nat \<times> exec_outcome) list"
  ry_events :: "(nat \<times> TaskCompletedEvent) list"

text \<open>What a request leaves behind.\<close>

definition afterRequest ::
  "created \<Rightarrow> nat option \<Rightarrow> 'sink RtServer \<Rightarrow> 'sink rt_sys \<Rightarrow> 'sink rt_sys" where
  "afterRequest c canceled srv s =
     (let s1 = s\<lparr>ry_srv := srv, ry_canceled := ry_canceled s \<union> set_option canceled\<rparr>
      in case c of
           Replied reply \<Rightarrow> s1
         | Started reply ctx req inp \<Rightarrow>
             s1\<lparr>ry_started := ry_started s @ [req], ry_tasks := insert ctx (ry_tasks s)\<rparr>
         | Execute req inp timeout \<Rightarrow> s1\<lparr>ry_sync := add_mset req (ry_sync s)\<rparr>)"

inductive rt_step :: "'sink rt_sys \<Rightarrow> 'sink rt_sys \<Rightarrow> bool" where
  request: "rtServeHTTP d now1 now2 (length (ry_started s)) r (ry_srv s) = (c, canceled, srv) \<Longrightarrow>
    rt_step s (afterRequest c canceled srv s)"
| sync_end: "req \<in># ry_sync s \<Longrightarrow> finishSync enc outcome (ry_srv s) = (reply, srv) \<Longrightarrow>
    rt_step s (s\<lparr>ry_srv := srv, ry_sync := ry_sync s - {#req#}\<rparr>)"
| async_end: "c \<in> ry_tasks s \<Longrightarrow>
    finishAsyncTask outcome now1 now2 (ry_started s ! c) (ry_srv s) = (event, srv) \<Longrightarrow>
    rt_step s (s\<lparr>ry_srv := srv, ry_tasks := ry_tasks s - {c}, ry_cleanup := insert c (ry_cleanup s),
      ry_ended := ry_ended s @ [(c, outcome)],
      ry_events := ry_events s @ map (Pair c) (case event of None \<Rightarrow> [] | Some e \<Rightarrow> [e])\<rparr>)"
| cleanup: "c \<in> ry_cleanup s \<Longrightarrow>
    rt_step s (s\<lparr>ry_srv := cleanupTask (ry_started s ! c) (ry_srv s), ry_cleanup := ry_cleanup s - {c}\<rparr>)"

definition rt_start :: "RegistrySnapshot option \<Rightarrow> ('sink RtServer \<Rightarrow> 'sink RtServer) list \<Rightarrow> 'sink rt_sys" where
  "rt_start snapshot opts = \<lparr>ry_srv = NewRtServer snapshot opts, ry_sync = {#}, ry_started = [],
     ry_tasks = {}, ry_cleanup = {}, ry_canceled = {}, ry_ended = [], ry_events = []\<rparr>"

text \<open>The options the program has: none of them touches the counters or the pending tasks.\<close>

inductive rt_option :: "('sink RtServer \<Rightarrow> 'sink RtServer) \<Rightarrow> bool" where
  "rt_option (WithEventSink k)"
| "rt_option (WithAuthToken t)"
| "rt_option WithAuthDisabled"
| "rt_option (WithDefaultAsync v)"
| "rt_option (WithDefaultTimeout t)"

inductive rt_reach :: "'sink rt_sys \<Rightarrow> bool" where
  start: "list_all rt_option opts \<Longrightarrow> rt_reach (rt_start snapshot opts)"
| step: "rt_reach s \<Longrightarrow> rt_step s s' \<Longrightarrow> rt_reach s'"


section \<open>The invariant\<close>

definition succeeded :: "exec_outcome \<Rightarrow> bool" where
  "succeeded x = (case execResult x of Inl e \<Rightarrow> False | Inr r \<Rightarrow> True)"

definition rt_counts :: "'sink rt_sys \<Rightarrow> bool" where
  "rt_counts s \<longleftrightarrow>
     (let m = xv_metrics (ry_srv s)
      in tms_total m = tms_succeeded m + tms_failed m + of_nat (size (ry_sync s) + card (ry_tasks s)) \<and>
         tms_accepted m = of_nat (length (ry_started s)))"

definition rt_pending :: "'sink rt_sys \<Rightarrow> bool" where
  "rt_pending s \<longleftrightarrow> (\<forall>k c. mget (xv_pending (ry_srv s)) k = Some c \<longrightarrow>
     c \<in> ry_tasks s \<union> ry_cleanup s \<and> tq_TaskID (ry_started s ! c) = k)"

definition rt_log :: "'sink rt_sys \<Rightarrow> bool" where
  "rt_log s \<longleftrightarrow>
     distinct (map fst (ry_ended s)) \<and>
     ry_tasks s \<union> set (map fst (ry_ended s)) = {..<length (ry_started s)} \<and>
     ry_tasks s \<inter> set (map fst (ry_ended s)) = {} \<and>
     ry_cleanup s \<subseteq> set (map fst (ry_ended s)) \<and>
     map fst (ry_events s) = map fst (filter (\<lambda>(c, x). succeeded x) (ry_ended s)) \<and>
     (\<forall>(c, e) \<in> set (ry_events s). c < length (ry_started s) \<and> td_Status (tc_Data e) = ''succeeded'' \<and>
        td_TaskID (tc_Data e) = tq_TaskID (ry_started s ! c) \<and>
        td_JobID (tc_Data e) = tq_JobID (ry_started s ! c))"

definition rt_inv :: "'sink rt_sys \<Rightarrow> bool" where
  "rt_inv s \<longleftrightarrow> rt_counts s \<and> rt_pending s \<and> rt_log s"

lemma rt_tasks_bound: "rt_log s \<Longrightarrow> c \<in> ry_tasks s \<union> ry_cleanup s \<Longrightarrow> c < length (ry_started s)"
  by (auto simp: rt_log_def)

lemma rt_tasks_finite: "rt_log s \<Longrightarrow> finite (ry_tasks s)"
  by (rule finite_subset [of _ "{..<length (ry_started s)}"]) (auto simp: rt_log_def)

text \<open>What a request can do to the server.\<close>

lemma handleCancel_cases:
  "handleCancelTask taskID s = (reply, c, s') \<Longrightarrow>
     c = None \<and> s' = s \<or>
     (\<exists>ctx. c = Some ctx \<and> mget (xv_pending s) (TrimSpace taskID) = Some ctx \<and>
        s' = bump countCanceled (s\<lparr>xv_pending := mdel (TrimSpace taskID) (xv_pending s)\<rparr>))"
  by (auto simp: handleCancelTask_def Let_def split: if_splits option.splits)

lemma handleCreate_cases:
  "handleCreateTask d now1 now2 ctx r s = (c, s') \<Longrightarrow>
     (\<exists>reply. c = Replied reply \<and> s' = s) \<or>
     (\<exists>reply req inp. c = Started reply ctx req inp \<and>
        xv_pending s' = mput (tq_TaskID req) ctx (xv_pending s) \<and>
        xv_metrics s' = countAccepted (countTotal (xv_metrics s))) \<or>
     (\<exists>req inp timeout. c = Execute req inp timeout \<and> s' = bump countTotal s)"
  by (auto simp: handleCreateTask_def newExpertTaskID_def Let_def split: if_splits option.splits prod.splits)

text \<open>A request is answered, cancels a task, starts one, or is executed by its handler.\<close>

lemma rtServe_other:
  "rtServeHTTP d now1 now2 ctx r s = (c, canceled, s') \<Longrightarrow> rtRoute s r \<noteq> RtCreate \<Longrightarrow>
     (\<And>taskID. rtRoute s r \<noteq> RtCancel taskID) \<Longrightarrow> (\<exists>reply. c = Replied reply) \<and> canceled = None \<and> s' = s"
  by (cases "rtRoute s r") (auto simp: rtServeHTTP_def)

lemma rtServe_cancel:
  "rtServeHTTP d now1 now2 ctx r s = (c, canceled, s') \<Longrightarrow> rtRoute s r = RtCancel taskID \<Longrightarrow>
     \<exists>reply. c = Replied reply \<and> handleCancelTask taskID s = (reply, canceled, s')"
  by (auto simp: rtServeHTTP_def split: prod.splits)

lemma rtServe_create:
  "rtServeHTTP d now1 now2 ctx r s = (c, canceled, s') \<Longrightarrow> rtRoute s r = RtCreate \<Longrightarrow>
     canceled = None \<and> handleCreateTask d now1 now2 ctx r s = (c, s')"
  by (auto simp: rtServeHTTP_def split: prod.splits)

lemma rtServe_cases:
  assumes "rtServeHTTP d now1 now2 ctx r s = (c, canceled, s')"
  obtains (reply) reply where "c = Replied reply" "canceled = None" "s' = s"
  | (cancel) reply taskID x where "c = Replied reply" "canceled = Some x"
      "mget (xv_pending s) (TrimSpace taskID) = Some x"
      "s' = bump countCanceled (s\<lparr>xv_pending := mdel (TrimSpace taskID) (xv_pending s)\<rparr>)"
  | (started) reply req inp where "c = Started reply ctx req inp" "canceled = None"
      "xv_pending s' = mput (tq_TaskID req) ctx (xv_pending s)"
      "xv_metrics s' = countAccepted (countTotal (xv_metrics s))"
  | (sync) req inp timeout where "c = Execute req inp timeout" "canceled = None" "s' = bump countTotal s"
proof -
  consider (create) "rtRoute s r = RtCreate" | (cancel') taskID where "rtRoute s r = RtCancel taskID"
    | (other) "rtRoute s r \<noteq> RtCreate" "\<And>taskID. rtRoute s r \<noteq> RtCancel taskID"
    by blast
  then show thesis
  proof cases
    case create
    from rtServe_create [OF assms this] handleCreate_cases [of d now1 now2 ctx r s c s']
    show thesis using reply started sync by blast
  next
    case cancel'
    from rtServe_cancel [OF assms this] obtain rep where
      c: "c = Replied rep" and h: "handleCancelTask taskID s = (rep, canceled, s')" by blast
    from handleCancel_cases [OF h] c show thesis using reply cancel by blast
  next
    case other
    from rtServe_other [OF assms other] show thesis using reply by blast
  qed
qed

lemma count_simps [simp]:
  "tms_total (countTotal m) = tms_total m + 1" "tms_succeeded (countTotal m) = tms_succeeded m"
  "tms_failed (countTotal m) = tms_failed m" "tms_accepted (countTotal m) = tms_accepted m"
  "tms_total (countSucceeded m) = tms_total m" "tms_succeeded (countSucceeded m) = tms_succeeded m + 1"
  "tms_failed (countSucceeded m) = tms_failed m" "tms_accepted (countSucceeded m) = tms_accepted m"
  "tms_total (countFailed m) = tms_total m" "tms_succeeded (countFailed m) = tms_succeeded m"
  "tms_failed (countFailed m) = tms_failed m + 1" "tms_accepted (countFailed m) = tms_accepted m"
  "tms_total (countAccepted m) = tms_total m" "tms_succeeded (countAccepted m) = tms_succeeded m"
  "tms_failed (countAccepted m) = tms_failed m" "tms_accepted (countAccepted m) = tms_accepted m + 1"
  "tms_total (countCanceled m) = tms_total m" "tms_succeeded (countCanceled m) = tms_succeeded m"
  "tms_failed (countCanceled m) = tms_failed m" "tms_accepted (countCanceled m) = tms_accepted m"
  by (simp_all add: countTotal_def countSucceeded_def countFailed_def countAccepted_def countCanceled_def)

lemma finishAsync_cases:
  "finishAsyncTask outcome now1 now2 req s = (event, s') \<Longrightarrow>
     if succeeded outcome
     then s' = bump countSucceeded s \<and> (\<exists>r. event = Some (completedEvent now1 now2 s req r))
     else s' = bump countFailed s \<and> event = None"
  by (auto simp: finishAsyncTask_def succeeded_def split: sum.splits)

lemma finishSync_cases:
  "finishSync enc outcome s = (reply, s') \<Longrightarrow> s' = bump countSucceeded s \<or> s' = bump countFailed s"
  by (auto simp: finishSync_def split: sum.splits)


text \<open>Each part of the invariant is kept by each kind of step.\<close>

lemma rt_start_inv: "list_all rt_option opts \<Longrightarrow> rt_inv (rt_start snapshot opts)"
proof -
  assume opts: "list_all rt_option opts"
  have keep: "xv_metrics (opt s) = xv_metrics s \<and> xv_pending (opt s) = xv_pending s"
    if "rt_option opt" for opt and s :: "'a RtServer"
    using that
    by cases (auto simp: WithEventSink_def WithAuthToken_def WithAuthDisabled_def WithDefaultAsync_def
        WithDefaultTimeout_def Let_def split: option.split)
  have "xv_metrics (fold (\<lambda>opt s. opt s) opts s) = xv_metrics s \<and>
      xv_pending (fold (\<lambda>opt s. opt s) opts s) = xv_pending s" for s :: "'a RtServer"
    using opts by (induction opts arbitrary: s) (simp_all add: keep)
  then show ?thesis
    by (simp add: rt_inv_def rt_counts_def rt_pending_def rt_log_def rt_start_def NewRtServer_def Let_def)
qed

lemma rt_log_fresh: "rt_log s \<Longrightarrow> length (ry_started s) \<notin> ry_tasks s"
  by (auto simp: rt_log_def)

lemma rt_request_inv:
  assumes "rt_inv s"
    and "rtServeHTTP d now1 now2 (length (ry_started s)) r (ry_srv s) = (c, canceled, srv)"
  shows "rt_inv (afterRequest c canceled srv s)"
  using assms(2)
proof (cases rule: rtServe_cases)
  case (reply rep)
  with assms(1) show ?thesis
    by (simp add: rt_inv_def rt_counts_def rt_pending_def rt_log_def afterRequest_def)
next
  case (cancel rep taskID x)
  with assms(1) show ?thesis
    by (simp add: rt_inv_def rt_counts_def rt_pending_def rt_log_def afterRequest_def Let_def)
next
  case (started rep req inp)
  from assms(1) have inv: "rt_counts s" "rt_pending s" "rt_log s" by (simp_all add: rt_inv_def)
  let ?n = "length (ry_started s)"
  let ?s = "afterRequest c canceled srv s"
  have s': "ry_srv ?s = srv" "ry_sync ?s = ry_sync s" "ry_started ?s = ry_started s @ [req]"
    "ry_tasks ?s = insert ?n (ry_tasks s)" "ry_cleanup ?s = ry_cleanup s" "ry_ended ?s = ry_ended s"
    "ry_events ?s = ry_events s"
    by (simp_all add: started afterRequest_def)
  have "rt_counts ?s"
    using inv rt_log_fresh [OF inv(3)] rt_tasks_finite [OF inv(3)]
    by (simp add: rt_counts_def s' started(4) Let_def algebra_simps)
  moreover have "rt_pending ?s"
    using inv(2) rt_tasks_bound [OF inv(3)]
    by (auto simp: rt_pending_def s' started(3) nth_append split: if_splits)
  moreover have "rt_log ?s"
    using inv(3) by (auto simp: rt_log_def s' nth_append lessThan_Suc less_Suc_eq)
  ultimately show ?thesis by (simp add: rt_inv_def)
next
  case (sync req inp timeout)
  with assms(1) show ?thesis
    by (simp add: rt_inv_def rt_counts_def rt_pending_def rt_log_def afterRequest_def Let_def)
qed

lemma rt_async_end_inv:
  assumes inv: "rt_inv s" and c: "c \<in> ry_tasks s"
    and fin: "finishAsyncTask outcome now1 now2 (ry_started s ! c) (ry_srv s) = (event, srv)"
  shows "rt_inv (s\<lparr>ry_srv := srv, ry_tasks := ry_tasks s - {c}, ry_cleanup := insert c (ry_cleanup s),
      ry_ended := ry_ended s @ [(c, outcome)],
      ry_events := ry_events s @ map (Pair c) (case event of None \<Rightarrow> [] | Some e \<Rightarrow> [e])\<rparr>)"
    (is "rt_inv ?s")
proof -
  from inv have i: "rt_counts s" "rt_pending s" "rt_log s" by (simp_all add: rt_inv_def)
  note f = finishAsync_cases [OF fin]
  have pend: "xv_pending srv = xv_pending (ry_srv s)" using f by (auto split: if_splits)
  have card: "card (ry_tasks s) = Suc (card (ry_tasks s - {c}))"
    by (rule card_Suc_Diff1 [OF rt_tasks_finite [OF i(3)] c, symmetric])
  have "rt_counts ?s"
    using i(1) f card by (auto simp: rt_counts_def Let_def algebra_simps split: if_splits)
  moreover have "rt_pending ?s"
    using i(2) by (auto simp: rt_pending_def pend)
  moreover have "rt_log ?s"
    using i(3) c f by (auto simp: rt_log_def completedEvent_def split: if_splits)
  ultimately show ?thesis by (simp add: rt_inv_def)
qed

lemma rt_cleanup_inv:
  assumes inv: "rt_inv s" and c: "c \<in> ry_cleanup s"
  shows "rt_inv (s\<lparr>ry_srv := cleanupTask (ry_started s ! c) (ry_srv s), ry_cleanup := ry_cleanup s - {c}\<rparr>)"
  using inv
  by (auto simp: rt_inv_def rt_counts_def rt_pending_def rt_log_def cleanupTask_def Let_def split: if_splits)

lemma rt_step_inv: "rt_step s s' \<Longrightarrow> rt_inv s \<Longrightarrow> rt_inv s'"
proof (induction rule: rt_step.induct)
  case (request d now1 now2 s r c canceled srv)
  then show ?case by (blast intro: rt_request_inv)
next
  case (sync_end req s enc outcome reply srv)
  then have size: "size (ry_sync s) = Suc (size (ry_sync s - {#req#}))"
    by (metis size_Suc_Diff1)
  from finishSync_cases [OF sync_end(2)] show ?case
  proof
    assume "srv = bump countSucceeded (ry_srv s)"
    with sync_end(3) show ?case
      by (simp add: rt_inv_def rt_counts_def rt_pending_def rt_log_def Let_def size algebra_simps)
  next
    assume "srv = bump countFailed (ry_srv s)"
    with sync_end(3) show ?case
      by (simp add: rt_inv_def rt_counts_def rt_pending_def rt_log_def Let_def size algebra_simps)
  qed
next
  case (async_end c s outcome now1 now2 event srv)
  then show ?case by (blast intro: rt_async_end_inv)
next
  case (cleanup c s)
  then show ?case by (blast intro: rt_cleanup_inv)
qed

lemma rt_reach_inv: "rt_reach s \<Longrightarrow> rt_inv s"
  by (induction rule: rt_reach.induct) (auto intro: rt_start_inv rt_step_inv)


section \<open>A run\<close>

text \<open>The same task is created twice in the background; the first execution fails.\<close>

definition requestStep ::
  "taskDecoders \<Rightarrow> time \<Rightarrow> time \<Rightarrow> Request \<Rightarrow> 'sink rt_sys \<Rightarrow> 'sink rt_sys" where
  "requestStep d now1 now2 r s =
     (case rtServeHTTP d now1 now2 (length (ry_started s)) r (ry_srv s) of
        (c, canceled, srv) \<Rightarrow> afterRequest c canceled srv s)"

definition asyncEndStep :: "exec_outcome \<Rightarrow> time \<Rightarrow> nat \<Rightarrow> 'sink rt_sys \<Rightarrow> 'sink rt_sys" where
  "asyncEndStep outcome now c s =
     (case finishAsyncTask outcome now now (ry_started s ! c) (ry_srv s) of
        (event, srv) \<Rightarrow> s\<lparr>ry_srv := srv, ry_tasks := ry_tasks s - {c}, ry_cleanup := insert c (ry_cleanup s),
          ry_ended := ry_ended s @ [(c, outcome)],
          ry_events := ry_events s @ map (Pair c) (case event of None \<Rightarrow> [] | Some e \<Rightarrow> [e])\<rparr>)"

lemma reach_request: "rt_reach s \<Longrightarrow> rt_reach (requestStep d now1 now2 r s)"
  by (auto simp: requestStep_def split: prod.split intro: rt_reach.step rt_step.request)

lemma reach_async_end: "rt_reach s \<Longrightarrow> c \<in> ry_tasks s \<Longrightarrow> rt_reach (asyncEndStep outcome now c s)"
  by (auto simp: asyncEndStep_def split: prod.split intro!: rt_reach.step [OF _ rt_step.async_end])

definition demoTask :: TaskRequest where
  "demoTask = \<lparr>tq_TaskID = ''job_1'', tq_JobID = ''job_1'', tq_TenantID = ''t'', tq_ProjectID = ''p'',
     tq_TaskType = ''daily_brief'', tq_Input = [],
     tq_Constraints = \<lparr>tk_TimeoutSeconds = 60, tk_MaxCostUSD = 0\<rparr>, tq_TraceID = ''job_1''\<rparr>"

definition demoDecoders :: taskDecoders where
  "demoDecoders = \<lparr>xe_request = (\<lambda>_. Some demoTask), xe_date = (\<lambda>_. [])\<rparr>"

definition demoCreate :: Request where
  "demoCreate = \<lparr>rq_Method = ''POST'', rq_Path = ''/runtime/v1/tasks'', rq_Header = [],
     rq_RemoteAddr = [], rq_Body = []\<rparr>"

definition demoRun1 :: "unit rt_sys" where
  "demoRun1 = requestStep demoDecoders 0 0 demoCreate (rt_start None [WithDefaultAsync True])"

definition demoRun2 :: "unit rt_sys" where
  "demoRun2 = asyncEndStep (ExecErr ''boom'') 0 0 (requestStep demoDecoders 0 0 demoCreate demoRun1)"

definition taskResult :: ExpertResult where
  "taskResult = \<lparr>er_Title = None, er_Answer = ''a'', er_Confidence = 1, er_FreshnessCutoff = [],
     er_References = [], er_Citations = [], er_Limitations = []\<rparr>"

definition demoRun3 :: "unit rt_sys" where
  "demoRun3 = asyncEndStep (ExecOk taskResult) 0 1 demoRun2"

lemma demo_valid_task: "validateTaskRequest demoTask = None"
  by (simp add: validateTaskRequest_def demoTask_def TrimSpace_visible visible_def)

lemmas demo_run_defs = demoRun1_def demoRun2_def demoRun3_def requestStep_def asyncEndStep_def
  rt_start_def NewRtServer_def WithDefaultAsync_def rtServeHTTP_def rtRoute_def demoCreate_def
  handleCreateTask_def demoDecoders_def demo_valid_task asyncRequested_def newExpertTaskID_def
  afterRequest_def finishAsyncTask_def execResult_def Let_def

lemma demo_create_1: "rt_reach demoRun1"
  unfolding demoRun1_def
  by (intro reach_request rt_reach.start) (simp add: rt_option.intros)

lemma demo_create_2: "rt_reach demoRun2" "rt_reach demoRun3"
proof -
  have t: "0 \<in> ry_tasks (requestStep demoDecoders 0 0 demoCreate demoRun1)"
    by (simp add: demo_run_defs)
  show r2: "rt_reach demoRun2"
    unfolding demoRun2_def by (intro reach_async_end reach_request demo_create_1 t)
  have t': "1 \<in> ry_tasks demoRun2" by (simp add: demo_run_defs)
  show "rt_reach demoRun3" unfolding demoRun3_def by (intro reach_async_end r2 t')
qed

lemma demo_run_fields:
  "ry_tasks demoRun2 = {1}" "ry_cleanup demoRun2 = {0}" "ry_started demoRun2 = [demoTask, demoTask]"
  "ry_sync demoRun2 = {#}" "mget (xv_pending (ry_srv demoRun2)) ''job_1'' = Some 1"
  "ry_started demoRun3 = [demoTask, demoTask]" "ry_ended demoRun3 = [(0, ExecErr ''boom''), (1, ExecOk taskResult)]"
  by (auto simp: demo_run_defs) (simp_all add: demoTask_def)


section \<open>The properties\<close>

text \<open>
  C18. The counters of the runtime account for every task: total is succeeded plus failed plus the
  tasks that are being executed, by a handler or in the background (in 64 bits), and accepted is
  the number of background tasks; and a task that can still be canceled is one that was started
  under the task id it can be canceled by and whose goroutine has not ended.
\<close>

theorem runtime_accounting:
  assumes "rt_reach s"
  shows "tms_total (xv_metrics (ry_srv s)) = tms_succeeded (xv_metrics (ry_srv s))
      + tms_failed (xv_metrics (ry_srv s)) + of_nat (size (ry_sync s) + card (ry_tasks s)) \<and>
    tms_accepted (xv_metrics (ry_srv s)) = of_nat (length (ry_started s)) \<and>
    (\<forall>k c. mget (xv_pending (ry_srv s)) k = Some c \<longrightarrow>
       c < length (ry_started s) \<and> c \<in> ry_tasks s \<union> ry_cleanup s \<and> tq_TaskID (ry_started s ! c) = k)"
  using rt_reach_inv [OF assms] rt_tasks_bound
  by (auto simp: rt_inv_def rt_counts_def rt_pending_def Let_def)

theorem runtime_accounting_witness:
  "tms_total (xv_metrics (ry_srv demoRun2)) = tms_succeeded (xv_metrics (ry_srv demoRun2))
     + tms_failed (xv_metrics (ry_srv demoRun2)) + 1 \<and>
   tms_accepted (xv_metrics (ry_srv demoRun2)) = 2"
  using runtime_accounting [OF demo_create_2(1)] by (simp add: demo_run_fields)

text \<open>
  The orchestrator is told about exactly the background tasks that succeeded, each once, with
  the ids of its request; of a task that failed, was canceled or timed out it is told nothing.
\<close>

theorem events_are_successes:
  assumes "rt_reach s"
  shows "map fst (ry_events s) = map fst (filter (\<lambda>(c, x). succeeded x) (ry_ended s)) \<and>
    distinct (map fst (ry_events s)) \<and>
    (\<forall>(c, x) \<in> set (ry_ended s). \<not> succeeded x \<longrightarrow> c \<notin> fst ` set (ry_events s)) \<and>
    (\<forall>(c, e) \<in> set (ry_events s). td_Status (tc_Data e) = ''succeeded'' \<and>
       td_TaskID (tc_Data e) = tq_TaskID (ry_started s ! c) \<and>
       td_JobID (tc_Data e) = tq_JobID (ry_started s ! c))"
proof -
  from rt_reach_inv [OF assms] have l: "rt_log s" by (simp add: rt_inv_def)
  then have ev: "map fst (ry_events s) = map fst (filter (\<lambda>(c, x). succeeded x) (ry_ended s))"
    and d: "distinct (map fst (ry_ended s))"
    by (simp_all add: rt_log_def)
  have "c \<notin> fst ` set (ry_events s)" if "(c, x) \<in> set (ry_ended s)" "\<not> succeeded x" for c x
  proof
    assume "c \<in> fst ` set (ry_events s)"
    then have "c \<in> set (map fst (ry_events s))" by simp
    then obtain y where "(c, y) \<in> set (ry_ended s)" "succeeded y" unfolding ev by auto
    with that d eq_key_imp_eq_value [of "ry_ended s" c x y] show False by blast
  qed
  with l ev distinct_map_filter [OF d] show ?thesis
    by (auto simp: rt_log_def)
qed

theorem events_are_successes_witness: "map fst (ry_events demoRun3) = [1]"
  using events_are_successes [OF demo_create_2(2)]
  by (simp add: demo_run_fields succeeded_def execResult_def)

text \<open>
  A cancel that is answered with 202 cancels the context of a background task that was started
  under the given id and has not cleaned up; a second cancel of the same id is answered with 404.
\<close>

theorem cancel_targets_task:
  assumes "rt_reach s" and "handleCancelTask taskID (ry_srv s) = (reply, Some c, srv)"
  shows "rs_Status reply = 202 \<and> c \<in> ry_tasks s \<union> ry_cleanup s \<and>
    tq_TaskID (ry_started s ! c) = TrimSpace taskID \<and>
    rs_Status (fst (handleCancelTask taskID srv)) = 404"
proof -
  have p: "mget (xv_pending (ry_srv s)) (TrimSpace taskID) = Some c"
    using handleCancel_cases [OF assms(2)] by auto
  with assms(2) have "srv = bump countCanceled ((ry_srv s)\<lparr>xv_pending := mdel (TrimSpace taskID) (xv_pending (ry_srv s))\<rparr>)"
    "TrimSpace taskID \<noteq> []" "rs_Status reply = 202"
    by (auto simp: handleCancelTask_def Let_def rtJSON_def StatusAccepted_def split: if_splits)
  then have "rs_Status (fst (handleCancelTask taskID srv)) = 404" "rs_Status reply = 202"
    by (simp_all add: handleCancelTask_def Let_def rtProblem_def rtJSON_def StatusNotFound_def)
  with p rt_reach_inv [OF assms(1)] show ?thesis
    by (auto simp: rt_inv_def rt_pending_def)
qed

theorem cancel_targets_task_witness:
  "\<exists>reply srv. handleCancelTask ''job_1'' (ry_srv demoRun2) = (reply, Some 1, srv) \<and>
     rs_Status (fst (handleCancelTask ''job_1'' srv)) = 404"
proof -
  have "TrimSpace ''job_1'' = ''job_1''" by (simp add: TrimSpace_visible visible_def)
  then obtain reply srv where c: "handleCancelTask ''job_1'' (ry_srv demoRun2) = (reply, Some 1, srv)"
    by (simp add: handleCancelTask_def Let_def demo_run_fields)
  from c cancel_targets_task [OF demo_create_2(1) c] show ?thesis by blast
qed

text \<open>
  Two background tasks under one id: when the goroutine of one of them ends, its deferred
  function removes the entry of the other, which then cannot be canceled while it runs.
\<close>

theorem duplicate_task_uncancelable:
  assumes "rt_reach s" and "c \<in> ry_cleanup s" and "c' \<in> ry_tasks s"
    and "tq_TaskID (ry_started s ! c') = tq_TaskID (ry_started s ! c)"
    and "TrimSpace taskID = tq_TaskID (ry_started s ! c')"
  shows "\<exists>s'. rt_step s s' \<and> c' \<in> ry_tasks s' \<and>
    (\<exists>reply. handleCancelTask taskID (ry_srv s') = (reply, None, ry_srv s'))"
proof -
  let ?s = "s\<lparr>ry_srv := cleanupTask (ry_started s ! c) (ry_srv s), ry_cleanup := ry_cleanup s - {c}\<rparr>"
  have "rt_step s ?s" by (rule rt_step.cleanup [OF assms(2)])
  moreover have "\<exists>reply. handleCancelTask taskID (ry_srv ?s) = (reply, None, ry_srv ?s)"
    using assms(4,5) by (simp add: handleCancelTask_def cleanupTask_def Let_def)
  ultimately show ?thesis using assms(3) by (intro exI [of _ ?s]) simp
qed

theorem duplicate_task_uncancelable_witness:
  "\<exists>s'. rt_step demoRun2 s' \<and> 1 \<in> ry_tasks s' \<and>
     (\<exists>reply. handleCancelTask ''job_1'' (ry_srv s') = (reply, None, ry_srv s'))"
proof -
  have t: "TrimSpace ''job_1'' = tq_TaskID demoTask"
    by (simp add: demoTask_def TrimSpace_visible visible_def)
  show ?thesis
    by (rule duplicate_task_uncancelable [OF demo_create_2(1), of 0])
      (simp_all add: demo_run_fields t)
qed

end
