(* ===== verification/Runtime_Handoff.thy ===== *)
theory Runtime_Handoff
  imports Runtime_System Orch_Demo
begin

text \<open>
  The orchestrator and the expert runtime together: a task that the runtime executor posts is taken
  by the runtime's server, and the event of its success passes the orchestrator's verification.
\<close>

section \<open>The executor's task at the runtime\<close>

text \<open>The task as the runtime's decoder reads it from the executor's body.\<close>

definition asTask :: "(string \<Rightarrow> string) \<Rightarrow> runtimeTaskRequest \<Rightarrow> TaskRequest" where
  "asTask encDate q = \<lparr>tq_TaskID = rt_TaskID q, tq_JobID = rt_JobID q, tq_TenantID = rt_TenantID q,
     tq_ProjectID = rt_ProjectID q, tq_TaskType = rt_TaskType q, tq_Input = encDate (rt_Date q),
     tq_Constraints = \<lparr>tk_TimeoutSeconds = rt_TimeoutSeconds q, tk_MaxCostUSD = 0\<rparr>,
     tq_TraceID = rt_TraceID q\<rparr>"

text \<open>The whole of a request at the runtime, with the outcome of the inner executor.\<close>

definition runtimeReply ::
  "taskDecoders \<Rightarrow> (ExpertResult \<Rightarrow> json) \<Rightarrow> (BriefInput \<Rightarrow> exec_outcome) \<Rightarrow> time \<Rightarrow> nat \<Rightarrow> Request \<Rightarrow>
   'sink RtServer \<Rightarrow> Response \<times> 'sink RtServer" where
  "runtimeReply d enc exec now ctx r s =
     (case rtServeHTTP d now now ctx r s of
        (Replied reply, _, s') \<Rightarrow> (reply, s')
      | (Started reply _ _ _, _, s') \<Rightarrow> (reply, s')
      | (Execute req inp timeout, _, s') \<Rightarrow> finishSync enc (exec inp) s')"

definition taskPost :: "Header \<Rightarrow> string \<Rightarrow> Request" where
  "taskPost h body = \<lparr>rq_Method = ''POST'', rq_Path = ''/runtime/v1/tasks'', rq_Header = h,
     rq_RemoteAddr = [], rq_Body = body\<rparr>"

lemma task_header_keys:
  "canonicalKey ''Authorization'' \<noteq> canonicalKey ''X-COVA-Execution-Mode''"
  "canonicalKey ''Authorization'' \<noteq> canonicalKey ''traceparent''"
  "canonicalKey ''Authorization'' \<noteq> canonicalKey ''X-Request-Id''"
  "canonicalKey ''X-COVA-Execution-Mode'' \<noteq> canonicalKey ''traceparent''"
  "canonicalKey ''X-COVA-Execution-Mode'' \<noteq> canonicalKey ''X-Request-Id''"
  "canonicalKey ''X-COVA-Execution-Mode'' \<noteq> canonicalKey ''Authorization''"
  "canonicalKey ''X-COVA-Execution-Mode'' \<noteq> canonicalKey ''Content-Type''"
  by (simp_all add: canonical_eval)

lemma executor_authorised:
  assumes "xv_authEnabled s \<Longrightarrow> xv_authToken s = re_authToken e \<and> list_all visible (re_authToken e) \<and>
      re_authToken e \<noteq> []"
  shows "(if xv_authEnabled s then runtimeCheckAuth s (taskHeaders c e inp) else None) = None"
proof (cases "xv_authEnabled s")
  case True
  with assms have t: "xv_authToken s = re_authToken e" "list_all visible (re_authToken e)" "re_authToken e \<noteq> []"
    by simp_all
  have "hGet (taskHeaders c e inp) ''Authorization'' = ''Bearer '' @ re_authToken e"
    using t(3) task_header_keys by (simp add: taskHeaders_def Let_def)
  with bearer_fields [OF t(2,3)] t(1) show ?thesis
    by (simp add: runtimeCheckAuth_def EqualFold_def Let_def)
qed simp

lemma executor_mode:
  "asyncRequested s (taskHeaders c e inp) \<longleftrightarrow> xv_defaultAsync s \<or> re_asyncMode e"
proof -
  have mode: "hGet (taskHeaders c e inp) ''X-COVA-Execution-Mode'' = (if re_asyncMode e then ''async'' else [])"
    using task_header_keys by (simp add: taskHeaders_def Let_def hGet_empty)
  have "TrimSpace ''async'' = ''async''" by (simp add: TrimSpace_visible visible_def)
  moreover have "\<not> EqualFold [] ''async''" by code_simp
  ultimately show ?thesis by (simp add: asyncRequested_def mode EqualFold_def)
qed

lemma executor_task_valid:
  "TrimSpace (bi_JobID inp) \<noteq> [] \<Longrightarrow> TrimSpace (bi_TenantID inp) \<noteq> [] \<Longrightarrow> TrimSpace (bi_ProjectID inp) \<noteq> [] \<Longrightarrow>
     validateTaskRequest (asTask encDate (taskRequest e inp)) = None"
  by (simp add: validateTaskRequest_def asTask_def taskRequest_def TrimSpace_visible visible_def)



text \<open>A runtime and an executor that calls it.\<close>

definition handoffServer :: "unit RtServer" where
  "handoffServer = NewRtServer None [WithAuthToken ''tok'']"

definition handoffInput :: BriefInput where
  "handoffInput = briefInput demoJob"

definition handoffExecutor :: RuntimeExecutor where
  "handoffExecutor = \<lparr>re_baseURL = ''http://rt'', re_authToken = ''tok'', re_asyncMode = False,
     re_taskTimeout = 60 * nsPerSecond\<rparr>"

definition handoffDecoders :: taskDecoders where
  "handoffDecoders = \<lparr>xe_request = (\<lambda>_. Some (asTask id (taskRequest handoffExecutor handoffInput))),
     xe_date = id\<rparr>"

definition handoffClient :: runtimeClient where
  "handoffClient = \<lparr>rc_build = (\<lambda>_. None),
     rc_do = (\<lambda>url h q. let (reply, s') = runtimeReply handoffDecoders (\<lambda>_. JNull) (\<lambda>_. ExecOk taskResult)
         0 0 (taskPost h []) handoffServer in Inr (rs_Status reply, [])),
     rc_decode = (\<lambda>_. Inr \<lparr>rr_Status = ''succeeded'', rr_Result = Some taskResult\<rparr>), rc_sha256 = id\<rparr>"

lemma handoff_trims:
  "TrimSpace ''tok'' = ''tok''" "TrimSpace ''http://rt'' = ''http://rt''" "TrimSpace ''job_1'' = ''job_1''"
  "TrimSpace ''t'' = ''t''" "TrimSpace ''p'' = ''p''" "TrimSpace ''2024-01-01'' = ''2024-01-01''"
  "TrimSpace ''s3cret'' = ''s3cret''" "TrimSpace ''evt_0'' = ''evt_0''"
  by (simp_all add: TrimSpace_visible visible_def)

lemmas handoff_defs = handoffClient_def handoffDecoders_def handoffExecutor_def handoffInput_def
  handoffServer_def NewRtServer_def WithAuthToken_def briefInput_def demoJob_def handoff_trims



section \<open>The event at the orchestrator\<close>

text \<open>The verifier as the orchestrator's server uses it; \<open>verifyText\<close> is \<open>err.Error()\<close>.\<close>

definition expertEventVerifier ::
  "(verify_error \<Rightarrow> string) \<Rightarrow> verifyEnv \<Rightarrow> Verifier \<Rightarrow> time \<Rightarrow> Header \<Rightarrow> string \<Rightarrow> InMemoryReplayGuard \<Rightarrow>
   (string + Event) \<times> InMemoryReplayGuard" where
  "expertEventVerifier verifyText env v now h body g =
     (case Verify CheckAndMark env v h body now g of (x, g') \<Rightarrow> (map_sum verifyText id x, g'))"

lemma sink_headers_signed:
  "k = NewHTTPEventSink url secret timeout \<Longrightarrow> TrimSpace secret \<noteq> [] \<Longrightarrow>
     sinkHeaders e k t raw = signedHeaders (xn_hmac e) (TrimSpace secret) t raw
       (hSet ''Content-Type'' ''application/json'' [])"
  by (simp add: sinkHeaders_def signedHeaders_def NewHTTPEventSink_def signPayload_def computeHMAC_def Let_def)

lemma succeeded_trim: "TrimSpace ''succeeded'' = ''succeeded''"
  by (simp add: TrimSpace_visible visible_def)

lemma applied_success:
  assumes "getJob s (te_JobID te) = Some j" "\<not> terminal (jb_Status j)" "te_Status te = ''succeeded''"
  shows "\<exists>callback s'. applyEvent d now te s = (Inr callback, s') \<and>
    getJob s' (te_JobID te) = Some (j\<lparr>jb_Status := statusSucceeded, jb_Progress := 100,
      jb_Result := te_Result te, jb_LastError := None, jb_UpdatedAt := now\<rparr>)"
  using assms
  by (simp add: applyEvent_def eventJob_def succeeded_trim JobStatusSucceeded_def Let_def getJob_def putJob_def
      delDead_def persistLocked_def)

text \<open>
  C20. The success of a background task reaches its job: the event that the runtime sends for it,
  signed with the shared secret, passes the orchestrator's verification (clocks within the allowed
  skew, an event id that was not seen), and the job, if it is not terminal, has then succeeded with
  the result of the task.
\<close>

theorem completion_reaches_job:
  assumes sink: "k = NewHTTPEventSink url secret timeout" "TrimSpace secret \<noteq> []"
    and event: "event = completedEvent n1 n2 srv req r" "xn_marshal e event = Inr raw" "length raw \<le> maxEventBody"
    and request: "rq_Method rq = ''POST''" "rq_Header rq = sinkHeaders e k t raw" "rq_Body rq = raw"
    and shared: "v = NewVerifier secret []" "ve_hmac env = xn_hmac e" "\<And>key m. xn_hmac e key m \<noteq> []"
    and decoded: "ve_unmarshal env raw = Inr ev" "ev_ID ev = tc_ID event" "remarshal (ev_Data ev) = Some te"
      "te_JobID te = td_JobID (tc_Data event)" "te_Status te = td_Status (tc_Data event)"
      "te_Result te = Some (td_Result (tc_Data event))"
    and clock: "\<bar>unix_sec t\<bar> \<le> 2 ^ 62" "\<bar>now - unix_sec t * nsPerSecond\<bar> \<le> defaultAllowedSkew"
    and fresh: "mget guard (tc_ID event) = None" "mwf guard"
    and job: "getJob s (tq_JobID req) = Some j" "\<not> terminal (jb_Status j)" "TrimSpace (tq_JobID req) \<noteq> []"
  shows "\<exists>body g' s' j'. ExpertEventsHandler d (Some (expertEventVerifier verifyText env v now)) unmarshal remarshal
      now rq guard s = ((202, body), g', s') \<and>
    getJob s' (tq_JobID req) = Some j' \<and> jb_Status j' = statusSucceeded \<and> jb_Result j' = Some r"
proof -
  have visible: "list_all visible (tc_ID event)"
    using dec_int_visible by (simp add: event(1) completedEvent_def visible_def)
  have id: "TrimSpace (ev_ID ev) = tc_ID event" "TrimSpace (ev_ID ev) \<noteq> []"
    using TrimSpace_visible [OF visible] by (simp_all add: decoded(2)) (simp add: event(1) completedEvent_def)
  have "fst (Verify CheckAndMark env v (rq_Header rq) raw now guard) = Inr ev"
    by (rule signed_headers_accepted [OF _ shared decoded(1) id(2) clock])
      (use sink_headers_signed [OF sink] request(2) fresh id in simp_all)
  then obtain g' where "expertEventVerifier verifyText env v now (rq_Header rq) (rq_Body rq) guard = (Inr ev, g')"
    by (cases "Verify CheckAndMark env v (rq_Header rq) raw now guard")
      (auto simp: expertEventVerifier_def request(3))
  then have parse: "parseExpertEvent (Some (expertEventVerifier verifyText env v now)) unmarshal
      (rq_Header rq) (rq_Body rq) guard = (Inr ev, g')"
    by (simp add: parseExpertEvent_def)
  have te: "te_JobID te = tq_JobID req" "te_Status te = ''succeeded''" "te_Result te = Some r"
    by (simp_all add: decoded event(1) completedEvent_def)
  have data: "parseExpertEventData remarshal (TAny (ev_Data ev)) = Inr te"
    using job(3) by (simp add: parseExpertEventData_def decoded(3) checkJobID_def te(1))
  obtain callback s1 where app: "applyEvent d now te s = (Inr callback, s1)"
    and j1: "getJob s1 (tq_JobID req) = Some (j\<lparr>jb_Status := statusSucceeded, jb_Progress := 100,
      jb_Result := te_Result te, jb_LastError := None, jb_UpdatedAt := now\<rparr>)"
    using applied_success [of s te j d now] job te by auto
  have keep: "getJob (startWebhook i cb s1) x = getJob s1 x" for i cb x
    by (simp add: startWebhook_def getJob_def)
  show ?thesis
    using parse data app j1 request event(3) te
    by (auto simp: ExpertEventsHandler_def keep StatusAccepted_def split: option.split)
qed

text \<open>The event of a task of the job \<open>job_1\<close>, and what reads it back.\<close>

definition handoffTask :: TaskRequest where
  "handoffTask = asTask id (taskRequest handoffExecutor handoffInput)"

definition handoffSinkEnv :: sinkEnv where
  "handoffSinkEnv = \<lparr>xn_marshal = (\<lambda>_. Inr ''{}''), xn_build = (\<lambda>_. None), xn_do = (\<lambda>_ _ _. Inr 202),
     xn_hmac = (\<lambda>k m. CHR ''m'' # k @ m)\<rparr>"

definition handoffVerifyEnv :: verifyEnv where
  "handoffVerifyEnv = \<lparr>ve_hmac = xn_hmac handoffSinkEnv,
     ve_unmarshal = (\<lambda>_. Inr (demoEvent\<lparr>ev_ID := ''evt_0''\<rparr>)), ve_parseErr = (\<lambda>_. [])\<rparr>"

definition handoffData :: expertTaskEventData where
  "handoffData = \<lparr>te_TaskID = ''job_1'', te_JobID = ''job_1'', te_TraceID = ''job_1'',
     te_Status = ''succeeded'', te_Result = Some taskResult, te_Error = None\<rparr>"

definition handoffEventRequest :: Request where
  "handoffEventRequest = \<lparr>rq_Method = ''POST'', rq_Path = [], rq_Header = sinkHeaders handoffSinkEnv
       (NewHTTPEventSink ''http://orch'' ''s3cret'' 0) 0 ''{}'', rq_RemoteAddr = [], rq_Body = ''{}''\<rparr>"

theorem completion_reaches_job_witness:
  "\<exists>reply g s' j'. ExpertEventsHandler demoDeps
      (Some (expertEventVerifier (\<lambda>_. []) handoffVerifyEnv (NewVerifier ''s3cret'' []) 0)) (\<lambda>_. Inl [])
      (\<lambda>_. Some handoffData) 0 handoffEventRequest [] demoState = ((202, reply), g, s') \<and>
    getJob s' ''job_1'' = Some j' \<and> jb_Status j' = statusSucceeded \<and> jb_Result j' = Some taskResult"
proof -
  have id: "tq_TaskID handoffTask = ''job_1''" "tq_JobID handoffTask = ''job_1''"
    by (simp_all add: handoffTask_def asTask_def taskRequest_def handoff_defs)
  have "\<not> terminal statusQueued" "dec 0 = ''0''" by code_simp+
  with id show ?thesis
    using completion_reaches_job [of "NewHTTPEventSink ''http://orch'' ''s3cret'' 0" "''http://orch''" "''s3cret''" 0
        "completedEvent 0 0 handoffServer handoffTask taskResult" 0 0 handoffServer handoffTask taskResult
        handoffSinkEnv "''{}''" handoffEventRequest 0 "NewVerifier ''s3cret'' []" handoffVerifyEnv
        "demoEvent\<lparr>ev_ID := ''evt_0''\<rparr>" "\<lambda>_. Some handoffData" handoffData 0 "[]" demoState demoJob
        demoDeps "\<lambda>_. []" "\<lambda>_. Inl []"]
    by (simp add: handoff_trims handoffSinkEnv_def handoffVerifyEnv_def handoffEventRequest_def
        handoffData_def completedEvent_def demoJob_def maxEventBody_def unix_sec_def
        defaultAllowedSkew_def nsPerMinute_def nsPerSecond_def dec_int_def)
qed

end
