(* ===== verification/Mock_Worker.thy ===== *)
theory Mock_Worker
  imports Orch_Restart Orch_Metrics Expert_Registry
begin

text \<open>
  The mock worker (\<open>internal/worker/mock/server.go\<close>): the Assistant API over a store, where every
  job is a goroutine of its own that pretends to work.  Its data and its helpers (\<open>job\<close>, \<open>problem\<close>,
  \<open>isExpired\<close>, \<open>cloneCallbackConfig\<close> and so on) are in the Go sources textual copies of the
  orchestrator's; the theory uses the definitions of \<open>Orch_State\<close> and \<open>Orch_Api\<close> for these and has
  its own for everything that touches the state of the server.

  A goroutine is a program counter in the state of the server; a critical section is one step.
\<close>

section \<open>State\<close>

text \<open>
  Where the goroutine of a job is: before the first or second check (expiry, then reading the
  status), before one of its transitions, before it builds the result, or before it looks for a
  callback.
\<close>

datatype mock_pc = Expire1 | Check1 | Run30 | Expire2 | Check2 | Run70 | Build | Finish ExpertResult | Notify

record 'st MockServer =
  mk_experts :: "expertMetadata gomap"
  mk_jobs :: "job gomap"
  mk_idem :: "idempotencyRecord gomap"
  mk_nextID :: "64 word"
  mk_processDelay :: duration
  mk_maxAttempts :: int
  mk_jobTTL :: duration
  mk_stateStore :: 'st
  mk_threads :: "(string \<times> mock_pc) list"
  mk_webhooks :: "(string \<times> CallbackConfig) list"

text \<open>What the server calls.\<close>

record 'st mockDeps =
  md_Save :: "'st \<Rightarrow> State \<Rightarrow> store_error option \<times> 'st"
  md_deliveryRead :: "(string \<Rightarrow> string + DeliveryRecord list) option"
  md_marshal :: "SubmitBriefRequest \<Rightarrow> string option"
  md_sha256 :: "string \<Rightarrow> string"

definition WithProcessDelay :: "duration \<Rightarrow> 'st MockServer \<Rightarrow> 'st MockServer" where
  "WithProcessDelay delay s = (if 0 < delay then s\<lparr>mk_processDelay := delay\<rparr> else s)"

text \<open>The state \<open>persistLocked\<close> builds has no dead letters; an error of \<open>Save\<close> is logged and dropped.\<close>

definition mockState :: "'st MockServer \<Rightarrow> State" where
  "mockState s =
     \<lparr>ss_NextID = mk_nextID s,
      ss_Jobs = Some (mmap storedJob (mk_jobs s)),
      ss_Idempotency = Some (mmap (\<lambda>r. \<lparr>ie_PayloadHash = ir_PayloadHash r,
        ie_JobID = ir_JobID r\<rparr>) (mk_idem s)),
      ss_DeadLetters = None\<rparr>"

definition mockPersist :: "'st mockDeps \<Rightarrow> 'st MockServer \<Rightarrow> 'st MockServer" where
  "mockPersist d s = s\<lparr>mk_stateStore := snd (md_Save d (mk_stateStore s) (mockState s))\<rparr>"

definition mockJob :: "'st MockServer \<Rightarrow> string \<Rightarrow> job option" where
  "mockJob s jobID = mget (mk_jobs s) jobID"

definition mockPut :: "string \<Rightarrow> job \<Rightarrow> 'st MockServer \<Rightarrow> 'st MockServer" where
  "mockPut jobID j s = s\<lparr>mk_jobs := mput jobID j (mk_jobs s)\<rparr>"

text \<open>\<open>go s.runMockJob(jobID)\<close>.\<close>

definition mockSpawn :: "string \<Rightarrow> 'st MockServer \<Rightarrow> 'st MockServer" where
  "mockSpawn jobID s = s\<lparr>mk_threads := mk_threads s @ [(jobID, Expire1)]\<rparr>"

definition mockExpire :: "'st mockDeps \<Rightarrow> time \<Rightarrow> string \<Rightarrow> 'st MockServer \<Rightarrow> 'st MockServer" where
  "mockExpire d now jobID s =
     (case mockJob s jobID of
        None \<Rightarrow> s
      | Some current \<Rightarrow>
          if terminal (jb_Status current) then s
          else if isExpired current now
               then mockPersist d (mockPut jobID (markExpired current now) s)
               else s)"


section \<open>Submitting\<close>

definition mockSubmitCheck ::
  "'st MockServer \<Rightarrow> SubmitBriefJobParams \<Rightarrow> string \<Rightarrow> SubmitBriefRequest \<Rightarrow> Reply + expertMetadata" where
  "mockSubmitCheck s params requestID req =
     (let tenantID = TrimSpace (sp_XTenantId params);
          projectID = TrimSpace (sp_XProjectId params);
          bad = bad_request ''/v1/assistant/jobs'' requestID;
          expertID = TrimSpace (sreq_ExpertId req)
      in if tenantID = [] \<or> projectID = [] then Inl (bad scope_required)
         else if scope_mismatch (sreq_TenantId req) tenantID
           then Inl (bad ''body `tenant_id` does not match header `X-Tenant-Id`'')
         else if scope_mismatch (sreq_ProjectId req) projectID
           then Inl (bad ''body `project_id` does not match header `X-Project-Id`'')
         else if expertID = [] then Inl (bad ''field `expert_id` is required'')
         else if TrimSpace (sreq_Date req) = [] then Inl (bad ''field `date` is required'')
         else if parse_date (sreq_Date req) = None
           then Inl (bad ''field `date` must use YYYY-MM-DD'')
         else (case mget (mk_experts s) expertID of
                 None \<Rightarrow> Inl (bad ''unknown `expert_id`'')
               | Some expert \<Rightarrow>
                   if \<not> expertSupports expert ''daily_brief''
                   then Inl (bad ''expert does not support `daily_brief`'') else Inr expert))"

definition mockNewJob ::
  "'st MockServer \<Rightarrow> SubmitBriefJobParams \<Rightarrow> SubmitBriefRequest \<Rightarrow> expertMetadata \<Rightarrow> time \<Rightarrow> string \<Rightarrow> job" where
  "mockNewJob s params req expert now jobID =
     \<lparr>jb_ID = jobID, jb_TenantID = TrimSpace (sp_XTenantId params),
      jb_ProjectID = TrimSpace (sp_XProjectId params), jb_ExpertID = TrimSpace (sreq_ExpertId req),
      jb_ExpertName = submit_name req expert, jb_ExpertType = submit_type req expert,
      jb_Date = sreq_Date req, jb_Status = statusQueued, jb_Progress = 0,
      jb_SubmittedAt = now, jb_UpdatedAt = now, jb_Attempt = 1, jb_MaxAttempts = mk_maxAttempts s,
      jb_ExpiresAt = Some (now + mk_jobTTL s), jb_LastError = None, jb_Result = None,
      jb_Callback = cloneCallbackConfig (sreq_Callback req)\<rparr>"

text \<open>A new job is stored, saved and started under the lock.\<close>

definition mockCreate ::
  "'st mockDeps \<Rightarrow> time \<Rightarrow> SubmitBriefJobParams \<Rightarrow> SubmitBriefRequest \<Rightarrow> expertMetadata \<Rightarrow>
   string \<Rightarrow> string \<Rightarrow> 'st MockServer \<Rightarrow> job \<times> 'st MockServer" where
  "mockCreate d now params req expert key payloadHash s =
     (let nextID = mk_nextID s + 1;
          jobID = job_id_text nextID;
          j = mockNewJob s params req expert now jobID;
          s1 = mockPut jobID j (s\<lparr>mk_nextID := nextID\<rparr>);
          s2 = (if key \<noteq> []
                then s1\<lparr>mk_idem := mput key \<lparr>ir_PayloadHash = payloadHash, ir_JobID = jobID\<rparr>
                       (mk_idem s1)\<rparr>
                else s1)
      in (j, mockSpawn jobID (mockPersist d s2)))"

definition mockSubmitLocked ::
  "'st mockDeps \<Rightarrow> time \<Rightarrow> SubmitBriefJobParams \<Rightarrow> string \<Rightarrow> SubmitBriefRequest \<Rightarrow> expertMetadata \<Rightarrow>
   string \<Rightarrow> 'st MockServer \<Rightarrow> Reply \<times> 'st MockServer" where
  "mockSubmitLocked d now params requestID req expert payloadHash s =
     (let key = scopedIdempotencyKey (TrimSpace (sp_XTenantId params))
                  (TrimSpace (sp_XProjectId params)) (sp_IdempotencyKey params);
          create = (let (j, s') = mockCreate d now params req expert key payloadHash s
                    in ((StatusAccepted, BSubmit (submitResponse requestID j)), s'))
      in if key = [] then create
         else (case mget (mk_idem s) key of
                 None \<Rightarrow> create
               | Some rec \<Rightarrow>
                   if ir_PayloadHash rec \<noteq> payloadHash
                   then ((StatusConflict,
                       BProblem (problem ''/v1/assistant/jobs'' requestID ''idempotency-mismatch''
                         ''Idempotency mismatch'' ''same Idempotency-Key with different payload'')), s)
                   else (case mockJob s (ir_JobID rec) of
                           None \<Rightarrow> ((StatusInternalServerError,
                               BProblem (problem ''/v1/assistant/jobs'' requestID ''internal-error''
                                 ''Internal error'' ''idempotency record exists without job'')), s)
                         | Some existing \<Rightarrow>
                             ((StatusAccepted, BSubmit (submitResponse requestID existing)), s))))"

definition mockSubmitBriefJob ::
  "'st mockDeps \<Rightarrow> time \<Rightarrow> time \<Rightarrow> SubmitBriefJobParams \<Rightarrow> SubmitBriefRequest \<Rightarrow>
   'st MockServer \<Rightarrow> Reply \<times> 'st MockServer" where
  "mockSubmitBriefJob d reqNow now params req s =
     (let requestID = normalizeRequestID reqNow (sp_XRequestId params)
      in (case mockSubmitCheck s params requestID req of
            Inl reply \<Rightarrow> (reply, s)
          | Inr expert \<Rightarrow>
              (case map_option (\<lambda>raw. hex_encode (md_sha256 d raw)) (md_marshal d req) of
                 None \<Rightarrow> ((StatusInternalServerError,
                     BProblem (problem ''/v1/assistant/jobs'' requestID ''internal-error''
                       ''Internal error'' ''failed to hash request'')), s)
               | Some payloadHash \<Rightarrow> mockSubmitLocked d now params requestID req expert payloadHash s)))"


section \<open>The other operations\<close>

definition mockScope ::
  "'st mockDeps \<Rightarrow> time \<Rightarrow> time \<Rightarrow> string \<Rightarrow> JobParams \<Rightarrow>
   (string \<Rightarrow> string \<Rightarrow> string \<Rightarrow> string \<Rightarrow> 'st MockServer \<Rightarrow> Reply \<times> 'st MockServer) \<Rightarrow>
   'st MockServer \<Rightarrow> Reply \<times> 'st MockServer" where
  "mockScope d reqNow now rest params k s =
     (let requestID = normalizeRequestID reqNow (jp_XRequestId params);
          tenantID = TrimSpace (jp_XTenantId params);
          projectID = TrimSpace (jp_XProjectId params);
          inst = job_instance (jp_JobID params) rest
      in if scope_missing tenantID projectID
         then (bad_request inst requestID scope_required, s)
         else k inst requestID tenantID projectID (mockExpire d now (jp_JobID params) s))"

definition mockScopedJob :: "'st MockServer \<Rightarrow> string \<Rightarrow> string \<Rightarrow> string \<Rightarrow> job option" where
  "mockScopedJob s jobID tenantID projectID =
     (case mockJob s jobID of
        None \<Rightarrow> None
      | Some j \<Rightarrow> if jobInScope j tenantID projectID then Some j else None)"

definition mockGetJobStatus ::
  "'st mockDeps \<Rightarrow> time \<Rightarrow> time \<Rightarrow> JobParams \<Rightarrow> 'st MockServer \<Rightarrow> Reply \<times> 'st MockServer" where
  "mockGetJobStatus d reqNow now params =
     mockScope d reqNow now [] params (\<lambda>inst requestID tenantID projectID s.
       (case mockScopedJob s (jp_JobID params) tenantID projectID of
          None \<Rightarrow> job_not_found inst requestID
        | Some current \<Rightarrow> (StatusOK, BStatus (statusResponse current)), s))"

definition mockGetJobResult ::
  "'st mockDeps \<Rightarrow> time \<Rightarrow> time \<Rightarrow> JobParams \<Rightarrow> 'st MockServer \<Rightarrow> Reply \<times> 'st MockServer" where
  "mockGetJobResult d reqNow now params =
     mockScope d reqNow now ''/result'' params (\<lambda>inst requestID tenantID projectID s.
       (case mockScopedJob s (jp_JobID params) tenantID projectID of
          None \<Rightarrow> job_not_found inst requestID
        | Some current \<Rightarrow>
            (case (jb_Status current = statusSucceeded, jb_Result current) of
               (True, Some r) \<Rightarrow> (StatusOK, BResult (resultResponse current r))
             | _ \<Rightarrow> (StatusConflict,
                  BProblem (problem inst requestID ''result-not-ready'' ''Result not ready''
                    ''job is still running''))), s))"

definition mockGetJobDeliveries ::
  "'st mockDeps \<Rightarrow> time \<Rightarrow> time \<Rightarrow> JobParams \<Rightarrow> 'st MockServer \<Rightarrow> Reply \<times> 'st MockServer" where
  "mockGetJobDeliveries d reqNow now params =
     mockScope d reqNow now ''/deliveries'' params (\<lambda>inst requestID tenantID projectID s.
       (case mockScopedJob s (jp_JobID params) tenantID projectID of
          None \<Rightarrow> job_not_found inst requestID
        | Some current \<Rightarrow>
            (case (case md_deliveryRead d of None \<Rightarrow> Inr [] | Some list \<Rightarrow> list (jp_JobID params)) of
               Inl e \<Rightarrow> (StatusInternalServerError,
                  BProblem (problem inst requestID ''internal-error'' ''Internal error''
                    ''failed to list webhook deliveries''))
             | Inr records \<Rightarrow> (StatusOK,
                  BDeliveries \<lparr>jdr_JobId = jp_JobID params, jdr_TenantId = jb_TenantID current,
                    jdr_ProjectId = jb_ProjectID current,
                    jdr_Deliveries = map deliveryView records\<rparr>)), s))"

definition mockCancelLocked ::
  "'st mockDeps \<Rightarrow> time \<Rightarrow> string \<Rightarrow> string \<Rightarrow> string \<Rightarrow> string \<Rightarrow> string \<Rightarrow>
   'st MockServer \<Rightarrow> Reply \<times> 'st MockServer" where
  "mockCancelLocked d now jobID inst requestID tenantID projectID s =
     (case mockScopedJob s jobID tenantID projectID of
        None \<Rightarrow> (job_not_found inst requestID, s)
      | Some current \<Rightarrow>
          if terminal (jb_Status current)
          then (invalid_transition inst requestID ''job is already terminal'', s)
          else (let j = current\<lparr>jb_Status := statusCanceled, jb_UpdatedAt := now\<rparr>
                in ((StatusAccepted, BStatus (statusResponse j)), mockPersist d (mockPut jobID j s))))"

definition mockCancelJob ::
  "'st mockDeps \<Rightarrow> time \<Rightarrow> time \<Rightarrow> time \<Rightarrow> JobParams \<Rightarrow> 'st MockServer \<Rightarrow> Reply \<times> 'st MockServer" where
  "mockCancelJob d reqNow now1 now2 params =
     mockScope d reqNow now1 ''/cancel'' params (mockCancelLocked d now2 (jp_JobID params))"

text \<open>
  The response of a replay is built from the shared job after the goroutine was started; here
  nothing happens in between.
\<close>

definition mockReplayLocked ::
  "'st mockDeps \<Rightarrow> time \<Rightarrow> string \<Rightarrow> string \<Rightarrow> string \<Rightarrow> string \<Rightarrow> string \<Rightarrow>
   'st MockServer \<Rightarrow> Reply \<times> 'st MockServer" where
  "mockReplayLocked d now jobID inst requestID tenantID projectID s =
     (case mockScopedJob s jobID tenantID projectID of
        None \<Rightarrow> (job_not_found inst requestID, s)
      | Some current \<Rightarrow>
          if jb_Status current \<noteq> statusFailed \<and> jb_Status current \<noteq> statusCanceled
             \<and> jb_Status current \<noteq> statusExpired
          then (invalid_transition inst requestID
                  ''only failed/canceled/expired jobs can be replayed'', s)
          else (let j = current\<lparr>jb_Status := statusQueued, jb_Progress := 0, jb_Attempt := 1,
                          jb_LastError := None, jb_UpdatedAt := now\<rparr>
                in ((StatusAccepted, BStatus (statusResponse j)),
                    mockSpawn jobID (mockPersist d (mockPut jobID j s)))))"

definition mockReplayJob ::
  "'st mockDeps \<Rightarrow> time \<Rightarrow> time \<Rightarrow> time \<Rightarrow> JobParams \<Rightarrow> 'st MockServer \<Rightarrow> Reply \<times> 'st MockServer" where
  "mockReplayJob d reqNow now1 now2 params =
     mockScope d reqNow now1 ''/replay'' params (mockReplayLocked d now2 (jp_JobID params))"

definition mockQueryCheck ::
  "'st MockServer \<Rightarrow> ScopeParams \<Rightarrow> string \<Rightarrow> QueryRequest \<Rightarrow> Reply + expertMetadata" where
  "mockQueryCheck s params requestID req =
     (let tenantID = TrimSpace (cp_XTenantId params);
          projectID = TrimSpace (cp_XProjectId params);
          bad = bad_request ''/v1/assistant/query'' requestID
      in if tenantID = [] \<or> projectID = [] then Inl (bad scope_required)
         else if scope_mismatch (qreq_TenantId req) tenantID
           then Inl (bad ''body `tenant_id` does not match header `X-Tenant-Id`'')
         else if scope_mismatch (qreq_ProjectId req) projectID
           then Inl (bad ''body `project_id` does not match header `X-Project-Id`'')
         else if TrimSpace (qreq_ExpertId req) = [] then Inl (bad ''field `expert_id` is required'')
         else if TrimSpace (qreq_Question req) = [] then Inl (bad ''field `question` is required'')
         else (case mget (mk_experts s) (qreq_ExpertId req) of
                 None \<Rightarrow> Inl (bad ''unknown `expert_id`'')
               | Some expert \<Rightarrow>
                   if \<not> expertSupports expert ''query''
                   then Inl (bad ''expert does not support `query`'') else Inr expert))"

definition mockQueryExpert ::
  "time \<Rightarrow> time \<Rightarrow> ScopeParams \<Rightarrow> QueryRequest \<Rightarrow> 'st MockServer \<Rightarrow> Reply" where
  "mockQueryExpert reqNow now params req s =
     (let requestID = normalizeRequestID reqNow (cp_XRequestId params)
      in (case mockQueryCheck s params requestID req of
            Inl reply \<Rightarrow> reply
          | Inr expert \<Rightarrow> (StatusOK, BQuery (queryAnswer expert (qreq_Question req) now))))"

definition mockGetExpertCapabilities :: "time \<Rightarrow> ScopeParams \<Rightarrow> 'st MockServer \<Rightarrow> Reply" where
  "mockGetExpertCapabilities reqNow params s =
     (let requestID = normalizeRequestID reqNow (cp_XRequestId params)
      in if TrimSpace (cp_XTenantId params) = [] \<or> TrimSpace (cp_XProjectId params) = []
         then bad_request ''/v1/assistant/experts'' requestID scope_required
         else (StatusOK, BExperts \<lparr>ecr_Experts = map (expertCapability \<circ> snd) (mk_experts s)\<rparr>))"


section \<open>The goroutine of a job\<close>

definition transitionJob ::
  "'st mockDeps \<Rightarrow> time \<Rightarrow> time \<Rightarrow> string \<Rightarrow> string \<Rightarrow> int \<Rightarrow> ExpertResult option \<Rightarrow>
   'st MockServer \<Rightarrow> 'st MockServer" where
  "transitionJob d now1 now2 jobID status progress result s =
     (case mockJob s jobID of
        None \<Rightarrow> s
      | Some current \<Rightarrow>
          if jb_Status current = statusCanceled \<or> jb_Status current = statusExpired then s
          else if isExpired current now1
            then mockPersist d (mockPut jobID (markExpired current now2) s)
          else (let j1 = current\<lparr>jb_Status := status, jb_Progress := progress, jb_UpdatedAt := now2\<rparr>;
                    j2 = (case result of None \<Rightarrow> j1 | Some r \<Rightarrow> j1\<lparr>jb_Result := Some r\<rparr>)
                in mockPersist d (mockPut jobID j2 s)))"

text \<open>The second half of \<open>shouldSkipJob\<close>; the first is \<open>mockExpire\<close>.\<close>

definition shouldSkip :: "'st MockServer \<Rightarrow> string \<Rightarrow> bool" where
  "shouldSkip s jobID =
     (case mockJob s jobID of
        None \<Rightarrow> True
      | Some current \<Rightarrow> jb_Status current = statusCanceled \<or> jb_Status current = statusExpired)"

definition mockResult :: "time \<Rightarrow> job \<Rightarrow> ExpertResult" where
  "mockResult now current =
     \<lparr>er_Title = Some (jb_Date current @ '' market brief''),
      er_Answer = ''Mock brief generated for expert '' @ jb_ExpertID current @ '' on ''
        @ jb_Date current @ ''.'',
      er_Confidence = 82 / 100, er_FreshnessCutoff = rfc3339 now,
      er_References =
        [[(''kind'', JStr ''article''), (''ref_id'', JStr ''src_mock_001''),
          (''title'', JStr ''Mock Market Source''),
          (''uri'', JStr ''https://example.com/mock-source''),
          (''published_at'', JStr (rfc3339 (now - 15 * nsPerMinute)))]],
      er_Citations = [], er_Limitations = [''mock runtime response'']\<rparr>"

definition mockNotify :: "string \<Rightarrow> 'st MockServer \<Rightarrow> 'st MockServer" where
  "mockNotify jobID s =
     (case mockJob s jobID of
        None \<Rightarrow> s
      | Some current \<Rightarrow>
          (case jb_Callback current of
             None \<Rightarrow> s
           | Some cb \<Rightarrow>
               if TrimSpace (cb_Url cb) = [] then s
               else (case cloneCallbackConfig (Some cb) of
                       None \<Rightarrow> s
                     | Some callback \<Rightarrow> s\<lparr>mk_webhooks := mk_webhooks s @ [(jobID, callback)]\<rparr>)))"

text \<open>\<open>runMockJob\<close> without interruption; \<open>clk\<close> gives the readings of the clock in order.\<close>

definition runMockJob ::
  "'st mockDeps \<Rightarrow> (nat \<Rightarrow> time) \<Rightarrow> string \<Rightarrow> 'st MockServer \<Rightarrow> 'st MockServer" where
  "runMockJob d clk jobID s =
     (let s1 = mockExpire d (clk 0) jobID s
      in if shouldSkip s1 jobID then s1
         else (let s2 = transitionJob d (clk 1) (clk 2) jobID statusRunning 30 None s1;
                   s3 = mockExpire d (clk 3) jobID s2
               in if shouldSkip s3 jobID then s3
                  else (let s4 = transitionJob d (clk 4) (clk 5) jobID statusRunning 70 None s3
                        in case mockJob s4 jobID of
                             None \<Rightarrow> s4
                           | Some current \<Rightarrow>
                               mockNotify jobID (transitionJob d (clk 7) (clk 8) jobID statusSucceeded 100
                                 (Some (mockResult (clk 6) current)) s4))))"

text \<open>The same in steps, with what other goroutines and handlers may do in between.\<close>

fun mockAdvance ::
  "'st mockDeps \<Rightarrow> time \<Rightarrow> time \<Rightarrow> string \<Rightarrow> mock_pc \<Rightarrow> 'st MockServer \<Rightarrow> mock_pc option \<times> 'st MockServer" where
  "mockAdvance d t1 t2 jobID Expire1 s = (Some Check1, mockExpire d t1 jobID s)"
| "mockAdvance d t1 t2 jobID Check1 s = (if shouldSkip s jobID then None else Some Run30, s)"
| "mockAdvance d t1 t2 jobID Run30 s = (Some Expire2, transitionJob d t1 t2 jobID statusRunning 30 None s)"
| "mockAdvance d t1 t2 jobID Expire2 s = (Some Check2, mockExpire d t1 jobID s)"
| "mockAdvance d t1 t2 jobID Check2 s = (if shouldSkip s jobID then None else Some Run70, s)"
| "mockAdvance d t1 t2 jobID Run70 s = (Some Build, transitionJob d t1 t2 jobID statusRunning 70 None s)"
| "mockAdvance d t1 t2 jobID Build s = (map_option (\<lambda>j. Finish (mockResult t1 j)) (mockJob s jobID), s)"
| "mockAdvance d t1 t2 jobID (Finish r) s =
     (Some Notify, transitionJob d t1 t2 jobID statusSucceeded 100 (Some r) s)"
| "mockAdvance d t1 t2 jobID Notify s = (None, mockNotify jobID s)"


section \<open>Start and observation\<close>

definition snapshotExpert :: "LoadedExpert \<Rightarrow> expertMetadata" where
  "snapshotExpert loaded =
     (let m = xd_Metadata (le_Definition loaded)
      in \<lparr>em_ExpertID = xr_ExpertID (le_Ref loaded), em_ExpertName = xm_ExpertName m,
          em_ExpertType = xm_ExpertType m, em_Version = xm_Version m,
          em_Supports = xs_Capabilities (xd_Spec (le_Definition loaded))\<rparr>)"

text \<open>Unlike the orchestrator, the mock worker leaves the status of a loaded job as it is.\<close>

definition mockRestore :: "int \<Rightarrow> Job \<Rightarrow> job" where
  "mockRestore maxAttempts stored =
     (let j = \<lparr>jb_ID = sj_ID stored, jb_TenantID = sj_TenantID stored,
               jb_ProjectID = sj_ProjectID stored, jb_ExpertID = sj_ExpertID stored,
               jb_ExpertName = sj_ExpertName stored, jb_ExpertType = sj_ExpertType stored,
               jb_Date = sj_Date stored, jb_Status = sj_Status stored,
               jb_Progress = sj_Progress stored, jb_SubmittedAt = sj_SubmittedAt stored,
               jb_UpdatedAt = sj_UpdatedAt stored, jb_Attempt = sj_Attempt stored,
               jb_MaxAttempts = sj_MaxAttempts stored, jb_ExpiresAt = sj_ExpiresAt stored,
               jb_LastError = sj_LastError stored, jb_Result = sj_Result stored,
               jb_Callback = cloneCallbackConfig (sj_Callback stored)\<rparr>
      in if jb_MaxAttempts j \<le> 0 then j\<lparr>jb_MaxAttempts := maxAttempts\<rparr> else j)"

definition mockLoadState ::
  "('st \<Rightarrow> store_error + State) \<Rightarrow> 'st MockServer \<Rightarrow> store_error option \<times> 'st MockServer" where
  "mockLoadState load s =
     (case load (mk_stateStore s) of
        Inl e \<Rightarrow> (Some e, s)
      | Inr state \<Rightarrow>
          (None, s\<lparr>mk_nextID := ss_NextID state,
                   mk_jobs := mmap (mockRestore (mk_maxAttempts s)) (ranged (ss_Jobs state)),
                   mk_idem := mmap (\<lambda>e. \<lparr>ir_PayloadHash = ie_PayloadHash e,
                     ir_JobID = ie_JobID e\<rparr>) (ranged (ss_Idempotency state))\<rparr>))"

text \<open>An error of the load is logged and dropped.\<close>

definition NewMockServer ::
  "('st \<Rightarrow> store_error + State) \<Rightarrow> ('st MockServer \<Rightarrow> 'st MockServer) list \<Rightarrow> RegistrySnapshot option \<Rightarrow>
   'st \<Rightarrow> 'st MockServer" where
  "NewMockServer load opts snapshot store =
     (let experts = (case snapshot of
            None \<Rightarrow> []
          | Some sn \<Rightarrow> foldl (\<lambda>m loaded. mput (xr_ExpertID (le_Ref loaded)) (snapshotExpert loaded) m) []
              (sn_Experts sn));
          s0 = \<lparr>mk_experts = experts, mk_jobs = [], mk_idem = [], mk_nextID = 0,
                mk_processDelay = 200 * (nsPerSecond div 1000), mk_maxAttempts = 3,
                mk_jobTTL = 24 * 60 * nsPerMinute, mk_stateStore = store, mk_threads = [],
                mk_webhooks = []\<rparr>
      in snd (mockLoadState load (foldl (\<lambda>s opt. opt s) s0 opts)))"

record MockMetrics =
  mm_TimestampUTC :: string
  mm_JobsTotal :: int
  mm_ByStatus :: "int gomap"
  mm_ByTenant :: "TenantMetrics gomap"

definition mockMetricsSnapshot :: "time \<Rightarrow> 'st MockServer \<Rightarrow> MockMetrics" where
  "mockMetricsSnapshot now s =
     (let counts = foldl countJob (zeroByStatus, []) (mk_jobs s)
      in \<lparr>mm_TimestampUTC = rfc3339nano now, mm_JobsTotal = int (length (mk_jobs s)),
          mm_ByStatus = fst counts, mm_ByTenant = snd counts\<rparr>)"

definition mockMetricsHandler :: "time \<Rightarrow> Request \<Rightarrow> 'st MockServer \<Rightarrow> MockMetrics plain_reply" where
  "mockMetricsHandler now r s =
     (if rq_Method r \<noteq> ''GET'' then StatusOnly StatusMethodNotAllowed
      else Encoded (mockMetricsSnapshot now s))"

definition mockHealthHandler :: "time \<Rightarrow> Request \<Rightarrow> 'st MockServer \<Rightarrow> json plain_reply" where
  "mockHealthHandler now r s =
     (if rq_Method r \<noteq> ''GET'' then StatusOnly StatusMethodNotAllowed
      else Encoded (JObj
        [(''status'', JStr ''ok''), (''jobs_total'', JNum (of_int (int (length (mk_jobs s))))),
         (''timestamp'', JStr (rfc3339nano now))]))"

end
