(* ===== verification/Mock_Properties.thy ===== *)
theory Mock_Properties
  imports Mock_Worker Orch_Demo
begin

text \<open>
  What the mock worker promises: it answers every operation of the API as the orchestrator does (it
  stands in for it), a job that nothing disturbs succeeds, and a job that is not finished has a
  goroutine that works on it.
\<close>

section \<open>The orchestrator it stands in for\<close>

text \<open>
  The view: the started goroutines are the queue, there are no dead letters.  Its dependencies
  append to that queue and drop the dead letters when they save.
\<close>

definition mockView :: "'st MockServer \<Rightarrow> (string list, 'st) Server" where
  "mockView s = \<lparr>sv_experts = mk_experts s, sv_jobs = mk_jobs s, sv_idem = mk_idem s, sv_dlq = [],
     sv_nextID = mk_nextID s, sv_stateStore = mk_stateStore s, sv_queue = map fst (mk_threads s),
     sv_maxAttempts = mk_maxAttempts s, sv_jobTTL = mk_jobTTL s, sv_webhooks = mk_webhooks s\<rparr>"

definition viewDeps :: "'st mockDeps \<Rightarrow> (string list, 'st) deps" where
  "viewDeps d = \<lparr>dp_Enqueue = (\<lambda>q i. (None, q @ [i])), dp_Depth = (\<lambda>q. int (length q)),
     dp_Save = (\<lambda>st state. md_Save d st (state\<lparr>ss_DeadLetters := None\<rparr>)),
     dp_deliveryRead = md_deliveryRead d, dp_marshal = md_marshal d, dp_sha256 = md_sha256 d\<rparr>"

text \<open>Jobs are stored under their id.\<close>

definition mock_keyed :: "'st MockServer \<Rightarrow> bool" where
  "mock_keyed s \<longleftrightarrow> (\<forall>k j. mockJob s k = Some j \<longrightarrow> jb_ID j = k)"

lemma view_simps [simp]:
  "getJob (mockView s) = mockJob s" "sv_experts (mockView s) = mk_experts s"
  "sv_idem (mockView s) = mk_idem s" "sv_nextID (mockView s) = mk_nextID s"
  "sv_dlq (mockView s) = []" "sv_jobs (mockView s) = mk_jobs s"
  "dp_deliveryRead (viewDeps d) = md_deliveryRead d"
  "hashRequestPayload (viewDeps d) req = map_option (\<lambda>raw. hex_encode (md_sha256 d raw)) (md_marshal d req)"
  by (simp_all add: mockView_def getJob_def mockJob_def fun_eq_iff viewDeps_def hashRequestPayload_def)

lemma view_put: "mockView (mockPut i j s) = putJob i j (mockView s)"
  by (simp add: mockView_def mockPut_def putJob_def)

lemma view_persist: "mockView (mockPersist d s) = persistLocked (viewDeps d) (mockView s)"
  by (simp add: mockView_def mockPersist_def persistLocked_def viewDeps_def mockState_def stateOf_def)

lemma view_spawn: "mockView (mockSpawn i s) = enqueue (viewDeps d) (mockView s) i"
  by (simp add: mockView_def mockSpawn_def enqueue_def viewDeps_def)

lemma view_expire: "mockView (mockExpire d now i s) = expireJobIfNeeded (viewDeps d) now i (mockView s)"
  by (simp add: mockExpire_def expireJobIfNeeded_def view_put view_persist split: option.split)

lemmas view_ops = view_put view_persist view_expire

lemma view_update:
  "mockView (s\<lparr>mk_nextID := n\<rparr>) = (mockView s)\<lparr>sv_nextID := n\<rparr>"
  "mockView (s\<lparr>mk_idem := m\<rparr>) = (mockView s)\<lparr>sv_idem := m\<rparr>"
  "(mockView s)\<lparr>sv_dlq := []\<rparr> = mockView s"
  by (simp_all add: mockView_def)

lemma view_newJob: "newJob (mockView s) params req expert now i = mockNewJob s params req expert now i"
  by (simp add: newJob_def mockNewJob_def mockView_def)

lemma view_create:
  assumes "mockCreate d now params req expert key h s = (j, s')"
  shows "\<exists>s1. submit_create (viewDeps d) now params req expert key h (mockView s) = (j, s1) \<and>
    mockView s' = enqueue (viewDeps d) s1 (jb_ID j)"
proof -
  let ?i = "job_id_text (mk_nextID s + 1)"
  have "putJob ?i x ((mockView s)\<lparr>sv_nextID := n\<rparr>) \<lparr>sv_dlq := mdel ?i []\<rparr>
      = mockView (mockPut ?i x (s\<lparr>mk_nextID := n\<rparr>))" for x n
    by (simp add: view_put view_update(1) [symmetric] mdel_def)
  moreover have "jb_ID j = ?i"
    using assms by (auto simp: mockCreate_def Let_def mockNewJob_def)
  ultimately show ?thesis
    using assms
    by (auto simp: mockCreate_def submit_create_def Let_def view_newJob view_spawn [of _ _ d] view_persist
        view_update)
qed

lemma view_submit_locked:
  assumes "mockSubmitLocked d now params rid req expert h s = (reply, s')"
  shows "\<exists>i s1. SubmitBriefJob_locked (viewDeps d) now params rid req expert h (mockView s) = ((reply, i), s1) \<and>
    mockView s' = (case i of None \<Rightarrow> s1 | Some jobID \<Rightarrow> enqueue (viewDeps d) s1 jobID)"
  using assms view_create [of d now params req expert _ h s]
  by (auto simp: mockSubmitLocked_def SubmitBriefJob_locked_def Let_def split: prod.splits option.splits if_splits)
    fastforce+

lemma view_submit_check: "submit_check (mockView s) params rid req = mockSubmitCheck s params rid req"
  by (simp add: submit_check_def mockSubmitCheck_def lookupExpert_def Let_def)

lemma view_submit:
  "map_prod id mockView (mockSubmitBriefJob d reqNow now params req s)
     = SubmitBriefJob (viewDeps d) reqNow now params req (mockView s)"
proof -
  have "map_prod id mockView (mockSubmitLocked d now params rid req expert h s)
      = (case SubmitBriefJob_locked (viewDeps d) now params rid req expert h (mockView s) of
           ((reply, None), s') \<Rightarrow> (reply, s')
         | ((reply, Some jobID), s') \<Rightarrow> (reply, enqueue (viewDeps d) s' jobID))" for rid expert h
  proof -
    obtain reply s' where r: "mockSubmitLocked d now params rid req expert h s = (reply, s')" by fastforce
    from view_submit_locked [OF this] show ?thesis by (auto simp: r split: option.split)
  qed
  then show ?thesis
    by (simp add: mockSubmitBriefJob_def SubmitBriefJob_def view_submit_check Let_def map_option_case
        split: sum.split option.split)
qed

lemma view_scope:
  assumes "\<And>inst rid t p s. P s \<Longrightarrow> map_prod id mockView (k inst rid t p s) = k' inst rid t p (mockView s)"
    and "P (mockExpire d now (jp_JobID params) s)"
  shows "map_prod id mockView (mockScope d reqNow now rest params k s)
     = with_scope (viewDeps d) reqNow now rest params k' (mockView s)"
  using assms by (simp add: mockScope_def with_scope_def Let_def view_expire)

lemma view_scopedJob: "scopedJob (mockView s) = mockScopedJob s"
  by (simp add: fun_eq_iff scopedJob_def mockScopedJob_def)

lemma mockExpire_keyed: "mock_keyed s \<Longrightarrow> mock_keyed (mockExpire d now i s)"
  by (auto simp: mock_keyed_def mockExpire_def mockJob_def mockPersist_def mockPut_def split: option.split)

lemma view_cancel_locked:
  "map_prod id mockView (mockCancelLocked d now i inst rid t p s)
     = CancelJob_locked (viewDeps d) now i inst rid t p (mockView s)"
  by (simp add: mockCancelLocked_def CancelJob_locked_def view_scopedJob view_ops Let_def split: option.split)

lemma replayed_mock:
  "replayed j now = j\<lparr>jb_Status := statusQueued, jb_Progress := 0, jb_Attempt := 1,
     jb_LastError := None, jb_UpdatedAt := now\<rparr>"
  by (cases j) (simp add: replayed_def)

lemma view_replay_locked:
  assumes "mock_keyed s"
  shows "map_prod id mockView (mockReplayLocked d now i inst rid t p s) =
    (case ReplayJob_locked (viewDeps d) now i inst rid t p (mockView s) of
       (Inl reply, s') \<Rightarrow> (reply, s')
     | (Inr jobID, s') \<Rightarrow>
         (case getJob s' i of
            None \<Rightarrow> (job_not_found inst rid, s')
          | Some current \<Rightarrow> ((StatusAccepted, BStatus (statusResponse current)), enqueue (viewDeps d) s' jobID)))"
proof (cases "mockScopedJob s i t p")
  case None
  then show ?thesis by (simp add: mockReplayLocked_def ReplayJob_locked_def view_scopedJob)
next
  case (Some j)
  then have "jb_ID j = i"
    using assms by (auto simp: mockScopedJob_def mock_keyed_def split: option.splits if_splits)
  moreover have "(putJob i x (mockView s))\<lparr>sv_dlq := mdel i (sv_dlq (putJob i x (mockView s)))\<rparr>
      = putJob i x (mockView s)" for x
    by (simp add: putJob_def mockView_def mdel_def)
  ultimately show ?thesis using Some
    by (simp add: mockReplayLocked_def ReplayJob_locked_def view_scopedJob view_ops view_spawn [of _ _ d] Let_def
        replayed_mock)
qed

lemma view_query: "QueryExpert reqNow now params req (mockView s) = mockQueryExpert reqNow now params req s"
  by (simp add: QueryExpert_def mockQueryExpert_def query_check_def mockQueryCheck_def lookupExpert_def Let_def)

lemma view_capabilities: "GetExpertCapabilities reqNow params (mockView s) = mockGetExpertCapabilities reqNow params s"
  by (simp add: GetExpertCapabilities_def mockGetExpertCapabilities_def)

text \<open>
  C23. The mock worker is a stand-in for the orchestrator: on the view that takes its started
  goroutines for the queue, every operation of the Assistant API gives the same reply and leaves
  the same state.
\<close>

theorem mock_answers_as_orchestrator:
  assumes "mock_keyed s"
  shows "map_prod id mockView (mockSubmitBriefJob d n0 n1 sp sreq s) = SubmitBriefJob (viewDeps d) n0 n1 sp sreq (mockView s)
   \<and> map_prod id mockView (mockGetJobStatus d n0 n1 jp s) = GetJobStatus (viewDeps d) n0 n1 jp (mockView s)
   \<and> map_prod id mockView (mockGetJobResult d n0 n1 jp s) = GetJobResult (viewDeps d) n0 n1 jp (mockView s)
   \<and> map_prod id mockView (mockGetJobDeliveries d n0 n1 jp s) = GetJobDeliveries (viewDeps d) n0 n1 jp (mockView s)
   \<and> map_prod id mockView (mockCancelJob d n0 n1 n2 jp s) = CancelJob (viewDeps d) n0 n1 n2 jp (mockView s)
   \<and> map_prod id mockView (mockReplayJob d n0 n1 n2 jp s) = ReplayJob (viewDeps d) n0 n1 n2 jp (mockView s)
   \<and> mockQueryExpert n0 n1 cp qreq s = QueryExpert n0 n1 cp qreq (mockView s)
   \<and> mockGetExpertCapabilities n0 cp s = GetExpertCapabilities n0 cp (mockView s)"
proof (intro conjI)
  show "map_prod id mockView (mockGetJobStatus d n0 n1 jp s) = GetJobStatus (viewDeps d) n0 n1 jp (mockView s)"
    unfolding mockGetJobStatus_def GetJobStatus_def
    by (rule view_scope [where P = "\<lambda>_. True"]) (simp_all add: view_scopedJob)
  show "map_prod id mockView (mockGetJobResult d n0 n1 jp s) = GetJobResult (viewDeps d) n0 n1 jp (mockView s)"
    unfolding mockGetJobResult_def GetJobResult_def
    by (rule view_scope [where P = "\<lambda>_. True"]) (simp_all add: view_scopedJob)
  show "map_prod id mockView (mockGetJobDeliveries d n0 n1 jp s) = GetJobDeliveries (viewDeps d) n0 n1 jp (mockView s)"
    unfolding mockGetJobDeliveries_def GetJobDeliveries_def
    by (rule view_scope [where P = "\<lambda>_. True"]) (simp_all add: view_scopedJob split: option.split)
  show "map_prod id mockView (mockCancelJob d n0 n1 n2 jp s) = CancelJob (viewDeps d) n0 n1 n2 jp (mockView s)"
    unfolding mockCancelJob_def CancelJob_def
    by (rule view_scope [where P = "\<lambda>_. True"]) (simp_all add: view_cancel_locked)
  show "map_prod id mockView (mockReplayJob d n0 n1 n2 jp s) = ReplayJob (viewDeps d) n0 n1 n2 jp (mockView s)"
    unfolding mockReplayJob_def ReplayJob_def
    by (rule view_scope [where P = mock_keyed]) (simp_all add: view_replay_locked mockExpire_keyed assms)
qed (simp_all add: view_submit view_query view_capabilities)


section \<open>A job that nothing disturbs\<close>

lemma mock_frame [simp]:
  "mockJob (mockPersist d s) = mockJob s" "mk_threads (mockPersist d s) = mk_threads s"
  "mk_webhooks (mockPersist d s) = mk_webhooks s"
  "mockJob (mockPut i j s) = (mockJob s)(i \<mapsto> j)" "mk_threads (mockPut i j s) = mk_threads s"
  "mk_webhooks (mockPut i j s) = mk_webhooks s"
  "mockJob (mockSpawn i s) = mockJob s" "mk_threads (mockSpawn i s) = mk_threads s @ [(i, Expire1)]"
  "mk_webhooks (mockSpawn i s) = mk_webhooks s"
  "mockJob (s\<lparr>mk_threads := ts\<rparr>) = mockJob s" "mockJob (s\<lparr>mk_webhooks := ws\<rparr>) = mockJob s"
  "mockJob (s\<lparr>mk_nextID := n\<rparr>) = mockJob s" "mockJob (s\<lparr>mk_idem := m\<rparr>) = mockJob s"
  by (simp_all add: mockPersist_def mockPut_def mockSpawn_def mockJob_def fun_eq_iff)

lemma mockNotify_frame [simp]:
  "mockJob (mockNotify i s) = mockJob s" "mk_threads (mockNotify i s) = mk_threads s"
  by (auto simp: mockNotify_def split: option.split)

lemma mockExpire_idle:
  "mockJob s i = Some j \<Longrightarrow> \<not> isExpired j now \<Longrightarrow> mockExpire d now i s = s"
  by (simp add: mockExpire_def)

lemma transition_live:
  "mockJob s i = Some j \<Longrightarrow> jb_Status j \<noteq> statusCanceled \<Longrightarrow> jb_Status j \<noteq> statusExpired \<Longrightarrow>
     \<not> isExpired j t1 \<Longrightarrow>
     mockJob (transitionJob d t1 t2 i st p r s) i = Some (j\<lparr>jb_Status := st, jb_Progress := p,
        jb_UpdatedAt := t2, jb_Result := (case r of None \<Rightarrow> jb_Result j | Some x \<Rightarrow> Some x)\<rparr>) \<and>
     mk_webhooks (transitionJob d t1 t2 i st p r s) = mk_webhooks s"
  by (auto simp: transitionJob_def Let_def split: option.split)

lemma mockNotify_webhooks:
  "mockJob s i = Some j \<Longrightarrow> mk_webhooks (mockNotify i s) =
     mk_webhooks s @ (case cloneCallbackConfig (jb_Callback j) of None \<Rightarrow> [] | Some cb \<Rightarrow> [(i, cb)])"
  by (auto simp: mockNotify_def cloneCallbackConfig_def split: option.split)

text \<open>
  The goroutine of a queued job, alone: unless the job expires on the way, it succeeds with the
  result of its own expert and date, and its callback, if it has one, is notified once.
\<close>

theorem mock_job_succeeds:
  assumes "mockJob s i = Some j" and "jb_Status j = statusQueued" and "\<And>n. \<not> isExpired j (clk n)"
  shows "mockJob (runMockJob d clk i s) i = Some (j\<lparr>jb_Status := statusSucceeded, jb_Progress := 100,
      jb_UpdatedAt := clk 8, jb_Result := Some (mockResult (clk 6) j)\<rparr>) \<and>
    mk_webhooks (runMockJob d clk i s) = mk_webhooks s @
      (case cloneCallbackConfig (jb_Callback j) of None \<Rightarrow> [] | Some cb \<Rightarrow> [(i, cb)])"
proof -
  let ?j2 = "j\<lparr>jb_Status := statusRunning, jb_Progress := 30, jb_UpdatedAt := clk 2\<rparr>"
  let ?j4 = "j\<lparr>jb_Status := statusRunning, jb_Progress := 70, jb_UpdatedAt := clk 5\<rparr>"
  let ?s2 = "transitionJob d (clk 1) (clk 2) i statusRunning 30 None s"
  let ?s4 = "transitionJob d (clk 4) (clk 5) i statusRunning 70 None ?s2"
  have live: "\<not> isExpired (j\<lparr>jb_Status := st, jb_Progress := p, jb_UpdatedAt := t\<rparr>) (clk n)" for st p t n
    using assms(3) by (simp add: isExpired_def)
  have s2: "mockJob ?s2 i = Some ?j2" "mk_webhooks ?s2 = mk_webhooks s"
    using transition_live [OF assms(1), of "clk 1" d "clk 2" statusRunning 30 None] assms by simp_all
  have s4: "mockJob ?s4 i = Some ?j4" "mk_webhooks ?s4 = mk_webhooks s"
    using transition_live [OF s2(1), of "clk 4" d "clk 5" statusRunning 70 None] s2 live by simp_all
  have result: "mockResult t ?j4 = mockResult t j" for t by (simp add: mockResult_def)
  have run: "runMockJob d clk i s = mockNotify i (transitionJob d (clk 7) (clk 8) i statusSucceeded 100
      (Some (mockResult (clk 6) j)) ?s4)"
    using assms s2 s4(1) live
    by (simp add: runMockJob_def Let_def mockExpire_idle [OF assms(1)] mockExpire_idle [OF s2(1)] shouldSkip_def
        result del: One_nat_def)
  from transition_live [OF s4(1), of "clk 7" d "clk 8" statusSucceeded 100 "Some (mockResult (clk 6) j)"] s4 live
  show ?thesis by (simp add: run mockNotify_webhooks)
qed


section \<open>All goroutines and handlers\<close>

text \<open>
  A step is a critical section of a handler or of a goroutine; a goroutine that returns disappears.
\<close>

inductive mock_step :: "'st mockDeps \<Rightarrow> 'st MockServer \<Rightarrow> 'st MockServer \<Rightarrow> bool" for d where
  expire: "mock_step d s (mockExpire d now i s)"
| submit: "mockSubmitLocked d now params rid req expert h s = (reply, s') \<Longrightarrow> mock_step d s s'"
| cancel: "mockCancelLocked d now i inst rid t p s = (reply, s') \<Longrightarrow> mock_step d s s'"
| replay: "mockReplayLocked d now i inst rid t p s = (reply, s') \<Longrightarrow> mock_step d s s'"
| goroutine: "mk_threads s = ts @ (i, pc) # us \<Longrightarrow> mockAdvance d t1 t2 i pc s = (pc', s') \<Longrightarrow>
    mock_step d s (s'\<lparr>mk_threads := ts @ (case pc' of None \<Rightarrow> [] | Some p \<Rightarrow> [(i, p)]) @ us\<rparr>)"

inductive mock_reach :: "'st mockDeps \<Rightarrow> 'st MockServer \<Rightarrow> 'st MockServer \<Rightarrow> bool" for d s0 where
  start: "mock_reach d s0 s0"
| step: "mock_reach d s0 s \<Longrightarrow> mock_step d s s' \<Longrightarrow> mock_reach d s0 s'"

definition job_attended :: "'st MockServer \<Rightarrow> string \<Rightarrow> bool" where
  "job_attended s i \<longleftrightarrow> (\<exists>pc. (i, pc) \<in> set (mk_threads s) \<and> pc \<noteq> Notify)"

text \<open>What holds of the job stored under a key, given whether a goroutine works on it.\<close>

definition mock_job_ok :: "bool \<Rightarrow> string \<Rightarrow> job \<Rightarrow> bool" where
  "mock_job_ok attended i j \<longleftrightarrow> jb_ID j = i \<and> (terminal (jb_Status j) \<or> attended) \<and>
     (jb_Status j = statusSucceeded \<longrightarrow> jb_Result j \<noteq> None \<and> jb_Progress j = 100)"

definition mock_inv :: "'st MockServer \<Rightarrow> bool" where
  "mock_inv s \<longleftrightarrow> (\<forall>i j. mockJob s i = Some j \<longrightarrow> mock_job_ok (job_attended s i) i j)"

lemma mock_job_ok_mono: "mock_job_ok b i j \<Longrightarrow> (b \<Longrightarrow> b') \<Longrightarrow> mock_job_ok b' i j"
  by (auto simp: mock_job_ok_def)

lemma mockExpire_cases:
  "mockExpire d now i s = s \<or>
     (\<exists>j t. mockJob s i = Some j \<and> mockExpire d now i s = mockPersist d (mockPut i (markExpired j t) s))"
  by (auto simp: mockExpire_def split: option.split)

lemma transition_cases:
  "transitionJob d t1 t2 i st p r s = s \<and> (\<forall>j. mockJob s i = Some j \<longrightarrow>
       jb_Status j = statusCanceled \<or> jb_Status j = statusExpired) \<or>
   (\<exists>j. mockJob s i = Some j \<and> transitionJob d t1 t2 i st p r s = mockPersist d (mockPut i (markExpired j t2) s)) \<or>
   (\<exists>j j'. mockJob s i = Some j \<and> transitionJob d t1 t2 i st p r s = mockPersist d (mockPut i j' s) \<and>
      jb_ID j' = jb_ID j \<and> jb_Status j' = st \<and> jb_Progress j' = p \<and>
      (\<forall>x. r = Some x \<longrightarrow> jb_Result j' = Some x))"
  by (cases "mockJob s i") (auto simp: transitionJob_def Let_def split: option.split)

text \<open>A step changes one job at most, to one that is in order if it was.\<close>

lemma mock_inv_put:
  assumes "mock_inv s" and "mk_threads s' = mk_threads s" and "mockJob s' = (mockJob s)(i \<mapsto> j)"
    and "mock_job_ok (job_attended s i) i j"
  shows "mock_inv s'"
  using assms by (auto simp: mock_inv_def job_attended_def)

lemma mock_inv_threads:
  assumes "mock_inv s" and "mockJob s' = mockJob s" and "\<And>i j. mockJob s i = Some j \<Longrightarrow>
      \<not> terminal (jb_Status j) \<Longrightarrow> job_attended s i \<Longrightarrow> job_attended s' i"
  shows "mock_inv s'"
  using assms by (fastforce simp: mock_inv_def mock_job_ok_def)

lemma mock_inv_markExpired:
  assumes "mock_inv s" and "mockJob s i = Some j"
  shows "mock_inv (mockPersist d (mockPut i (markExpired j t) s))"
  using assms by (intro mock_inv_put [OF assms(1)]) (auto simp: mock_inv_def mock_job_ok_def)

lemma mock_inv_expire: "mock_inv s \<Longrightarrow> mock_inv (mockExpire d now i s)"
  using mockExpire_cases [of d now i s] mock_inv_markExpired [of s i _ d] by (elim disjE exE conjE) simp_all

lemma transition_threads [simp]: "mk_threads (transitionJob d t1 t2 i st p r s) = mk_threads s"
  by (auto simp: transitionJob_def Let_def split: option.split)

lemma expire_threads [simp]: "mk_threads (mockExpire d now i s) = mk_threads s"
  by (auto simp: mockExpire_def split: option.split)

text \<open>A goroutine's own step.\<close>

lemma advance_threads: "mockAdvance d t1 t2 i pc s = (pc', s') \<Longrightarrow> mk_threads s' = mk_threads s"
  by (cases pc) auto

lemma attended_split:
  "mk_threads s = ts @ (i, pc) # us \<Longrightarrow>
     job_attended s k \<longleftrightarrow> (\<exists>p. (k, p) \<in> set (ts @ us) \<and> p \<noteq> Notify) \<or> k = i \<and> pc \<noteq> Notify"
  by (auto simp: job_attended_def)

text \<open>
  A goroutine that stops, or is about to look for the callback, leaves a job that is terminal or
  does not exist.
\<close>

lemma advance_stops:
  assumes "mockAdvance d t1 t2 i pc s = (pc', s')" and "pc \<noteq> Notify" and "pc' = None \<or> pc' = Some Notify"
    and "mockJob s' i = Some j"
  shows "terminal (jb_Status j)"
proof (cases pc)
  case (Finish r)
  with assms(1) have s': "s' = transitionJob d t1 t2 i statusSucceeded 100 (Some r) s" by simp
  from assms(4) transition_cases [of d t1 t2 i statusSucceeded 100 "Some r" s] show ?thesis
    by (auto simp: s')
qed (use assms in \<open>auto simp: shouldSkip_def split: option.splits if_splits\<close>)

lemma mock_inv_transition:
  assumes "mock_inv s" and "st = statusSucceeded \<Longrightarrow> p = 100 \<and> r \<noteq> None" and "terminal st \<or> job_attended s i"
  shows "mock_inv (transitionJob d t1 t2 i st p r s)"
  using transition_cases [of d t1 t2 i st p r s]
proof (elim disjE exE conjE)
  fix j assume j: "mockJob s i = Some j"
    and t: "transitionJob d t1 t2 i st p r s = mockPersist d (mockPut i (markExpired j t2) s)"
  show ?thesis unfolding t by (rule mock_inv_markExpired [OF assms(1) j])
next
  fix j j' assume j: "mockJob s i = Some j"
    and t: "transitionJob d t1 t2 i st p r s = mockPersist d (mockPut i j' s)"
    and j': "jb_ID j' = jb_ID j" "jb_Status j' = st" "jb_Progress j' = p" "\<forall>x. r = Some x \<longrightarrow> jb_Result j' = Some x"
  from assms j j' show ?thesis
    unfolding t by (intro mock_inv_put [OF assms(1)]) (auto simp: mock_inv_def mock_job_ok_def)
qed (simp add: assms(1))

lemma mock_inv_advance:
  assumes "mock_inv s" and "mockAdvance d t1 t2 i pc s = (pc', s')" and "pc \<noteq> Notify \<Longrightarrow> job_attended s i"
  shows "mock_inv s'"
proof (cases pc)
  case Run30
  with assms show ?thesis by (auto intro: mock_inv_transition)
next
  case Run70
  with assms show ?thesis by (auto intro: mock_inv_transition)
next
  case (Finish r)
  with assms show ?thesis by (auto intro: mock_inv_transition)
next
  case Notify
  with assms show ?thesis by (auto intro!: mock_inv_threads [OF assms(1)] simp: job_attended_def)
qed (use assms mock_inv_expire in auto)

lemma mock_inv_goroutine:
  assumes inv: "mock_inv s" and threads: "mk_threads s = ts @ (i, pc) # us"
    and adv: "mockAdvance d t1 t2 i pc s = (pc', s')"
  shows "mock_inv (s'\<lparr>mk_threads := ts @ (case pc' of None \<Rightarrow> [] | Some p \<Rightarrow> [(i, p)]) @ us\<rparr>)"
    (is "mock_inv ?s")
proof (rule mock_inv_threads)
  show "mock_inv s'"
    using inv adv by (rule mock_inv_advance) (auto simp: attended_split [OF threads])
  show "mockJob ?s = mockJob s'" by simp
  fix k j assume j: "mockJob s' k = Some j" "\<not> terminal (jb_Status j)" and a: "job_attended s' k"
  from advance_threads [OF adv] threads have "mk_threads s' = ts @ (i, pc) # us" by simp
  from a [unfolded attended_split [OF this]] show "job_attended ?s k"
  proof (elim disjE exE conjE)
    fix p assume "(k, p) \<in> set (ts @ us)" "p \<noteq> Notify"
    then show ?thesis by (auto simp: job_attended_def)
  next
    assume "k = i" "pc \<noteq> Notify"
    with advance_stops [OF adv] j obtain p where "pc' = Some p" "p \<noteq> Notify" by (cases pc') auto
    with \<open>k = i\<close> show ?thesis by (auto simp: job_attended_def)
  qed
qed

lemma mock_inv_spawn:
  assumes "mock_inv s" and "mk_threads s' = mk_threads s @ [(i, Expire1)]"
    and "mockJob s' = (mockJob s)(i \<mapsto> j)" and "jb_ID j = i" "jb_Status j = statusQueued"
  shows "mock_inv s'"
proof -
  have "mock_job_ok (job_attended s' k) k x" if "mockJob s' k = Some x" for k x
  proof (cases "k = i")
    case True
    with that assms show ?thesis by (auto simp: mock_job_ok_def job_attended_def)
  next
    case False
    with that assms(1,3) have "mock_job_ok (job_attended s k) k x" by (simp add: mock_inv_def)
    then show ?thesis by (rule mock_job_ok_mono) (use assms(2) in \<open>auto simp: job_attended_def\<close>)
  qed
  then show ?thesis by (simp add: mock_inv_def)
qed

lemma mock_inv_create:
  assumes "mock_inv s" and "mockCreate d now params req expert key h s = (j, s')"
  shows "mock_inv s'"
proof -
  let ?i = "job_id_text (mk_nextID s + 1)"
  have "mk_threads s' = mk_threads s @ [(?i, Expire1)]"
    "mockJob s' = (mockJob s)(?i \<mapsto> mockNewJob s params req expert now ?i)"
    using assms(2) by (auto simp: mockCreate_def Let_def)
  then show ?thesis by (rule mock_inv_spawn [OF assms(1)]) (simp_all add: mockNewJob_def)
qed

lemma mock_inv_submit:
  "mock_inv s \<Longrightarrow> mockSubmitLocked d now params rid req expert h s = (reply, s') \<Longrightarrow> mock_inv s'"
  by (auto simp: mockSubmitLocked_def Let_def split: if_splits option.splits prod.splits intro: mock_inv_create)

lemma scoped_stored: "mockScopedJob s i t p = Some j \<Longrightarrow> mockJob s i = Some j"
  by (auto simp: mockScopedJob_def split: option.splits if_splits)

lemma mock_inv_cancel:
  assumes "mock_inv s" and "mockCancelLocked d now i inst rid t p s = (reply, s')"
  shows "mock_inv s'"
proof -
  from assms(2) consider "s' = s"
    | j where "mockScopedJob s i t p = Some j"
        "s' = mockPersist d (mockPut i (j\<lparr>jb_Status := statusCanceled, jb_UpdatedAt := now\<rparr>) s)"
    by (auto simp: mockCancelLocked_def Let_def split: option.splits if_splits)
  then show ?thesis
  proof cases
    case 2
    from assms(1) scoped_stored [OF 2(1)] have "jb_ID j = i" by (auto simp: mock_inv_def mock_job_ok_def)
    then show ?thesis unfolding 2(2)
      by (intro mock_inv_put [OF assms(1), where i = i and
            j = "j\<lparr>jb_Status := statusCanceled, jb_UpdatedAt := now\<rparr>"]) (simp_all add: mock_job_ok_def)
  qed (simp add: assms(1))
qed

lemma mock_inv_replay:
  assumes "mock_inv s" and "mockReplayLocked d now i inst rid t p s = (reply, s')"
  shows "mock_inv s'"
proof -
  from assms(2) consider "s' = s"
    | j where "mockScopedJob s i t p = Some j"
        "s' = mockSpawn i (mockPersist d (mockPut i (j\<lparr>jb_Status := statusQueued, jb_Progress := 0,
            jb_Attempt := 1, jb_LastError := None, jb_UpdatedAt := now\<rparr>) s))"
    by (auto simp: mockReplayLocked_def Let_def split: option.splits if_splits)
  then show ?thesis
  proof cases
    case 2
    from assms(1) scoped_stored [OF 2(1)] have "jb_ID j = i" by (auto simp: mock_inv_def mock_job_ok_def)
    then show ?thesis unfolding 2(2)
      by (intro mock_inv_spawn [OF assms(1), where i = i and j = "j\<lparr>jb_Status := statusQueued,
            jb_Progress := 0, jb_Attempt := 1, jb_LastError := None, jb_UpdatedAt := now\<rparr>"]) simp_all
  qed (simp add: assms(1))
qed

lemma mock_inv_step: "mock_step d s s' \<Longrightarrow> mock_inv s \<Longrightarrow> mock_inv s'"
  by (induction rule: mock_step.induct)
    (auto intro: mock_inv_expire mock_inv_submit mock_inv_cancel mock_inv_replay mock_inv_goroutine)

lemma mock_inv_reach: "mock_reach d s0 s \<Longrightarrow> mock_inv s0 \<Longrightarrow> mock_inv s"
  by (induction rule: mock_reach.induct) (auto intro: mock_inv_step)


section \<open>The properties of the goroutines\<close>

text \<open>A goroutine alone, step by step, does what \<open>runMockJob\<close> does.\<close>

lemma threads_commute:
  "mockPersist d (s\<lparr>mk_threads := ts\<rparr>) = (mockPersist d s)\<lparr>mk_threads := ts\<rparr>"
  "mockPut i j (s\<lparr>mk_threads := ts\<rparr>) = (mockPut i j s)\<lparr>mk_threads := ts\<rparr>"
  "mockExpire d t1 i (s\<lparr>mk_threads := ts\<rparr>) = (mockExpire d t1 i s)\<lparr>mk_threads := ts\<rparr>"
  "transitionJob d t1 t2 i st p r (s\<lparr>mk_threads := ts\<rparr>) = (transitionJob d t1 t2 i st p r s)\<lparr>mk_threads := ts\<rparr>"
  "shouldSkip (s\<lparr>mk_threads := ts\<rparr>) = shouldSkip s"
  "mockNotify i (s\<lparr>mk_threads := ts\<rparr>) = (mockNotify i s)\<lparr>mk_threads := ts\<rparr>"
  by (simp_all add: mockPersist_def mockPut_def mockState_def mockExpire_def transitionJob_def shouldSkip_def
      mockNotify_def mockJob_def fun_eq_iff Let_def split: option.split)

lemma goroutine_step:
  assumes "mockAdvance d t1 t2 i pc s = (pc', s')"
  shows "mock_step d (s\<lparr>mk_threads := ts @ (i, pc) # us\<rparr>)
    (s'\<lparr>mk_threads := ts @ (case pc' of None \<Rightarrow> [] | Some p \<Rightarrow> [(i, p)]) @ us\<rparr>)"
proof -
  have "mockAdvance d t1 t2 i pc (s\<lparr>mk_threads := xs\<rparr>) = (pc', s'\<lparr>mk_threads := xs\<rparr>)" for xs
    using assms by (cases pc) (auto simp: threads_commute)
  from mock_step.goroutine [OF _ this, of "ts @ (i, pc) # us" ts us] show ?thesis by simp
qed

lemma goroutine_steps:
  "mockAdvance d t1 t2 i pc s = (Some p, s') \<Longrightarrow>
     (mock_step d)\<^sup>*\<^sup>* (s'\<lparr>mk_threads := ts @ (i, p) # us\<rparr>) s'' \<Longrightarrow>
     (mock_step d)\<^sup>*\<^sup>* (s\<lparr>mk_threads := ts @ (i, pc) # us\<rparr>) s''"
  using goroutine_step [of d t1 t2 i pc s "Some p" s' ts us]
  by (simp add: converse_rtranclp_into_rtranclp)

lemma goroutine_ends:
  "mockAdvance d t1 t2 i pc s = (None, s') \<Longrightarrow>
     (mock_step d)\<^sup>*\<^sup>* (s\<lparr>mk_threads := ts @ (i, pc) # us\<rparr>) (s'\<lparr>mk_threads := ts @ us\<rparr>)"
  using goroutine_step [of d t1 t2 i pc s None s' ts us] by simp

lemma mock_run_steps:
  "(mock_step d)\<^sup>*\<^sup>* (s\<lparr>mk_threads := ts @ (i, Expire1) # us\<rparr>)
     ((runMockJob d clk i s)\<lparr>mk_threads := ts @ us\<rparr>)"
proof -
  let ?s1 = "mockExpire d (clk 0) i s"
  let ?s2 = "transitionJob d (clk 1) (clk 2) i statusRunning 30 None ?s1"
  let ?s3 = "mockExpire d (clk 3) i ?s2"
  let ?s4 = "transitionJob d (clk 4) (clk 5) i statusRunning 70 None ?s3"
  note step = goroutine_steps goroutine_ends
  show ?thesis
  proof (cases "shouldSkip ?s1 i")
    case True
    then have r: "runMockJob d clk i s = ?s1" by (simp add: runMockJob_def)
    show ?thesis unfolding r
      by (rule step(1) [of d "clk 0" 0], simp del: One_nat_def, rule step(2) [of d 0 0]) (simp add: True)
  next
    case go1: False
    show ?thesis
    proof (cases "shouldSkip ?s3 i")
      case True
      with go1 have r: "runMockJob d clk i s = ?s3" by (simp add: runMockJob_def Let_def)
      show ?thesis unfolding r
        by (rule step(1) [of d "clk 0" 0], simp del: One_nat_def, rule step(1) [of d 0 0], simp add: go1 del: One_nat_def,
            rule step(1) [of d "clk 1" "clk 2"], simp del: One_nat_def, rule step(1) [of d "clk 3" 0], simp del: One_nat_def,
            rule step(2) [of d 0 0]) (simp add: True del: One_nat_def)
    next
      case go2: False
      have to_build: "(mock_step d)\<^sup>*\<^sup>* (?s4\<lparr>mk_threads := ts @ (i, Build) # us\<rparr>) s' \<Longrightarrow>
          (mock_step d)\<^sup>*\<^sup>* (s\<lparr>mk_threads := ts @ (i, Expire1) # us\<rparr>) s'" for s'
        by (rule step(1) [of d "clk 0" 0], simp del: One_nat_def, rule step(1) [of d 0 0], simp add: go1 del: One_nat_def,
            rule step(1) [of d "clk 1" "clk 2"], simp del: One_nat_def, rule step(1) [of d "clk 3" 0], simp del: One_nat_def,
            rule step(1) [of d 0 0], simp add: go2 del: One_nat_def,
            rule step(1) [of d "clk 4" "clk 5"], simp del: One_nat_def)
      show ?thesis
      proof (cases "mockJob ?s4 i")
        case None
        with go1 go2 have r: "runMockJob d clk i s = ?s4" by (simp add: runMockJob_def Let_def)
        show ?thesis unfolding r
          by (rule to_build, rule step(2) [of d 0 0]) (simp add: None del: One_nat_def)
      next
        case (Some j)
        let ?r = "mockResult (clk 6) j"
        from go1 go2 Some have r: "runMockJob d clk i s
            = mockNotify i (transitionJob d (clk 7) (clk 8) i statusSucceeded 100 (Some ?r) ?s4)"
          by (simp add: runMockJob_def Let_def)
        show ?thesis unfolding r
          by (rule to_build, rule step(1) [of d "clk 6" 0 _ _ _ "Finish ?r"], simp add: Some del: One_nat_def,
              rule step(1) [of d "clk 7" "clk 8"], simp del: One_nat_def, rule step(2) [of d 0 0]) simp
      qed
    qed
  qed
qed

text \<open>How far a goroutine has to go.\<close>

fun pc_rank :: "mock_pc \<Rightarrow> nat" where
  "pc_rank Expire1 = 8"
| "pc_rank Check1 = 7"
| "pc_rank Run30 = 6"
| "pc_rank Expire2 = 5"
| "pc_rank Check2 = 4"
| "pc_rank Run70 = 3"
| "pc_rank Build = 2"
| "pc_rank (Finish r) = 1"
| "pc_rank Notify = 0"

lemma advance_rank: "mockAdvance d t1 t2 i pc s = (Some p, s') \<Longrightarrow> pc_rank p < pc_rank pc"
  by (cases pc) (auto split: if_splits)

lemma advance_keeps_job:
  "mockAdvance d t1 t2 i pc s = (pc', s') \<Longrightarrow> mockJob s i \<noteq> None \<Longrightarrow> mockJob s' i \<noteq> None"
  by (cases pc) (auto simp: mockExpire_def transitionJob_def Let_def split: option.splits if_splits)

lemma goroutine_finishes:
  assumes "mockJob s i \<noteq> None" and "pc \<noteq> Notify"
  shows "\<exists>s'. (mock_step d)\<^sup>*\<^sup>* (s\<lparr>mk_threads := ts @ (i, pc) # us\<rparr>) s' \<and>
    (\<exists>j. mockJob s' i = Some j \<and> terminal (jb_Status j))"
  using assms
proof (induction "pc_rank pc" arbitrary: pc s rule: less_induct)
  case less
  obtain pc' s' where adv: "mockAdvance d 0 0 i pc s = (pc', s')" by fastforce
  from advance_keeps_job [OF this less(2)] obtain j where j: "mockJob s' i = Some j" by auto
  show ?case
  proof (cases "pc' = None \<or> pc' = Some Notify")
    case True
    with advance_stops [OF adv less(3) _ j] have "terminal (jb_Status j)" by blast
    with j goroutine_step [OF adv, of ts us] show ?thesis
      by (intro exI [of _ "s'\<lparr>mk_threads := ts @ (case pc' of None \<Rightarrow> [] | Some p \<Rightarrow> [(i, p)]) @ us\<rparr>"]) auto
  next
    case False
    then obtain p where p: "pc' = Some p" "p \<noteq> Notify" by (cases pc') auto
    from less(1) [OF advance_rank [OF adv [unfolded p(1)]] _ p(2), of s'] j
    show ?thesis using goroutine_steps [OF adv [unfolded p(1)]] by blast
  qed
qed

lemma mock_start_inv:
  "load store = Inr emptyState \<Longrightarrow> mock_inv (NewMockServer load [WithProcessDelay delay] snapshot store)"
  by (simp add: mock_inv_def NewMockServer_def mockLoadState_def WithProcessDelay_def mockJob_def emptyState_def
      Let_def ranged_def mmap_def)

text \<open>
  C24. From a start with an empty store, whatever handlers and goroutines do in whatever order: a job
  is stored under its id; one that is neither finished nor canceled nor expired has a goroutine that
  still works on it, from which it can be brought to a terminal status; and one that succeeded has
  its result and full progress.
\<close>

theorem mock_jobs_attended:
  assumes "load store = Inr emptyState"
    and "mock_reach d (NewMockServer load [WithProcessDelay delay] snapshot store) s"
    and "mockJob s i = Some j"
  shows "jb_ID j = i \<and>
    (terminal (jb_Status j) \<or> job_attended s i \<and>
      (\<exists>s'. (mock_step d)\<^sup>*\<^sup>* s s' \<and> (\<exists>j'. mockJob s' i = Some j' \<and> terminal (jb_Status j')))) \<and>
    (jb_Status j = statusSucceeded \<longrightarrow> jb_Result j \<noteq> None \<and> jb_Progress j = 100)"
proof -
  have "mock_inv (NewMockServer load [WithProcessDelay delay] snapshot store)"
    using assms(1) by (rule mock_start_inv)
  from mock_inv_reach [OF assms(2) this] assms(3)
  have ok: "mock_job_ok (job_attended s i) i j" by (simp add: mock_inv_def)
  moreover have "\<exists>s'. (mock_step d)\<^sup>*\<^sup>* s s' \<and> (\<exists>j'. mockJob s' i = Some j' \<and> terminal (jb_Status j'))"
    if "job_attended s i"
  proof -
    from that obtain pc ts us where "mk_threads s = ts @ (i, pc) # us" "pc \<noteq> Notify"
      by (auto simp: job_attended_def in_set_conv_decomp)
    with goroutine_finishes [of s i pc d ts us] assms(3) show ?thesis by (metis MockServer.surjective
        MockServer.update_convs(9) option.distinct(1))
  qed
  ultimately show ?thesis by (auto simp: mock_job_ok_def)
qed

text \<open>
  A job that is canceled while its goroutine is about to finish stays canceled, but its callback
  is told that it succeeded.
\<close>

theorem mock_canceled_still_notified:
  assumes "mockJob s i = Some j" and "jb_Status j = statusCanceled"
    and "cloneCallbackConfig (jb_Callback j) = Some cb" and "(i, Finish r) \<in> set (mk_threads s)"
  shows "\<exists>s'. (mock_step d)\<^sup>*\<^sup>* s s' \<and> mockJob s' i = Some j \<and> (i, cb) \<in> set (mk_webhooks s')"
proof -
  from assms(4) obtain ts us where ts: "mk_threads s = ts @ (i, Finish r) # us"
    by (auto simp: in_set_conv_decomp)
  have t: "transitionJob d 0 0 i statusSucceeded 100 (Some r) s = s"
    using assms(1,2) by (simp add: transitionJob_def)
  have "(mock_step d)\<^sup>*\<^sup>* (s\<lparr>mk_threads := ts @ (i, Finish r) # us\<rparr>) ((mockNotify i s)\<lparr>mk_threads := ts @ us\<rparr>)"
    by (rule goroutine_steps [of d 0 0], simp add: t, rule goroutine_ends [of d 0 0]) simp
  moreover have "s\<lparr>mk_threads := ts @ (i, Finish r) # us\<rparr> = s" by (simp add: ts [symmetric])
  moreover have "(i, cb) \<in> set (mk_webhooks (mockNotify i s))"
    using assms(1,3) by (simp add: mockNotify_webhooks)
  ultimately show ?thesis using assms(1) by (intro exI [of _ "(mockNotify i s)\<lparr>mk_threads := ts @ us\<rparr>"]) simp
qed

text \<open>
  A restart of the mock worker starts no goroutine: a job that was queued or running when the
  state was saved is loaded with its status and nothing works on it.
\<close>

theorem mock_restart_stalls:
  assumes "load store = Inr (mockState s)" and "mockJob s i = Some j" and "\<not> terminal (jb_Status j)"
  shows "\<exists>j'. mockJob (NewMockServer load [WithProcessDelay delay] snapshot store) i = Some j' \<and>
    jb_Status j' = jb_Status j \<and> \<not> job_attended (NewMockServer load [WithProcessDelay delay] snapshot store) i"
  using assms
  by (simp add: NewMockServer_def mockLoadState_def WithProcessDelay_def mockState_def mockJob_def ranged_def
      Let_def mockRestore_def storedJob_def job_attended_def)


section \<open>A run\<close>

definition demoMockDeps :: "unit mockDeps" where
  "demoMockDeps = \<lparr>md_Save = nopStore_Save, md_deliveryRead = None,
     md_marshal = (\<lambda>req. Some (sreq_Date req)), md_sha256 = id\<rparr>"

definition demoMockStart :: "unit MockServer" where
  "demoMockStart = NewMockServer (\<lambda>_. Inr emptyState) [WithProcessDelay 0] None ()"

definition demoMock :: "unit MockServer" where
  "demoMock = snd (mockSubmitLocked demoMockDeps 0 demoParams ''r'' demoReq demoExpert ''h'' demoMockStart)"

lemma demo_mock_newJob: "mockNewJob demoMockStart demoParams demoReq demoExpert 0 ''job_1'' = demoJob"
  by (simp add: mockNewJob_def demoMockStart_def NewMockServer_def mockLoadState_def WithProcessDelay_def
      demoParams_def demoReq_def demoExpert_def demoJob_def submit_name_def submit_type_def ptrValue_def
      cloneCallbackConfig_def Let_def)

lemma demo_mock_start:
  "mk_jobs demoMockStart = []" "mk_idem demoMockStart = []" "mk_nextID demoMockStart = 0"
  "mk_threads demoMockStart = []" "mk_webhooks demoMockStart = []"
  by (simp_all add: demoMockStart_def NewMockServer_def mockLoadState_def emptyState_def ranged_def mmap_def
      WithProcessDelay_def Let_def)

lemma demo_mock_create:
  "demoMock = snd (mockCreate demoMockDeps 0 demoParams demoReq demoExpert ''t::p::k'' ''h'' demoMockStart)"
proof -
  have trims: "TrimSpace (sp_XTenantId demoParams) = ''t''" "TrimSpace (sp_XProjectId demoParams) = ''p''"
    "sp_IdempotencyKey demoParams = ''k''"
    by (simp_all add: demoParams_def)
  have "mget (mk_idem demoMockStart) ''t::p::k'' = None" by (simp add: demo_mock_start)
  then show ?thesis by (simp add: demoMock_def mockSubmitLocked_def trims Let_def case_prod_beta)
qed

lemma demo_mock_fields:
  "mockJob demoMock = [''job_1'' \<mapsto> demoJob]" "mk_threads demoMock = [(''job_1'', Expire1)]"
  "mk_webhooks demoMock = []"
  using job_id_text_1
  by (simp_all add: demo_mock_create mockCreate_def Let_def demo_mock_start demo_mock_newJob)
    (simp add: fun_eq_iff mockJob_def demo_mock_start)

lemma demo_mock_reach: "mock_reach demoMockDeps demoMockStart demoMock"
proof -
  obtain reply s where r: "mockSubmitLocked demoMockDeps 0 demoParams ''r'' demoReq demoExpert ''h'' demoMockStart
      = (reply, s)" by fastforce
  then have "s = demoMock" by (simp add: demoMock_def)
  with r show ?thesis by (blast intro: mock_reach.intros mock_step.submit)
qed

theorem mock_answers_as_orchestrator_witness:
  "map_prod id mockView (mockCancelJob demoMockDeps 0 0 0
      \<lparr>jp_XRequestId = ''r'', jp_JobID = ''job_1'', jp_XTenantId = ''t'', jp_XProjectId = ''p''\<rparr> demoMock)
   = CancelJob (viewDeps demoMockDeps) 0 0 0
      \<lparr>jp_XRequestId = ''r'', jp_JobID = ''job_1'', jp_XTenantId = ''t'', jp_XProjectId = ''p''\<rparr> (mockView demoMock)"
proof -
  have "mock_keyed demoMock" by (simp add: mock_keyed_def demo_mock_fields demoJob_def)
  from mock_answers_as_orchestrator [OF this] show ?thesis by blast
qed

theorem mock_job_succeeds_witness:
  "\<exists>j. mockJob (runMockJob demoMockDeps (\<lambda>n. 0) ''job_1'' demoMock) ''job_1'' = Some j \<and>
     jb_Status j = statusSucceeded \<and> jb_Result j = Some (mockResult 0 demoJob) \<and>
     mk_webhooks (runMockJob demoMockDeps (\<lambda>n. 0) ''job_1'' demoMock) = []"
proof -
  have "mockJob demoMock ''job_1'' = Some demoJob" by (simp add: demo_mock_fields)
  from mock_job_succeeds [OF this, of "\<lambda>n. 0" demoMockDeps] show ?thesis
    by (simp add: demo_mock_fields) (simp add: demoJob_def isExpired_def After_def nsPerMinute_def nsPerSecond_def
        cloneCallbackConfig_def)
qed

theorem mock_jobs_attended_witness:
  "job_attended demoMock ''job_1'' \<and>
   (\<exists>s'. (mock_step demoMockDeps)\<^sup>*\<^sup>* demoMock s' \<and>
      (\<exists>j. mockJob s' ''job_1'' = Some j \<and> terminal (jb_Status j)))"
proof -
  have j: "mockJob demoMock ''job_1'' = Some demoJob" by (simp add: demo_mock_fields)
  have "\<not> terminal (jb_Status demoJob)" by (simp add: demoJob_def)
  with mock_jobs_attended [OF _ demo_mock_reach [unfolded demoMockStart_def] j] show ?thesis by simp
qed

theorem mock_canceled_still_notified_witness:
  "\<exists>(s :: unit MockServer) j. jb_Status j = statusCanceled \<and> mockJob s ''job_1'' = Some j \<and>
     (''job_1'', \<lparr>cb_Url = ''http://cb'', cb_Signing = None\<rparr>) \<in> set (mk_webhooks s)"
proof -
  let ?j = "demoJob\<lparr>jb_Status := statusCanceled, jb_Callback := Some \<lparr>cb_Url = ''http://cb'', cb_Signing = None\<rparr>\<rparr>"
  let ?s = "demoMock\<lparr>mk_jobs := [(''job_1'', ?j)], mk_threads := [(''job_1'', Finish (mockResult 0 demoJob))]\<rparr>"
  have "TrimSpace ''http://cb'' = ''http://cb''" by (simp add: TrimSpace_visible visible_def)
  then have "cloneCallbackConfig (jb_Callback ?j) = Some \<lparr>cb_Url = ''http://cb'', cb_Signing = None\<rparr>"
    by (simp add: cloneCallbackConfig_def)
  moreover have "mockJob ?s ''job_1'' = Some ?j" by (simp add: mockJob_def mget_def)
  ultimately obtain s' where "(mock_step demoMockDeps)\<^sup>*\<^sup>* ?s s'" "mockJob s' ''job_1'' = Some ?j"
    "(''job_1'', \<lparr>cb_Url = ''http://cb'', cb_Signing = None\<rparr>) \<in> set (mk_webhooks s')"
    using mock_canceled_still_notified [of ?s "''job_1''" ?j _ "mockResult 0 demoJob" demoMockDeps] by auto
  then show ?thesis by (intro exI [of _ s'] exI [of _ ?j]) simp
qed

theorem mock_restart_stalls_witness:
  "\<exists>j. mockJob (NewMockServer (\<lambda>_. Inr (mockState demoMock)) [WithProcessDelay 0] None ()) ''job_1'' = Some j \<and>
     jb_Status j = statusQueued \<and>
     \<not> job_attended (NewMockServer (\<lambda>_. Inr (mockState demoMock)) [WithProcessDelay 0] None ()) ''job_1''"
proof -
  have j: "mockJob demoMock ''job_1'' = Some demoJob" by (simp add: demo_mock_fields)
  have st: "jb_Status demoJob = statusQueued" by (simp add: demoJob_def)
  then have t: "\<not> terminal (jb_Status demoJob)" by simp
  have load: "(\<lambda>_. Inr (mockState demoMock)) () = Inr (mockState demoMock)" ..
  from mock_restart_stalls [where load = "\<lambda>_. Inr (mockState demoMock)" and store = "()", OF load j t]
  show ?thesis unfolding st .
qed

end
