(* ===== verification/Sdk_Client.thy ===== *)
theory Sdk_Client
  imports Orch_Http Agent_Pool
begin

text \<open>
  The Go SDK (\<open>sdk/go/cova\<close>): the client of the Assistant API (\<open>client_gen.go\<close>), the adapters on it
  (\<open>assistant_adapter.go\<close>, \<open>coco_adapter.go\<close>, \<open>openclaw_adapter.go\<close>) and the agent's side of a
  workspace connection (\<open>workspace_client.go\<close>).

  JSON, URLs, the HTTP client and the WebSocket are parameters.  A call gives one of the three
  results the Go methods return: a decoded response, a problem, or an error.
\<close>

section \<open>The client\<close>

record Client =
  cl_BaseURL :: string
  cl_Token :: string

text \<open>
  What the client calls: \<open>json.Marshal\<close> of the two requests, \<open>http.NewRequestWithContext\<close> (the error
  for a method and a URL), the exchange (an error, or the status and the body or an error of
  reading it), and \<open>json.Unmarshal\<close> into the problem and the six responses.
\<close>

record clientEnv =
  ce_marshalSubmit :: "SubmitBriefRequest \<Rightarrow> string + string"
  ce_marshalQuery :: "QueryRequest \<Rightarrow> string + string"
  ce_build :: "string \<Rightarrow> string \<Rightarrow> string option"
  ce_do :: "string \<Rightarrow> string \<Rightarrow> Header \<Rightarrow> string option \<Rightarrow> string + int \<times> (string + string)"
  ce_problem :: "string \<Rightarrow> Problem option"
  ce_submitted :: "string \<Rightarrow> string + SubmitBriefResponse"
  ce_status :: "string \<Rightarrow> string + JobStatusResponse"
  ce_result :: "string \<Rightarrow> string + JobResultResponse"
  ce_deliveries :: "string \<Rightarrow> string + JobDeliveriesResponse"
  ce_answer :: "string \<Rightarrow> string + QueryResponse"
  ce_experts :: "string \<Rightarrow> string + ExpertCapabilitiesResponse"

datatype 'a call_result = CallOk 'a | CallProblem Problem | CallFailed string

definition WithBearerToken :: "string \<Rightarrow> Client \<Rightarrow> Client" where
  "WithBearerToken token c = c\<lparr>cl_Token := token\<rparr>"

text \<open>\<open>parse\<close> is \<open>url.Parse\<close> followed by \<open>String\<close>.\<close>

definition NewClient :: "(string \<Rightarrow> string + string) \<Rightarrow> string \<Rightarrow> (Client \<Rightarrow> Client) list \<Rightarrow> string + Client" where
  "NewClient parse baseURL0 opts =
     (let baseURL = TrimSpace baseURL0
      in if baseURL = [] then Inl ''baseURL is required''
         else (case parse baseURL of
                 Inl err \<Rightarrow> Inl (''invalid baseURL: '' @ err)
               | Inr u \<Rightarrow> Inr (foldl (\<lambda>c opt. opt c)
                   \<lparr>cl_BaseURL = TrimRightChar (CHR ''/'') u, cl_Token = []\<rparr> opts)))"

text \<open>The headers of a request; the map that is ranged over has each key once.\<close>

definition clientHeaders :: "Client \<Rightarrow> bool \<Rightarrow> (string \<times> string) list \<Rightarrow> Header" where
  "clientHeaders c hasBody headers =
     (let h1 = (if hasBody then hSet ''Content-Type'' ''application/json'' [] else []);
          h2 = hSet ''Accept'' ''application/json, application/problem+json'' h1;
          h3 = (if cl_Token c \<noteq> [] then hSet ''Authorization'' (''Bearer '' @ cl_Token c) h2 else h2)
      in foldl (\<lambda>h (k, v). if TrimSpace v \<noteq> [] then hSet k v h else h) h3 headers)"

definition doJSON ::
  "clientEnv \<Rightarrow> Client \<Rightarrow> string \<Rightarrow> string \<Rightarrow> (string + string) option \<Rightarrow> (string \<times> string) list \<Rightarrow>
   string + int \<times> string \<times> Problem option" where
  "doJSON e c m path reqBody headers =
     (case reqBody of
        Some (Inl err) \<Rightarrow> Inl (''encode request body: '' @ err)
      | _ \<Rightarrow>
          (let body = map_option projr reqBody
           in case ce_build e m (cl_BaseURL c @ path) of
                Some err \<Rightarrow> Inl (''build request: '' @ err)
              | None \<Rightarrow>
             (case ce_do e m (cl_BaseURL c @ path) (clientHeaders c (body \<noteq> None) headers) body of
                Inl err \<Rightarrow> Inl (''send request: '' @ err)
              | Inr (status, Inl err) \<Rightarrow> Inl (''read response body: '' @ err)
              | Inr (status, Inr respBody) \<Rightarrow>
                  Inr (status, respBody,
                    (if 400 \<le> status
                     then (case ce_problem e respBody of
                             Some p \<Rightarrow> if TrimSpace (pb_Title p) \<noteq> [] then Some p else None
                           | None \<Rightarrow> None)
                     else None)))))"

text \<open>What every method does with the result of \<open>doJSON\<close>; \<open>ok\<close> is the status of its operation.\<close>

definition callResult ::
  "int \<Rightarrow> (string \<Rightarrow> string + 'a) \<Rightarrow> string + int \<times> string \<times> Problem option \<Rightarrow> 'a call_result" where
  "callResult ok decode r =
     (case r of
        Inl err \<Rightarrow> CallFailed err
      | Inr (status, body, prob) \<Rightarrow>
          if status = ok
          then (case decode body of
                  Inl err \<Rightarrow> CallFailed (''decode success response: '' @ err)
                | Inr outBody \<Rightarrow> CallOk outBody)
          else (case prob of
                  Some p \<Rightarrow> CallProblem p
                | None \<Rightarrow> CallFailed (''unexpected status code: '' @ dec_int status)))"

definition idHeader :: "string \<Rightarrow> (string \<times> string) list" where
  "idHeader requestID = (if requestID \<noteq> [] then [(''X-Request-Id'', requestID)] else [])"

definition Client_SubmitBriefJob ::
  "clientEnv \<Rightarrow> Client \<Rightarrow> SubmitBriefRequest \<Rightarrow> string \<Rightarrow> string \<Rightarrow> string \<Rightarrow> string \<Rightarrow>
   SubmitBriefResponse call_result" where
  "Client_SubmitBriefJob e c req requestID idempotencyKey xTenantId xProjectId =
     callResult StatusAccepted (ce_submitted e)
       (doJSON e c ''POST'' ''/v1/assistant/jobs'' (Some (ce_marshalSubmit e req))
         (idHeader requestID @
          (if idempotencyKey \<noteq> [] then [(''Idempotency-Key'', idempotencyKey)] else [])))"

definition Client_GetJobStatus ::
  "clientEnv \<Rightarrow> Client \<Rightarrow> string \<Rightarrow> string \<Rightarrow> string \<Rightarrow> string \<Rightarrow> JobStatusResponse call_result" where
  "Client_GetJobStatus e c jobID requestID xTenantId xProjectId =
     callResult StatusOK (ce_status e)
       (doJSON e c ''GET'' (''/v1/assistant/jobs/'' @ jobID) None (idHeader requestID))"

definition Client_GetJobResult ::
  "clientEnv \<Rightarrow> Client \<Rightarrow> string \<Rightarrow> string \<Rightarrow> string \<Rightarrow> string \<Rightarrow> JobResultResponse call_result" where
  "Client_GetJobResult e c jobID requestID xTenantId xProjectId =
     callResult StatusOK (ce_result e)
       (doJSON e c ''GET'' (''/v1/assistant/jobs/'' @ jobID @ ''/result'') None (idHeader requestID))"

definition Client_GetJobDeliveries ::
  "clientEnv \<Rightarrow> Client \<Rightarrow> string \<Rightarrow> string \<Rightarrow> string \<Rightarrow> string \<Rightarrow> JobDeliveriesResponse call_result" where
  "Client_GetJobDeliveries e c jobID requestID xTenantId xProjectId =
     callResult StatusOK (ce_deliveries e)
       (doJSON e c ''GET'' (''/v1/assistant/jobs/'' @ jobID @ ''/deliveries'') None (idHeader requestID))"

definition Client_CancelJob ::
  "clientEnv \<Rightarrow> Client \<Rightarrow> string \<Rightarrow> string \<Rightarrow> string \<Rightarrow> string \<Rightarrow> JobStatusResponse call_result" where
  "Client_CancelJob e c jobID requestID xTenantId xProjectId =
     callResult StatusAccepted (ce_status e)
       (doJSON e c ''POST'' (''/v1/assistant/jobs/'' @ jobID @ ''/cancel'') None (idHeader requestID))"

definition Client_ReplayJob ::
  "clientEnv \<Rightarrow> Client \<Rightarrow> string \<Rightarrow> string \<Rightarrow> string \<Rightarrow> string \<Rightarrow> JobStatusResponse call_result" where
  "Client_ReplayJob e c jobID requestID xTenantId xProjectId =
     callResult StatusAccepted (ce_status e)
       (doJSON e c ''POST'' (''/v1/assistant/jobs/'' @ jobID @ ''/replay'') None (idHeader requestID))"

definition Client_QueryExpert ::
  "clientEnv \<Rightarrow> Client \<Rightarrow> QueryRequest \<Rightarrow> string \<Rightarrow> string \<Rightarrow> string \<Rightarrow> QueryResponse call_result" where
  "Client_QueryExpert e c req requestID xTenantId xProjectId =
     callResult StatusOK (ce_answer e)
       (doJSON e c ''POST'' ''/v1/assistant/query'' (Some (ce_marshalQuery e req)) (idHeader requestID))"

definition Client_GetExpertCapabilities ::
  "clientEnv \<Rightarrow> Client \<Rightarrow> string \<Rightarrow> string \<Rightarrow> string \<Rightarrow> ExpertCapabilitiesResponse call_result" where
  "Client_GetExpertCapabilities e c requestID xTenantId xProjectId =
     callResult StatusOK (ce_experts e)
       (doJSON e c ''GET'' ''/v1/assistant/experts'' None (idHeader requestID))"


section \<open>The adapters\<close>

record AdapterMeta =
  am_TenantID :: string
  am_ProjectID :: string
  am_RequestID :: string
  am_IdempotencyKey :: string

definition meta_validate :: "AdapterMeta \<Rightarrow> string option" where
  "meta_validate m =
     (if TrimSpace (am_TenantID m) = [] then Some ''tenant_id is required''
      else if TrimSpace (am_ProjectID m) = [] then Some ''project_id is required''
      else None)"

definition Coco_SubmitBrief ::
  "clientEnv \<Rightarrow> Client \<Rightarrow> SubmitBriefRequest \<Rightarrow> AdapterMeta \<Rightarrow> SubmitBriefResponse call_result" where
  "Coco_SubmitBrief e a req meta =
     (case meta_validate meta of Some err \<Rightarrow> CallFailed err
      | None \<Rightarrow> Client_SubmitBriefJob e a req (am_RequestID meta) (am_IdempotencyKey meta)
          (am_TenantID meta) (am_ProjectID meta))"

definition Coco_GetJobStatus ::
  "clientEnv \<Rightarrow> Client \<Rightarrow> string \<Rightarrow> AdapterMeta \<Rightarrow> JobStatusResponse call_result" where
  "Coco_GetJobStatus e a jobID meta =
     (case meta_validate meta of Some err \<Rightarrow> CallFailed err
      | None \<Rightarrow> Client_GetJobStatus e a jobID (am_RequestID meta) (am_TenantID meta) (am_ProjectID meta))"

definition Coco_GetJobResult ::
  "clientEnv \<Rightarrow> Client \<Rightarrow> string \<Rightarrow> AdapterMeta \<Rightarrow> JobResultResponse call_result" where
  "Coco_GetJobResult e a jobID meta =
     (case meta_validate meta of Some err \<Rightarrow> CallFailed err
      | None \<Rightarrow> Client_GetJobResult e a jobID (am_RequestID meta) (am_TenantID meta) (am_ProjectID meta))"

definition Coco_CancelJob ::
  "clientEnv \<Rightarrow> Client \<Rightarrow> string \<Rightarrow> AdapterMeta \<Rightarrow> JobStatusResponse call_result" where
  "Coco_CancelJob e a jobID meta =
     (case meta_validate meta of Some err \<Rightarrow> CallFailed err
      | None \<Rightarrow> Client_CancelJob e a jobID (am_RequestID meta) (am_TenantID meta) (am_ProjectID meta))"

definition Coco_ReplayJob ::
  "clientEnv \<Rightarrow> Client \<Rightarrow> string \<Rightarrow> AdapterMeta \<Rightarrow> JobStatusResponse call_result" where
  "Coco_ReplayJob e a jobID meta =
     (case meta_validate meta of Some err \<Rightarrow> CallFailed err
      | None \<Rightarrow> Client_ReplayJob e a jobID (am_RequestID meta) (am_TenantID meta) (am_ProjectID meta))"

definition Coco_Query ::
  "clientEnv \<Rightarrow> Client \<Rightarrow> QueryRequest \<Rightarrow> AdapterMeta \<Rightarrow> QueryResponse call_result" where
  "Coco_Query e a req meta =
     (case meta_validate meta of Some err \<Rightarrow> CallFailed err
      | None \<Rightarrow> Client_QueryExpert e a req (am_RequestID meta) (am_TenantID meta) (am_ProjectID meta))"

definition Coco_ListExperts ::
  "clientEnv \<Rightarrow> Client \<Rightarrow> AdapterMeta \<Rightarrow> ExpertCapabilitiesResponse call_result" where
  "Coco_ListExperts e a meta =
     (case meta_validate meta of Some err \<Rightarrow> CallFailed err
      | None \<Rightarrow> Client_GetExpertCapabilities e a (am_RequestID meta) (am_TenantID meta) (am_ProjectID meta))"

definition OpenClaw_SubmitBrief ::
  "clientEnv \<Rightarrow> Client \<Rightarrow> SubmitBriefRequest \<Rightarrow> AdapterMeta \<Rightarrow> SubmitBriefResponse call_result" where
  "OpenClaw_SubmitBrief e a req meta =
     (case meta_validate meta of Some err \<Rightarrow> CallFailed err
      | None \<Rightarrow> Client_SubmitBriefJob e a req (am_RequestID meta) (am_IdempotencyKey meta)
          (am_TenantID meta) (am_ProjectID meta))"

definition OpenClaw_GetJobStatus ::
  "clientEnv \<Rightarrow> Client \<Rightarrow> string \<Rightarrow> AdapterMeta \<Rightarrow> JobStatusResponse call_result" where
  "OpenClaw_GetJobStatus e a jobID meta =
     (case meta_validate meta of Some err \<Rightarrow> CallFailed err
      | None \<Rightarrow> Client_GetJobStatus e a jobID (am_RequestID meta) (am_TenantID meta) (am_ProjectID meta))"

definition OpenClaw_GetJobResult ::
  "clientEnv \<Rightarrow> Client \<Rightarrow> string \<Rightarrow> AdapterMeta \<Rightarrow> JobResultResponse call_result" where
  "OpenClaw_GetJobResult e a jobID meta =
     (case meta_validate meta of Some err \<Rightarrow> CallFailed err
      | None \<Rightarrow> Client_GetJobResult e a jobID (am_RequestID meta) (am_TenantID meta) (am_ProjectID meta))"

definition OpenClaw_CancelJob ::
  "clientEnv \<Rightarrow> Client \<Rightarrow> string \<Rightarrow> AdapterMeta \<Rightarrow> JobStatusResponse call_result" where
  "OpenClaw_CancelJob e a jobID meta =
     (case meta_validate meta of Some err \<Rightarrow> CallFailed err
      | None \<Rightarrow> Client_CancelJob e a jobID (am_RequestID meta) (am_TenantID meta) (am_ProjectID meta))"

definition OpenClaw_ReplayJob ::
  "clientEnv \<Rightarrow> Client \<Rightarrow> string \<Rightarrow> AdapterMeta \<Rightarrow> JobStatusResponse call_result" where
  "OpenClaw_ReplayJob e a jobID meta =
     (case meta_validate meta of Some err \<Rightarrow> CallFailed err
      | None \<Rightarrow> Client_ReplayJob e a jobID (am_RequestID meta) (am_TenantID meta) (am_ProjectID meta))"

definition OpenClaw_Query ::
  "clientEnv \<Rightarrow> Client \<Rightarrow> QueryRequest \<Rightarrow> AdapterMeta \<Rightarrow> QueryResponse call_result" where
  "OpenClaw_Query e a req meta =
     (case meta_validate meta of Some err \<Rightarrow> CallFailed err
      | None \<Rightarrow> Client_QueryExpert e a req (am_RequestID meta) (am_TenantID meta) (am_ProjectID meta))"

definition OpenClaw_ListExperts ::
  "clientEnv \<Rightarrow> Client \<Rightarrow> AdapterMeta \<Rightarrow> ExpertCapabilitiesResponse call_result" where
  "OpenClaw_ListExperts e a meta =
     (case meta_validate meta of Some err \<Rightarrow> CallFailed err
      | None \<Rightarrow> Client_GetExpertCapabilities e a (am_RequestID meta) (am_TenantID meta) (am_ProjectID meta))"


section \<open>The agent's side of a workspace\<close>

text \<open>
  The SDK declares the messages of the connection itself, with the fields and JSON names of
  \<open>internal/agent/types.go\<close>; the theory takes the server's records for them.  A connection is what
  the dialer returned; of the channel \<open>done\<close> it is kept whether it is closed.
\<close>

record WorkspaceConfig =
  wf_ServerURL :: string
  wf_AgentID :: string
  wf_Token :: string
  wf_Role :: string
  wf_ClientVersion :: string

record 'c WorkspaceClient =
  wc_cfg :: WorkspaceConfig
  wc_conn :: "'c option"
  wc_onMessage :: bool
  wc_sessionID :: string
  wc_workspace :: string
  wc_tools :: "string list"
  wc_done :: bool

definition NewWorkspaceClient :: "WorkspaceConfig \<Rightarrow> 'c WorkspaceClient" where
  "NewWorkspaceClient cfg =
     \<lparr>wc_cfg = (if wf_ClientVersion cfg = [] then cfg\<lparr>wf_ClientVersion := ''0.1.0''\<rparr> else cfg),
      wc_conn = None, wc_onMessage = False, wc_sessionID = [], wc_workspace = [], wc_tools = [],
      wc_done = False\<rparr>"

definition OnMessage :: "bool \<Rightarrow> 'c WorkspaceClient \<Rightarrow> 'c WorkspaceClient" where
  "OnMessage handler c = c\<lparr>wc_onMessage := handler\<rparr>"

definition connectRequest :: "WorkspaceConfig \<Rightarrow> AuthRequest" where
  "connectRequest cfg = \<lparr>aq_Type = ''auth'', aq_AgentID = wf_AgentID cfg, aq_Token = wf_Token cfg,
     aq_ClientVersion = wf_ClientVersion cfg, aq_Role = wf_Role cfg\<rparr>"

text \<open>
  \<open>Connect\<close>: the error, if there is one, and the client.  Without an error the read loop is started.
  After a failure the connection is closed, but still the client's.
\<close>

definition WorkspaceConnect ::
  "(string \<Rightarrow> string + 'c) \<Rightarrow> ('c \<Rightarrow> AuthRequest \<Rightarrow> string option) \<Rightarrow> ('c \<Rightarrow> string + AuthResponse) \<Rightarrow>
   'c WorkspaceClient \<Rightarrow> string option \<times> 'c WorkspaceClient" where
  "WorkspaceConnect dial writeAuth readAuth c =
     (case dial (wf_ServerURL (wc_cfg c)) of
        Inl err \<Rightarrow> (Some (''workspace connect: '' @ err), c)
      | Inr conn \<Rightarrow>
          (let c1 = c\<lparr>wc_conn := Some conn\<rparr>
           in case writeAuth conn (connectRequest (wc_cfg c)) of
                Some err \<Rightarrow> (Some (''workspace auth send: '' @ err), c1)
              | None \<Rightarrow>
                  (case readAuth conn of
                     Inl err \<Rightarrow> (Some (''workspace auth read: '' @ err), c1)
                   | Inr resp \<Rightarrow>
                       if \<not> au_Success resp
                       then (Some (''workspace auth failed: '' @ au_Error resp), c1)
                       else (None, c1\<lparr>wc_sessionID := au_SessionID resp, wc_workspace := au_Workspace resp,
                                     wc_tools := au_Tools resp\<rparr>))))"

text \<open>What is written to which connection, or the error.\<close>

definition SendResponse :: "'c WorkspaceClient \<Rightarrow> AgentResponse \<Rightarrow> string + 'c \<times> AgentResponse" where
  "SendResponse c resp =
     (case wc_conn c of
        None \<Rightarrow> Inl ''not connected''
      | Some conn \<Rightarrow> Inr (conn, resp\<lparr>ag_Type := ''response''\<rparr>))"

definition WorkspaceClose :: "'c WorkspaceClient \<Rightarrow> 'c WorkspaceClient" where
  "WorkspaceClose c = (case wc_conn c of None \<Rightarrow> c | Some conn \<Rightarrow> c\<lparr>wc_conn := None\<rparr>)"

text \<open>
  One round of the read loop, for the frame that is read or \<open>None\<close> for an error: it ends, it
  dereferences a connection that is gone, or it goes on after the handler has been given a message,
  if there is one.
\<close>

datatype read_round = ReadEnds | ReadPanics | ReadOn "RoutedMessage option"

definition readRound ::
  "(string \<Rightarrow> string option) \<Rightarrow> (string \<Rightarrow> RoutedMessage option) \<Rightarrow> 'c WorkspaceClient \<Rightarrow> string option \<Rightarrow>
   read_round" where
  "readRound envelopeType unmarshal c frame =
     (case wc_conn c of
        None \<Rightarrow> ReadPanics
      | Some conn \<Rightarrow>
          (case frame of
             None \<Rightarrow> ReadEnds
           | Some raw \<Rightarrow>
               ReadOn (case envelopeType raw of
                         None \<Rightarrow> None
                       | Some t \<Rightarrow>
                           if t = ''message'' \<and> wc_onMessage c then unmarshal raw else None)))"

text \<open>
  \<open>readLoop\<close> over the frames that arrive, \<open>None\<close> for the error that ends it: the messages the handler was
  given, and whether the loop waits for the next frame, has ended and closed \<open>done\<close>, or panics.  It
  panics on a connection that is gone and on closing \<open>done\<close> twice.  The handler is the agent's: \<open>act\<close> is
  what it does to the client.
\<close>

datatype 'c loop_result = LoopWaits "'c WorkspaceClient" | LoopEnded "'c WorkspaceClient" | LoopPanics

fun readLoop ::
  "(string \<Rightarrow> string option) \<Rightarrow> (string \<Rightarrow> RoutedMessage option) \<Rightarrow>
   (RoutedMessage \<Rightarrow> 'c WorkspaceClient \<Rightarrow> 'c WorkspaceClient) \<Rightarrow> string option list \<Rightarrow>
   'c WorkspaceClient \<Rightarrow> RoutedMessage list \<times> 'c loop_result" where
  "readLoop envelopeType unmarshal act [] c =
     ([], if wc_conn c = None then LoopPanics else LoopWaits c)"
| "readLoop envelopeType unmarshal act (frame # frames) c =
     (case readRound envelopeType unmarshal c frame of
        ReadPanics \<Rightarrow> ([], LoopPanics)
      | ReadEnds \<Rightarrow> ([], if wc_done c then LoopPanics else LoopEnded (c\<lparr>wc_done := True\<rparr>))
      | ReadOn None \<Rightarrow> readLoop envelopeType unmarshal act frames c
      | ReadOn (Some msg) \<Rightarrow>
          (let (msgs, r) = readLoop envelopeType unmarshal act frames (act msg c) in (msg # msgs, r)))"

end
