(* ===== verification/Sdk_Properties.thy ===== *)
theory Sdk_Properties
  imports Sdk_Client Gateway_Backend Orch_Demo
begin

text \<open>
  The Go SDK against the server: what every call of the client reaches, directly and through the
  gateway, and what it returns.  The eight calls are put into one type, so that each statement is
  made once for all of them.
\<close>

section \<open>The calls\<close>

datatype sdk_call =
    SdkSubmit SubmitBriefRequest string
  | SdkStatus string
  | SdkResult string
  | SdkDeliveries string
  | SdkCancel string
  | SdkReplay string
  | SdkQuery QueryRequest
  | SdkExperts

text \<open>The method of the client behind a call; \<open>x\<close> and \<open>y\<close> are its tenant and project.\<close>

primrec clientCall ::
  "clientEnv \<Rightarrow> Client \<Rightarrow> string \<Rightarrow> string \<Rightarrow> string \<Rightarrow> sdk_call \<Rightarrow> Body call_result" where
  "clientCall e c rid x y (SdkSubmit req idem) =
     map_call_result BSubmit (Client_SubmitBriefJob e c req rid idem x y)"
| "clientCall e c rid x y (SdkStatus job) = map_call_result BStatus (Client_GetJobStatus e c job rid x y)"
| "clientCall e c rid x y (SdkResult job) = map_call_result BResult (Client_GetJobResult e c job rid x y)"
| "clientCall e c rid x y (SdkDeliveries job) =
     map_call_result BDeliveries (Client_GetJobDeliveries e c job rid x y)"
| "clientCall e c rid x y (SdkCancel job) = map_call_result BStatus (Client_CancelJob e c job rid x y)"
| "clientCall e c rid x y (SdkReplay job) = map_call_result BStatus (Client_ReplayJob e c job rid x y)"
| "clientCall e c rid x y (SdkQuery req) = map_call_result BQuery (Client_QueryExpert e c req rid x y)"
| "clientCall e c rid x y SdkExperts =
     map_call_result BExperts (Client_GetExpertCapabilities e c rid x y)"

primrec callMethod :: "sdk_call \<Rightarrow> string" where
  "callMethod (SdkSubmit req idem) = ''POST''"
| "callMethod (SdkStatus job) = ''GET''"
| "callMethod (SdkResult job) = ''GET''"
| "callMethod (SdkDeliveries job) = ''GET''"
| "callMethod (SdkCancel job) = ''POST''"
| "callMethod (SdkReplay job) = ''POST''"
| "callMethod (SdkQuery req) = ''POST''"
| "callMethod SdkExperts = ''GET''"

primrec callPath :: "sdk_call \<Rightarrow> string" where
  "callPath (SdkSubmit req idem) = ''/v1/assistant/jobs''"
| "callPath (SdkStatus job) = ''/v1/assistant/jobs/'' @ job"
| "callPath (SdkResult job) = ''/v1/assistant/jobs/'' @ job @ ''/result''"
| "callPath (SdkDeliveries job) = ''/v1/assistant/jobs/'' @ job @ ''/deliveries''"
| "callPath (SdkCancel job) = ''/v1/assistant/jobs/'' @ job @ ''/cancel''"
| "callPath (SdkReplay job) = ''/v1/assistant/jobs/'' @ job @ ''/replay''"
| "callPath (SdkQuery req) = ''/v1/assistant/query''"
| "callPath SdkExperts = ''/v1/assistant/experts''"

primrec callStatus :: "sdk_call \<Rightarrow> int" where
  "callStatus (SdkSubmit req idem) = StatusAccepted"
| "callStatus (SdkStatus job) = StatusOK"
| "callStatus (SdkResult job) = StatusOK"
| "callStatus (SdkDeliveries job) = StatusOK"
| "callStatus (SdkCancel job) = StatusAccepted"
| "callStatus (SdkReplay job) = StatusAccepted"
| "callStatus (SdkQuery req) = StatusOK"
| "callStatus SdkExperts = StatusOK"

text \<open>What is in the body and, beside the request id, in the headers.\<close>

definition callBody :: "clientEnv \<Rightarrow> sdk_call \<Rightarrow> (string + string) option" where
  "callBody e call =
     (case call of SdkSubmit req idem \<Rightarrow> Some (ce_marshalSubmit e req)
      | SdkQuery req \<Rightarrow> Some (ce_marshalQuery e req) | _ \<Rightarrow> None)"

definition callKey :: "sdk_call \<Rightarrow> string" where
  "callKey call = (case call of SdkSubmit req idem \<Rightarrow> idem | _ \<Rightarrow> [])"

definition callHeader :: "Client \<Rightarrow> string \<Rightarrow> sdk_call \<Rightarrow> Header" where
  "callHeader c rid call =
     clientHeaders c (case call of SdkSubmit req idem \<Rightarrow> True | SdkQuery req \<Rightarrow> True | _ \<Rightarrow> False)
       (idHeader rid @ (if callKey call \<noteq> [] then [(''Idempotency-Key'', callKey call)] else []))"

primrec callDecode :: "clientEnv \<Rightarrow> sdk_call \<Rightarrow> string \<Rightarrow> string + Body" where
  "callDecode e (SdkSubmit req idem) = map_sum id BSubmit \<circ> ce_submitted e"
| "callDecode e (SdkStatus job) = map_sum id BStatus \<circ> ce_status e"
| "callDecode e (SdkResult job) = map_sum id BResult \<circ> ce_result e"
| "callDecode e (SdkDeliveries job) = map_sum id BDeliveries \<circ> ce_deliveries e"
| "callDecode e (SdkCancel job) = map_sum id BStatus \<circ> ce_status e"
| "callDecode e (SdkReplay job) = map_sum id BStatus \<circ> ce_status e"
| "callDecode e (SdkQuery req) = map_sum id BQuery \<circ> ce_answer e"
| "callDecode e SdkExperts = map_sum id BExperts \<circ> ce_experts e"

definition callJob :: "sdk_call \<Rightarrow> string option" where
  "callJob call = (case call of SdkStatus job \<Rightarrow> Some job | SdkResult job \<Rightarrow> Some job
     | SdkDeliveries job \<Rightarrow> Some job | SdkCancel job \<Rightarrow> Some job | SdkReplay job \<Rightarrow> Some job
     | _ \<Rightarrow> None)"

text \<open>A job id the router takes as one segment.\<close>

definition call_ok :: "sdk_call \<Rightarrow> bool" where
  "call_ok call \<longleftrightarrow> (\<forall>job. callJob call = Some job \<longrightarrow> job \<noteq> [] \<and> CHR ''/'' \<notin> set job)"

text \<open>The operation of the server a call is for, with the scope the server sees.\<close>

primrec operationReply ::
  "('q, 'st) deps \<Rightarrow> clocks \<Rightarrow> string \<Rightarrow> string \<Rightarrow> string \<Rightarrow> sdk_call \<Rightarrow> ('q, 'st) Server \<Rightarrow>
   Reply \<times> ('q, 'st) Server" where
  "operationReply d t rid tn pr (SdkSubmit req idem) = SubmitBriefJob d (ck_request t) (ck_first t)
     \<lparr>sp_XRequestId = rid, sp_IdempotencyKey = TrimSpace idem, sp_XTenantId = tn, sp_XProjectId = pr\<rparr> req"
| "operationReply d t rid tn pr (SdkStatus job) = GetJobStatus d (ck_request t) (ck_first t)
     \<lparr>jp_XRequestId = rid, jp_JobID = job, jp_XTenantId = tn, jp_XProjectId = pr\<rparr>"
| "operationReply d t rid tn pr (SdkResult job) = GetJobResult d (ck_request t) (ck_first t)
     \<lparr>jp_XRequestId = rid, jp_JobID = job, jp_XTenantId = tn, jp_XProjectId = pr\<rparr>"
| "operationReply d t rid tn pr (SdkDeliveries job) = GetJobDeliveries d (ck_request t) (ck_first t)
     \<lparr>jp_XRequestId = rid, jp_JobID = job, jp_XTenantId = tn, jp_XProjectId = pr\<rparr>"
| "operationReply d t rid tn pr (SdkCancel job) = CancelJob d (ck_request t) (ck_first t) (ck_second t)
     \<lparr>jp_XRequestId = rid, jp_JobID = job, jp_XTenantId = tn, jp_XProjectId = pr\<rparr>"
| "operationReply d t rid tn pr (SdkReplay job) = ReplayJob d (ck_request t) (ck_first t) (ck_second t)
     \<lparr>jp_XRequestId = rid, jp_JobID = job, jp_XTenantId = tn, jp_XProjectId = pr\<rparr>"
| "operationReply d t rid tn pr (SdkQuery req) = (\<lambda>s. (QueryExpert (ck_request t) (ck_first t)
     \<lparr>cp_XRequestId = rid, cp_XTenantId = tn, cp_XProjectId = pr\<rparr> req s, s))"
| "operationReply d t rid tn pr SdkExperts = (\<lambda>s. (GetExpertCapabilities (ck_request t)
     \<lparr>cp_XRequestId = rid, cp_XTenantId = tn, cp_XProjectId = pr\<rparr> s, s))"

text \<open>What the client is to make of a reply.\<close>

definition outcome_of :: "Reply \<Rightarrow> Body call_result" where
  "outcome_of reply = (case snd reply of BProblem p \<Rightarrow> CallProblem p | b \<Rightarrow> CallOk b)"

text \<open>The replies of an operation: the body of its kind with its status, or a problem with a title.\<close>

definition reply_fits :: "sdk_call \<Rightarrow> Reply \<Rightarrow> bool" where
  "reply_fits call reply \<longleftrightarrow>
     (case snd reply of
        BProblem p \<Rightarrow> 400 \<le> fst reply \<and> TrimSpace (pb_Title p) \<noteq> [] \<and> fst reply = pb_Status p
      | BSubmit _ \<Rightarrow> fst reply = callStatus call \<and> (\<exists>req idem. call = SdkSubmit req idem)
      | BStatus _ \<Rightarrow> fst reply = callStatus call
          \<and> (\<exists>job. call = SdkStatus job \<or> call = SdkCancel job \<or> call = SdkReplay job)
      | BResult _ \<Rightarrow> fst reply = callStatus call \<and> (\<exists>job. call = SdkResult job)
      | BDeliveries _ \<Rightarrow> fst reply = callStatus call \<and> (\<exists>job. call = SdkDeliveries job)
      | BQuery _ \<Rightarrow> fst reply = callStatus call \<and> (\<exists>req. call = SdkQuery req)
      | BExperts _ \<Rightarrow> fst reply = callStatus call \<and> call = SdkExperts)"


section \<open>The client's half\<close>

lemma map_callResult:
  "map_call_result f (callResult ok decode r) = callResult ok (map_sum id f \<circ> decode) r"
  by (auto simp: callResult_def split: sum.splits option.splits)

text \<open>Every call is a \<open>doJSON\<close>, which knows nothing of the tenant and the project.\<close>

lemma clientCall_doJSON:
  "clientCall e c rid x y call =
     callResult (callStatus call) (callDecode e call)
       (doJSON e c (callMethod call) (callPath call) (callBody e call)
         (idHeader rid @ (if callKey call \<noteq> [] then [(''Idempotency-Key'', callKey call)] else [])))"
  by (cases call) (simp_all add: map_callResult callBody_def callKey_def Client_SubmitBriefJob_def
      Client_GetJobStatus_def Client_GetJobResult_def Client_GetJobDeliveries_def Client_CancelJob_def
      Client_ReplayJob_def Client_QueryExpert_def Client_GetExpertCapabilities_def)

text \<open>
  The encodings agree on a reply: the client decodes the bytes of the body to the body.
\<close>

definition decodes :: "clientEnv \<Rightarrow> sdk_call \<Rightarrow> (payload \<Rightarrow> string) \<Rightarrow> Body \<Rightarrow> bool" where
  "decodes e call enc b \<longleftrightarrow>
     (case b of BProblem p \<Rightarrow> ce_problem e (enc (PBody b)) = Some p
      | _ \<Rightarrow> callDecode e call (enc (PBody b)) = Inr b)"

text \<open>The exchange of a call: it can be built and sent, and the answer has this status and body.\<close>

definition exchanged ::
  "clientEnv \<Rightarrow> Client \<Rightarrow> string \<Rightarrow> sdk_call \<Rightarrow> string option \<Rightarrow> int \<Rightarrow> string \<Rightarrow> bool" where
  "exchanged e c rid call body status bytes \<longleftrightarrow>
     callBody e call = map_option Inr body
     \<and> ce_build e (callMethod call) (cl_BaseURL c @ callPath call) = None
     \<and> ce_do e (callMethod call) (cl_BaseURL c @ callPath call) (callHeader c rid call) body
         = Inr (status, Inr bytes)"

lemma exchanged_outcome:
  assumes "exchanged e c rid call body (fst reply) (enc (PBody (snd reply)))"
    and "decodes e call enc (snd reply)" and "reply_fits call reply"
  shows "clientCall e c rid x y call = outcome_of reply"
proof -
  have b: "callBody e call = map_option Inr body"
    and has: "(body \<noteq> None) = (case call of SdkSubmit req idem \<Rightarrow> True | SdkQuery req \<Rightarrow> True | _ \<Rightarrow> False)"
    using assms(1) by (cases body; auto simp: exchanged_def callBody_def split: sdk_call.splits)+
  have ok: "callStatus call < 400" by (cases call) (simp_all add: http_status_defs)
  obtain status bd where r: "reply = (status, bd)" by (cases reply)
  have "doJSON e c (callMethod call) (callPath call) (callBody e call)
      (idHeader rid @ (if callKey call \<noteq> [] then [(''Idempotency-Key'', callKey call)] else []))
    = Inr (status, enc (PBody bd), if 400 \<le> status
        then (case ce_problem e (enc (PBody bd)) of
                Some p \<Rightarrow> if TrimSpace (pb_Title p) \<noteq> [] then Some p else None | None \<Rightarrow> None)
        else None)"
    using assms(1) r unfolding doJSON_def b
    by (cases body) (auto simp: exchanged_def callHeader_def has [symmetric] Let_def)
  with assms(2,3) ok r show ?thesis
    unfolding clientCall_doJSON
    by (auto simp: callResult_def decodes_def outcome_of_def reply_fits_def split: Body.splits)
qed


section \<open>The server's half\<close>

lemma problem_fits [simp]:
  "reply_fits call (status, BProblem (problem inst rid code title detail)) \<longleftrightarrow>
     400 \<le> status \<and> TrimSpace title \<noteq> [] \<and> status = inferStatus code"
  by (auto simp: reply_fits_def problem_def)

lemma problem_titles:
  "TrimSpace ''Invalid request'' = ''Invalid request''" "TrimSpace ''Not Found'' = ''Not Found''"
  "TrimSpace ''Idempotency mismatch'' = ''Idempotency mismatch''"
  "TrimSpace ''Internal error'' = ''Internal error''"
  "TrimSpace ''Result not ready'' = ''Result not ready''"
  "TrimSpace ''Invalid state transition'' = ''Invalid state transition''"
  by (simp_all add: TrimSpace_ends visible_def)

lemmas fits_simps = problem_titles bad_request_def job_not_found_def invalid_transition_def
  inferStatus_def http_status_defs

lemma ok_fits:
  "reply_fits (SdkSubmit req idem) (202, BSubmit b)" "reply_fits (SdkStatus job) (200, BStatus x)"
  "reply_fits (SdkCancel job) (202, BStatus x)" "reply_fits (SdkReplay job) (202, BStatus x)"
  "reply_fits (SdkResult job) (200, BResult rs)" "reply_fits (SdkDeliveries job) (200, BDeliveries ds)"
  "reply_fits (SdkQuery q) (200, BQuery a)" "reply_fits SdkExperts (200, BExperts es)"
  by (simp_all add: reply_fits_def http_status_defs)

lemma operation_fits: "reply_fits call (fst (operationReply d t rid tn pr call s))"
proof (cases call)
  case (SdkSubmit req idem)
  then show ?thesis
    by (auto simp: SubmitBriefJob_def Let_def submit_check_def SubmitBriefJob_locked_def fits_simps ok_fits
        split: sum.splits option.splits prod.splits if_splits)
qed (auto simp: GetJobStatus_def GetJobResult_def GetJobDeliveries_def CancelJob_def ReplayJob_def
    QueryExpert_def GetExpertCapabilities_def with_scope_def CancelJob_locked_def ReplayJob_locked_def
    query_check_def Let_def fits_simps ok_fits
    split: sum.splits option.splits prod.splits if_splits bool.splits)

text \<open>The body decodes to the request of the call.\<close>

definition accepts :: "decoders \<Rightarrow> sdk_call \<Rightarrow> string \<Rightarrow> bool" where
  "accepts dc call body \<longleftrightarrow>
     (case call of SdkSubmit req idem \<Rightarrow> dc_Submit dc body = Some req
      | SdkQuery req \<Rightarrow> dc_Query dc body = Some req | _ \<Rightarrow> True)"

lemma find_route_fixed:
  "find_route routes ''POST'' ''/v1/assistant/jobs'' = Some (''submitBriefJob'', [])"
  "find_route routes ''POST'' ''/v1/assistant/query'' = Some (''queryExpert'', [])"
  "find_route routes ''GET'' ''/v1/assistant/experts'' = Some (''getExpertCapabilities'', [])"
  by (simp_all add: routes_def matchPath_parts splitPath_routes)

lemma server_serves:
  assumes "call_ok call" "rq_Method r = callMethod call" "rq_Path r = callPath call"
    and "header_trim r ''Idempotency-Key'' = TrimSpace (callKey call)" "accepts dc call (rq_Body r)"
  shows "Server_ServeHTTP d t dc r s =
    (let (reply, s') = operationReply d t (header_trim r ''X-Request-Id'') (header_trim r ''X-Tenant-Id'')
            (header_trim r ''X-Project-Id'') call s
     in (writeResponse (fst reply) (Some (snd reply)), s'))"
proof -
  have job: "callJob call = Some job \<Longrightarrow> job \<noteq> [] \<and> CHR ''/'' \<notin> set job" for job
    using assms(1) by (simp add: call_ok_def)
  have params: "jobParams r [(''job_id'', job)] = \<lparr>jp_XRequestId = header_trim r ''X-Request-Id'',
      jp_JobID = job, jp_XTenantId = header_trim r ''X-Tenant-Id'',
      jp_XProjectId = header_trim r ''X-Project-Id''\<rparr>" for job
    by (simp add: jobParams_def paramOf_def mget_def)
  show ?thesis
    using assms job find_route_parts
    by (cases call) (auto simp: Server_ServeHTTP_def Handler_ServeHTTP_def find_route_fixed dispatch_def dispatch_branches
        orchestratorInterface_def answered_def respond_def Let_def params callJob_def callKey_def
        accepts_def submitParams_def scopeParams_def split: prod.splits)
qed


section \<open>The headers of a call\<close>

lemma canonical_accept [simp]: "canonicalKey ''Accept'' = ''Accept''"
  by (simp add: canonical_eval char_of_def bit_0)

lemma hGet_hSet: "hGet (hSet k v h) k' = (if canonicalKey k' = canonicalKey k then v else hGet h k')"
  by (simp add: hGet_def hSet_def)

lemma callHeader_get:
  "hGet (callHeader c rid call) ''X-Tenant-Id'' = []"
  "hGet (callHeader c rid call) ''X-Project-Id'' = []"
  "hGet (callHeader c rid call) ''X-Request-Id'' = (if TrimSpace rid = [] then [] else rid)"
  "hGet (callHeader c rid call) ''Idempotency-Key''
     = (if TrimSpace (callKey call) = [] then [] else callKey call)"
  "cl_Token c \<noteq> [] \<Longrightarrow> hGet (callHeader c rid call) ''Authorization'' = ''Bearer '' @ cl_Token c"
  "callBody e call \<noteq> None \<Longrightarrow> hGet (callHeader c rid call) ''Content-Type'' = ''application/json''"
  by (auto simp: callHeader_def clientHeaders_def idHeader_def Let_def hGet_hSet callBody_def
      split: sdk_call.splits)

definition bodyText :: "string option \<Rightarrow> string" where
  "bodyText body = (case body of None \<Rightarrow> [] | Some b \<Rightarrow> b)"

text \<open>The request of a call, as the server it is sent to sees it.\<close>

definition sdkRequest :: "Client \<Rightarrow> string \<Rightarrow> sdk_call \<Rightarrow> string \<Rightarrow> string option \<Rightarrow> Request" where
  "sdkRequest c rid call remote body =
     \<lparr>rq_Method = callMethod call, rq_Path = callPath call, rq_Header = callHeader c rid call,
      rq_RemoteAddr = remote, rq_Body = bodyText body\<rparr>"

lemma sdkRequest_headers:
  "header_trim (sdkRequest c rid call remote body) ''X-Tenant-Id'' = []"
  "header_trim (sdkRequest c rid call remote body) ''X-Project-Id'' = []"
  "header_trim (sdkRequest c rid call remote body) ''X-Request-Id'' = TrimSpace rid"
  "header_trim (sdkRequest c rid call remote body) ''Idempotency-Key'' = TrimSpace (callKey call)"
  by (simp_all add: header_trim_def sdkRequest_def callHeader_get)

lemma unscoped_refused:
  "\<exists>p. operationReply d t rid [] [] call s = ((StatusBadRequest, BProblem p), s)
     \<and> pb_Status p = StatusBadRequest \<and> pb_Detail p = Some scope_required"
  by (cases call) (auto simp: SubmitBriefJob_def submit_check_def GetJobStatus_def GetJobResult_def
      GetJobDeliveries_def CancelJob_def ReplayJob_def QueryExpert_def query_check_def
      GetExpertCapabilities_def with_scope_def scope_missing_def bad_request_def problem_def
      inferStatus_def Let_def)

section \<open>Directly at the orchestrator\<close>

text \<open>
  C29. The client takes a tenant and a project for every call and sends neither: whatever they are,
  a call that reaches the orchestrator without a gateway in between is refused with the problem 400
  for a missing scope, and changes nothing.
\<close>

theorem sdk_sends_no_scope:
  assumes "call_ok call" and "accepts dc call (bodyText body)"
    and "Server_ServeHTTP d t dc (sdkRequest c rid call remote body) s = (resp, s')"
    and "rs_Payload resp = PBody b" "decodes e call enc b"
    and "exchanged e c rid call body (rs_Status resp) (enc (PBody b))"
  shows "s' = s \<and> (\<exists>p. clientCall e c rid tenant project call = CallProblem p
           \<and> pb_Status p = 400 \<and> pb_Detail p = Some scope_required)"
proof -
  obtain p where p: "operationReply d t (TrimSpace rid) [] [] call s = ((StatusBadRequest, BProblem p), s)"
      "pb_Status p = StatusBadRequest" "pb_Detail p = Some scope_required"
    using unscoped_refused by blast
  have "Server_ServeHTTP d t dc (sdkRequest c rid call remote body) s
      = (writeResponse StatusBadRequest (Some (BProblem p)), s)"
    using server_serves [OF assms(1), of "sdkRequest c rid call remote body" dc d t s] assms(2) p(1)
    by (simp add: sdkRequest_headers) (simp add: sdkRequest_def)
  with assms(3,4) have r: "resp = writeResponse StatusBadRequest (Some (BProblem p))" "s' = s"
      "b = BProblem p"
    by (auto simp: writeResponse_def)
  have "clientCall e c rid tenant project call = outcome_of (StatusBadRequest, BProblem p)"
  proof (rule exchanged_outcome)
    show "reply_fits call (StatusBadRequest, BProblem p)"
      using operation_fits [of call d t "TrimSpace rid" "[]" "[]" s] p(1) by simp
  qed (use assms(5,6) r in \<open>simp_all add: writeResponse_def\<close>)
  with r p(2,3) show ?thesis by (simp add: outcome_of_def http_status_defs)
qed


text \<open>A client with a token and exchanges with the small orchestrator, without and with a gateway.\<close>

definition demoSdkClient :: Client where
  "demoSdkClient = \<lparr>cl_BaseURL = ''http://cova'', cl_Token = ''t1''\<rparr>"

definition demoClocks :: clocks where
  "demoClocks = \<lparr>ck_request = 0, ck_first = 0, ck_second = 0\<rparr>"

definition demoDecoders :: decoders where
  "demoDecoders = \<lparr>dc_Submit = (\<lambda>_. None), dc_Query = (\<lambda>_. None)\<rparr>"

definition demoBytes :: "payload \<Rightarrow> string" where
  "demoBytes pl = (case pl of PBody (BStatus x) \<Rightarrow> st_JobId x | PBody (BProblem p) \<Rightarrow> pb_Title p | _ \<Rightarrow> [])"

definition demoProblem :: Problem where
  "demoProblem = problem ''/v1/assistant/jobs/job_1'' ''r'' ''invalid-request'' ''Invalid request''
     scope_required"

definition demoEnv ::
  "(string \<Rightarrow> string \<Rightarrow> Header \<Rightarrow> string option \<Rightarrow> string + int \<times> (string + string)) \<Rightarrow> clientEnv" where
  "demoEnv exchange =
     \<lparr>ce_marshalSubmit = (\<lambda>req. Inr (sreq_Date req)), ce_marshalQuery = (\<lambda>req. Inr (qreq_Question req)),
      ce_build = (\<lambda>m u. None), ce_do = exchange,
      ce_problem = (\<lambda>b. if b = ''Invalid request'' then Some demoProblem else None),
      ce_submitted = (\<lambda>b. Inl b),
      ce_status = (\<lambda>b. if b = ''job_1'' then Inr (statusResponse demoJob) else Inl b),
      ce_result = (\<lambda>b. Inl b), ce_deliveries = (\<lambda>b. Inl b), ce_answer = (\<lambda>b. Inl b),
      ce_experts = (\<lambda>b. Inl b)\<rparr>"

text \<open>The path of a URL of the client.\<close>

definition demoPath :: "string \<Rightarrow> string" where
  "demoPath u = drop (length (cl_BaseURL demoSdkClient)) u"

definition demoDirect ::
  "string \<Rightarrow> string \<Rightarrow> Header \<Rightarrow> string option \<Rightarrow> string + int \<times> (string + string)" where
  "demoDirect m u h b =
     (let resp = fst (Server_ServeHTTP demoDeps demoClocks demoDecoders
        \<lparr>rq_Method = m, rq_Path = demoPath u, rq_Header = h, rq_RemoteAddr = [], rq_Body = bodyText b\<rparr>
        demoState)
      in Inr (rs_Status resp, Inr (demoBytes (rs_Payload resp))))"

theorem sdk_sends_no_scope_witness:
  "getJob demoState ''job_1'' = Some demoJob \<and> jobInScope demoJob ''t'' ''p''
   \<and> (\<exists>p. clientCall (demoEnv demoDirect) demoSdkClient ''r'' ''t'' ''p'' (SdkStatus ''job_1'') = CallProblem p
        \<and> pb_Status p = 400 \<and> pb_Detail p = Some scope_required)"
proof -
  let ?call = "SdkStatus ''job_1''" and ?req = "sdkRequest demoSdkClient ''r'' (SdkStatus ''job_1'') [] None"
  have ok: "call_ok ?call" "accepts demoDecoders ?call (bodyText None)"
    by (simp_all add: call_ok_def callJob_def accepts_def)
  have run: "Server_ServeHTTP demoDeps demoClocks demoDecoders ?req demoState
      = (writeResponse 400 (Some (BProblem demoProblem)), demoState)"
    using server_serves [OF ok(1), of ?req demoDecoders demoDeps demoClocks demoState]
    by (simp add: sdkRequest_headers)
      (simp add: sdkRequest_def accepts_def GetJobStatus_def with_scope_def scope_missing_def
        bad_request_def demoProblem_def normalizeRequestID_def job_instance_def http_status_defs)
  have ex: "exchanged (demoEnv demoDirect) demoSdkClient ''r'' ?call None 400
      (demoBytes (PBody (BProblem demoProblem)))"
    using run by (simp add: exchanged_def demoEnv_def callBody_def demoDirect_def demoPath_def Let_def
        sdkRequest_def writeResponse_def)
  have dec: "decodes (demoEnv demoDirect) ?call demoBytes (BProblem demoProblem)"
    by (simp add: decodes_def demoEnv_def demoBytes_def demoProblem_def problem_def)
  have scope: "jobInScope demoJob ''t'' ''p''" by (simp add: jobInScope_def demoJob_def)
  show ?thesis
    using sdk_sends_no_scope [OF ok run _ dec, where tenant = "''t''" and project = "''p''"] ex scope
    by (simp add: writeResponse_def)
qed


section \<open>Through the gateway\<close>

text \<open>The request of a call at the gateway.\<close>

definition gatewayRequest :: "Client \<Rightarrow> string \<Rightarrow> sdk_call \<Rightarrow> string \<Rightarrow> string option \<Rightarrow> GwRequest" where
  "gatewayRequest c rid call remote body =
     \<lparr>rq_Method = callMethod call, rq_Path = callPath call, rq_Header = callHeader c rid call,
      rq_RemoteAddr = remote, rq_Body = bodyText body,
      gr_ContentLength = int (length (bodyText body)), gr_BodyLimit = None\<rparr>"

lemma gatewayRequest_headers [simp]:
  "getHeader ''X-Tenant-Id'' (gatewayRequest c rid call remote body) = []"
  "getHeader ''X-Project-Id'' (gatewayRequest c rid call remote body) = []"
  "getHeader ''X-Request-Id'' (gatewayRequest c rid call remote body)
     = (if TrimSpace rid = [] then [] else rid)"
  "getHeader ''Idempotency-Key'' (gatewayRequest c rid call remote body)
     = (if TrimSpace (callKey call) = [] then [] else callKey call)"
  "cl_Token c \<noteq> [] \<Longrightarrow>
     getHeader ''Authorization'' (gatewayRequest c rid call remote body) = ''Bearer '' @ cl_Token c"
  "callBody e call \<noteq> None \<Longrightarrow>
     getHeader ''Content-Type'' (gatewayRequest c rid call remote body) = ''application/json''"
  by (simp_all add: getHeader_def gatewayRequest_def callHeader_get)

lemma gatewayRequest_parts [simp]:
  "rq_Method (gatewayRequest c rid call remote body) = callMethod call"
  "rq_Path (gatewayRequest c rid call remote body) = callPath call"
  "rq_Body (gatewayRequest c rid call remote body) = bodyText body"
  "gr_ContentLength (gatewayRequest c rid call remote body) = int (length (bodyText body))"
  by (simp_all add: gatewayRequest_def)

lemma injected_given:
  assumes "TrimSpace (getHeader ''X-Request-Id'' r) \<noteq> []"
  shows "snd (injectRequestID now r m) = m" "rq_Body (injected env t r m) = rq_Body r"
  using assms by (simp_all add: injectRequestID_def injected_def injectTraceparent_def Let_def)

text \<open>The authentication lets the client's token in and gives the request the token's scope.\<close>

lemma token_admitted:
  assumes "gc_AuthEnabled (gw_cfg m)" "mget (gw_authTokens m) tok = Some p"
    and "list_all visible tok" "tok \<noteq> []"
    and "getHeader ''Authorization'' r = ''Bearer '' @ tok"
    and "getHeader ''X-Tenant-Id'' r = []" "getHeader ''X-Project-Id'' r = []"
  obtains q where "authStage r m = Inr q"
    "getHeader ''X-Tenant-Id'' q = ap_TenantID p" "getHeader ''X-Project-Id'' q = ap_ProjectID p"
proof -
  have "checkAuth m r = Inr p"
    unfolding checkAuth_Inr using assms bearer_fields [OF assms(3,4)] by (simp add: EqualFoldAscii_def)
  moreover obtain q where q: "injectTenantScope p r = Inr q"
      "getHeader ''X-Tenant-Id'' q = ap_TenantID p" "getHeader ''X-Project-Id'' q = ap_ProjectID p"
    using assms(6,7) by (cases "ap_TenantID p = [] \<and> ap_ProjectID p = []")
      (auto simp: injectTenantScope_def Let_def)
  ultimately have "authStage r m = Inr q" using assms(1) by (simp add: authStage_def)
  then show ?thesis using q(2,3) by (rule that)
qed

lemma json_post_body: "isJSONPost r \<Longrightarrow> rq_Method r = callMethod call \<Longrightarrow> rq_Path r = callPath call \<Longrightarrow>
    callBody e call \<noteq> None"
  by (cases call) (auto simp: isJSONPost_def callBody_def)


lemma json_type_folds: "ToLower (TrimSpace ''application/json'') = ''application/json''"
proof -
  have "TrimSpace ''application/json'' = ''application/json''"
    by (simp add: TrimSpace_visible visible_def)
  then show ?thesis
    by (simp add: ToLower_Cons ToLower.simps [of "[]"] lower_ascii_def)
qed

lemma sdk_admitted:
  assumes r_def: "r = gatewayRequest c rid call remote body"
    and "gc_AuthEnabled (gw_cfg m)" "mget (gw_authTokens m) (cl_Token c) = Some p"
    and "list_all visible (cl_Token c)" "cl_Token c \<noteq> []" "callBody e call = map_option Inr body"
    and "TrimSpace rid \<noteq> []" "length rid \<le> 128" "length (callKey call) \<le> 256"
    and "int (length (bodyText body)) \<le> gc_MaxBodyBytes (gw_cfg m)"
    and "fst (limitStage (rd_Limit t) (clientKey (injected env t r m)) m)"
  obtains q where "fst (verdict env t r m) = Inr q" "rq_Body q = bodyText body"
    "getHeader ''X-Tenant-Id'' q = ap_TenantID p" "getHeader ''X-Project-Id'' q = ap_ProjectID p"
    "getHeader ''X-Request-Id'' q = rid"
    "TrimSpace (getHeader ''Idempotency-Key'' q) = TrimSpace (callKey call)"
proof -
  let ?i = "injected env t r m"
  have given: "TrimSpace (getHeader ''X-Request-Id'' r) \<noteq> []" using assms(7) by (simp add: r_def)
  have hdr: "getHeader ''X-Tenant-Id'' ?i = []" "getHeader ''X-Project-Id'' ?i = []"
      "getHeader ''Authorization'' ?i = ''Bearer '' @ cl_Token c" "getHeader ''X-Request-Id'' ?i = rid"
      "TrimSpace (getHeader ''Idempotency-Key'' ?i) = TrimSpace (callKey call)"
      "length (getHeader ''Idempotency-Key'' ?i) \<le> 256"
      "callBody e call \<noteq> None \<Longrightarrow> getHeader ''Content-Type'' ?i = ''application/json''"
      "rq_Method ?i = callMethod call" "rq_Path ?i = callPath call" "rq_Body ?i = bodyText body"
      "gr_ContentLength ?i = int (length (bodyText body))"
    using injected_request_id_given [OF given, of env t m] injected_given [OF given] assms(5,7,9)
    by (simp_all add: r_def)
  obtain q1 where q1: "authStage ?i m = Inr q1" "getHeader ''X-Tenant-Id'' q1 = ap_TenantID p"
      "getHeader ''X-Project-Id'' q1 = ap_ProjectID p"
    using token_admitted [OF assms(2-5) hdr(3,1,2)] by blast
  note a = authStage_Inr(2-) [OF q1(1)]
  have ct: "getHeader ''Content-Type'' q1 = ''application/json''" if "isJSONPost q1"
    using json_post_body [OF that, of call e] a hdr by simp
  have body: "isJSONPost q1 \<Longrightarrow>
      prefix ''application/json'' (ToLower (TrimSpace (getHeader ''Content-Type'' q1)))"
    by (simp only: ct json_type_folds)
  have len: "length (getHeader ''X-Request-Id'' q1) \<le> 128"
      "length (getHeader ''Idempotency-Key'' q1) \<le> 256"
      "gr_ContentLength q1 \<le> gc_MaxBodyBytes (gw_cfg m)"
    using hdr assms(8,10) a by simp_all
  have "\<exists>q. validateRequest (gw_cfg m) q1 = Inr q"
    unfolding validateRequest_Inr by (cases "isJSONPost q1") (simp_all add: body len)
  then obtain q where q: "validateRequest (gw_cfg m) q1 = Inr q" by blast
  obtain m1 where l: "limitStage (rd_Limit t) (clientKey ?i) m = (True, m1)"
    using assms(11) by (cases "limitStage (rd_Limit t) (clientKey ?i) m") auto
  have "gw_cfg m1 = gw_cfg m" using limitStage_frame(1) [of "rd_Limit t" "clientKey ?i" m] l by simp
  then have "fst (verdict env t r m) = Inr q"
    by (simp add: verdict_def injected_given [OF given] admit_def q1(1) l q)
  then show ?thesis
    using q1(2,3) a hdr validateRequest_frame [OF q] by (intro that [of q]) simp_all
qed


text \<open>The gateway of the examples, with the token bound to the scope of the job.\<close>

definition demoFront :: Middleware where
  "demoFront = demoGateway\<lparr>gw_authTokens := [(''t1'', \<lparr>ap_TenantID = ''t'', ap_ProjectID = ''p''\<rparr>)]\<rparr>"

definition demoThrough ::
  "string \<Rightarrow> string \<Rightarrow> Header \<Rightarrow> string option \<Rightarrow> string + int \<times> (string + string)" where
  "demoThrough m u h b =
     (case ServeHTTP demoGenv demoReadings
             (gatewayBackend Request.truncate (copyResponse demoBytes) demoDeps demoClocks demoDecoders)
             \<lparr>rq_Method = m, rq_Path = demoPath u, rq_Header = h, rq_RemoteAddr = [], rq_Body = bodyText b,
              gr_ContentLength = int (length (bodyText b)), gr_BodyLimit = None\<rparr> demoState demoFront of
        None \<Rightarrow> Inl ''panic''
      | Some (rr, _) \<Rightarrow> Inr (rr_status rr, Inr (written (rr_out rr))))"


end
