(* ===== verification/Sdk_Adapters.thy ===== *)
theory Sdk_Adapters
  imports Sdk_Properties
begin

text \<open>
  The Go interface \<open>AssistantAdapter\<close> (\<open>sdk/go/cova/assistant_adapter.go\<close>) as a locale: what a caller may
  rely on whichever adapter it holds, with the two adapters of the SDK as its interpretations.
\<close>

section \<open>The interface\<close>

record AssistantAdapter =
  aa_SubmitBrief :: "clientEnv \<Rightarrow> Client \<Rightarrow> SubmitBriefRequest \<Rightarrow> AdapterMeta \<Rightarrow> SubmitBriefResponse call_result"
  aa_GetJobStatus :: "clientEnv \<Rightarrow> Client \<Rightarrow> string \<Rightarrow> AdapterMeta \<Rightarrow> JobStatusResponse call_result"
  aa_GetJobResult :: "clientEnv \<Rightarrow> Client \<Rightarrow> string \<Rightarrow> AdapterMeta \<Rightarrow> JobResultResponse call_result"
  aa_CancelJob :: "clientEnv \<Rightarrow> Client \<Rightarrow> string \<Rightarrow> AdapterMeta \<Rightarrow> JobStatusResponse call_result"
  aa_ReplayJob :: "clientEnv \<Rightarrow> Client \<Rightarrow> string \<Rightarrow> AdapterMeta \<Rightarrow> JobStatusResponse call_result"
  aa_Query :: "clientEnv \<Rightarrow> Client \<Rightarrow> QueryRequest \<Rightarrow> AdapterMeta \<Rightarrow> QueryResponse call_result"
  aa_ListExperts :: "clientEnv \<Rightarrow> Client \<Rightarrow> AdapterMeta \<Rightarrow> ExpertCapabilitiesResponse call_result"

text \<open>
  A call of an adapter, the idempotency key of a submission taken from the metadata.  The interface
  has no method for the deliveries of a job.
\<close>

primrec adapterCall ::
  "AssistantAdapter \<Rightarrow> clientEnv \<Rightarrow> Client \<Rightarrow> AdapterMeta \<Rightarrow> sdk_call \<Rightarrow> Body call_result option" where
  "adapterCall ad e c m (SdkSubmit req idem) = Some (map_call_result BSubmit
     (aa_SubmitBrief ad e c req (m\<lparr>am_IdempotencyKey := idem\<rparr>)))"
| "adapterCall ad e c m (SdkStatus job) = Some (map_call_result BStatus (aa_GetJobStatus ad e c job m))"
| "adapterCall ad e c m (SdkResult job) = Some (map_call_result BResult (aa_GetJobResult ad e c job m))"
| "adapterCall ad e c m (SdkDeliveries job) = None"
| "adapterCall ad e c m (SdkCancel job) = Some (map_call_result BStatus (aa_CancelJob ad e c job m))"
| "adapterCall ad e c m (SdkReplay job) = Some (map_call_result BStatus (aa_ReplayJob ad e c job m))"
| "adapterCall ad e c m (SdkQuery req) = Some (map_call_result BQuery (aa_Query ad e c req m))"
| "adapterCall ad e c m SdkExperts = Some (map_call_result BExperts (aa_ListExperts ad e c m))"

text \<open>What a caller relies on: metadata without a scope is an error, with one it is the client's call.\<close>

locale assistant_adapter =
  fixes ad :: AssistantAdapter
  assumes unscoped: "meta_validate m = Some err \<Longrightarrow> adapterCall ad e c m call = Some r \<Longrightarrow> r = CallFailed err"
    and scoped: "meta_validate m = None \<Longrightarrow> adapterCall ad e c m call = Some r \<Longrightarrow>
      r = clientCall e c (am_RequestID m) (am_TenantID m) (am_ProjectID m) call"
begin

lemma call_cases:
  "adapterCall ad e c m call = Some r \<Longrightarrow>
     r = (case meta_validate m of Some err \<Rightarrow> CallFailed err
          | None \<Rightarrow> clientCall e c (am_RequestID m) (am_TenantID m) (am_ProjectID m) call)"
  by (cases "meta_validate m") (simp_all add: unscoped scoped)

text \<open>Without a scope nothing is sent: the result does not depend on the exchange.\<close>

lemma unscoped_silent:
  assumes "meta_validate m \<noteq> None" "adapterCall ad e c m call = Some r" "adapterCall ad e' c' m call = Some r'"
  shows "r = r'"
  using call_cases [OF assms(2)] call_cases [OF assms(3)] assms(1) by auto

text \<open>The tenant and the project of the metadata only decide whether the call is made.\<close>

lemma scope_only_checked:
  assumes "meta_validate m = None" "meta_validate m' = None" "am_RequestID m' = am_RequestID m"
    and "adapterCall ad e c m call = Some r" "adapterCall ad e c m' call = Some r'"
  shows "r = r'"
  using scoped [OF assms(1,4)] scoped [OF assms(2,5)] assms(3) by (simp add: clientCall_doJSON)

end

section \<open>The adapters\<close>

definition CocoAdapter :: AssistantAdapter where
  "CocoAdapter = \<lparr>aa_SubmitBrief = Coco_SubmitBrief, aa_GetJobStatus = Coco_GetJobStatus,
     aa_GetJobResult = Coco_GetJobResult, aa_CancelJob = Coco_CancelJob,
     aa_ReplayJob = Coco_ReplayJob, aa_Query = Coco_Query, aa_ListExperts = Coco_ListExperts\<rparr>"

definition OpenClawAdapter :: AssistantAdapter where
  "OpenClawAdapter = \<lparr>aa_SubmitBrief = OpenClaw_SubmitBrief, aa_GetJobStatus = OpenClaw_GetJobStatus,
     aa_GetJobResult = OpenClaw_GetJobResult, aa_CancelJob = OpenClaw_CancelJob,
     aa_ReplayJob = OpenClaw_ReplayJob, aa_Query = OpenClaw_Query,
     aa_ListExperts = OpenClaw_ListExperts\<rparr>"

lemmas adapter_defs = CocoAdapter_def Coco_SubmitBrief_def Coco_GetJobStatus_def Coco_GetJobResult_def
  Coco_CancelJob_def Coco_ReplayJob_def Coco_Query_def Coco_ListExperts_def OpenClawAdapter_def
  OpenClaw_SubmitBrief_def OpenClaw_GetJobStatus_def OpenClaw_GetJobResult_def OpenClaw_CancelJob_def
  OpenClaw_ReplayJob_def OpenClaw_Query_def OpenClaw_ListExperts_def

lemma meta_validate_key [simp]: "meta_validate (m\<lparr>am_IdempotencyKey := k\<rparr>) = meta_validate m"
  by (simp add: meta_validate_def)

interpretation coco: assistant_adapter CocoAdapter
proof
  show "meta_validate m = Some err \<Longrightarrow> adapterCall CocoAdapter e c m call = Some r \<Longrightarrow> r = CallFailed err"
    for m err e c call r by (cases call) (auto simp: adapter_defs)
  show "meta_validate m = None \<Longrightarrow> adapterCall CocoAdapter e c m call = Some r \<Longrightarrow>
      r = clientCall e c (am_RequestID m) (am_TenantID m) (am_ProjectID m) call"
    for m e c call r by (cases call) (auto simp: adapter_defs)
qed

interpretation openclaw: assistant_adapter OpenClawAdapter
proof
  show "meta_validate m = Some err \<Longrightarrow> adapterCall OpenClawAdapter e c m call = Some r \<Longrightarrow> r = CallFailed err"
    for m err e c call r by (cases call) (auto simp: adapter_defs)
  show "meta_validate m = None \<Longrightarrow> adapterCall OpenClawAdapter e c m call = Some r \<Longrightarrow>
      r = clientCall e c (am_RequestID m) (am_TenantID m) (am_ProjectID m) call"
    for m e c call r by (cases call) (auto simp: adapter_defs)
qed

text \<open>
  The adapters are interchangeable, and the scope a caller must give them is lost on the way: two
  sets of metadata that name different tenants and projects, with the same request id, give the
  same result of either adapter, from the same exchange.
\<close>

theorem adapters_drop_scope:
  assumes "meta_validate m = None" "meta_validate m' = None" "am_RequestID m' = am_RequestID m"
    and "adapterCall CocoAdapter e c m call = Some r" "adapterCall OpenClawAdapter e c m' call = Some r'"
  shows "r = r'"
  using coco.call_cases [OF assms(4)] openclaw.call_cases [OF assms(5)] assms(1-3)
  by (simp add: clientCall_doJSON)

theorem adapters_drop_scope_witness:
  "adapterCall CocoAdapter (demoEnv demoDirect) demoSdkClient
      \<lparr>am_TenantID = ''t'', am_ProjectID = ''p'', am_RequestID = ''r'', am_IdempotencyKey = []\<rparr>
      (SdkStatus ''job_1'')
   = adapterCall OpenClawAdapter (demoEnv demoDirect) demoSdkClient
      \<lparr>am_TenantID = ''k'', am_ProjectID = ''p'', am_RequestID = ''r'', am_IdempotencyKey = []\<rparr>
      (SdkStatus ''job_1'')"
proof -
  let ?m = "\<lambda>t. \<lparr>am_TenantID = t, am_ProjectID = ''p'', am_RequestID = ''r'', am_IdempotencyKey = []\<rparr>"
  have "meta_validate (?m ''t'') = None" "meta_validate (?m ''k'') = None"
    by (simp_all add: meta_validate_def)
  from adapters_drop_scope [OF this, of "demoEnv demoDirect" demoSdkClient "SdkStatus ''job_1''"]
  show ?thesis by simp
qed

end
