(* ===== verification/Sdk_Workspace.thy ===== *)
theory Sdk_Workspace
  imports Sdk_Client Agent_Pool_Properties
begin

text \<open>
  The agent's side of a workspace against the pool of the server: the handshake, the frames both
  ways, and the end of the read loop.
\<close>

section \<open>The handshake\<close>

text \<open>What the pool answers to the first message of a connection, and its state after that.\<close>

definition poolAnswer ::
  "string \<Rightarrow> time \<times> time \<times> time \<Rightarrow> Pool \<Rightarrow> AuthRequest \<Rightarrow> AuthResponse \<times> Pool" where
  "poolAnswer remote clock p message =
     (case authenticate p (Some message) of
        Inl reply \<Rightarrow> (reply, p)
      | Inr (req, info) \<Rightarrow>
          (let p' = install req info remote clock p
           in (greeting p' (last (pl_heap p')) info, p')))"

definition admits :: "Pool \<Rightarrow> WorkspaceConfig \<Rightarrow> bool" where
  "admits p cfg \<longleftrightarrow> (pl_authToken p = [] \<or> wf_Token cfg = pl_authToken p)
     \<and> mget (pl_agents p) (wf_AgentID cfg) \<noteq> None"

lemma authenticate_connect:
  "authenticate p (Some (connectRequest cfg)) =
     (if pl_authToken p \<noteq> [] \<and> wf_Token cfg \<noteq> pl_authToken p then Inl (authFailure ''invalid token'')
      else (case mget (pl_agents p) (wf_AgentID cfg) of
              None \<Rightarrow> Inl (authFailure (''unknown agent_id: '' @ wf_AgentID cfg))
            | Some info \<Rightarrow> Inr (connectRequest cfg, info)))"
  by (simp add: authenticate_def connectRequest_def cong: option.case_cong split: option.split)

lemma pool_refuses:
  assumes "\<not> admits p cfg"
  obtains e where "poolAnswer remote clock p (connectRequest cfg) = (authFailure e, p)"
proof -
  have "\<exists>e. authenticate p (Some (connectRequest cfg)) = Inl (authFailure e)"
    using assms by (auto simp: admits_def authenticate_connect)
  then show ?thesis using that by (auto simp: poolAnswer_def)
qed

lemma pool_admits:
  assumes "admits p cfg" "poolAnswer remote clock p (connectRequest cfg) = (reply, p')"
  obtains info where "mget (pl_agents p) (wf_AgentID cfg) = Some info"
    "reply = \<lparr>au_Type = ''auth_result'', au_Success = True,
       au_SessionID = sessionID (wf_AgentID cfg) (fst clock), au_Workspace = pl_workspace p, au_Error = [],
       au_Tools = ai_Tools info\<rparr>"
    "p' = install (connectRequest cfg) info remote clock p"
proof -
  from assms(1) obtain info where i: "mget (pl_agents p) (wf_AgentID cfg) = Some info"
    by (auto simp: admits_def)
  have a: "authenticate p (Some (connectRequest cfg)) = Inr (connectRequest cfg, info)"
    using assms(1) i by (simp add: authenticate_connect admits_def)
  show ?thesis
    using assms(2) a
    by (intro that [OF i]) (auto simp: poolAnswer_def Let_def greeting_def install_def Conn_Close_def
        connectRequest_def case_prod_beta split: option.splits)
qed

text \<open>
  C30. An agent that connects is let in exactly if it is registered and has the pool's token: then
  \<open>Connect\<close> succeeds, the agent is online, and the client has the session of the pool's state, the
  workspace and the tools of its registration; otherwise \<open>Connect\<close> fails and the pool is as before.
\<close>

theorem sdk_agent_joins:
  assumes "dial (wf_ServerURL (wc_cfg c)) = Inr conn"
    and "writeAuth conn (connectRequest (wc_cfg c)) = None"
    and "poolAnswer remote clock p (connectRequest (wc_cfg c)) = (reply, p')"
    and "readAuth conn = Inr reply"
    and "WorkspaceConnect dial writeAuth readAuth c = (err, c')"
  shows "if admits p (wc_cfg c)
    then err = None \<and> IsOnline p' (wf_AgentID (wc_cfg c)) \<and> wc_conn c' = Some conn
      \<and> (\<exists>st info. GetState p' (wf_AgentID (wc_cfg c)) = Some st
          \<and> mget (pl_agents p) (wf_AgentID (wc_cfg c)) = Some info
          \<and> wc_sessionID c' = as_SessionID st \<and> wc_workspace c' = pl_workspace p
          \<and> wc_tools c' = ai_Tools info)
    else err \<noteq> None \<and> p' = p"
proof (cases "admits p (wc_cfg c)")
  case False
  then obtain e where "poolAnswer remote clock p (connectRequest (wc_cfg c)) = (authFailure e, p)"
    by (rule pool_refuses)
  with False assms show ?thesis by (auto simp: WorkspaceConnect_def authFailure_def)
next
  case True
  from pool_admits [OF True assms(3)] obtain info where i:
    "mget (pl_agents p) (wf_AgentID (wc_cfg c)) = Some info"
    "reply = \<lparr>au_Type = ''auth_result'', au_Success = True,
       au_SessionID = sessionID (wf_AgentID (wc_cfg c)) (fst clock), au_Workspace = pl_workspace p,
       au_Error = [], au_Tools = ai_Tools info\<rparr>"
    "p' = install (connectRequest (wc_cfg c)) info remote clock p" .
  have "GetState p' (wf_AgentID (wc_cfg c)) = Some \<lparr>as_Info = info, as_Status = StatusOnline,
      as_ConnectedAt = fst (snd clock), as_LastSeenAt = snd (snd clock),
      as_SessionID = sessionID (wf_AgentID (wc_cfg c)) (fst clock), as_RemoteAddr = remote\<rparr>"
    by (simp add: i(3) GetState_def install_def connectRequest_def case_prod_beta Let_def)
  then show ?thesis
    using True assms(1,2,4,5) i(1,2)
    by (auto simp: WorkspaceConnect_def IsOnline_def GetState_def Let_def)
qed


section \<open>An agent for the examples\<close>

definition demoAgentConfig :: WorkspaceConfig where
  "demoAgentConfig = \<lparr>wf_ServerURL = ''ws://ws'', wf_AgentID = ''pm'', wf_Token = ''secret'',
     wf_Role = ''PM'', wf_ClientVersion = []\<rparr>"

definition demoAgentClient :: "nat WorkspaceClient" where
  "demoAgentClient = OnMessage True (NewWorkspaceClient demoAgentConfig)"

definition demoAgentPool :: Pool where
  "demoAgentPool = RegisterAgent demoAgent (NewPool ''secret'' ''ws'' True)"

definition demoReply :: AuthResponse where
  "demoReply = fst (poolAnswer ''r'' (0, 0, 0) demoAgentPool (connectRequest (wc_cfg demoAgentClient)))"

definition demoConnect :: "nat WorkspaceClient \<Rightarrow> string option \<times> nat WorkspaceClient" where
  "demoConnect = WorkspaceConnect (\<lambda>u. Inr 7) (\<lambda>conn m. None) (\<lambda>conn. Inr demoReply)"

lemma demo_admitted: "admits demoAgentPool (wc_cfg demoAgentClient)"
  by (simp add: admits_def demoAgentPool_def demoAgentClient_def OnMessage_def NewWorkspaceClient_def
      demoAgentConfig_def RegisterAgent_def NewPool_def demoAgent_def)

lemma demo_connects: "fst (demoConnect c) = None \<and> wc_conn (snd (demoConnect c)) = Some 7"
proof -
  have "poolAnswer ''r'' (0, 0, 0) demoAgentPool (connectRequest (wc_cfg demoAgentClient))
      = (demoReply, snd (poolAnswer ''r'' (0, 0, 0) demoAgentPool (connectRequest (wc_cfg demoAgentClient))))"
    by (simp only: demoReply_def prod.collapse)
  then have "au_Success demoReply" by (rule pool_admits [OF demo_admitted]) (erule ssubst, simp)
  then show ?thesis by (simp add: demoConnect_def WorkspaceConnect_def Let_def)
qed

theorem sdk_agent_joins_witness:
  "fst (demoConnect demoAgentClient) = None
   \<and> wc_workspace (snd (demoConnect demoAgentClient)) = pl_workspace demoAgentPool
   \<and> IsOnline (snd (poolAnswer ''r'' (0, 0, 0) demoAgentPool (connectRequest (wc_cfg demoAgentClient)))) ''pm''"
proof -
  obtain p' where p': "poolAnswer ''r'' (0, 0, 0) demoAgentPool (connectRequest (wc_cfg demoAgentClient))
      = (demoReply, p')" by (metis demoReply_def prod.collapse)
  have id: "wf_AgentID (wc_cfg demoAgentClient) = ''pm''"
    by (simp add: demoAgentClient_def OnMessage_def NewWorkspaceClient_def demoAgentConfig_def)
  have run: "demoConnect demoAgentClient = (None, snd (demoConnect demoAgentClient))"
    using demo_connects [of demoAgentClient] by (metis prod.collapse)
  show ?thesis
    using sdk_agent_joins [OF HOL.refl HOL.refl p' HOL.refl run [unfolded demoConnect_def],
        folded demoConnect_def] demo_connects [of demoAgentClient]
      demo_admitted p' id by auto
qed


section \<open>The read loop\<close>

text \<open>The handler leaves the channel alone.\<close>

definition keeps_done :: "(RoutedMessage \<Rightarrow> 'c WorkspaceClient \<Rightarrow> 'c WorkspaceClient) \<Rightarrow> bool" where
  "keeps_done act \<longleftrightarrow> (\<forall>msg c. wc_done (act msg c) = wc_done c)"

lemma done_never_ends:
  assumes "keeps_done act" "wc_done c"
  shows "snd (readLoop et um act frames c) \<noteq> LoopEnded c'"
  using assms(2)
proof (induction frames arbitrary: c)
  case (Cons f frames)
  have "wc_done (act msg c)" for msg using assms(1) Cons.prems by (simp add: keeps_done_def)
  with Cons.IH Cons.prems show ?case
    by (simp add: case_prod_beta split: read_round.split option.split)
qed simp

lemma loop_stops:
  assumes "None \<in> set frames"
  shows "snd (readLoop et um act frames c) \<noteq> LoopWaits c'"
  using assms
proof (induction frames arbitrary: c)
  case (Cons f frames)
  then show ?case
    by (cases f) (auto simp: case_prod_beta readRound_def split: read_round.splits option.splits if_splits)
qed simp

lemma ended_done: "snd (readLoop et um act frames c) = LoopEnded c' \<Longrightarrow> wc_done c'"
  by (induction frames arbitrary: c)
    (auto simp: case_prod_beta split: read_round.splits option.splits if_splits)

lemma connect_keeps_done: "WorkspaceConnect dial writeAuth readAuth c = (err, c') \<Longrightarrow> wc_done c' = wc_done c"
  by (auto simp: WorkspaceConnect_def Let_def split: sum.splits option.splits if_splits)

text \<open>
  A client cannot be connected a second time: when its connection has been lost, the read loop
  has closed the channel \<open>done\<close>, and a later \<open>Connect\<close> that succeeds starts a loop which panics as soon
  as that connection is lost too.
\<close>

theorem reconnect_panics:
  assumes "snd (readLoop et um act frames c) = LoopEnded c1"
    and "WorkspaceConnect dial writeAuth readAuth c1 = (None, c2)"
    and "keeps_done act" "None \<in> set frames2"
  shows "snd (readLoop et um act frames2 c2) = LoopPanics"
proof -
  have "wc_done c2" using ended_done [OF assms(1)] connect_keeps_done [OF assms(2)] by simp
  then show ?thesis
    using done_never_ends [OF assms(3)] loop_stops [OF assms(4)]
    by (cases "snd (readLoop et um act frames2 c2)") blast+
qed

theorem reconnect_panics_witness:
  "\<exists>c1. snd (readLoop (\<lambda>r. None) (\<lambda>r. None) (\<lambda>msg c. c) [Some ''x'', None] (snd (demoConnect demoAgentClient)))
        = LoopEnded c1
      \<and> snd (readLoop (\<lambda>r. None) (\<lambda>r. None) (\<lambda>msg c. c) [None] (snd (demoConnect c1))) = LoopPanics"
proof -
  let ?c = "snd (demoConnect demoAgentClient)"
  have "wc_done ?c = False"
    using connect_keeps_done [of _ _ _ demoAgentClient "fst (demoConnect demoAgentClient)" ?c]
    by (simp add: demoConnect_def demoAgentClient_def OnMessage_def NewWorkspaceClient_def)
  then have first: "snd (readLoop (\<lambda>r. None) (\<lambda>r. None) (\<lambda>msg c. c) [Some ''x'', None] ?c)
      = LoopEnded (?c\<lparr>wc_done := True\<rparr>)"
    using demo_connects [of demoAgentClient] by (simp add: readRound_def)
  let ?c1 = "?c\<lparr>wc_done := True\<rparr>"
  have again: "demoConnect ?c1 = (None, snd (demoConnect ?c1))"
    using demo_connects [of ?c1] by (metis prod.collapse)
  have "snd (readLoop (\<lambda>r. None) (\<lambda>r. None) (\<lambda>msg c. c) [None] (snd (demoConnect ?c1))) = LoopPanics"
    by (rule reconnect_panics [OF first, of "\<lambda>u. Inr 7" "\<lambda>conn m. None" "\<lambda>conn. Inr demoReply",
        folded demoConnect_def, OF again]) (simp_all add: keeps_done_def)
  with first show ?thesis by blast
qed

text \<open>
  A handler that closes its client takes the process down: after the first message the loop
  reads from a connection that is gone.
\<close>

theorem closing_handler_panics:
  assumes "wc_conn c = Some conn" "wc_onMessage c" "et raw = Some ''message''" "um raw = Some msg"
    and "act msg c = WorkspaceClose c"
  shows "readLoop et um act (Some raw # frames) c = ([msg], LoopPanics)"
proof -
  have "wc_conn (act msg c) = None" using assms(1,5) by (simp add: WorkspaceClose_def)
  then show ?thesis
    using assms(1-4) by (cases frames) (simp_all add: readRound_def)
qed

theorem closing_handler_panics_witness:
  "readLoop (\<lambda>r. Some ''message'')
     (\<lambda>r. Some \<lparr>rm_Type = ''message'', rm_ID = r, rm_Platform = [], rm_ChannelID = [], rm_UserID = [],
        rm_Username = [], rm_Text = [], rm_ThreadID = [], rm_Metadata = []\<rparr>)
     (\<lambda>msg c. WorkspaceClose c) [Some ''m1''] (demoAgentClient\<lparr>wc_conn := Some 7\<rparr>)
   = ([\<lparr>rm_Type = ''message'', rm_ID = ''m1'', rm_Platform = [], rm_ChannelID = [], rm_UserID = [],
        rm_Username = [], rm_Text = [], rm_ThreadID = [], rm_Metadata = []\<rparr>], LoopPanics)"
  by (rule closing_handler_panics [where conn = 7])
    (simp_all add: demoAgentClient_def OnMessage_def)

end
