(* ===== verification/Redis_Queue.thy ===== *)
theory Redis_Queue
  imports Job_Queue
begin

text \<open>
  The durable queue (\<open>internal/orchestrator/queue_redis.go\<close>) on a Redis stream with a consumer group.
  The client library and the server are outside: the commands are parameters, functions on the state
  \<open>'r\<close> of the server that give a result or an error.
\<close>

section \<open>Commands\<close>

record XMessage =
  xm_ID :: string
  xm_Values :: "string gomap"

text \<open>\<open>redis.Nil\<close> is the reply without a value.\<close>

datatype redis_error = RedisNil | RedisErr string

fun redisErrorText :: "redis_error \<Rightarrow> string" where
  "redisErrorText RedisNil = ''redis: nil''"
| "redisErrorText (RedisErr e) = e"

text \<open>
  \<open>XGROUP CREATE MKSTREAM\<close> of a stream and a group from the start of the stream; \<open>XADD\<close>;
  \<open>XREADGROUP\<close> of new messages for a group, a consumer, a stream, a count and a time to block, which
  gives streams with messages; \<open>XAUTOCLAIM\<close> for a stream, a group, a consumer, a minimal idle time, a
  start and a count, which gives messages and the next start; \<open>XACK\<close>; \<open>XLEN\<close>.
\<close>

record 'r redisClient =
  rc_Ping :: "'r \<Rightarrow> redis_error option"
  rc_XGroupCreateMkStream :: "string \<Rightarrow> string \<Rightarrow> 'r \<Rightarrow> redis_error option \<times> 'r"
  rc_XAdd :: "string \<Rightarrow> string gomap \<Rightarrow> 'r \<Rightarrow> (redis_error + string) \<times> 'r"
  rc_XReadGroup :: "string \<Rightarrow> string \<Rightarrow> string \<Rightarrow> int \<Rightarrow> duration \<Rightarrow> 'r \<Rightarrow>
    (redis_error + (string \<times> XMessage list) list) \<times> 'r"
  rc_XAutoClaim :: "string \<Rightarrow> string \<Rightarrow> string \<Rightarrow> duration \<Rightarrow> string \<Rightarrow> int \<Rightarrow> 'r \<Rightarrow>
    (redis_error + XMessage list \<times> string) \<times> 'r"
  rc_XAck :: "string \<Rightarrow> string \<Rightarrow> string \<Rightarrow> 'r \<Rightarrow> redis_error option \<times> 'r"
  rc_XLen :: "string \<Rightarrow> 'r \<Rightarrow> redis_error + int"


section \<open>The queue\<close>

record RedisQueueConfig =
  xc_URL :: string
  xc_Stream :: string
  xc_Group :: string
  xc_Consumer :: string
  xc_MinIdle :: duration
  xc_ReadBlock :: duration

record redisQueue =
  xq_stream :: string
  xq_group :: string
  xq_consumer :: string
  xq_minIdle :: duration
  xq_block :: duration
  xq_cursor :: string

definition orDefault :: "string \<Rightarrow> string \<Rightarrow> string" where
  "orDefault s d = (let t = TrimSpace s in if t = [] then d else t)"

text \<open>\<open>parseURL\<close> gives the error of \<open>redis.ParseURL\<close>, if there is one.\<close>

definition NewRedisQueue ::
  "(string \<Rightarrow> string option) \<Rightarrow> 'r redisClient \<Rightarrow> RedisQueueConfig \<Rightarrow> 'r \<Rightarrow>
   (string + redisQueue) \<times> 'r" where
  "NewRedisQueue parseURL client cfg r =
     (if TrimSpace (xc_URL cfg) = [] then (Inl ''redis url is required'', r)
      else (let stream = orDefault (xc_Stream cfg) ''cova:jobs'';
                group = orDefault (xc_Group cfg) ''cova-orchestrator'';
                consumer = orDefault (xc_Consumer cfg) ''worker-1'';
                minIdle = (if xc_MinIdle cfg \<le> 0 then 30 * nsPerSecond else xc_MinIdle cfg);
                block = (if xc_ReadBlock cfg \<le> 0 then nsPerSecond else xc_ReadBlock cfg)
            in case parseURL (xc_URL cfg) of
                 Some err \<Rightarrow> (Inl (''parse redis url: '' @ err), r)
               | None \<Rightarrow>
              (case rc_Ping client r of
                 Some err \<Rightarrow> (Inl (''ping redis: '' @ redisErrorText err), r)
               | None \<Rightarrow>
              (case rc_XGroupCreateMkStream client stream group r of
                 (Some err, r1) \<Rightarrow>
                   if \<not> sublist ''BUSYGROUP'' (redisErrorText err)
                   then (Inl (''create consumer group: '' @ redisErrorText err), r1)
                   else (Inr \<lparr>xq_stream = stream, xq_group = group, xq_consumer = consumer,
                          xq_minIdle = minIdle, xq_block = block, xq_cursor = ''0-0''\<rparr>, r1)
               | (None, r1) \<Rightarrow>
                   (Inr \<lparr>xq_stream = stream, xq_group = group, xq_consumer = consumer,
                      xq_minIdle = minIdle, xq_block = block, xq_cursor = ''0-0''\<rparr>, r1)))))"

definition redisQueue_Enqueue ::
  "'r redisClient \<Rightarrow> redisQueue \<Rightarrow> string \<Rightarrow> 'r \<Rightarrow> redis_error option \<times> 'r" where
  "redisQueue_Enqueue client q jobID r =
     (case rc_XAdd client (xq_stream q) [(''job_id'', jobID)] r of
        (Inl err, r') \<Rightarrow> (Some err, r')
      | (Inr mid, r') \<Rightarrow> (None, r'))"

text \<open>An item with the id of the message its \<open>Ack\<close> acknowledges.\<close>

record queuedJob =
  qj_ID :: string
  qj_Message :: string

datatype dequeue_error = DeadlineExceeded | QueueFailed redis_error | MissingJobID

definition buildQueuedJob :: "XMessage \<Rightarrow> dequeue_error + queuedJob" where
  "buildQueuedJob msg =
     (let jobID = TrimSpace (case mget (xm_Values msg) ''job_id'' of None \<Rightarrow> [] | Some v \<Rightarrow> v)
      in if jobID = [] then Inl MissingJobID
         else Inr \<lparr>qj_ID = jobID, qj_Message = xm_ID msg\<rparr>)"

text \<open>\<open>claimPending\<close> also moves the cursor.\<close>

definition claimPending ::
  "'r redisClient \<Rightarrow> redisQueue \<Rightarrow> 'r \<Rightarrow> (redis_error + XMessage option) \<times> redisQueue \<times> 'r" where
  "claimPending client q r =
     (case rc_XAutoClaim client (xq_stream q) (xq_group q) (xq_consumer q) (xq_minIdle q) (xq_cursor q) 1 r of
        (Inl RedisNil, r') \<Rightarrow> (Inr None, q, r')
      | (Inl err, r') \<Rightarrow> (Inl err, q, r')
      | (Inr (result, next), r') \<Rightarrow>
          (Inr (case result of [] \<Rightarrow> None | msg # _ \<Rightarrow> Some msg), q\<lparr>xq_cursor := next\<rparr>, r'))"

definition redisQueue_Dequeue ::
  "'r redisClient \<Rightarrow> redisQueue \<Rightarrow> 'r \<Rightarrow> (dequeue_error + queuedJob) \<times> redisQueue \<times> 'r" where
  "redisQueue_Dequeue client q r =
     (case claimPending client q r of
        (Inl err, q1, r1) \<Rightarrow> (Inl (QueueFailed err), q1, r1)
      | (Inr (Some msg), q1, r1) \<Rightarrow> (buildQueuedJob msg, q1, r1)
      | (Inr None, q1, r1) \<Rightarrow>
          (case rc_XReadGroup client (xq_group q1) (xq_consumer q1) (xq_stream q1) 1 (xq_block q1) r1 of
             (Inl err, r2) \<Rightarrow> (Inl (if err = RedisNil then DeadlineExceeded else QueueFailed err), q1, r2)
           | (Inr ((s, msg # _) # _), r2) \<Rightarrow> (buildQueuedJob msg, q1, r2)
           | (Inr _, r2) \<Rightarrow> (Inl DeadlineExceeded, q1, r2)))"

definition redisQueue_Ack ::
  "'r redisClient \<Rightarrow> redisQueue \<Rightarrow> queuedJob \<Rightarrow> 'r \<Rightarrow> redis_error option \<times> 'r" where
  "redisQueue_Ack client q item r = rc_XAck client (xq_stream q) (xq_group q) (qj_Message item) r"

definition redisQueue_Depth :: "'r redisClient \<Rightarrow> redisQueue \<Rightarrow> 'r \<Rightarrow> int" where
  "redisQueue_Depth client q r =
     (case rc_XLen client (xq_stream q) r of Inl err \<Rightarrow> 0 | Inr n \<Rightarrow> if n < 0 then 0 else n)"


section \<open>What Redis documents\<close>

text \<open>
  One stream and one group of it: the entries in their order, how many of them have been delivered
  to the group, and the ids that are pending, delivered and not acknowledged.
\<close>

record stream_view =
  sx_entries :: "XMessage list"
  sx_read :: nat
  sx_pending :: "string list"

definition view_ok :: "stream_view \<Rightarrow> bool" where
  "view_ok v \<longleftrightarrow> distinct (map xm_ID (sx_entries v)) \<and> sx_read v \<le> length (sx_entries v)
     \<and> set (sx_pending v) \<subseteq> xm_ID ` set (take (sx_read v) (sx_entries v))"

definition unread :: "stream_view \<Rightarrow> XMessage list" where
  "unread v = drop (sx_read v) (sx_entries v)"

definition added :: "string \<Rightarrow> string gomap \<Rightarrow> stream_view \<Rightarrow> stream_view \<Rightarrow> bool" where
  "added mid vals v v' \<longleftrightarrow> mid \<notin> xm_ID ` set (sx_entries v)
     \<and> v' = v\<lparr>sx_entries := sx_entries v @ [\<lparr>xm_ID = mid, xm_Values = vals\<rparr>]\<rparr>"

definition delivered :: "XMessage \<Rightarrow> stream_view \<Rightarrow> stream_view \<Rightarrow> bool" where
  "delivered m v v' \<longleftrightarrow> sx_read v < length (sx_entries v) \<and> m = sx_entries v ! sx_read v
     \<and> v' = v\<lparr>sx_read := Suc (sx_read v), sx_pending := sx_pending v @ [xm_ID m]\<rparr>"

text \<open>
  The commands on this stream and group.  An error may hide that a command was carried out; a claim
  changes the owner and the idle time of a pending message only; nothing here deletes an entry.
\<close>

definition add_law :: "'r redisClient \<Rightarrow> ('r \<Rightarrow> stream_view) \<Rightarrow> string \<Rightarrow> bool" where
  "add_law client view st \<longleftrightarrow> (\<forall>vals r res r'. rc_XAdd client st vals r = (res, r') \<longrightarrow>
     (\<exists>mid. added mid vals (view r) (view r')) \<or> (\<exists>e. res = Inl e) \<and> view r' = view r)"

definition read_law :: "'r redisClient \<Rightarrow> ('r \<Rightarrow> stream_view) \<Rightarrow> string \<Rightarrow> string \<Rightarrow> bool" where
  "read_law client view st g \<longleftrightarrow> (\<forall>c n b r res r'. rc_XReadGroup client g c st n b r = (res, r') \<longrightarrow>
     view r' = view r \<and> (\<forall>ss. res = Inr ss \<longrightarrow> (\<forall>x \<in> set ss. snd x = []))
     \<or> (\<exists>m. delivered m (view r) (view r') \<and> ((\<exists>e. res = Inl e) \<or> res = Inr [(st, [m])])))"

definition claim_law :: "'r redisClient \<Rightarrow> ('r \<Rightarrow> stream_view) \<Rightarrow> string \<Rightarrow> string \<Rightarrow> bool" where
  "claim_law client view st g \<longleftrightarrow> (\<forall>c i s n r res r'. rc_XAutoClaim client st g c i s n r = (res, r') \<longrightarrow>
     view r' = view r \<and> (\<forall>ms nxt. res = Inr (ms, nxt) \<longrightarrow>
       (\<forall>m \<in> set ms. m \<in> set (sx_entries (view r)) \<and> xm_ID m \<in> set (sx_pending (view r)))))"

definition ack_law :: "'r redisClient \<Rightarrow> ('r \<Rightarrow> stream_view) \<Rightarrow> string \<Rightarrow> string \<Rightarrow> bool" where
  "ack_law client view st g \<longleftrightarrow> (\<forall>mid r e r'. rc_XAck client st g mid r = (e, r') \<longrightarrow>
     view r' = (view r)\<lparr>sx_pending := removeAll mid (sx_pending (view r))\<rparr>
     \<or> e \<noteq> None \<and> view r' = view r)"

definition redis_laws :: "'r redisClient \<Rightarrow> ('r \<Rightarrow> stream_view) \<Rightarrow> string \<Rightarrow> string \<Rightarrow> bool" where
  "redis_laws client view st g \<longleftrightarrow>
     add_law client view st \<and> read_law client view st g \<and> claim_law client view st g
     \<and> ack_law client view st g
     \<and> (\<forall>r n. rc_XLen client st r = Inr n \<longrightarrow> n = int (length (sx_entries (view r))))
     \<and> (\<forall>r e r'. rc_XGroupCreateMkStream client st g r = (e, r') \<longrightarrow> view r' = view r)"

end
