(* ===== verification/Redis_Properties.thy ===== *)
theory Redis_Properties
  imports Redis_Queue Orch_Demo
begin

text \<open>
  The durable queue as several orchestrators share it: what a job in it can rely on, and what the
  orchestrator's use of it costs.  What is assumed of Redis is \<open>redis_laws\<close>; the examples at the end
  hold a stream that has them.
\<close>

section \<open>The commands in use\<close>

lemma enqueue_effect:
  assumes "redis_laws client view (xq_stream q) g" "redisQueue_Enqueue client q job r = (e, r')"
  shows "(\<exists>mid. added mid [(''job_id'', job)] (view r) (view r')) \<or> e \<noteq> None \<and> view r' = view r"
proof -
  obtain res where res: "rc_XAdd client (xq_stream q) [(''job_id'', job)] r = (res, r')"
      "e = None \<longleftrightarrow> (\<exists>mid. res = Inr mid)"
    using assms(2) by (auto simp: redisQueue_Enqueue_def split: prod.splits sum.splits)
  with assms(1) show ?thesis unfolding redis_laws_def add_law_def by fastforce
qed

lemma claim_effect:
  assumes "redis_laws client view (xq_stream q) (xq_group q)" "claimPending client q r = (res, q', r')"
  shows "view r' = view r" and "xq_stream q' = xq_stream q" "xq_group q' = xq_group q"
    and "res = Inr (Some m) \<Longrightarrow> m \<in> set (sx_entries (view r)) \<and> xm_ID m \<in> set (sx_pending (view r))"
proof -
  obtain cl where cl: "rc_XAutoClaim client (xq_stream q) (xq_group q) (xq_consumer q) (xq_minIdle q)
      (xq_cursor q) 1 r = (cl, r')"
    using assms(2) by (auto simp: claimPending_def split: prod.splits sum.splits redis_error.splits)
  with assms(1) have law: "view r' = view r" "\<And>ms nxt m. cl = Inr (ms, nxt) \<Longrightarrow> m \<in> set ms \<Longrightarrow>
      m \<in> set (sx_entries (view r)) \<and> xm_ID m \<in> set (sx_pending (view r))"
    unfolding redis_laws_def claim_law_def by blast+
  from law(1) show "view r' = view r" .
  show "xq_stream q' = xq_stream q" "xq_group q' = xq_group q"
    using assms(2) cl by (auto simp: claimPending_def split: sum.splits redis_error.splits)
  show "res = Inr (Some m) \<Longrightarrow> m \<in> set (sx_entries (view r)) \<and> xm_ID m \<in> set (sx_pending (view r))"
    using assms(2) cl law(2)
    by (auto simp: claimPending_def split: sum.splits redis_error.splits list.splits)
qed

lemma delivered_item:
  "delivered m v v' \<Longrightarrow> m \<in> set (sx_entries v') \<and> xm_ID m \<in> set (sx_pending v')"
  by (auto simp: delivered_def)

text \<open>
  A dequeue delivers at most one new message, and an item that it returns is built from a message
  that is pending afterwards.
\<close>

lemma dequeue_effect:
  assumes laws: "redis_laws client view (xq_stream q) (xq_group q)"
    and run: "redisQueue_Dequeue client q r = (res, q', r')"
  shows "view r' = view r \<or> (\<exists>m. delivered m (view r) (view r'))"
    and "xq_stream q' = xq_stream q" "xq_group q' = xq_group q"
    and "res = Inr item \<Longrightarrow> \<exists>m \<in> set (sx_entries (view r')). buildQueuedJob m = Inr item
           \<and> xm_ID m \<in> set (sx_pending (view r'))"
proof -
  obtain c q1 r1 where c: "claimPending client q r = (c, q1, r1)" by (metis surj_pair)
  note cl = claim_effect [OF laws c]
  obtain rd r2 where rd: "rc_XReadGroup client (xq_group q1) (xq_consumer q1) (xq_stream q1) 1 (xq_block q1) r1
      = (rd, r2)" by (metis surj_pair)
  have law: "view r2 = view r1 \<and> (\<forall>ss. rd = Inr ss \<longrightarrow> (\<forall>x \<in> set ss. snd x = []))
     \<or> (\<exists>m. delivered m (view r1) (view r2) \<and> ((\<exists>e. rd = Inl e) \<or> rd = Inr [(xq_stream q, [m])]))"
    using laws rd cl(2,3) unfolding redis_laws_def read_law_def by simp
  consider (new) "c = Inr None" | (old) m where "c = Inr (Some m)" | (failed) e where "c = Inl e"
    by (metis sum.exhaust option.exhaust)
  then have "q' = q1 \<and> (view r' = view r \<or> (\<exists>m. delivered m (view r) (view r')))
    \<and> (res = Inr item \<longrightarrow> (\<exists>m \<in> set (sx_entries (view r')). buildQueuedJob m = Inr item
           \<and> xm_ID m \<in> set (sx_pending (view r'))))"
  proof cases
    case new
    then have r: "q' = q1" "r' = r2"
      using run c rd by (auto simp: redisQueue_Dequeue_def split: sum.splits list.splits)
    have "\<exists>m. rd = Inr [(xq_stream q, [m])] \<and> buildQueuedJob m = Inr item
        \<and> delivered m (view r1) (view r2)" if "res = Inr item"
      using that run c rd new law by (auto simp: redisQueue_Dequeue_def split: sum.splits list.splits)
    with r law cl(1) show ?thesis by (metis delivered_item)
  next
    case old
    with run c cl show ?thesis by (auto simp: redisQueue_Dequeue_def)
  next
    case failed
    with run c cl show ?thesis by (auto simp: redisQueue_Dequeue_def)
  qed
  with cl(2,3) show "view r' = view r \<or> (\<exists>m. delivered m (view r) (view r'))"
    and "xq_stream q' = xq_stream q" "xq_group q' = xq_group q"
    and "res = Inr item \<Longrightarrow> \<exists>m \<in> set (sx_entries (view r')). buildQueuedJob m = Inr item
           \<and> xm_ID m \<in> set (sx_pending (view r'))" by simp_all
qed


section \<open>Orchestrators that share a stream\<close>

text \<open>
  The server, the queues of the orchestrators, the items that were handed out, the ids of jobs whose
  \<open>Enqueue\<close> succeeded, and the messages whose \<open>Ack\<close> was called.
\<close>

record 'r redis_sys =
  rz_server :: 'r
  rz_queues :: "redisQueue list"
  rz_held :: "queuedJob set"
  rz_accepted :: "string list"
  rz_acked :: "string set"

inductive redis_step ::
  "'r redisClient \<Rightarrow> ('r \<Rightarrow> stream_view) \<Rightarrow> 'r redis_sys \<Rightarrow> 'r redis_sys \<Rightarrow> bool"
  for client :: "'r redisClient" and view :: "'r \<Rightarrow> stream_view"
where
  enqueue: "c < length (rz_queues S) \<Longrightarrow>
     redisQueue_Enqueue client (rz_queues S ! c) job (rz_server S) = (e, r') \<Longrightarrow>
     redis_step client view S (S\<lparr>rz_server := r',
       rz_accepted := (if e = None then job # rz_accepted S else rz_accepted S)\<rparr>)"
| dequeue: "c < length (rz_queues S) \<Longrightarrow>
     redisQueue_Dequeue client (rz_queues S ! c) (rz_server S) = (res, q', r') \<Longrightarrow>
     redis_step client view S (S\<lparr>rz_server := r', rz_queues := (rz_queues S)[c := q'],
       rz_held := (case res of Inl e \<Rightarrow> rz_held S | Inr item \<Rightarrow> insert item (rz_held S))\<rparr>)"
| ack: "c < length (rz_queues S) \<Longrightarrow> item \<in> rz_held S \<Longrightarrow>
     redisQueue_Ack client (rz_queues S ! c) item (rz_server S) = (e, r') \<Longrightarrow>
     redis_step client view S (S\<lparr>rz_server := r', rz_acked := insert (qj_Message item) (rz_acked S)\<rparr>)"
| restart: "c < length (rz_queues S) \<Longrightarrow>
     NewRedisQueue parseURL client cfg (rz_server S) = (Inr q, r') \<Longrightarrow>
     xq_stream q = xq_stream (rz_queues S ! c) \<Longrightarrow> xq_group q = xq_group (rz_queues S ! c) \<Longrightarrow>
     redis_step client view S (S\<lparr>rz_server := r', rz_queues := (rz_queues S)[c := q]\<rparr>)"
| elsewhere: "view r' = view (rz_server S) \<Longrightarrow> redis_step client view S (S\<lparr>rz_server := r'\<rparr>)"

inductive_cases redis_stepE: "redis_step client view S S'"

inductive redis_reach ::
  "'r redisClient \<Rightarrow> ('r \<Rightarrow> stream_view) \<Rightarrow> 'r redis_sys \<Rightarrow> 'r redis_sys \<Rightarrow> bool"
  for client view S0
where
  refl: "redis_reach client view S0 S0"
| step: "redis_reach client view S0 S \<Longrightarrow> redis_step client view S S' \<Longrightarrow> redis_reach client view S0 S'"

definition entryJob :: "XMessage \<Rightarrow> string option" where
  "entryJob m = mget (xm_Values m) ''job_id''"

lemma entryJob_single [simp]: "entryJob \<lparr>xm_ID = mid, xm_Values = [(''job_id'', i)]\<rparr> = Some i"
  by (simp add: entryJob_def mget_def)

text \<open>What holds of the view of the server after every step.\<close>

definition redis_inv :: "('r \<Rightarrow> stream_view) \<Rightarrow> string \<Rightarrow> string \<Rightarrow> 'r redis_sys \<Rightarrow> bool" where
  "redis_inv view st g S \<longleftrightarrow>
     (let v = view (rz_server S)
      in view_ok v \<and> (\<forall>q \<in> set (rz_queues S). xq_stream q = st \<and> xq_group q = g)
         \<and> (\<forall>m \<in> set (take (sx_read v) (sx_entries v)).
              xm_ID m \<in> set (sx_pending v) \<or> xm_ID m \<in> rz_acked S)
         \<and> rz_acked S \<subseteq> qj_Message ` rz_held S
         \<and> (\<forall>item \<in> rz_held S. \<exists>m \<in> set (sx_entries v). buildQueuedJob m = Inr item)
         \<and> mset (map Some (rz_accepted S)) \<subseteq># mset (map entryJob (sx_entries v)))"

lemma added_ok:
  assumes "added mid vals v v'" "view_ok v"
  shows "view_ok v' \<and> set (sx_entries v) \<subseteq> set (sx_entries v') \<and> sx_pending v' = sx_pending v
    \<and> take (sx_read v') (sx_entries v') = take (sx_read v) (sx_entries v)
    \<and> mset (map entryJob (sx_entries v')) = add_mset (mget vals ''job_id'') (mset (map entryJob (sx_entries v)))"
  using assms by (auto simp: added_def view_ok_def entryJob_def)

lemma delivered_ok:
  assumes "delivered m v v'" "view_ok v"
  shows "view_ok v' \<and> sx_entries v' = sx_entries v \<and> sx_pending v' = sx_pending v @ [xm_ID m]
    \<and> take (sx_read v') (sx_entries v') = take (sx_read v) (sx_entries v) @ [m]"
  using assms by (auto simp: delivered_def view_ok_def take_Suc_conv_app_nth)

lemma acked_ok: "view_ok v \<Longrightarrow> view_ok (v\<lparr>sx_pending := removeAll mid (sx_pending v)\<rparr>)"
  by (auto simp: view_ok_def)

lemma NewRedisQueue_view:
  assumes "redis_laws client view (xq_stream q) (xq_group q)" "NewRedisQueue parseURL client cfg r = (Inr q, r')"
  shows "view r' = view r"
proof -
  have "\<exists>e. rc_XGroupCreateMkStream client (xq_stream q) (xq_group q) r = (e, r')"
    using assms(2) by (auto simp: NewRedisQueue_def Let_def split: if_splits option.splits prod.splits)
  then show ?thesis using assms(1) unfolding redis_laws_def by blast
qed

lemma redis_inv_step:
  assumes "redis_laws client view st g" "redis_inv view st g S" "redis_step client view S S'"
  shows "redis_inv view st g S'"
  using assms(3)
proof cases
  case (enqueue c job e r')
  have q: "xq_stream (rz_queues S ! c) = st" "xq_group (rz_queues S ! c) = g"
    using assms(2) enqueue(2) by (auto simp: redis_inv_def Let_def)
  have eff: "(\<exists>mid. added mid [(''job_id'', job)] (view (rz_server S)) (view r'))
      \<or> e \<noteq> None \<and> view r' = view (rz_server S)"
    using enqueue_effect [of client view "rz_queues S ! c" g] assms(1) q enqueue(3) by simp
  then show ?thesis
  proof
    assume "\<exists>mid. added mid [(''job_id'', job)] (view (rz_server S)) (view r')"
    then obtain mid where "added mid [(''job_id'', job)] (view (rz_server S)) (view r')" ..
    note add = added_ok [OF this]
    have "view_ok (view (rz_server S))" using assms(2) by (simp add: redis_inv_def Let_def)
    note add = add [OF this]
    then have "\<forall>item \<in> rz_held S. \<exists>m \<in> set (sx_entries (view r')). buildQueuedJob m = Inr item"
      using assms(2) unfolding redis_inv_def Let_def by blast
    with add assms(2) show ?thesis
      by (auto simp: enqueue(1) redis_inv_def Let_def mget_def intro: subset_mset.order_trans)
  qed (use assms(2) in \<open>auto simp: enqueue(1) redis_inv_def Let_def\<close>)
next
  case (dequeue c res q' r')
  have q: "xq_stream (rz_queues S ! c) = st" "xq_group (rz_queues S ! c) = g"
    using assms(2) dequeue(2) by (auto simp: redis_inv_def Let_def)
  note eff = dequeue_effect [OF assms(1) [folded q] dequeue(3)]
  have qs: "\<forall>x \<in> set ((rz_queues S)[c := q']). xq_stream x = st \<and> xq_group x = g"
    using assms(2) eff(2,3) q set_update_subset_insert [of "rz_queues S" c q']
    by (auto simp: redis_inv_def Let_def)
  have held: "\<forall>item. res = Inr item \<longrightarrow> (\<exists>m \<in> set (sx_entries (view r')). buildQueuedJob m = Inr item)"
    using eff(4) by blast
  from eff(1) show ?thesis
  proof
    assume "\<exists>m. delivered m (view (rz_server S)) (view r')"
    then obtain m where "delivered m (view (rz_server S)) (view r')" ..
    from delivered_ok [OF this] assms(2) qs held show ?thesis
      by (auto simp: dequeue(1) redis_inv_def Let_def split: sum.split)
  qed (use assms(2) qs held in \<open>auto simp: dequeue(1) redis_inv_def Let_def split: sum.split\<close>)
next
  case (ack c item e r')
  have q: "xq_stream (rz_queues S ! c) = st" "xq_group (rz_queues S ! c) = g"
    using assms(2) ack(2) by (auto simp: redis_inv_def Let_def)
  have "view r' = (view (rz_server S))\<lparr>sx_pending := removeAll (qj_Message item)
        (sx_pending (view (rz_server S)))\<rparr> \<or> view r' = view (rz_server S)"
    using assms(1) ack(4) q unfolding redis_laws_def ack_law_def redisQueue_Ack_def by blast
  then show ?thesis
    using assms(2) ack(3) acked_ok by (auto simp: ack(1) redis_inv_def Let_def)
next
  case (restart c parseURL cfg q r')
  have q: "xq_stream q = st" "xq_group q = g"
    using assms(2) restart(2,4,5) by (auto simp: redis_inv_def Let_def)
  have "view r' = view (rz_server S)"
    using NewRedisQueue_view [OF assms(1) [folded q] restart(3)] .
  moreover have "\<forall>x \<in> set ((rz_queues S)[c := q]). xq_stream x = st \<and> xq_group x = g"
    using assms(2) q set_update_subset_insert [of "rz_queues S" c q] by (auto simp: redis_inv_def Let_def)
  ultimately show ?thesis using assms(2) by (simp add: restart(1) redis_inv_def Let_def)
next
  case (elsewhere r')
  with assms(2) show ?thesis by (simp add: redis_inv_def Let_def)
qed

lemma redis_inv_reach:
  assumes "redis_reach client view S0 S" "redis_laws client view st g" "redis_inv view st g S0"
  shows "redis_inv view st g S"
  using assms by (induction rule: redis_reach.induct) (auto intro: redis_inv_step)

text \<open>A system of orchestrators at the start, on a stream that nobody has read from.\<close>

definition redis_start :: "('r \<Rightarrow> stream_view) \<Rightarrow> string \<Rightarrow> string \<Rightarrow> 'r redis_sys \<Rightarrow> bool" where
  "redis_start view st g S \<longleftrightarrow> view_ok (view (rz_server S)) \<and> sx_read (view (rz_server S)) = 0
     \<and> (\<forall>q \<in> set (rz_queues S). xq_stream q = st \<and> xq_group q = g)
     \<and> rz_held S = {} \<and> rz_accepted S = [] \<and> rz_acked S = {}"

lemma redis_start_inv: "redis_start view st g S \<Longrightarrow> redis_inv view st g S"
  by (simp add: redis_start_def redis_inv_def Let_def)


section \<open>A stream for the examples\<close>

text \<open>
  A server that holds just the view of one stream.  A new id is longer than all before it, and every
  pending message has been idle for a minute.
\<close>

definition demoRedis :: "stream_view redisClient" where
  "demoRedis =
     \<lparr>rc_Ping = (\<lambda>v. None),
      rc_XGroupCreateMkStream = (\<lambda>st g v. (Some (RedisErr ''BUSYGROUP''), v)),
      rc_XAdd = (\<lambda>st vals v. let mid = concat (map xm_ID (sx_entries v)) @ ''0''
        in (Inr mid, v\<lparr>sx_entries := sx_entries v @ [\<lparr>xm_ID = mid, xm_Values = vals\<rparr>]\<rparr>)),
      rc_XReadGroup = (\<lambda>g c st n b v.
        if sx_read v < length (sx_entries v)
        then (let m = sx_entries v ! sx_read v
              in (Inr [(st, [m])],
                  v\<lparr>sx_read := Suc (sx_read v), sx_pending := sx_pending v @ [xm_ID m]\<rparr>))
        else (Inl RedisNil, v)),
      rc_XAutoClaim = (\<lambda>st g c idle start n v.
        (Inr (if idle \<le> nsPerMinute
              then take 1 (filter (\<lambda>m. xm_ID m \<in> set (sx_pending v)) (sx_entries v)) else [],
              ''0-0''), v)),
      rc_XAck = (\<lambda>st g mid v. (None, v\<lparr>sx_pending := removeAll mid (sx_pending v)\<rparr>)),
      rc_XLen = (\<lambda>st v. Inr (int (length (sx_entries v))))\<rparr>"

lemma demo_fresh: "concat (map xm_ID es) @ ''0'' \<notin> xm_ID ` set es"
proof
  assume "concat (map xm_ID es) @ ''0'' \<in> xm_ID ` set es"
  then obtain m where m: "m \<in> set es" "xm_ID m = concat (map xm_ID es) @ ''0''" by auto
  have "length (xm_ID m) \<le> length (concat (map xm_ID es))"
    using m(1) by (auto simp: length_concat intro: member_le_sum_list)
  with m(2) show False by simp
qed

lemma demo_laws: "redis_laws demoRedis id st g"
proof -
  have "add_law demoRedis id st"
    using demo_fresh by (auto simp: add_law_def demoRedis_def added_def Let_def)
  moreover have "read_law demoRedis id st g"
    by (auto simp: read_law_def demoRedis_def delivered_def Let_def)
  moreover have "claim_law demoRedis id st g"
    by (auto simp: claim_law_def demoRedis_def dest!: in_set_takeD split: if_splits)
  moreover have "ack_law demoRedis id st g" by (simp add: ack_law_def demoRedis_def)
  ultimately show ?thesis by (simp add: redis_laws_def) (simp add: demoRedis_def)
qed

definition demoQueue :: "string \<Rightarrow> redisQueue" where
  "demoQueue consumer = \<lparr>xq_stream = ''cova:jobs'', xq_group = ''cova-orchestrator'',
     xq_consumer = consumer, xq_minIdle = 2 * nsPerMinute, xq_block = nsPerSecond, xq_cursor = ''0-0''\<rparr>"

text \<open>Two orchestrators on an empty stream.\<close>

definition demoShared :: "stream_view redis_sys" where
  "demoShared = \<lparr>rz_server = \<lparr>sx_entries = [], sx_read = 0, sx_pending = []\<rparr>,
     rz_queues = [demoQueue ''a'', demoQueue ''b''], rz_held = {}, rz_accepted = [], rz_acked = {}\<rparr>"

lemma demo_start: "redis_start id ''cova:jobs'' ''cova-orchestrator'' demoShared"
  by (simp add: redis_start_def demoShared_def demoQueue_def view_ok_def)

text \<open>The first has enqueued a job, and the second has read it.\<close>

definition demoItem :: queuedJob where
  "demoItem = \<lparr>qj_ID = ''job_1'', qj_Message = ''0''\<rparr>"

definition demoEntry :: XMessage where
  "demoEntry = \<lparr>xm_ID = ''0'', xm_Values = [(''job_id'', ''job_1'')]\<rparr>"

definition demoFilled :: "stream_view redis_sys" where
  "demoFilled = demoShared\<lparr>rz_server := \<lparr>sx_entries = [demoEntry], sx_read = 0, sx_pending = []\<rparr>,
     rz_accepted := [''job_1'']\<rparr>"

lemma demo_enqueue: "redis_step demoRedis id demoShared demoFilled"
proof -
  have "redisQueue_Enqueue demoRedis (rz_queues demoShared ! 0) ''job_1'' (rz_server demoShared)
      = (None, \<lparr>sx_entries = [demoEntry], sx_read = 0, sx_pending = []\<rparr>)"
    by (simp add: redisQueue_Enqueue_def demoRedis_def demoShared_def demoEntry_def Let_def)
  from redis_step.enqueue [OF _ this, of id] show ?thesis
    by (simp add: demoShared_def demoFilled_def)
qed

lemma demo_build: "buildQueuedJob demoEntry = Inr demoItem"
  by (simp add: buildQueuedJob_def demoEntry_def demoItem_def mget_def TrimSpace_visible visible_def)

lemma demo_dequeue:
  "redisQueue_Dequeue demoRedis (demoQueue ''b'') (rz_server demoFilled)
   = (Inr demoItem, demoQueue ''b'', \<lparr>sx_entries = [demoEntry], sx_read = 1, sx_pending = [''0'']\<rparr>)"
  using demo_build by (simp add: redisQueue_Dequeue_def claimPending_def demoRedis_def demoFilled_def
      demoQueue_def demoEntry_def nsPerMinute_def nsPerSecond_def Let_def)


section \<open>Delivery\<close>

text \<open>
  C25. The durable queue delivers at least once: whatever the orchestrators that share it do, and
  even if they crash and start again, every id whose \<open>Enqueue\<close> succeeded has an entry of its own in
  the stream, and each entry is still to be read, or pending and so to be claimed, or was
  acknowledged by an orchestrator that had been handed its item.
\<close>

theorem redis_at_least_once:
  assumes "redis_laws client view st g" "redis_start view st g S0" "redis_reach client view S0 S"
  shows "mset (map Some (rz_accepted S)) \<subseteq># mset (map entryJob (sx_entries (view (rz_server S))))
    \<and> (\<forall>m \<in> set (sx_entries (view (rz_server S))).
         m \<in> set (unread (view (rz_server S))) \<or> xm_ID m \<in> set (sx_pending (view (rz_server S)))
         \<or> xm_ID m \<in> qj_Message ` rz_held S \<inter> rz_acked S)"
proof -
  have inv: "redis_inv view st g S"
    by (rule redis_inv_reach [OF assms(3,1) redis_start_inv [OF assms(2)]])
  have "m \<in> set (unread (view (rz_server S))) \<or> xm_ID m \<in> set (sx_pending (view (rz_server S)))
      \<or> xm_ID m \<in> qj_Message ` rz_held S \<inter> rz_acked S" if "m \<in> set (sx_entries (view (rz_server S)))" for m
    using that inv set_append [of "take (sx_read (view (rz_server S))) (sx_entries (view (rz_server S)))"
        "unread (view (rz_server S))"]
    by (auto simp: redis_inv_def Let_def unread_def)
  with inv show ?thesis by (simp add: redis_inv_def Let_def)
qed

theorem redis_at_least_once_witness:
  "\<exists>S. redis_reach demoRedis id demoShared S \<and> rz_accepted S = [''job_1'']
     \<and> mset (map Some (rz_accepted S)) \<subseteq># mset (map entryJob (sx_entries (id (rz_server S))))"
proof -
  have reach: "redis_reach demoRedis id demoShared demoFilled"
    by (rule redis_reach.step [OF redis_reach.refl demo_enqueue])
  from redis_at_least_once [OF demo_laws demo_start reach] reach show ?thesis
    by (auto simp: demoFilled_def intro!: exI [of _ demoFilled])
qed

text \<open>An entry that was read and is not pending is out of every queue's reach for good.\<close>

definition gone :: "stream_view \<Rightarrow> string \<Rightarrow> bool" where
  "gone v mid \<longleftrightarrow> mid \<in> xm_ID ` set (take (sx_read v) (sx_entries v)) \<and> mid \<notin> set (sx_pending v)"

lemma gone_added: "added mid vals v v' \<Longrightarrow> view_ok v \<Longrightarrow> gone v x \<Longrightarrow> gone v' x"
  using added_ok by (auto simp: gone_def)

lemma gone_delivered:
  assumes "delivered m v v'" "view_ok v" "gone v x"
  shows "gone v' x"
proof -
  have "xm_ID m \<notin> xm_ID ` set (take (sx_read v) (sx_entries v))"
  proof
    assume "xm_ID m \<in> xm_ID ` set (take (sx_read v) (sx_entries v))"
    then obtain i where i: "i < sx_read v" "i < length (sx_entries v)"
        "map xm_ID (sx_entries v) ! i = map xm_ID (sx_entries v) ! sx_read v"
      using assms(1) by (auto simp: delivered_def in_set_conv_nth)
    with assms(1,2) show False by (auto simp: delivered_def view_ok_def distinct_conv_nth)
  qed
  with delivered_ok [OF assms(1,2)] assms(3) show ?thesis by (auto simp: gone_def image_iff)
qed

lemma gone_step:
  assumes "redis_laws client view st g" "redis_inv view st g S" "redis_step client view S S'"
    and "gone (view (rz_server S)) x"
  shows "gone (view (rz_server S')) x"
proof -
  have ok: "view_ok (view (rz_server S))" using assms(2) by (simp add: redis_inv_def Let_def)
  have q: "c < length (rz_queues S) \<Longrightarrow> xq_stream (rz_queues S ! c) = st \<and> xq_group (rz_queues S ! c) = g" for c
    using assms(2) by (simp add: redis_inv_def Let_def)
  from assms(3) show ?thesis
  proof cases
    case (enqueue c job e r')
    then show ?thesis
      using enqueue_effect [of client view "rz_queues S ! c" g job "rz_server S" e r'] assms(1,4) q [of c]
        gone_added [OF _ ok] by auto
  next
    case (dequeue c res q' r')
    then show ?thesis
      using dequeue_effect(1) [of client view "rz_queues S ! c" "rz_server S" res q' r'] assms(1,4) q [of c]
        gone_delivered [OF _ ok] by auto
  next
    case (ack c item e r')
    then have "view r' = (view (rz_server S))\<lparr>sx_pending := removeAll (qj_Message item)
          (sx_pending (view (rz_server S)))\<rparr> \<or> view r' = view (rz_server S)"
      using assms(1) q [of c] unfolding redis_laws_def ack_law_def redisQueue_Ack_def by blast
    then show ?thesis using assms(4) ack(1) by (auto simp: gone_def)
  next
    case (restart c parseURL cfg new r')
    then show ?thesis
      using NewRedisQueue_view [of client view new parseURL cfg "rz_server S" r'] assms(1,4) q [of c]
      by simp
  qed (use assms(4) in simp)
qed

lemma gone_reach:
  assumes "redis_reach client view S0 S" "redis_laws client view st g" "redis_inv view st g S0"
    and "gone (view (rz_server S0)) x"
  shows "gone (view (rz_server S)) x"
  using assms
  by (induction rule: redis_reach.induct) (auto intro: gone_step redis_inv_reach)


section \<open>Two orchestrators\<close>

lemma buildQueuedJob_message: "buildQueuedJob m = Inr item \<Longrightarrow> qj_Message item = xm_ID m"
  by (auto simp: buildQueuedJob_def Let_def split: if_splits)

lemma pending_read: "view_ok v \<Longrightarrow> mid \<in> set (sx_pending v) \<Longrightarrow>
    mid \<in> xm_ID ` set (take (sx_read v) (sx_entries v))"
  by (auto simp: view_ok_def)

text \<open>The system after an orchestrator has dequeued, and after it has acknowledged the item.\<close>

definition after_dequeue ::
  "nat \<Rightarrow> queuedJob \<Rightarrow> redisQueue \<Rightarrow> 'r \<Rightarrow> 'r redis_sys \<Rightarrow> 'r redis_sys" where
  "after_dequeue c item q r S = S\<lparr>rz_server := r, rz_queues := (rz_queues S)[c := q],
     rz_held := insert item (rz_held S)\<rparr>"

definition after_ack :: "queuedJob \<Rightarrow> 'r \<Rightarrow> 'r redis_sys \<Rightarrow> 'r redis_sys" where
  "after_ack item r S = S\<lparr>rz_server := r, rz_acked := insert (qj_Message item) (rz_acked S)\<rparr>"




section \<open>The depth\<close>

lemma entries_grow:
  assumes "redis_laws client view st g" "redis_inv view st g S" "redis_step client view S S'"
  shows "length (sx_entries (view (rz_server S))) \<le> length (sx_entries (view (rz_server S')))"
proof -
  have q: "c < length (rz_queues S) \<Longrightarrow> xq_stream (rz_queues S ! c) = st \<and> xq_group (rz_queues S ! c) = g" for c
    using assms(2) by (simp add: redis_inv_def Let_def)
  from assms(3) show ?thesis
  proof cases
    case (enqueue c job e r')
    then show ?thesis
      using enqueue_effect [of client view "rz_queues S ! c" g job "rz_server S" e r'] assms(1) q [of c]
      by (auto simp: added_def)
  next
    case (dequeue c res q' r')
    then show ?thesis
      using dequeue_effect(1) [of client view "rz_queues S ! c" "rz_server S" res q' r'] assms(1) q [of c]
      by (auto simp: delivered_def)
  next
    case (ack c item e r')
    then have "view r' = (view (rz_server S))\<lparr>sx_pending := removeAll (qj_Message item)
          (sx_pending (view (rz_server S)))\<rparr> \<or> view r' = view (rz_server S)"
      using assms(1) q [of c] unfolding redis_laws_def ack_law_def redisQueue_Ack_def by blast
    then show ?thesis using ack(1) by auto
  next
    case (restart c parseURL cfg new r')
    then show ?thesis
      using NewRedisQueue_view [of client view new parseURL cfg "rz_server S" r'] assms(1) q [of c]
      by simp
  qed simp
qed

lemma depth_entries:
  assumes "redis_laws client view (xq_stream q) g" "rc_XLen client (xq_stream q) r = Inr n"
  shows "redisQueue_Depth client q r = int (length (sx_entries (view r)))"
proof -
  have "n = int (length (sx_entries (view r)))" using assms unfolding redis_laws_def by blast
  with assms(2) show ?thesis by (simp add: redisQueue_Depth_def)
qed

text \<open>
  The depth of the durable queue, which the metrics report as the depth of the queue, is the
  number of all jobs that were ever put into it: acknowledged items are counted for ever, so that
  with a server that answers it is never less than it was, and at least the number of the accepted
  ids.
\<close>

theorem redis_depth_only_grows:
  assumes "redis_laws client view (xq_stream q) g" "redis_start view (xq_stream q) g S0"
    and "redis_reach client view S0 S" "redis_reach client view S S'"
    and "rc_XLen client (xq_stream q) (rz_server S) = Inr n"
    and "rc_XLen client (xq_stream q) (rz_server S') = Inr n'"
  shows "int (length (rz_accepted S)) \<le> redisQueue_Depth client q (rz_server S)
    \<and> redisQueue_Depth client q (rz_server S) \<le> redisQueue_Depth client q (rz_server S')"
proof -
  have inv: "redis_inv view (xq_stream q) g S"
    by (rule redis_inv_reach [OF assms(3,1) redis_start_inv [OF assms(2)]])
  have "length (sx_entries (view (rz_server S))) \<le> length (sx_entries (view (rz_server S')))
      \<and> redis_inv view (xq_stream q) g S'"
    using assms(4)
  proof (induction rule: redis_reach.induct)
    case (step S1 S2)
    then show ?case using entries_grow [OF assms(1)] redis_inv_step [OF assms(1)] by (meson le_trans)
  qed (simp add: inv)
  moreover have "length (rz_accepted S) \<le> length (sx_entries (view (rz_server S)))"
    using inv size_mset_mono [of "mset (map Some (rz_accepted S))" "mset (map entryJob (sx_entries (view (rz_server S))))"]
    by (simp add: redis_inv_def Let_def)
  ultimately show ?thesis by (simp add: depth_entries [OF assms(1,5)] depth_entries [OF assms(1,6)])
qed

theorem redis_depth_only_grows_witness:
  "redisQueue_Depth demoRedis (demoQueue ''a'') (rz_server demoFilled)
     \<le> redisQueue_Depth demoRedis (demoQueue ''a'') \<lparr>sx_entries = [demoEntry], sx_read = 1, sx_pending = []\<rparr>"
proof -
  let ?r1 = "\<lparr>sx_entries = [demoEntry], sx_read = 1, sx_pending = [''0'']\<rparr>"
  let ?r2 = "\<lparr>sx_entries = [demoEntry], sx_read = 1, sx_pending = []\<rparr>"
  let ?S1 = "after_dequeue 1 demoItem (demoQueue ''b'') ?r1 demoFilled" and
    ?S2 = "after_ack demoItem ?r2 (after_dequeue 1 demoItem (demoQueue ''b'') ?r1 demoFilled)"
  have len: "1 < length (rz_queues demoFilled)" by (simp add: demoFilled_def demoShared_def)
  have deq: "redisQueue_Dequeue demoRedis (rz_queues demoFilled ! 1) (rz_server demoFilled)
      = (Inr demoItem, demoQueue ''b'', ?r1)"
    using demo_dequeue by (simp add: demoFilled_def demoShared_def)
  have ack: "redisQueue_Ack demoRedis (rz_queues ?S1 ! 1) demoItem (rz_server ?S1) = (None, ?r2)"
    by (simp add: redisQueue_Ack_def demoRedis_def demoItem_def after_dequeue_def)
  have s1: "redis_step demoRedis id demoFilled ?S1"
    using redis_step.dequeue [OF len deq, of id] by (simp add: after_dequeue_def)
  have s2: "redis_step demoRedis id ?S1 ?S2"
    using redis_step.ack [OF _ _ ack, of id] len by (simp add: after_ack_def) (simp add: after_dequeue_def)
  have reach: "redis_reach demoRedis id demoShared demoFilled" "redis_reach demoRedis id demoFilled ?S2"
    by (rule redis_reach.step [OF redis_reach.refl demo_enqueue],
        rule redis_reach.step [OF redis_reach.step [OF redis_reach.refl s1] s2])
  have st: "xq_stream (demoQueue ''a'') = ''cova:jobs''" by (simp add: demoQueue_def)
  show ?thesis
    using redis_depth_only_grows [OF demo_laws demo_start [folded st] reach] by (simp add: demoRedis_def after_ack_def)
qed


section \<open>Starting again\<close>

text \<open>\<open>Enqueue\<close> as the orchestrator's queue: the queue and the server it is connected to.\<close>

definition queueEnqueue ::
  "'r redisClient \<Rightarrow> redisQueue \<times> 'r \<Rightarrow> string \<Rightarrow> string option \<times> redisQueue \<times> 'r" where
  "queueEnqueue client q job =
     (case redisQueue_Enqueue client (fst q) job (snd q) of (e, r') \<Rightarrow>
        (map_option redisErrorText e, fst q, r'))"

lemma NewServer_queue:
  "sv_queue (NewServer d load mkQueue opts experts store) =
     foldl (\<lambda>q i. snd (dp_Enqueue d q i)) (mkQueue (so_queueSize (foldl (\<lambda>c opt. opt c) serverDefaults opts)))
       (pendingJobs (sv_jobs (NewServer d load mkQueue opts experts store)))"
  by (simp add: NewServer_def loadState_def Let_def enqueueAll_queue pendingJobs_def split: sum.split)

lemma queued_pending:
  "getJob s i = Some j \<Longrightarrow> jb_Status j = statusQueued \<Longrightarrow> i \<in> set (pendingJobs (sv_jobs s))"
  by (force simp: getJob_def mget_def pendingJobs_def dest: map_of_SomeD)

lemma enqueue_all_appends:
  assumes "add_law client view (xq_stream q)"
    and "\<And>vals r. \<exists>mid r'. rc_XAdd client (xq_stream q) vals r = (Inr mid, r')"
    and "view_ok (view r)"
  shows "\<exists>r' ms. foldl (\<lambda>q i. snd (queueEnqueue client q i)) (q, r) ids = (q, r')
    \<and> sx_entries (view r') = sx_entries (view r) @ ms \<and> map entryJob ms = map Some ids
    \<and> sx_read (view r') = sx_read (view r) \<and> view_ok (view r')"
  using assms(3)
proof (induction ids arbitrary: r)
  case (Cons i ids)
  obtain mid r1 where add: "rc_XAdd client (xq_stream q) [(''job_id'', i)] r = (Inr mid, r1)"
    using assms(2) by blast
  then obtain k where k: "added k [(''job_id'', i)] (view r) (view r1)"
    using assms(1) unfolding add_law_def by blast
  have "view_ok (view r1)" using added_ok [OF k Cons.prems] by simp
  from Cons.IH [OF this] obtain r' ms where r': "foldl (\<lambda>q i. snd (queueEnqueue client q i)) (q, r1) ids = (q, r')"
      "sx_entries (view r') = sx_entries (view r1) @ ms" "map entryJob ms = map Some ids"
      "sx_read (view r') = sx_read (view r1)" "view_ok (view r')" by blast
  have "snd (queueEnqueue client (q, r) i) = (q, r1)"
    by (simp add: queueEnqueue_def redisQueue_Enqueue_def add)
  with r' k show ?case
    by (intro exI [of _ r'] exI [of _ "\<lparr>xm_ID = k, xm_Values = [(''job_id'', i)]\<rparr> # ms"])
      (simp add: added_def)
qed simp


definition durableDeps :: "(redisQueue \<times> stream_view, unit) deps" where
  "durableDeps = \<lparr>dp_Enqueue = queueEnqueue demoRedis,
     dp_Depth = (\<lambda>q. redisQueue_Depth demoRedis (fst q) (snd q)), dp_Save = nopStore_Save,
     dp_deliveryRead = None, dp_marshal = (\<lambda>req. Some (sreq_Date req)), dp_sha256 = (\<lambda>s. s)\<rparr>"

definition durableServer :: "(redisQueue \<times> stream_view, unit) Server" where
  "durableServer = NewServer durableDeps
     (\<lambda>st. Inr (emptyState\<lparr>ss_NextID := 1, ss_Jobs := Some [(''job_1'', storedJob demoJob)]\<rparr>))
     (\<lambda>n. (demoQueue ''a'', rz_server demoFilled)) [] [demoExpert] ()"


end
