(* ===== verification/Commands.thy ===== *)
theory Commands
  imports Mock_Worker Expert_Runtime Redis_Queue Orch_Restart Gateway Workspace Feishu_Channel
begin

text \<open>
  The commands (\<open>cmd/*/main.go\<close>): from the values of the flags to the parts that are started and the
  handlers of their paths.  Parsing the flags, the listener and the log are left out; a command
  ends with the value it would give to its \<open>http.Server\<close>, or with the message of \<open>log.Fatalf\<close>, or
  panics in \<open>ServeMux.Handle\<close>.
\<close>

section \<open>\<open>http.ServeMux\<close>\<close>

text \<open>
  A pattern without braces is a path, or with a slash at its end a subtree.  Registering it a second
  time panics, and so does one with a blank, whose first part is no method.
\<close>

type_synonym 'h mux = "'h gomap"

definition muxHandle :: "string \<Rightarrow> 'h \<Rightarrow> 'h mux \<Rightarrow> 'h mux option" where
  "muxHandle pat h m =
     (if CHR '' '' \<in> set pat \<or> CHR 0x09 \<in> set pat \<or> mget m pat \<noteq> None then None
      else Some (m @ [(pat, h)]))"

fun muxHandleAll :: "(string \<times> 'h) list \<Rightarrow> 'h mux \<Rightarrow> 'h mux option" where
  "muxHandleAll [] m = Some m"
| "muxHandleAll ((pat, h) # rest) m =
     (case muxHandle pat h m of None \<Rightarrow> None | Some m' \<Rightarrow> muxHandleAll rest m')"

definition cleanURLPath :: "string \<Rightarrow> string" where
  "cleanURLPath p0 =
     (let p = (if prefix ''/'' p0 then p0 else ''/'' @ p0); np = Clean p
      in if suffix ''/'' p \<and> np \<noteq> ''/'' then np @ ''/'' else np)"

datatype 'h served = Serve 'h | Redirected | Unmatched

definition longestPattern :: "'h mux \<Rightarrow> string \<times> 'h" where
  "longestPattern m = foldl (\<lambda>b e. if length (fst b) < length (fst e) then e else b) (hd m) (tl m)"

text \<open>
  A path that is not clean is redirected, and so is one whose subtree is registered and it is not;
  otherwise the longest pattern that matches serves the request.
\<close>

definition muxServe :: "'h mux \<Rightarrow> string \<Rightarrow> 'h served" where
  "muxServe m path =
     (if cleanURLPath path \<noteq> path then Redirected
      else (case mget m path of
              Some h \<Rightarrow> Serve h
            | None \<Rightarrow>
                if \<not> suffix ''/'' path \<and> mget m (path @ ''/'') \<noteq> None then Redirected
                else (let c = filter (\<lambda>e. suffix ''/'' (fst e) \<and> prefix (fst e) path) m
                      in if c = [] then Unmatched else Serve (snd (longestPattern c)))))"


section \<open>Opening the stores\<close>

text \<open>\<open>mkdir\<close> is \<open>os.MkdirAll\<close>; \<open>connect\<close> and \<open>exec\<close> are \<open>pgxpool.New\<close> and the creation of the table.\<close>

definition NewJSONLStore :: "(string \<Rightarrow> string option) \<Rightarrow> string \<Rightarrow> string + string" where
  "NewJSONLStore mkdir path0 =
     (let path = Clean path0; dir = Dir path
      in if dir \<noteq> ''.'' then (case mkdir dir of Some err \<Rightarrow> Inl err | None \<Rightarrow> Inr path) else Inr path)"

definition NewJSONFileStore :: "(string \<Rightarrow> string option) \<Rightarrow> string \<Rightarrow> string + string" where
  "NewJSONFileStore mkdir path0 =
     (let path = Clean path0 in case mkdir (Dir path) of Some err \<Rightarrow> Inl err | None \<Rightarrow> Inr path)"

definition NewPostgresStore ::
  "(string \<Rightarrow> string option) \<Rightarrow> (string \<Rightarrow> string option) \<Rightarrow> string \<Rightarrow> string + string" where
  "NewPostgresStore connect exec dsn0 =
     (let dsn = TrimSpace dsn0
      in if dsn = [] then Inl ''postgres dsn is required''
         else (case connect dsn of
                 Some err \<Rightarrow> Inl (''connect postgres: '' @ err)
               | None \<Rightarrow> (case exec dsn of
                            Some err \<Rightarrow> Inl (''init cova_job_state: '' @ err) | None \<Rightarrow> Inr dsn)))"

datatype store_choice = NopChoice | JSONChoice string | PostgresChoice string

datatype executor_choice = MockChoice mockConfig | RuntimeChoice RuntimeExecutor

datatype 'e exit = FatalRegistry "'e registry_error" | Fatal string | Panicked

text \<open>The outside of a command.\<close>

record ('e, 'r) host =
  ho_ReadFile :: "'e file_system"
  ho_mkdir :: "string \<Rightarrow> string option"
  ho_pgConnect :: "string \<Rightarrow> string option"
  ho_pgExec :: "string \<Rightarrow> string option"
  ho_redisURL :: "string \<Rightarrow> string option"
  ho_redis :: "'r redisClient"
  ho_server :: 'r
  ho_parseURL :: "string \<Rightarrow> string + string"


section \<open>The orchestrator\<close>

record orchFlags =
  of_addr :: string
  of_registry :: string
  of_jobStatePath :: string
  of_stageDelay :: duration
  of_maxAttempts :: int
  of_initialBackoff :: duration
  of_maxBackoff :: duration
  of_requestTimeout :: duration
  of_jitter :: rat
  of_deliveryLog :: string
  of_metricsPath :: string
  of_healthPath :: string
  of_runtimeURL :: string
  of_runtimeToken :: string
  of_runtimeAsync :: bool
  of_taskTimeout :: duration
  of_signingSecret :: string
  of_postgresDSN :: string
  of_redisURL :: string
  of_redisStream :: string
  of_redisGroup :: string
  of_redisConsumer :: string

definition nsPerMilli :: int where "nsPerMilli = 1000000"

definition orchDefaults :: orchFlags where
  "orchDefaults = \<lparr>of_addr = '':8081'', of_registry = ''configs/experts/registry.yaml'',
     of_jobStatePath = ''docs/log/orchestrator_jobs_state.json'', of_stageDelay = 200 * nsPerMilli,
     of_maxAttempts = 10, of_initialBackoff = 200 * nsPerMilli, of_maxBackoff = 3 * nsPerSecond,
     of_requestTimeout = 3 * nsPerSecond, of_jitter = 2 / 10,
     of_deliveryLog = ''docs/log/webhook_deliveries.jsonl'', of_metricsPath = ''/metrics'',
     of_healthPath = ''/healthz'', of_runtimeURL = [], of_runtimeToken = [], of_runtimeAsync = True,
     of_taskTimeout = 60 * nsPerSecond, of_signingSecret = [], of_postgresDSN = [],
     of_redisURL = [], of_redisStream = ''cova:jobs'', of_redisGroup = ''cova-orchestrator'',
     of_redisConsumer = ''orchestrator-1''\<rparr>"

datatype orch_handler = HMetrics | HHealth | HExpertEvents | HServer

record orchCommand =
  oc_snapshot :: RegistrySnapshot
  oc_dispatcher :: dconfig
  oc_deliveryLog :: "string option"
  oc_store :: store_choice
  oc_executor :: executor_choice
  oc_verifier :: "Verifier option"
  oc_queue :: "redisQueue option"
  oc_mux :: "orch_handler mux"

text \<open>The steps of \<open>main\<close> that can fail, in their order.\<close>

definition webhookOptions :: "orchFlags \<Rightarrow> (dconfig \<Rightarrow> dconfig) list" where
  "webhookOptions f = [WithMaxAttempts (of_maxAttempts f), WithInitialBackoff (of_initialBackoff f),
     WithMaxBackoff (of_maxBackoff f), WithRequestTimeout (of_requestTimeout f),
     WithJitterFraction (of_jitter f)]"

definition openDeliveryLog :: "('e, 'r) host \<Rightarrow> string \<Rightarrow> string + string option" where
  "openDeliveryLog ho path0 =
     (let path = TrimSpace path0
      in if path = [] then Inr None else map_sum id Some (NewJSONLStore (ho_mkdir ho) path))"

definition openJobStore :: "('e, 'r) host \<Rightarrow> orchFlags \<Rightarrow> string + store_choice" where
  "openJobStore ho f =
     (let dsn = TrimSpace (of_postgresDSN f); path = TrimSpace (of_jobStatePath f)
      in if dsn \<noteq> []
         then (case NewPostgresStore (ho_pgConnect ho) (ho_pgExec ho) dsn of
                 Inl err \<Rightarrow> Inl (''init postgres job state store: '' @ err)
               | Inr d \<Rightarrow> Inr (PostgresChoice d))
         else if path \<noteq> []
         then (case NewJSONFileStore (ho_mkdir ho) path of
                 Inl err \<Rightarrow> Inl (''init orchestrator job state store: '' @ err)
               | Inr p \<Rightarrow> Inr (JSONChoice p))
         else Inr NopChoice)"

definition chooseExecutor :: "orchFlags \<Rightarrow> executor_choice" where
  "chooseExecutor f =
     (let url = TrimSpace (of_runtimeURL f)
      in if url \<noteq> []
         then RuntimeChoice (NewRuntimeExecutor url [WithRuntimeAuthToken (of_runtimeToken f),
                WithRuntimeAsyncMode (of_runtimeAsync f), WithRuntimeTaskTimeout (of_taskTimeout f)])
         else MockChoice (NewMockExecutor [WithStageDelay (of_stageDelay f)]))"

definition chooseVerifier :: "orchFlags \<Rightarrow> Verifier option" where
  "chooseVerifier f =
     (let secret = TrimSpace (of_signingSecret f)
      in if secret \<noteq> [] then Some (NewVerifier secret []) else None)"

definition redisConfig :: "orchFlags \<Rightarrow> string \<Rightarrow> RedisQueueConfig" where
  "redisConfig f url = \<lparr>xc_URL = url, xc_Stream = of_redisStream f, xc_Group = of_redisGroup f,
     xc_Consumer = of_redisConsumer f, xc_MinIdle = 0, xc_ReadBlock = 0\<rparr>"

definition openQueue :: "('e, 'r) host \<Rightarrow> orchFlags \<Rightarrow> string + redisQueue option" where
  "openQueue ho f =
     (let url = TrimSpace (of_redisURL f)
      in if url = [] then Inr None
         else (case fst (NewRedisQueue (ho_redisURL ho) (ho_redis ho) (redisConfig f url) (ho_server ho)) of
                 Inl err \<Rightarrow> Inl (''init redis queue: '' @ err)
               | Inr q \<Rightarrow> Inr (Some q)))"

definition orchMux :: "orchFlags \<Rightarrow> orch_handler mux option" where
  "orchMux f = muxHandleAll
     [(normalizePath (of_metricsPath f) ''/metrics'', HMetrics),
      (normalizePath (of_healthPath f) ''/healthz'', HHealth),
      (''/v1/expert/events'', HExpertEvents), (''/'', HServer)] []"

definition orchestratorMain :: "('e, 'r) host \<Rightarrow> orchFlags \<Rightarrow> 'e exit + orchCommand" where
  "orchestratorMain ho f =
     (case LoadSnapshot (ho_ReadFile ho) (of_registry f) of
        Inl err \<Rightarrow> Inl (FatalRegistry err)
      | Inr snapshot \<Rightarrow>
     (case openDeliveryLog ho (of_deliveryLog f) of
        Inl err \<Rightarrow> Inl (Fatal (''init webhook delivery log store: '' @ err))
      | Inr deliveryLog \<Rightarrow>
     (case openJobStore ho f of
        Inl err \<Rightarrow> Inl (Fatal err)
      | Inr store \<Rightarrow>
     (case openQueue ho f of
        Inl err \<Rightarrow> Inl (Fatal err)
      | Inr queue \<Rightarrow>
     (case orchMux f of
        None \<Rightarrow> Inl Panicked
      | Some mux \<Rightarrow>
          Inr \<lparr>oc_snapshot = snapshot, oc_dispatcher = NewDispatcher (webhookOptions f),
               oc_deliveryLog = deliveryLog, oc_store = store, oc_executor = chooseExecutor f,
               oc_verifier = chooseVerifier f, oc_queue = queue, oc_mux = mux\<rparr>)))))"

text \<open>
  The server of the command, on the store and the queue that were opened.  The executor, the
  dispatcher, the delivery log and the verifier of the command are what the worker, the webhooks
  and the handler of the events use.
\<close>

definition orchestratorServer ::
  "('q, 'st) deps \<Rightarrow> ('st \<Rightarrow> store_error + State) \<Rightarrow> (int \<Rightarrow> 'q) \<Rightarrow> orchCommand \<Rightarrow> 'st \<Rightarrow> ('q, 'st) Server" where
  "orchestratorServer d load mkQueue c store =
     NewServer d load mkQueue [] (map snapshotExpert (sn_Experts (oc_snapshot c))) store"


section \<open>The expert runtime\<close>

record runtimeFlags =
  fr_addr :: string
  fr_registry :: string
  fr_authEnabled :: bool
  fr_authToken :: string
  fr_asyncDefault :: bool
  fr_stageDelay :: duration
  fr_taskTimeout :: duration
  fr_eventURL :: string
  fr_eventSecret :: string
  fr_eventTimeout :: duration

definition runtimeDefaults :: runtimeFlags where
  "runtimeDefaults = \<lparr>fr_addr = '':8082'', fr_registry = ''configs/experts/registry.yaml'',
     fr_authEnabled = False, fr_authToken = [], fr_asyncDefault = False,
     fr_stageDelay = 200 * nsPerMilli, fr_taskTimeout = 180 * nsPerSecond, fr_eventURL = [],
     fr_eventSecret = [], fr_eventTimeout = 5 * nsPerSecond\<rparr>"

definition authOption :: "runtimeFlags \<Rightarrow> string + ('sink RtServer \<Rightarrow> 'sink RtServer)" where
  "authOption f =
     (if fr_authEnabled f
      then (let token = TrimSpace (fr_authToken f)
            in if token = [] then Inl ''auth-token is required when auth-enabled=true''
               else Inr (WithAuthToken token))
      else Inr WithAuthDisabled)"

definition sinkOption :: "runtimeFlags \<Rightarrow> (HTTPEventSink RtServer \<Rightarrow> HTTPEventSink RtServer) list" where
  "sinkOption f =
     (let url = TrimSpace (fr_eventURL f)
      in if url \<noteq> []
         then [WithEventSink (Some (NewHTTPEventSink url (fr_eventSecret f) (fr_eventTimeout f)))] else [])"

text \<open>The server, with its executor.\<close>

definition runtimeMain ::
  "('e, 'r) host \<Rightarrow> runtimeFlags \<Rightarrow> 'e exit + mockConfig \<times> HTTPEventSink RtServer" where
  "runtimeMain ho f =
     (case LoadSnapshot (ho_ReadFile ho) (fr_registry f) of
        Inl err \<Rightarrow> Inl (FatalRegistry err)
      | Inr snapshot \<Rightarrow>
     (case authOption f of
        Inl err \<Rightarrow> Inl (Fatal err)
      | Inr auth \<Rightarrow>
          Inr (NewMockExecutor [WithStageDelay (fr_stageDelay f)],
               NewRtServer (Some snapshot)
                 ([WithDefaultAsync (fr_asyncDefault f), WithDefaultTimeout (fr_taskTimeout f), auth]
                  @ sinkOption f))))"


section \<open>The mock worker\<close>

record workerFlags =
  fw_addr :: string
  fw_registry :: string
  fw_stageDelay :: duration
  fw_maxAttempts :: int
  fw_initialBackoff :: duration
  fw_maxBackoff :: duration
  fw_requestTimeout :: duration
  fw_jitter :: rat
  fw_deliveryLog :: string
  fw_jobStatePath :: string
  fw_metricsPath :: string
  fw_healthPath :: string

definition workerDefaults :: workerFlags where
  "workerDefaults = \<lparr>fw_addr = '':8080'', fw_registry = ''configs/experts/registry.yaml'',
     fw_stageDelay = 200 * nsPerMilli, fw_maxAttempts = 10, fw_initialBackoff = 200 * nsPerMilli,
     fw_maxBackoff = 3 * nsPerSecond, fw_requestTimeout = 3 * nsPerSecond, fw_jitter = 2 / 10,
     fw_deliveryLog = ''docs/log/webhook_deliveries.jsonl'', fw_jobStatePath = ''docs/log/jobs_state.json'',
     fw_metricsPath = ''/metrics'', fw_healthPath = ''/healthz''\<rparr>"

datatype worker_handler = WMetrics | WHealth | WServer

record workerCommand =
  wm_snapshot :: RegistrySnapshot
  wm_dispatcher :: dconfig
  wm_deliveryLog :: "string option"
  wm_store :: store_choice
  wm_processDelay :: duration
  wm_mux :: "worker_handler mux"

definition workerWebhookOptions :: "workerFlags \<Rightarrow> (dconfig \<Rightarrow> dconfig) list" where
  "workerWebhookOptions f = [WithMaxAttempts (fw_maxAttempts f), WithInitialBackoff (fw_initialBackoff f),
     WithMaxBackoff (fw_maxBackoff f), WithRequestTimeout (fw_requestTimeout f),
     WithJitterFraction (fw_jitter f)]"

definition openWorkerStore :: "('e, 'r) host \<Rightarrow> workerFlags \<Rightarrow> string + store_choice" where
  "openWorkerStore ho f =
     (let path = TrimSpace (fw_jobStatePath f)
      in if path \<noteq> []
         then (case NewJSONFileStore (ho_mkdir ho) path of
                 Inl err \<Rightarrow> Inl (''init job state store: '' @ err)
               | Inr p \<Rightarrow> Inr (JSONChoice p))
         else Inr NopChoice)"

definition workerMux :: "workerFlags \<Rightarrow> worker_handler mux option" where
  "workerMux f = muxHandleAll
     [(normalizePath (fw_metricsPath f) ''/metrics'', WMetrics),
      (normalizePath (fw_healthPath f) ''/healthz'', WHealth), (''/'', WServer)] []"

definition workerMain :: "('e, 'r) host \<Rightarrow> workerFlags \<Rightarrow> 'e exit + workerCommand" where
  "workerMain ho f =
     (case LoadSnapshot (ho_ReadFile ho) (fw_registry f) of
        Inl err \<Rightarrow> Inl (FatalRegistry err)
      | Inr snapshot \<Rightarrow>
     (case openDeliveryLog ho (fw_deliveryLog f) of
        Inl err \<Rightarrow> Inl (Fatal (''init webhook delivery log store: '' @ err))
      | Inr deliveryLog \<Rightarrow>
     (case openWorkerStore ho f of
        Inl err \<Rightarrow> Inl (Fatal err)
      | Inr store \<Rightarrow>
     (case workerMux f of
        None \<Rightarrow> Inl Panicked
      | Some mux \<Rightarrow>
          Inr \<lparr>wm_snapshot = snapshot, wm_dispatcher = NewDispatcher (workerWebhookOptions f),
               wm_deliveryLog = deliveryLog, wm_store = store, wm_processDelay = fw_stageDelay f,
               wm_mux = mux\<rparr>))))"

definition workerServer ::
  "('st \<Rightarrow> store_error + State) \<Rightarrow> workerCommand \<Rightarrow> 'st \<Rightarrow> 'st MockServer" where
  "workerServer load c store =
     NewMockServer load [WithProcessDelay (wm_processDelay c)] (Some (wm_snapshot c)) store"


section \<open>The gateway\<close>

record gatewayFlags =
  fg_addr :: string
  fg_orchestratorURL :: string
  fg_authEnabled :: bool
  fg_authTokens :: string
  fg_authBindings :: string
  fg_rateLimitEnabled :: bool
  fg_ratePerSecond :: float64
  fg_rateBurst :: int
  fg_maxBodyBytes :: int
  fg_accessLogEnabled :: bool
  fg_metricsPath :: string

definition gatewayDefaults :: gatewayFlags where
  "gatewayDefaults = \<lparr>fg_addr = '':8080'', fg_orchestratorURL = ''http://127.0.0.1:8081'',
     fg_authEnabled = False, fg_authTokens = [], fg_authBindings = [], fg_rateLimitEnabled = True,
     fg_ratePerSecond = 20, fg_rateBurst = 40, fg_maxBodyBytes = 2 ^ 20, fg_accessLogEnabled = True,
     fg_metricsPath = ''/metrics''\<rparr>"

datatype gateway_handler = GMetrics | GMiddleware

definition gatewayConfig :: "gatewayFlags \<Rightarrow> GwConfig" where
  "gatewayConfig f = \<lparr>gc_AuthEnabled = fg_authEnabled f, gc_AuthTokens = splitCSV (fg_authTokens f),
     gc_AuthBindings = parseAuthBindings (fg_authBindings f),
     gc_RateLimitEnabled = fg_rateLimitEnabled f, gc_RatePerSecond = fg_ratePerSecond f,
     gc_RateBurst = fg_rateBurst f, gc_MaxBodyBytes = fg_maxBodyBytes f,
     gc_AccessLogEnabled = fg_accessLogEnabled f\<rparr>"

text \<open>The proxy's director, on the request the library's own director has made.\<close>

definition gatewayDirector :: "time \<Rightarrow> Request \<Rightarrow> Request" where
  "gatewayDirector now r =
     (if hGet (rq_Header r) ''X-Request-Id'' = []
      then r\<lparr>rq_Header := hSet ''X-Request-Id'' (''gw_'' @ stamp_text now) (rq_Header r)\<rparr> else r)"

definition proxyError :: Response where
  "proxyError = plainError ''upstream unavailable'' 502"

definition gatewayMain ::
  "('e, 'r) host \<Rightarrow> time \<Rightarrow> gatewayFlags \<Rightarrow> 'e exit + string \<times> Middleware \<times> gateway_handler mux" where
  "gatewayMain ho now f =
     (case ho_parseURL ho (TrimSpace (fg_orchestratorURL f)) of
        Inl err \<Rightarrow> Inl (Fatal (''invalid orchestrator-url: '' @ err))
      | Inr target \<Rightarrow>
     (case NewHandler True (gatewayConfig f) now of
        Inl err \<Rightarrow> Inl (Fatal (''init gateway middleware: '' @ err))
      | Inr middleware \<Rightarrow>
     (case muxHandleAll [(normalizePath (fg_metricsPath f) ''/metrics'', GMetrics), (''/'', GMiddleware)] [] of
        None \<Rightarrow> Inl Panicked
      | Some mux \<Rightarrow> Inr (target, middleware, mux))))"


section \<open>The workspace\<close>

record workspaceFlags =
  fk_addr :: string
  fk_registry :: string
  fk_authToken :: string
  fk_feishuAppID :: string
  fk_feishuAppSecret :: string
  fk_feishuBots :: string

definition workspaceDefaults :: workspaceFlags where
  "workspaceDefaults = \<lparr>fk_addr = '':18900'', fk_registry = ''configs/agents/registry.yaml'',
     fk_authToken = [], fk_feishuAppID = [], fk_feishuAppSecret = [], fk_feishuBots = []\<rparr>"

datatype workspace_handler = KWebSocket | KHealth | KAgents | KWebhook

definition workspaceMux :: "workspace_handler mux option" where
  "workspaceMux = muxHandleAll [(''/ws'', KWebSocket), (''/healthz'', KHealth), (''/v1/agents'', KAgents),
     (''/webhook'', KWebhook)] []"

text \<open>A channel is registered under its name.\<close>

definition openFeishu ::
  "workspaceFlags \<Rightarrow> string + FeishuChannel gomap" where
  "openFeishu f =
     (if fk_feishuAppID f \<noteq> [] \<and> fk_feishuAppSecret f \<noteq> []
      then (case FeishuNew \<lparr>fc_AppID = fk_feishuAppID f, fc_AppSecret = fk_feishuAppSecret f,
                   fc_BotNameToAgentID = parseBotMapping (fk_feishuBots f)\<rparr> of
              Inl err \<Rightarrow> Inl (''init feishu channel: '' @ err)
            | Inr ch0 \<Rightarrow>
                (case FeishuStart (SetMessageHandler ch0) of
                   (Some err, ch) \<Rightarrow> Inl (''start feishu channel: '' @ err)
                 | (None, ch) \<Rightarrow> Inr [(''feishu'', ch)]))
      else Inr [])"

datatype 'e workspace_exit = FatalAgents "'e agent_error" | FatalWorkspace string

definition workspaceMain ::
  "'e file_system \<Rightarrow> workspaceFlags \<Rightarrow> 'e workspace_exit + FeishuChannel Workspace" where
  "workspaceMain ReadFile f =
     (case LoadRegistryWithAgents ReadFile (fk_registry f) of
        Inl err \<Rightarrow> Inl (FatalAgents err)
      | Inr (reg, agents) \<Rightarrow>
          (case openFeishu f of
             Inl err \<Rightarrow> Inl (FatalWorkspace err)
           | Inr channels \<Rightarrow> Inr (startWorkspace (fk_authToken f) reg agents channels)))"

end
