(* ===== verification/Command_Properties.thy ===== *)
theory Command_Properties
  imports Commands Runtime_System Registry_Properties Orch_Demo Gateway_Properties
begin

text \<open>
  What the commands guarantee of the servers they start: the paths the orchestrator serves, and the
  authentication of the expert runtime.
\<close>

section \<open>Paths\<close>

lemma muxHandleAll_Some:
  "muxHandleAll es m = Some m' \<longleftrightarrow>
     m' = m @ es \<and> distinct (map fst es) \<and> (\<forall>pat \<in> fst ` set es. mget m pat = None) \<and>
     (\<forall>pat \<in> fst ` set es. CHR '' '' \<notin> set pat \<and> CHR 0x09 \<notin> set pat)"
proof (induction es arbitrary: m)
  case (Cons e es)
  obtain pat h where e: "e = (pat, h)" by (cases e)
  have get: "mget (m @ [(pat, h)]) p = None \<longleftrightarrow> mget m p = None \<and> p \<noteq> pat" for p
    by (simp add: mget_def map_of_eq_None_iff)
  show ?case by (auto simp: e muxHandle_def Cons.IH get)
qed auto

text \<open>A clean path starts with a slash.\<close>

lemma cleanURLPath_rooted: "prefix ''/'' (cleanURLPath p)"
proof -
  have "prefix ''/'' (Clean q)" if "prefix ''/'' q" for q
    using that by (simp add: Clean_def path_text_def IsAbs_def)
  then show ?thesis by (auto simp: cleanURLPath_def Let_def intro: prefix_prefix)
qed

text \<open>A blank in a path, two equal paths, or one that is taken.\<close>

definition metricsPath :: "orchFlags \<Rightarrow> string" where
  "metricsPath f = normalizePath (of_metricsPath f) ''/metrics''"

definition healthPath :: "orchFlags \<Rightarrow> string" where
  "healthPath f = normalizePath (of_healthPath f) ''/healthz''"

definition pathsClash :: "orchFlags \<Rightarrow> bool" where
  "pathsClash f \<longleftrightarrow>
     (CHR '' '' \<in> set (metricsPath f @ healthPath f) \<or> CHR 0x09 \<in> set (metricsPath f @ healthPath f)) \<or>
     metricsPath f = healthPath f \<or>
     metricsPath f \<in> {''/v1/expert/events'', ''/''} \<or> healthPath f \<in> {''/v1/expert/events'', ''/''}"

definition orchRoute :: "orchFlags \<Rightarrow> string \<Rightarrow> orch_handler" where
  "orchRoute f path =
     (if path = metricsPath f then HMetrics else if path = healthPath f then HHealth
      else if path = ''/v1/expert/events'' then HExpertEvents else HServer)"

abbreviation orchEntries :: "orchFlags \<Rightarrow> orch_handler mux" where
  "orchEntries f \<equiv> [(metricsPath f, HMetrics), (healthPath f, HHealth),
     (''/v1/expert/events'', HExpertEvents), (''/'', HServer)]"

lemma orchMux_eq: "orchMux f = (if pathsClash f then None else Some (orchEntries f))"
proof -
  have "orchMux f = Some mux \<longleftrightarrow> \<not> pathsClash f \<and> mux = orchEntries f" for mux
    by (auto simp: orchMux_def muxHandleAll_Some pathsClash_def metricsPath_def healthPath_def
        simp del: muxHandleAll.simps)
  then show ?thesis by (cases "orchMux f") auto
qed

lemma orchEntries_serve:
  assumes "\<not> pathsClash f" "\<not> suffix ''/'' (metricsPath f)" "\<not> suffix ''/'' (healthPath f)"
    and "cleanURLPath path = path"
  shows "muxServe (orchEntries f) path = Serve (orchRoute f path)"
proof -
  from cleanURLPath_rooted [of path] assms(4) obtain rest where path: "path = CHR ''/'' # rest"
    by (auto simp: prefix_def)
  have sub: "filter (\<lambda>e. suffix ''/'' (fst e) \<and> prefix (fst e) path) (orchEntries f) = [(''/'', HServer)]"
    using assms(2,3) by (simp add: path suffix_def)
  have "path @ ''/'' \<noteq> metricsPath f" "path @ ''/'' \<noteq> healthPath f"
    using assms(2,3) by (metis suffixI)+
  then have no_redirect: "mget (orchEntries f) (path @ ''/'') = None"
    by (auto simp: mget_def path)
  have clean: "\<not> cleanURLPath path \<noteq> path" using assms(4) by simp
  have served: "(case mget (orchEntries f) path of Some h \<Rightarrow> h | None \<Rightarrow> HServer) = orchRoute f path"
    using assms(1) by (auto simp: mget_def orchRoute_def pathsClash_def)
  show ?thesis
    using served unfolding muxServe_def if_not_P [OF clean] sub no_redirect Let_def
    by (auto simp: longestPattern_def split: option.splits)
qed




section \<open>The experts of the registry\<close>

lemma foldl_mput_keyed:
  "distinct (map f es) \<Longrightarrow> foldl (\<lambda>m e. mput (f e) e m) [] es = map (\<lambda>e. (f e, e)) es"
  using foldl_mput_distinct [of "[]" "map (\<lambda>e. (f e, e)) es"] by (simp add: foldl_map comp_def)

lemma loadState_experts [simp]: "sv_experts (snd (loadState d load s)) = sv_experts s"
  by (simp add: loadState_def Let_def split: sum.split)

lemma orchestratorMain_snapshot:
  "orchestratorMain ho f = Inr c \<Longrightarrow> LoadSnapshot (ho_ReadFile ho) (of_registry f) = Inr (oc_snapshot c)"
  by (auto simp: orchestratorMain_def split: sum.splits option.splits)

lemma snapshot_ids:
  assumes "LoadSnapshot ReadFile path = Inr sn"
  shows "map (em_ExpertID \<circ> snapshotExpert) (sn_Experts sn) = map xr_ExpertID (EnabledExperts (sn_Registry sn)) \<and>
    distinct (map xr_ExpertID (EnabledExperts (sn_Registry sn)))"
proof -
  note es = snapshot_experts [OF assms]
  have "map (em_ExpertID \<circ> snapshotExpert) (sn_Experts sn) = map xr_ExpertID (map le_Ref (sn_Experts sn))"
    by (simp add: snapshotExpert_def Let_def)
  with es show ?thesis by simp
qed

lemma server_experts:
  assumes "LoadSnapshot ReadFile path = Inr (oc_snapshot c)"
  shows "sv_experts (orchestratorServer d load mkQueue c store) =
    map (\<lambda>e. (em_ExpertID e, e)) (map snapshotExpert (sn_Experts (oc_snapshot c)))"
  using foldl_mput_keyed [of em_ExpertID "map snapshotExpert (sn_Experts (oc_snapshot c))"]
    snapshot_ids [OF assms]
  by (simp add: orchestratorServer_def NewServer_def Let_def)

text \<open>
  C32. The registry file decides which experts the orchestrator serves.  The server of the command
  lists exactly the enabled experts of the file, each once, in the order of Go's map; and a brief is
  accepted for no other expert.
\<close>

theorem registry_decides_experts:
  assumes "orchestratorMain ho f = Inr c"
    and "TrimSpace (cp_XTenantId params) \<noteq> []" "TrimSpace (cp_XProjectId params) \<noteq> []"
  shows "\<exists>reg caps. LoadRegistry (ho_ReadFile ho) (Clean (of_registry f)) = Inr reg \<and>
    GetExpertCapabilities now params (orchestratorServer d load mkQueue c store) =
      (StatusOK, BExperts \<lparr>ecr_Experts = caps\<rparr>) \<and>
    mset (map cap_ExpertId caps) = mset (map xr_ExpertID (EnabledExperts reg)) \<and>
    (\<forall>sp requestID req expert.
       submit_check (orchestratorServer d load mkQueue c store) sp requestID req = Inr expert \<longrightarrow>
         TrimSpace (sreq_ExpertId req) \<in> xr_ExpertID ` set (EnabledExperts reg))"
proof -
  let ?srv = "orchestratorServer d load mkQueue c store"
  let ?reg = "sn_Registry (oc_snapshot c)"
  note sn = orchestratorMain_snapshot [OF assms(1)]
  note ids = snapshot_ids [OF sn]
  have "map cap_ExpertId (map (expertCapability \<circ> snd) (sv_experts ?srv)) = map xr_ExpertID (EnabledExperts ?reg)"
    using ids by (simp add: server_experts [OF sn] expertCapability_def comp_def)
  moreover have "TrimSpace (sreq_ExpertId req) \<in> xr_ExpertID ` set (EnabledExperts ?reg)"
    if "submit_check ?srv sp requestID req = Inr expert" for sp requestID req expert
  proof -
    from that have "mget (sv_experts ?srv) (TrimSpace (sreq_ExpertId req)) = Some expert"
      by (auto simp: submit_check_def lookupExpert_def Let_def split: if_splits option.splits)
    then have "TrimSpace (sreq_ExpertId req) \<in> set (map fst (sv_experts ?srv))"
      by (force dest: mget_SomeD)
    also have "map fst (sv_experts ?srv) = map xr_ExpertID (EnabledExperts ?reg)"
      using ids by (simp add: server_experts [OF sn] comp_def)
    finally show ?thesis by simp
  qed
  ultimately show ?thesis
    using snapshot_loads(1) [OF sn] assms(2,3) by (auto simp: GetExpertCapabilities_def Let_def simp del: mset_map)
qed

text \<open>A host that has the files of the example registry, makes every directory and parses every URL.\<close>

definition demoHost :: "(string, 'r) host \<Rightarrow> (string, 'r) host" where
  "demoHost ho = ho\<lparr>ho_ReadFile := demoFiles, ho_mkdir := \<lambda>_. None, ho_parseURL := Inr\<rparr>"

lemma demo_orchestrator_starts: "\<exists>c. orchestratorMain (demoHost ho) orchDefaults = Inr c"
proof -
  have paths: "TrimSpace (of_redisURL orchDefaults) = []" "TrimSpace (of_postgresDSN orchDefaults) = []"
    by code_simp+
  have "\<not> pathsClash orchDefaults" by code_simp
  with paths show ?thesis
    by (simp add: orchestratorMain_def demoHost_def openDeliveryLog_def openJobStore_def openQueue_def
        NewJSONLStore_def NewJSONFileStore_def orchMux_eq Let_def demo_loads
        orchDefaults_def [THEN arg_cong [of _ _ of_registry]])
qed

theorem registry_decides_experts_witness:
  "\<forall>ho :: (string, unit) host. \<exists>c reg caps. orchestratorMain (demoHost ho) orchDefaults = Inr c \<and>
     LoadRegistry (ho_ReadFile (demoHost ho)) (Clean (of_registry orchDefaults)) = Inr reg \<and>
     GetExpertCapabilities 0 \<lparr>cp_XRequestId = [], cp_XTenantId = ''t'', cp_XProjectId = ''p''\<rparr>
       (orchestratorServer demoDeps nopStore_Load newMemoryQueue c ()) =
       (StatusOK, BExperts \<lparr>ecr_Experts = caps\<rparr>) \<and>
     mset (map cap_ExpertId caps) = mset (map xr_ExpertID (EnabledExperts reg))"
proof
  fix ho :: "(string, unit) host"
  let ?p = "\<lparr>cp_XRequestId = [], cp_XTenantId = ''t'', cp_XProjectId = ''p''\<rparr>"
  from demo_orchestrator_starts obtain c where c: "orchestratorMain (demoHost ho) orchDefaults = Inr c" by blast
  have "TrimSpace (cp_XTenantId ?p) \<noteq> []" "TrimSpace (cp_XProjectId ?p) \<noteq> []" by code_simp+
  from registry_decides_experts [OF c this, of 0 demoDeps nopStore_Load newMemoryQueue "()"] c
  show "\<exists>c reg caps. orchestratorMain (demoHost ho) orchDefaults = Inr c \<and>
     LoadRegistry (ho_ReadFile (demoHost ho)) (Clean (of_registry orchDefaults)) = Inr reg \<and>
     GetExpertCapabilities 0 ?p (orchestratorServer demoDeps nopStore_Load newMemoryQueue c ()) =
       (StatusOK, BExperts \<lparr>ecr_Experts = caps\<rparr>) \<and>
     mset (map cap_ExpertId caps) = mset (map xr_ExpertID (EnabledExperts reg))"
    by blast
qed


section \<open>The authentication of the expert runtime\<close>

text \<open>No step changes how the server authenticates.\<close>

definition sameAuth :: "'sink RtServer \<Rightarrow> 'sink RtServer \<Rightarrow> bool" where
  "sameAuth s s' \<longleftrightarrow> xv_authEnabled s' = xv_authEnabled s \<and> xv_authToken s' = xv_authToken s"

lemma sameAuth_refl [simp]: "sameAuth s s" by (simp add: sameAuth_def)

lemma handleCreate_auth: "handleCreateTask d now1 now2 ctx r s = (c, s') \<Longrightarrow> sameAuth s s'"
  by (auto simp: sameAuth_def handleCreateTask_def newExpertTaskID_def Let_def split: if_splits option.splits prod.splits)

lemma handleCancel_auth: "handleCancelTask taskID s = (reply, c, s') \<Longrightarrow> sameAuth s s'"
  by (drule handleCancel_cases) (auto simp: sameAuth_def)

lemma rtServe_auth: "rtServeHTTP d now1 now2 ctx r s = (c, canceled, s') \<Longrightarrow> sameAuth s s'"
  by (cases "rtRoute s r")
    (auto simp: rtServeHTTP_def split: prod.splits
      dest: handleCreate_auth handleCancel_auth)

lemma finishSync_auth: "finishSync enc outcome s = (reply, s') \<Longrightarrow> sameAuth s s'"
  by (drule finishSync_cases) (auto simp: sameAuth_def)

lemma finishAsync_auth: "finishAsyncTask outcome now1 now2 req s = (event, s') \<Longrightarrow> sameAuth s s'"
  by (drule finishAsync_cases) (auto simp: sameAuth_def split: if_splits)

lemma rt_step_auth: "rt_step s s' \<Longrightarrow> sameAuth (ry_srv s) (ry_srv s')"
proof (induction rule: rt_step.induct)
  case (request d now1 now2 s r c canceled srv)
  then show ?case
    by (auto simp: afterRequest_def Let_def dest: rtServe_auth split: created.split)
next
  case (cleanup c s)
  show ?case by (simp add: cleanupTask_def sameAuth_def Let_def)
qed (auto dest: finishSync_auth finishAsync_auth)

lemma rt_steps_auth: "rt_step\<^sup>*\<^sup>* s s' \<Longrightarrow> sameAuth (ry_srv s) (ry_srv s')"
  by (induction rule: rtranclp_induct) (auto simp: sameAuth_def dest: rt_step_auth)

text \<open>The server of the command authenticates with the trimmed token, which is not empty.\<close>

lemma runtimeMain_auth:
  assumes "runtimeMain ho f = Inr (ex, srv)" "fr_authEnabled f"
  shows "xv_authEnabled srv \<and> xv_authToken srv = TrimSpace (fr_authToken f) \<and> TrimSpace (fr_authToken f) \<noteq> []"
proof -
  have sink: "sameAuth s (fold (\<lambda>opt s. opt s) (sinkOption f) s)" for s
    by (simp add: sinkOption_def sameAuth_def WithEventSink_def Let_def)
  from assms obtain sn where "TrimSpace (fr_authToken f) \<noteq> []"
    and "srv = NewRtServer (Some sn) ([WithDefaultAsync (fr_asyncDefault f),
      WithDefaultTimeout (fr_taskTimeout f), WithAuthToken (TrimSpace (fr_authToken f))] @ sinkOption f)"
    by (auto simp: runtimeMain_def authOption_def Let_def split: sum.splits if_splits)
  with sink show ?thesis
    by (simp add: NewRtServer_def WithAuthToken_def sameAuth_def Let_def)
qed

text \<open>The header of an authorized request.\<close>

definition bearerHeader :: "string \<Rightarrow> Header \<Rightarrow> bool" where
  "bearerHeader token h \<longleftrightarrow>
     (case Fields (TrimSpace (hGet h ''Authorization'')) of
        [scheme, t] \<Rightarrow> EqualFold scheme ''Bearer'' \<and> t = token | _ \<Rightarrow> False)"

lemma runtimeCheckAuth_iff: "runtimeCheckAuth s h = None \<longleftrightarrow> bearerHeader (xv_authToken s) h"
proof -
  have "Fields [] = []" by code_simp
  then show ?thesis
    by (auto simp: runtimeCheckAuth_def bearerHeader_def Let_def split: list.splits)
qed

text \<open>
  C21. The expert runtime that the command starts with authentication enabled is protected in every
  state it reaches.  The command does not start without a token; and whatever requests, executions
  and cancellations came before, a request without the bearer token, on any path, the health check
  included, is answered with 401 and changes nothing.
\<close>

theorem runtime_command_protected:
  assumes "runtimeMain ho f = Inr (ex, srv)" "fr_authEnabled f" "ry_srv s0 = srv" "rt_step\<^sup>*\<^sup>* s0 s"
    and "\<not> bearerHeader (TrimSpace (fr_authToken f)) (rq_Header r)"
  shows "TrimSpace (fr_authToken f) \<noteq> [] \<and>
    (\<exists>e. rtServeHTTP d now1 now2 ctx r (ry_srv s) =
       (Replied (rtProblem ''unauthorized'' ''Unauthorized'' StatusUnauthorized e), None, ry_srv s))"
proof -
  note a = runtimeMain_auth [OF assms(1,2)]
  with rt_steps_auth [OF assms(4)] assms(3) have s: "xv_authEnabled (ry_srv s)"
    "xv_authToken (ry_srv s) = TrimSpace (fr_authToken f)"
    by (simp_all add: sameAuth_def)
  with assms(5) obtain e where "runtimeCheckAuth (ry_srv s) (rq_Header r) = Some e"
    by (cases "runtimeCheckAuth (ry_srv s) (rq_Header r)") (auto simp: runtimeCheckAuth_iff)
  with s(1) have "rtRoute (ry_srv s) r = RtUnauthorized e" by (simp add: rtRoute_def Let_def)
  with a show ?thesis by (auto simp: rtServeHTTP_def)
qed

text \<open>The command started on the files of the example registry, after one request.\<close>

definition demoRuntimeFlags :: runtimeFlags where
  "demoRuntimeFlags = runtimeDefaults\<lparr>fr_authEnabled := True, fr_authToken := '' tok ''\<rparr>"

definition demoProbe :: Request where
  "demoProbe = \<lparr>rq_Method = ''GET'', rq_Path = ''/runtime/v1/healthz'', rq_Header = [],
     rq_RemoteAddr = [], rq_Body = []\<rparr>"

lemma demo_runtime_starts: "\<exists>ex srv. runtimeMain (demoHost ho) demoRuntimeFlags = Inr (ex, srv)"
proof -
  have "TrimSpace '' tok '' = ''tok''" by code_simp
  then show ?thesis
    by (simp add: runtimeMain_def demoHost_def demoRuntimeFlags_def runtimeDefaults_def demo_loads authOption_def)
qed

theorem runtime_command_protected_witness:
  "\<forall>ho :: (string, unit) host. \<exists>ex srv e. runtimeMain (demoHost ho) demoRuntimeFlags = Inr (ex, srv) \<and>
     rtServeHTTP demoDecoders 1 1 0 demoProbe (ry_srv (requestStep demoDecoders 0 0 demoCreate
         ((rt_start None [])\<lparr>ry_srv := srv\<rparr>))) =
       (Replied (rtProblem ''unauthorized'' ''Unauthorized'' StatusUnauthorized e), None,
        ry_srv (requestStep demoDecoders 0 0 demoCreate ((rt_start None [])\<lparr>ry_srv := srv\<rparr>)))"
proof
  fix ho :: "(string, unit) host"
  from demo_runtime_starts obtain ex srv where
    m: "runtimeMain (demoHost ho) demoRuntimeFlags = Inr (ex, srv)" by blast
  let ?start = "(rt_start None [])\<lparr>ry_srv := srv\<rparr>"
  let ?run = "requestStep demoDecoders 0 0 demoCreate ?start"
  obtain c cn srv' where "rtServeHTTP demoDecoders 0 0 (length (ry_started ?start)) demoCreate (ry_srv ?start) = (c, cn, srv')"
    by (rule prod_cases3)
  then have "rt_step ?start ?run" using rt_step.request [of demoDecoders 0 0 ?start demoCreate c cn srv']
    by (simp add: requestStep_def)
  then have r: "rt_step\<^sup>*\<^sup>* ?start ?run" by (rule r_into_rtranclp)
  have n: "\<not> bearerHeader (TrimSpace (fr_authToken demoRuntimeFlags)) (rq_Header demoProbe)" by code_simp
  have "fr_authEnabled demoRuntimeFlags" "ry_srv ?start = srv" by (simp_all add: demoRuntimeFlags_def)
  with m runtime_command_protected [OF m _ _ r n, of demoDecoders 1 1 0]
  show "\<exists>ex srv e. runtimeMain (demoHost ho) demoRuntimeFlags = Inr (ex, srv) \<and>
     rtServeHTTP demoDecoders 1 1 0 demoProbe (ry_srv (requestStep demoDecoders 0 0 demoCreate
         ((rt_start None [])\<lparr>ry_srv := srv\<rparr>))) =
       (Replied (rtProblem ''unauthorized'' ''Unauthorized'' StatusUnauthorized e), None,
        ry_srv (requestStep demoDecoders 0 0 demoCreate ((rt_start None [])\<lparr>ry_srv := srv\<rparr>)))"
    by blast
qed


section \<open>The tokens of the gateway\<close>

text \<open>One request served by the gateway, whatever the next handler answers.\<close>

inductive gateway_step :: "genv \<Rightarrow> Middleware \<Rightarrow> Middleware \<Rightarrow> bool" for env where
  "ServeHTTP env t (logging answer) r [] m = Some (rr, calls, m') \<Longrightarrow> gateway_step env m m'"

lemma gateway_steps_keep:
  "(gateway_step env)\<^sup>*\<^sup>* m m' \<Longrightarrow> gw_cfg m' = gw_cfg m \<and> gw_authTokens m' = gw_authTokens m"
  by (induction rule: rtranclp_induct) (auto elim!: gateway_step.cases dest!: ServeHTTP_keeps)

lemma splitCSV_trimmed: "w \<in> set (splitCSV raw) \<Longrightarrow> TrimSpace w = w"
  by (auto simp: splitCSV_def Let_def split: if_splits)

lemma parseAuthBindings_trimmed:
  assumes "b \<in> set (parseAuthBindings raw)"
  shows "bindingEntry b = (ab_Token b, \<lparr>ap_TenantID = ab_TenantID b, ap_ProjectID = ab_ProjectID b\<rparr>)"
proof -
  have "TrimSpace (ab_Token b) = ab_Token b \<and> TrimSpace (ab_TenantID b) = ab_TenantID b \<and>
      TrimSpace (ab_ProjectID b) = ab_ProjectID b" if "parseAuthBinding item = Some b" for item
    using that by (auto simp: parseAuthBinding_def Let_def split: if_splits list.splits)
  with assms show ?thesis
    by (auto simp: parseAuthBindings_def bindingEntry_def map_filter_def Let_def split: if_splits)
qed

text \<open>The scope the flags give a token: a binding, or none for a plain token.\<close>

definition flagScope :: "gatewayFlags \<Rightarrow> string \<Rightarrow> authPrincipal \<Rightarrow> bool" where
  "flagScope f token p \<longleftrightarrow>
     (\<exists>b \<in> set (parseAuthBindings (fg_authBindings f)).
        ab_Token b = token \<and> p = \<lparr>ap_TenantID = ab_TenantID b, ap_ProjectID = ab_ProjectID b\<rparr> \<and>
        ab_TenantID b \<noteq> [] \<and> ab_ProjectID b \<noteq> []) \<or>
     token \<in> set (splitCSV (fg_authTokens f)) \<and> p = \<lparr>ap_TenantID = [], ap_ProjectID = []\<rparr>"

lemma gatewayMain_handler:
  "gatewayMain ho now f = Inr (target, m, mux) \<Longrightarrow> NewHandler True (gatewayConfig f) now = Inr m"
  by (auto simp: gatewayMain_def split: sum.splits option.splits)

lemma flag_tokens:
  assumes "NewHandler True (gatewayConfig f) now = Inr m" "mget (gw_authTokens m) token = Some p"
  shows "flagScope f token p"
proof -
  let ?bs = "parseAuthBindings (fg_authBindings f)"
  from NewHandler_Inr(1) [OF assms(1)]
  have add: "addBindings ?bs (addTokens (splitCSV (fg_authTokens f)) []) = Inr (gw_authTokens m)"
    by (simp add: gatewayConfig_def)
  from mget_addBindings [OF add, of token] assms(2)
  consider (bound) "token \<noteq> []" "map_of (rev (map bindingEntry ?bs)) token = Some p"
    | (plain) "token \<in> TrimSpace ` set (splitCSV (fg_authTokens f))" "p = \<lparr>ap_TenantID = [], ap_ProjectID = []\<rparr>"
    by (auto simp: mget_addTokens split: if_splits option.splits)
  then show ?thesis
  proof cases
    case bound
    then obtain b where b: "b \<in> set ?bs" "bindingEntry b = (token, p)"
      by (fastforce dest: map_of_SomeD)
    with parseAuthBindings_trimmed [OF b(1)] bound_scope [OF add bound(2,1)] show ?thesis
      by (auto simp: flagScope_def)
  next
    case plain
    then show ?thesis by (auto simp: flagScope_def splitCSV_trimmed)
  qed
qed

text \<open>
  C16. The tokens of the gateway are those of its flags.  Whatever requests the gateway that the
  command starts with authentication enabled has served before, a request it passes on carries a
  bearer token of -auth-tokens or of -auth-token-bindings; and for a bound token the request that
  is passed on names the tenant and the project of a binding of that token.
\<close>

theorem gateway_command_protected:
  assumes "gatewayMain ho now f = Inr (target, m0, mux)" "fg_authEnabled f" "(gateway_step env)\<^sup>*\<^sup>* m0 m"
    and "ServeHTTP env t (\<lambda>q calls. (answer q, calls @ [q])) r [] m = Some (rr, calls, m')" "q \<in> set calls"
  shows "\<exists>scheme token p. Fields (TrimSpace (getHeader ''Authorization'' r)) = [scheme, token] \<and>
    EqualFoldAscii scheme ''Bearer'' \<and> flagScope f token p \<and>
    (ap_TenantID p \<noteq> [] \<longrightarrow> getHeader ''X-Tenant-Id'' q = ap_TenantID p \<and>
       getHeader ''X-Project-Id'' q = ap_ProjectID p)"
proof -
  note new = gatewayMain_handler [OF assms(1)]
  note kept = gateway_steps_keep [OF assms(3)]
  have "gc_AuthEnabled (gw_cfg m)"
    using kept NewHandler_Inr(2) [OF new] assms(2) by (simp add: withDefaults_def gatewayConfig_def)
  moreover have "fst (verdict env t r m) = Inr q" using ServeHTTP_log [OF assms(4)] assms(5) by auto
  ultimately have "authorised (gw_authTokens m0) r q" using verdict_authorised kept by metis
  then show ?thesis unfolding authorised_def using flag_tokens [OF new] by blast
qed

definition demoGatewayFlags :: gatewayFlags where
  "demoGatewayFlags = gatewayDefaults\<lparr>fg_authEnabled := True, fg_authBindings := '' t1=acme:p1 '',
     fg_rateLimitEnabled := False, fg_accessLogEnabled := False\<rparr>"

definition demoStarted :: Middleware where
  "demoStarted = demoGateway\<lparr>gw_cfg := gatewayConfig demoGatewayFlags\<rparr>"

lemma demo_gateway_starts:
  "\<exists>mux. gatewayMain (demoHost ho) 0 demoGatewayFlags = Inr (''http://127.0.0.1:8081'', demoStarted, mux)"
proof -
  have n: "NewHandler True (gatewayConfig demoGatewayFlags) 0 = Inr demoStarted" by code_simp
  have u: "TrimSpace (fg_orchestratorURL demoGatewayFlags) = ''http://127.0.0.1:8081''" by code_simp
  have p: "normalizePath (fg_metricsPath demoGatewayFlags) ''/metrics'' = ''/metrics''" by code_simp
  have "muxHandleAll [(''/metrics'', GMetrics), (''/'', GMiddleware)] [] =
      Some [(''/metrics'', GMetrics), (''/'', GMiddleware)]" by code_simp
  then show ?thesis by (simp add: gatewayMain_def demoHost_def n u p del: muxHandleAll.simps)
qed

text \<open>The same request twice.\<close>

lemma demo_started_runs:
  "\<exists>rr m1 rr2 m2.
     ServeHTTP demoGenv demoReadings (\<lambda>q calls. ([WStatus 202], calls @ [q])) demoPost [] demoStarted
       = Some (rr, [demoScoped], m1) \<and>
     ServeHTTP demoGenv demoReadings (\<lambda>q calls. ([WStatus 202], calls @ [q])) demoPost [] m1
       = Some (rr2, [demoScoped], m2)"
proof -
  let ?serve = "\<lambda>m. ServeHTTP demoGenv demoReadings (\<lambda>q calls. ([WStatus 202], calls @ [q])) demoPost [] m"
  have "Option.bind (?serve demoStarted) (\<lambda>(rr, calls, m1).
      map_option (\<lambda>(rr2, calls2, m2). (calls, calls2)) (?serve m1)) = Some ([demoScoped], [demoScoped])"
    by code_simp
  then show ?thesis by (auto simp: bind_eq_Some_conv)
qed

theorem gateway_command_protected_witness:
  "\<forall>ho :: (string, unit) host. \<exists>mux scheme token p.
     gatewayMain (demoHost ho) 0 demoGatewayFlags = Inr (''http://127.0.0.1:8081'', demoStarted, mux) \<and>
     Fields (TrimSpace (getHeader ''Authorization'' demoPost)) = [scheme, token] \<and>
     EqualFoldAscii scheme ''Bearer'' \<and> flagScope demoGatewayFlags token p \<and>
     (ap_TenantID p \<noteq> [] \<longrightarrow> getHeader ''X-Tenant-Id'' demoScoped = ap_TenantID p \<and>
        getHeader ''X-Project-Id'' demoScoped = ap_ProjectID p)"
proof
  fix ho :: "(string, unit) host"
  from demo_gateway_starts obtain mux where
    start: "gatewayMain (demoHost ho) 0 demoGatewayFlags = Inr (''http://127.0.0.1:8081'', demoStarted, mux)"
    by blast
  from demo_started_runs obtain rr m1 rr2 m2 where
    first: "ServeHTTP demoGenv demoReadings (\<lambda>q calls. ([WStatus 202], calls @ [q])) demoPost [] demoStarted
      = Some (rr, [demoScoped], m1)" and
    second: "ServeHTTP demoGenv demoReadings (\<lambda>q calls. ([WStatus 202], calls @ [q])) demoPost [] m1
      = Some (rr2, [demoScoped], m2)" by blast
  have "(gateway_step demoGenv)\<^sup>*\<^sup>* demoStarted m1"
    by (rule r_into_rtranclp) (rule gateway_step.intros [OF first])
  from gateway_command_protected [OF start _ this second, of demoScoped] start
  show "\<exists>mux scheme token p.
     gatewayMain (demoHost ho) 0 demoGatewayFlags = Inr (''http://127.0.0.1:8081'', demoStarted, mux) \<and>
     Fields (TrimSpace (getHeader ''Authorization'' demoPost)) = [scheme, token] \<and>
     EqualFoldAscii scheme ''Bearer'' \<and> flagScope demoGatewayFlags token p \<and>
     (ap_TenantID p \<noteq> [] \<longrightarrow> getHeader ''X-Tenant-Id'' demoScoped = ap_TenantID p \<and>
        getHeader ''X-Project-Id'' demoScoped = ap_ProjectID p)"
    by (auto simp: demoGatewayFlags_def)
qed

end
