(* ===== verification/Log_Json.thy ===== *)
theory Log_Json
  imports Go_Time Go_Maps Api_Types
begin

text \<open>
  The structured log (\<open>internal/observability/logjson/logjson.go\<close>): the line that \<open>Emit\<close> gives to
  the log.  \<open>json.Marshal\<close> and the verb \<open>%q\<close> are parameters.
\<close>

definition logPayload :: "time \<Rightarrow> string \<Rightarrow> string \<Rightarrow> json gomap \<Rightarrow> json gomap" where
  "logPayload now level msg extra =
     foldl (\<lambda>m (k, v). mput k v m)
       [(''ts'', JStr (rfc3339nano now)), (''level'', JStr level), (''msg'', JStr msg)] extra"

definition Emit ::
  "(json gomap \<Rightarrow> string + string) \<Rightarrow> (string \<Rightarrow> string) \<Rightarrow> time \<Rightarrow> time \<Rightarrow> string \<Rightarrow> string \<Rightarrow> json gomap \<Rightarrow>
   string" where
  "Emit marshal quote now1 now2 level msg extra =
     (case marshal (logPayload now1 level msg extra) of
        Inl err \<Rightarrow> ''{\"ts\":\"'' @ rfc3339nano now2 @
          ''\",\"level\":\"error\",\"msg\":\"logjson marshal failed\",\"error\":'' @ quote err @ ''}''
      | Inr raw \<Rightarrow> raw)"

text \<open>A field of the caller takes the place of a key of the line, and the line has no key twice.\<close>

lemma mget_logPayload:
  "mwf extra \<Longrightarrow> mget (logPayload now level msg extra) k =
     (case mget extra k of
        Some v \<Rightarrow> Some v
      | None \<Rightarrow> mget [(''ts'', JStr (rfc3339nano now)), (''level'', JStr level), (''msg'', JStr msg)] k)"
proof -
  have "mwf extra \<Longrightarrow> mget (foldl (\<lambda>m (k, v). mput k v m) m extra) k =
      (case mget extra k of Some v \<Rightarrow> Some v | None \<Rightarrow> mget m k)" for m :: "json gomap"
  proof (induction extra arbitrary: m)
    case (Cons e extra)
    obtain k' v' where e: "e = (k', v')" by (cases e)
    from Cons.prems have "mwf extra" "mget extra k' = None"
      by (auto simp: e mwf_def mkeys_def mget_def map_of_eq_None_iff)
    with Cons.IH [of "mput k' v' m"] show ?case
      by (auto simp: e mget_Cons split: option.split)
  qed simp
  then show "mwf extra \<Longrightarrow> ?thesis" by (simp add: logPayload_def)
qed

end
