(* ===== verification/Spec2Isabelle.thy ===== *)
theory Spec2Isabelle
  imports Orch_Metrics Orch_Properties Orch_Recovery Gateway_Backend
    Registry_Properties Workspace Feishu_Channel Runtime_Handoff Mock_Properties Sdk_Adapters Sdk_Workspace Redis_Properties
    Command_Properties Log_Json
begin

text \<open>
  A verification development for cova, a service that accepts jobs for expert agents over HTTP,
  runs them, and reports their completion by signed webhooks.

  \<^bold>\<open>The program and the theories.\<close>  Names of definitions are those of the Go code.

  \<^item> The gateway (\<open>internal/api/gateway/middleware.go\<close>, \<open>cmd/gateway/main.go\<close>) authenticates and
    scopes requests, limits their rate, validates them and passes them to the orchestrator:
    \<open>Gateway_Limiter\<close> (\<open>ipLimiter\<close>), \<open>Gateway_Metrics\<close> (\<open>gatewayMetrics\<close>), \<open>Gateway\<close>
    (\<open>NewHandler\<close>, \<open>ServeHTTP\<close> and its stages, the command line), \<open>Gateway_Properties\<close>.
  \<^item> The HTTP layer of the Assistant API (\<open>internal/api/openapi/server_gen.go\<close>, types in
    \<open>pkg/apiv1/types_gen.go\<close>): \<open>Api_Types\<close>, \<open>OpenAPI_Handler\<close>; \<open>Orch_Http\<close> puts the orchestrator's
    handlers behind it.
  \<^item> The orchestrator (\<open>internal/orchestrator/server.go\<close>, \<open>queue.go\<close>): \<open>Orch_State\<close> (the record
    \<open>Server\<close>, jobs, helpers), \<open>Orch_Api\<close> (the handlers, each with its critical section as a
    function of its own), \<open>Orch_Worker\<close> (the worker's rounds and the events of the runtime),
    \<open>Orch_Restart\<close> (\<open>loadState\<close>, \<open>NewServer\<close>), \<open>Orch_Metrics\<close>, \<open>Job_Queue\<close>; \<open>Orch_Invariant\<close> the
    well-formedness of the state and what every operation keeps, \<open>Orch_System\<close> the system of
    handlers, queue and worker as a labelled transition system, \<open>Orch_Demo\<close> a small instance,
    \<open>Orch_Properties\<close>, \<open>Orch_Handlers\<close> and \<open>Orch_Recovery\<close> the properties.
  \<^item> The stores of its state (\<open>internal/storage/jobstore\<close>): \<open>Job_Store\<close>.  Its durable queue
    (\<open>internal/orchestrator/queue_redis.go\<close>): \<open>Redis_Queue\<close>, with the documented behaviour of the
    Redis commands as named laws, and \<open>Redis_Properties\<close>, the queue with several orchestrators.
    The executors (\<open>internal/worker/executor\<close>): \<open>Executor\<close>.
  \<^item> Webhooks (\<open>internal/delivery/webhook\<close>): \<open>Webhook_Dispatcher\<close> (signing, retries), \<open>Webhook_Store\<close>
    (the delivery log) and \<open>Webhook_Verify\<close> (the receiver's side).
  \<^item> The expert runtime (\<open>internal/expert/runtime\<close>), which runs the tasks of the orchestrator:
    \<open>Expert_Runtime\<close> (the handlers and the event sink), \<open>Runtime_System\<close> (requests, executions and
    goroutines in any order, with the invariant of the counters and of the table of pending tasks),
    \<open>Runtime_Handoff\<close> (the runtime behind the executor and its event back in the orchestrator).
  \<^item> The mock worker (\<open>internal/worker/mock/server.go\<close>), one process in place of orchestrator and
    runtime: \<open>Mock_Worker\<close> and \<open>Mock_Properties\<close>, which compares its answers with the orchestrator's.
  \<^item> The registry of experts (\<open>internal/registry\<close>): \<open>Expert_Registry\<close> (both parsers, the validation,
    \<open>LoadSnapshot\<close>), \<open>Registry_Format\<close> (a printer for the round trip), \<open>Registry_Properties\<close>.
  \<^item> The workspace (\<open>cmd/workspace/main.go\<close>, \<open>internal/agent\<close>, \<open>internal/routing\<close>,
    \<open>internal/channel\<close>), which connects chat channels with agents: \<open>Agent_Registry\<close>, \<open>Agent_Pool\<close>
    (connections as shared objects), \<open>Agent_Pool_Properties\<close> (the pool as a transition system),
    \<open>Message_Router\<close>, \<open>Feishu_Channel\<close>, and \<open>Workspace\<close>, which puts them together.
  \<^item> The SDK (\<open>sdk/go/cova\<close>): \<open>Sdk_Client\<close> (the generated client and the workspace client),
    \<open>Sdk_Adapters\<close>, \<open>Sdk_Properties\<close> (a call through the gateway to the orchestrator is the
    handler's answer) and \<open>Sdk_Workspace\<close> (a client against the agent pool).
  \<^item> The commands (\<open>cmd/*/main.go\<close>): \<open>Commands\<close> takes the values of the flags to the started parts
    and their paths, with Go's \<open>ServeMux\<close>; \<open>Command_Properties\<close> shows what a command that starts
    guarantees.  \<open>Gateway_Backend\<close> is the gateway in front of the orchestrator.  \<open>Log_Json\<close> is the line
    of the structured log (\<open>internal/observability/logjson\<close>).
  \<^item> \<open>Go_Strings\<close>, \<open>Go_Path\<close>, \<open>Go_Time\<close>, \<open>Go_Float\<close>, \<open>Go_Maps\<close> and \<open>Go_Http\<close> hold the part of Go's
    library the program uses, and the lemmas the components share.

  \<^bold>\<open>Interfaces.\<close>  \<open>job_store\<close>, \<open>delivery_store\<close>, \<open>job_queue\<close>, \<open>replay_guard\<close>, \<open>agent_directory\<close> and
  \<open>assistant_adapter\<close> are locales whose laws are what the client relies on; each is interpreted on
  the code's implementations where these are defined, and the properties rest on the
  interpretations.

  \<^bold>\<open>Conventions.\<close>  A Go map is an association list with distinct keys in the order of a \<open>range\<close> loop.
  An instant is a number of nanoseconds, and every reading of the clock is an argument of its own.
  A \<open>float64\<close> is a rational that every operation rounds to 53 bits.  Errors are sums.  Loops are
  structural recursion or have a termination proof; no fuel is used, and a loop that waits for
  others is a step of a transition system.  JSON, HMAC, SHA-256, Redis, the database, the disk and
  the network are parameters or state the environment controls; what is assumed of them is a named
  hypothesis of the property, with an instance in its witness.

  \<^bold>\<open>Not modelled.\<close>  Parsing the flags, the listeners, signals and timeouts of the HTTP servers, and
  where log lines are written; the libraries for WebSocket, Feishu, Redis and Postgres, which are
  not in the repository; the helpers of the mock worker that repeat the orchestrator's word for
  word; data races of the Go code on fields read outside a lock.
\<close>

section \<open>The gateway in front of the orchestrator\<close>


definition demoForeign :: GwRequest where
  "demoForeign = demoPost\<lparr>rq_Method := ''GET'', rq_Path := ''/v1/assistant/jobs/job_1''\<rparr>"

definition demoBackend ::
  "GwRequest \<Rightarrow> (memoryQueue, unit) Server \<Rightarrow> wevent list \<times> (memoryQueue, unit) Server" where
  "demoBackend = gatewayBackend Request.truncate (\<lambda>resp. [WStatus (rs_Status resp)]) demoDeps
     \<lparr>ck_request = 0, ck_first = 0, ck_second = 0\<rparr>
     \<lparr>dc_Submit = (\<lambda>_. None), dc_Query = (\<lambda>_. None)\<rparr>"


end
